(* ===== verification/Uran_Prelude.thy ===== *)
theory Uran_Prelude
  imports Main "HOL-Library.List_Lexorder" "HOL-Library.Char_ord"
begin

text \<open>
  The prelude of the development: the theorem collections the component theories fill,
  and the generic facts on lists that several of them share.

  \<^item> \<open>go_defs\<close> collects the definitions of the Go standard-library functions the program calls;
  \<^item> \<open>act_defs\<close> collects the combinators in which effectful code is written;
  \<^item> \<open>sql_defs\<close> collects the table operations behind the SQL statements;
  \<^item> \<open>store_defs\<close> collects the data-access methods of package \<open>store\<close>;
  \<^item> \<open>api_defs\<close> collects the HTTP handlers of package \<open>api\<close>.
\<close>

named_theorems go_defs \<open>Go standard-library functions\<close>
named_theorems act_defs \<open>combinators for effectful code\<close>
named_theorems sql_defs \<open>table operations\<close>
named_theorems store_defs \<open>data-access methods\<close>
named_theorems api_defs \<open>HTTP handlers\<close>

section \<open>Lists\<close>

lemma filter_map_key:
  assumes "\<And>x. P (f x) = P x"
  shows "filter P (map f xs) = map f (filter P xs)"
  using assms by (induction xs) auto

lemma in_set_map_if:
  "y \<in> set (map (\<lambda>x. if P x then f x else x) xs) \<longleftrightarrow>
     (\<exists>x \<in> set xs. P x \<and> y = f x) \<or> (y \<in> set xs \<and> \<not> P y)"
  by auto

lemma distinct_map_filterI: "distinct (map f xs) \<Longrightarrow> distinct (map f (filter P xs))"
  by (induction xs) auto

lemma find_Some_in: "find P xs = Some x \<Longrightarrow> x \<in> set xs \<and> P x"
  by (induction xs) (auto split: if_splits)

lemma find_None_all: "find P xs = None \<longleftrightarrow> (\<forall>x \<in> set xs. \<not> P x)"
  by (induction xs) auto

lemma find_key_unique:
  assumes "distinct (map key xs)" "x \<in> set xs"
  shows "find (\<lambda>r. key r = key x) xs = Some x"
  using assms by (induction xs) auto

lemma find_append_new: "(\<forall>x \<in> set xs. \<not> P x) \<Longrightarrow> P y \<Longrightarrow> find P (xs @ [y]) = Some y"
  by (induction xs) auto

lemma filter_False_id: "(\<forall>x \<in> set xs. P x) \<Longrightarrow> filter P xs = xs"
  by (induction xs) auto

lemma takeWhile_append_stop: "\<forall>x \<in> set a. P x \<Longrightarrow> \<not> P c \<Longrightarrow> takeWhile P (a @ c # b) = a"
  by (induction a) auto

lemma dropWhile_all: "\<forall>x \<in> set a. P x \<Longrightarrow> dropWhile P a = []"
  by (induction a) auto

lemma dropWhile_id: "xs = [] \<or> \<not> P (hd xs) \<Longrightarrow> dropWhile P xs = xs"
  by (cases xs) auto

lemma hd_dropWhile': "dropWhile P xs \<noteq> [] \<Longrightarrow> \<not> P (hd (dropWhile P xs))"
  by (induction xs) (auto split: if_splits)

lemma set_dropWhile_subset: "set (dropWhile P xs) \<subseteq> set xs"
  by (induction xs) auto

end
