(* ===== verification/Go_Strings.thy ===== *)
theory Go_Strings
  imports Uran_Prelude
begin

text \<open>
  What the program uses of Go's packages \<open>strings\<close>, \<open>strconv\<close> and \<open>encoding/hex\<close>.
  A Go string is a sequence of bytes, as an Isabelle \<open>string\<close> is a list of 8-bit characters.
  \<open>to_lower\<close>, \<open>trim_space\<close> and their kin are exact on ASCII text; a byte outside ASCII is
  left as it is and is not white space.
  The last section proves the round trips and the character sets the components rely on.
\<close>

section \<open>strings\<close>

definition has_prefix :: "string \<Rightarrow> string \<Rightarrow> bool" where
  "has_prefix s p = (take (length p) s = p)"

definition cut_prefix :: "string \<Rightarrow> string \<Rightarrow> string option" where
  "cut_prefix s p = (if has_prefix s p then Some (drop (length p) s) else None)"

definition trim_prefix :: "string \<Rightarrow> string \<Rightarrow> string" where
  "trim_prefix s p = (if has_prefix s p then drop (length p) s else s)"

definition is_space :: "char \<Rightarrow> bool" where
  "is_space c = (c \<in> set [CHR 0x09, CHR 0x0A, CHR 0x0B, CHR 0x0C, CHR 0x0D, CHR '' ''])"

definition trim_right_if :: "(char \<Rightarrow> bool) \<Rightarrow> string \<Rightarrow> string" where
  "trim_right_if P s = rev (dropWhile P (rev s))"

definition trim_if :: "(char \<Rightarrow> bool) \<Rightarrow> string \<Rightarrow> string" where
  "trim_if P s = trim_right_if P (dropWhile P s)"

definition trim_space :: "string \<Rightarrow> string" where
  "trim_space s = trim_if is_space s"

definition lower_char :: "char \<Rightarrow> char" where
  "lower_char c = (let n = (of_char c :: nat) in
     if 65 \<le> n \<and> n \<le> 90 then char_of (n + 32) else c)"

definition to_lower :: "string \<Rightarrow> string" where
  "to_lower s = map lower_char s"

fun cut :: "char \<Rightarrow> string \<Rightarrow> (string \<times> string) option" where
  "cut c [] = None"
| "cut c (x # xs) = (if x = c then Some ([], xs)
     else (case cut c xs of None \<Rightarrow> None | Some (a, b) \<Rightarrow> Some (x # a, b)))"

fun split_n :: "nat \<Rightarrow> char \<Rightarrow> string \<Rightarrow> string list" where
  "split_n 0 c s = []"
| "split_n (Suc 0) c s = [s]"
| "split_n (Suc (Suc n)) c s =
     (case cut c s of None \<Rightarrow> [s] | Some (a, b) \<Rightarrow> a # split_n (Suc n) c b)"

fun split_on :: "char \<Rightarrow> string \<Rightarrow> string list" where
  "split_on c [] = [[]]"
| "split_on c (x # xs) =
     (if x = c then [] # split_on c xs
      else (case split_on c xs of [] \<Rightarrow> [[x]] | y # ys \<Rightarrow> (x # y) # ys))"

fun join :: "string \<Rightarrow> string list \<Rightarrow> string" where
  "join sep [] = []"
| "join sep [s] = s"
| "join sep (s # t # ts) = s @ sep @ join sep (t # ts)"

text \<open>\<open>strings.Replace(s, old, new, 1)\<close>: the first occurrence, from the left.\<close>

fun replace_first :: "string \<Rightarrow> string \<Rightarrow> string \<Rightarrow> string" where
  "replace_first old new [] = (if old = [] then new else [])"
| "replace_first old new (x # xs) =
     (if has_prefix (x # xs) old then new @ drop (length old) (x # xs)
      else x # replace_first old new xs)"

fun contains :: "string \<Rightarrow> string \<Rightarrow> bool" where
  "contains [] p = (p = [])"
| "contains (x # xs) p = (has_prefix (x # xs) p \<or> contains xs p)"

section \<open>strconv\<close>

definition digit :: "nat \<Rightarrow> char" where
  "digit n = char_of (48 + n)"

fun dec_nat :: "nat \<Rightarrow> string" where
  "dec_nat n = (if n < 10 then [digit n] else dec_nat (n div 10) @ [digit (n mod 10)])"

declare dec_nat.simps [simp del]

text \<open>\<open>strconv.FormatInt(i, 10)\<close> and the verb \<open>%d\<close>.\<close>

definition itoa :: "int \<Rightarrow> string" where
  "itoa i = (if i < 0 then CHR ''-'' # dec_nat (nat (- i)) else dec_nat (nat i))"

definition digit_val :: "char \<Rightarrow> nat option" where
  "digit_val c = (let n = (of_char c :: nat) in
     if 48 \<le> n \<and> n \<le> 57 then Some (n - 48) else None)"

fun parse_digits :: "nat \<Rightarrow> string \<Rightarrow> nat option" where
  "parse_digits acc [] = Some acc"
| "parse_digits acc (c # cs) =
     (case digit_val c of None \<Rightarrow> None | Some d \<Rightarrow> parse_digits (10 * acc + d) cs)"

definition parse_nat :: "string \<Rightarrow> nat option" where
  "parse_nat s = (if s = [] then None else parse_digits 0 s)"

text \<open>
  \<open>strconv.ParseInt(s, 10, 64)\<close>, which is \<open>strconv.Atoi\<close> on a 64-bit platform: an optional
  sign, at least one digit, and the value in range; \<open>None\<close> is the error.
\<close>

definition int64 :: "int \<Rightarrow> bool" where
  "int64 i \<longleftrightarrow> - (2 ^ 63) \<le> i \<and> i < 2 ^ 63"

definition in_int64 :: "int \<Rightarrow> int option" where
  "in_int64 i = (if int64 i then Some i else None)"

definition parse_int :: "string \<Rightarrow> int option" where
  "parse_int s =
     (if s = [] then None
      else if hd s = CHR ''-'' then
        (case parse_nat (tl s) of None \<Rightarrow> None | Some n \<Rightarrow> in_int64 (- int n))
      else if hd s = CHR ''+'' then
        (case parse_nat (tl s) of None \<Rightarrow> None | Some n \<Rightarrow> in_int64 (int n))
      else (case parse_nat s of None \<Rightarrow> None | Some n \<Rightarrow> in_int64 (int n)))"

section \<open>encoding/hex\<close>

definition hex_digit :: "nat \<Rightarrow> char" where
  "hex_digit n = (if n < 10 then char_of (48 + n) else char_of (87 + n))"

fun hex_encode :: "string \<Rightarrow> string" where
  "hex_encode [] = []"
| "hex_encode (c # cs) = (let n = (of_char c :: nat) in
     hex_digit (n div 16) # hex_digit (n mod 16) # hex_encode cs)"

lemmas [go_defs] =
  has_prefix_def cut_prefix_def trim_prefix_def trim_space_def trim_if_def trim_right_if_def
  is_space_def to_lower_def itoa_def parse_int_def parse_nat_def

section \<open>Facts about prefixes, separators and spaces\<close>

lemma has_prefix_append [simp]: "has_prefix (p @ s) p"
  by (simp add: has_prefix_def)

lemma has_prefix_iff: "has_prefix s p \<longleftrightarrow> (\<exists>r. s = p @ r)"
  by (metis append_take_drop_id has_prefix_append has_prefix_def)

lemma cut_prefix_append [simp]: "cut_prefix (p @ s) p = Some s"
  by (simp add: cut_prefix_def)

lemma cut_prefix_Some: "cut_prefix s p = Some r \<longleftrightarrow> s = p @ r"
  by (auto simp: cut_prefix_def has_prefix_iff)

lemma trim_prefix_append [simp]: "trim_prefix (p @ s) p = s"
  by (simp add: trim_prefix_def)

lemma trim_prefix_none: "\<not> has_prefix s p \<Longrightarrow> trim_prefix s p = s"
  by (simp add: trim_prefix_def)

lemma cut_None: "cut c s = None \<longleftrightarrow> c \<notin> set s"
  by (induction s) (auto split: option.splits prod.splits)

lemma cut_append: "c \<notin> set a \<Longrightarrow> cut c (a @ c # b) = Some (a, b)"
  by (induction a) auto

lemma cut_Some: "cut c s = Some (a, b) \<Longrightarrow> s = a @ c # b \<and> c \<notin> set a"
  by (induction s arbitrary: a) (simp, fastforce split: if_splits option.splits)

lemma split_on_nonempty: "split_on c s \<noteq> []"
  by (induction s) (auto split: list.splits)

lemma split_on_none: "c \<notin> set s \<Longrightarrow> split_on c s = [s]"
  by (induction s) auto

lemma split_on_append: "c \<notin> set a \<Longrightarrow> split_on c (a @ c # b) = a # split_on c b"
  by (induction a) (auto simp: split_on_nonempty)

lemma split_n_2: "c \<notin> set a \<Longrightarrow> split_n 2 c (a @ c # b) = [a, b]"
  by (simp add: numeral_2_eq_2 cut_append)

lemma split_n_3_none: "c \<notin> set a \<Longrightarrow> c \<notin> set b \<Longrightarrow> split_n 3 c (a @ c # b) = [a, b]"
  by (simp add: numeral_3_eq_3 cut_append cut_None [THEN iffD2])

lemma split_n_3: "c \<notin> set a \<Longrightarrow> c \<notin> set b \<Longrightarrow>
    split_n 3 c (a @ c # b @ c # d) = [a, b, d]"
  by (simp add: numeral_3_eq_3 cut_append)

lemma join_append: "xs \<noteq> [] \<Longrightarrow> ys \<noteq> [] \<Longrightarrow> join sep (xs @ ys) = join sep xs @ sep @ join sep ys"
  by (induction sep xs rule: join.induct) (cases ys; auto)+

lemma trim_if_id:
  assumes "s = [] \<or> (\<not> P (hd s) \<and> \<not> P (last s))"
  shows "trim_if P s = s"
proof (cases "s = []")
  case True
  then show ?thesis by (simp add: trim_if_def trim_right_if_def)
next
  case False
  then have "dropWhile P s = s" "dropWhile P (rev s) = rev s"
    using assms by (auto intro!: dropWhile_id simp: hd_rev)
  then show ?thesis by (simp add: trim_if_def trim_right_if_def)
qed

lemma trim_if_ends:
  assumes "trim_if P s \<noteq> []"
  shows "\<not> P (hd (trim_if P s))" "\<not> P (last (trim_if P s))"
proof -
  let ?d = "dropWhile P s"
  let ?e = "dropWhile P (rev ?d)"
  have t: "trim_if P s = rev ?e" by (simp add: trim_if_def trim_right_if_def)
  then have e: "?e \<noteq> []" using assms by simp
  then show "\<not> P (last (trim_if P s))" by (metis t hd_dropWhile' last_rev)
  obtain u where "rev ?d = u @ ?e" by (metis takeWhile_dropWhile_id)
  then have d: "?d = rev ?e @ rev u" by (metis rev_append rev_rev_ident)
  have "rev ?e \<noteq> []" using e by simp
  then have "hd ?d = hd (rev ?e)" "?d \<noteq> []" by (metis d hd_append2, metis d append_is_Nil_conv)
  then show "\<not> P (hd (trim_if P s))" by (metis t hd_dropWhile')
qed

lemma trim_if_subset: "set (trim_if P s) \<subseteq> set s"
  by (auto simp: trim_if_def trim_right_if_def dest!: set_dropWhile_subset [THEN subsetD])

lemma trim_if_idem [simp]: "trim_if P (trim_if P s) = trim_if P s"
  by (metis trim_if_ends trim_if_id)

lemma trim_space_idem [simp]: "trim_space (trim_space s) = trim_space s"
  by (simp add: trim_space_def)

lemma trim_space_Nil [simp]: "trim_space [] = []"
  by (simp add: trim_space_def trim_if_id)

lemma replace_first_here: "old \<noteq> [] \<Longrightarrow> replace_first old new (old @ s) = new @ s"
proof -
  assume "old \<noteq> []"
  then obtain x xs where "old @ s = x # xs" by (cases "old @ s") auto
  moreover then have "has_prefix (x # xs) old" "drop (length old) (x # xs) = s"
    by (metis has_prefix_append, metis append_eq_conv_conj)
  ultimately show ?thesis by simp
qed

text \<open>The first occurrence is the one replaced when none starts earlier.\<close>

lemma replace_first_at:
  assumes "old \<noteq> []" "\<And>k. k < length pre \<Longrightarrow> \<not> has_prefix (drop k (pre @ old @ post)) old"
  shows "replace_first old new (pre @ old @ post) = pre @ new @ post"
  using assms(2)
proof (induction pre)
  case Nil
  then show ?case using assms(1) by (simp add: replace_first_here)
next
  case (Cons x pre)
  have "\<not> has_prefix (x # pre @ old @ post) old" using Cons.prems [of 0] by simp
  moreover have "replace_first old new (pre @ old @ post) = pre @ new @ post"
  proof (rule Cons.IH)
    fix k assume "k < length pre"
    then show "\<not> has_prefix (drop k (pre @ old @ post)) old"
      using Cons.prems [of "Suc k"] by simp
  qed
  ultimately show ?case by simp
qed

section \<open>Decimal numbers: printing then parsing\<close>

lemma of_char_digit: "n < 10 \<Longrightarrow> of_char (digit n) = 48 + n"
  by (simp add: digit_def)

lemma digit_val_digit [simp]: "n < 10 \<Longrightarrow> digit_val (digit n) = Some n"
  by (simp add: digit_val_def of_char_digit)

definition is_digit :: "char \<Rightarrow> bool" where
  "is_digit c \<longleftrightarrow> digit_val c \<noteq> None"

lemma is_digit_code: "is_digit c \<longleftrightarrow> 48 \<le> (of_char c :: nat) \<and> (of_char c :: nat) \<le> 57"
  by (auto simp: is_digit_def digit_val_def Let_def)

lemma dec_nat_digits: "\<forall>c \<in> set (dec_nat n). is_digit c"
proof (induction n rule: dec_nat.induct)
  case (1 n)
  then show ?case
    by (subst dec_nat.simps) (auto simp: is_digit_def)
qed

lemma dec_nat_nonempty [simp]: "dec_nat n \<noteq> []"
  by (subst dec_nat.simps) simp

lemma parse_digits_append:
  "parse_digits acc (xs @ ys) =
     (case parse_digits acc xs of None \<Rightarrow> None | Some m \<Rightarrow> parse_digits m ys)"
  by (induction acc xs rule: parse_digits.induct) (auto split: option.splits)

lemma parse_digits_dec_nat: "parse_digits 0 (dec_nat n) = Some n"
proof (induction n rule: dec_nat.induct)
  case (1 n)
  show ?case
  proof (cases "n < 10")
    case True
    then show ?thesis by (subst dec_nat.simps) simp
  next
    case False
    then have "parse_digits 0 (dec_nat (n div 10) @ [digit (n mod 10)]) = Some n"
      using 1 by (simp add: parse_digits_append)
    then show ?thesis using False by (subst dec_nat.simps) simp
  qed
qed

lemma parse_nat_dec_nat [simp]: "parse_nat (dec_nat n) = Some n"
  by (simp add: parse_nat_def parse_digits_dec_nat)

lemma digit_not_sign: "is_digit c \<Longrightarrow> c \<noteq> CHR ''-'' \<and> c \<noteq> CHR ''+'' \<and> c \<noteq> CHR '':''"
  by (auto simp: is_digit_code)

lemma hd_dec_nat: "hd (dec_nat n) \<noteq> CHR ''-''" "hd (dec_nat n) \<noteq> CHR ''+''"
proof -
  have "is_digit (hd (dec_nat n))"
    using dec_nat_digits [of n] by (metis dec_nat_nonempty list.set_sel(1))
  then show "hd (dec_nat n) \<noteq> CHR ''-''" "hd (dec_nat n) \<noteq> CHR ''+''"
    using digit_not_sign by blast+
qed

lemma parse_int_itoa: "int64 i \<Longrightarrow> parse_int (itoa i) = Some i"
  by (auto simp: parse_int_def itoa_def hd_dec_nat in_int64_def)

lemma parse_int_range: "parse_int s = Some i \<Longrightarrow> int64 i"
  by (auto simp: parse_int_def in_int64_def split: if_splits option.splits)

lemma itoa_chars: "c \<in> set (itoa i) \<Longrightarrow> is_digit c \<or> c = CHR ''-''"
  using dec_nat_digits by (auto simp: itoa_def split: if_splits)

lemma itoa_no_colon [simp]: "CHR '':'' \<notin> set (itoa i)"
proof
  assume "CHR '':'' \<in> set (itoa i)"
  then have "is_digit CHR '':'' \<or> CHR '':'' = CHR ''-''" by (rule itoa_chars)
  then show False by (simp add: is_digit_code)
qed

lemma itoa_nonempty [simp]: "itoa i \<noteq> []"
  by (simp add: itoa_def)

lemma itoa_inject [simp]: "itoa i = itoa j \<longleftrightarrow> i = j"
proof
  have *: "dec_nat m = dec_nat n \<Longrightarrow> m = n" for m n
    by (metis parse_nat_dec_nat option.inject)
  assume eq: "itoa i = itoa j"
  have sign: "hd (itoa k) = CHR ''-'' \<longleftrightarrow> k < 0" for k
    by (simp add: itoa_def hd_dec_nat)
  have same: "i < 0 \<longleftrightarrow> j < 0" using eq sign by metis
  show "i = j"
  proof (cases "i < 0")
    case True
    then have "dec_nat (nat (- i)) = dec_nat (nat (- j))"
      using eq same by (simp add: itoa_def)
    then have "nat (- i) = nat (- j)" by (rule *)
    then show ?thesis using True same by simp
  next
    case False
    then have "dec_nat (nat i) = dec_nat (nat j)" using eq same by (simp add: itoa_def)
    then have "nat i = nat j" by (rule *)
    then show ?thesis using False same by simp
  qed
qed simp

section \<open>Hexadecimal and lower case\<close>

lemma length_hex_encode [simp]: "length (hex_encode s) = 2 * length s"
  by (induction s) (auto simp: Let_def)

definition is_hex :: "char \<Rightarrow> bool" where
  "is_hex c \<longleftrightarrow> (let n = (of_char c :: nat) in (48 \<le> n \<and> n \<le> 57) \<or> (97 \<le> n \<and> n \<le> 102))"

lemma of_char_hex_digit:
  "n < 16 \<Longrightarrow> of_char (hex_digit n) = (if n < 10 then 48 + n else 87 + n)"
  by (simp add: hex_digit_def)

lemma is_hex_digit: "n < 16 \<Longrightarrow> is_hex (hex_digit n)"
  by (simp add: is_hex_def of_char_hex_digit)

lemma hex_digit_inj: "m < 16 \<Longrightarrow> n < 16 \<Longrightarrow> hex_digit m = hex_digit n \<Longrightarrow> m = n"
  by (drule arg_cong [where f = "of_char :: char \<Rightarrow> nat"])
     (simp add: of_char_hex_digit split: if_splits)

lemma of_char_lt_256: "(of_char (c :: char) :: nat) < 256"
  by (metis nat_of_char_less_256)

lemma of_char_div_16: "(of_char (c :: char) :: nat) div 16 < 16"
  using of_char_lt_256 [of c] by (simp add: less_mult_imp_div_less)

lemma char_div_mod:
  assumes "(of_char (c :: char) :: nat) div 16 = of_char d div 16"
    and "(of_char c :: nat) mod 16 = of_char d mod 16"
  shows "c = d"
proof -
  have "(of_char c :: nat) = of_char d"
    using assms by (metis div_mult_mod_eq)
  then show ?thesis by simp
qed

lemma hex_encode_chars: "\<forall>c \<in> set (hex_encode s). is_hex c"
proof (induction s)
  case (Cons c s)
  show ?case using Cons by (auto simp: Let_def is_hex_digit of_char_div_16)
qed simp

lemma hex_encode_inject: "hex_encode s = hex_encode t \<longleftrightarrow> s = t"
proof (induction s arbitrary: t)
  case Nil
  then show ?case by (cases t) (auto simp: Let_def)
next
  case (Cons c s)
  show ?case
  proof (cases t)
    case Nil
    then show ?thesis by (simp add: Let_def)
  next
    case (Cons d t')
    have lt: "(of_char c :: nat) div 16 < 16" "(of_char d :: nat) div 16 < 16"
      by (rule of_char_div_16)+
    have digits: "c = d" if "hex_digit ((of_char c :: nat) div 16) = hex_digit (of_char d div 16)"
        "hex_digit ((of_char c :: nat) mod 16) = hex_digit (of_char d mod 16)"
    proof (rule char_div_mod)
      show "(of_char c :: nat) div 16 = of_char d div 16"
        using that(1) by (rule hex_digit_inj [OF lt])
      show "(of_char c :: nat) mod 16 = of_char d mod 16"
        by (rule hex_digit_inj) (use that(2) in simp_all)
    qed
    show ?thesis using Cons digits \<open>\<And>t. (hex_encode s = hex_encode t) = (s = t)\<close>
      by (auto simp: Let_def)
  qed
qed

lemma lower_char_idem [simp]: "lower_char (lower_char c) = lower_char c"
proof -
  have "(of_char c :: nat) \<le> 90 \<Longrightarrow> of_char (char_of (of_char c + 32 :: nat) :: char) = (of_char c + 32 :: nat)"
    by simp
  then show ?thesis by (simp add: lower_char_def Let_def)
qed

lemma to_lower_idem [simp]: "to_lower (to_lower s) = to_lower s"
  by (simp add: to_lower_def o_def)

end
