(* ===== verification/Cli_Flags.thy ===== *)
theory Cli_Flags
  imports Go_Strings
begin

text \<open>
  What the command line client uses of Go's package \<open>flag\<close>: sets of integer, string and boolean
  flags, parsed up to the first argument that is not a flag. A parse that fails ends the process
  (\<open>flag.ExitOnError\<close>): with status 2, or 0 after a request for help.

  Integers are read as \<open>strconv.ParseInt(s, 0, 64)\<close> reads them: a base prefix and separating
  underscores are allowed.
\<close>

section \<open>Integers and booleans\<close>

definition digit36 :: "char \<Rightarrow> nat option" where
  "digit36 c = (let n = (of_char (lower_char c) :: nat) in
     if 48 \<le> n \<and> n \<le> 57 then Some (n - 48)
     else if 97 \<le> n \<and> n \<le> 122 then Some (n - 87) else None)"

fun digits_in :: "nat \<Rightarrow> nat \<Rightarrow> string \<Rightarrow> nat option" where
  "digits_in base acc [] = Some acc"
| "digits_in base acc (c # cs) =
     (if c = CHR ''_'' then digits_in base acc cs
      else (case digit36 c of None \<Rightarrow> None
        | Some d \<Rightarrow> if d \<ge> base then None else digits_in base (base * acc + d) cs))"

text \<open>The base, and the digits after its prefix.\<close>

definition base_of :: "string \<Rightarrow> nat \<times> string" where
  "base_of s =
     (if s \<noteq> [] \<and> hd s = CHR ''0'' then
        (if length s \<ge> 3 \<and> lower_char (s ! 1) = CHR ''b'' then (2, drop 2 s)
         else if length s \<ge> 3 \<and> lower_char (s ! 1) = CHR ''o'' then (8, drop 2 s)
         else if length s \<ge> 3 \<and> lower_char (s ! 1) = CHR ''x'' then (16, drop 2 s)
         else (8, tl s))
      else (10, s))"

text \<open>\<open>underscoreOK\<close>: the state is what the last character was.\<close>

datatype underscore_state = AtStart | AfterDigit | AfterUnderscore | AfterOther

fun underscores_ok :: "bool \<Rightarrow> underscore_state \<Rightarrow> string \<Rightarrow> bool" where
  "underscores_ok hex st [] = (st \<noteq> AfterUnderscore)"
| "underscores_ok hex st (c # cs) =
     (if is_digit c \<or> (hex \<and> lower_char c \<in> set ''abcdef'') then underscores_ok hex AfterDigit cs
      else if c = CHR ''_'' then (st = AfterDigit \<and> underscores_ok hex AfterUnderscore cs)
      else (st \<noteq> AfterUnderscore \<and> underscores_ok hex AfterOther cs))"

definition underscore_ok :: "string \<Rightarrow> bool" where
  "underscore_ok s =
     (if length s \<ge> 2 \<and> hd s = CHR ''0'' \<and> lower_char (s ! 1) \<in> set ''box''
      then underscores_ok (lower_char (s ! 1) = CHR ''x'') AfterDigit (drop 2 s)
      else underscores_ok False AtStart s)"

definition parse_nat0 :: "string \<Rightarrow> nat option" where
  "parse_nat0 s = (if s = [] then None
     else (case base_of s of (base, ds) \<Rightarrow> (case digits_in base 0 ds of None \<Rightarrow> None
       | Some n \<Rightarrow> if CHR ''_'' \<in> set s \<and> \<not> underscore_ok s then None else Some n)))"

definition parse_int0 :: "string \<Rightarrow> int option" where
  "parse_int0 s =
     (if s = [] then None
      else if hd s = CHR ''-'' then
        (case parse_nat0 (tl s) of None \<Rightarrow> None | Some n \<Rightarrow> in_int64 (- int n))
      else if hd s = CHR ''+'' then
        (case parse_nat0 (tl s) of None \<Rightarrow> None | Some n \<Rightarrow> in_int64 (int n))
      else (case parse_nat0 s of None \<Rightarrow> None | Some n \<Rightarrow> in_int64 (int n)))"

definition parse_bool :: "string \<Rightarrow> bool option" where
  "parse_bool s = (if s \<in> set [''1'', ''t'', ''T'', ''TRUE'', ''true'', ''True''] then Some True
     else if s \<in> set [''0'', ''f'', ''F'', ''FALSE'', ''false'', ''False''] then Some False else None)"

section \<open>Flag sets\<close>

datatype fval = VInt int | VStr string | VBool bool

type_synonym flags = "(string \<times> fval) list"

text \<open>\<open>Value.Set\<close> of a flag with the given current value.\<close>

fun set_flag :: "fval \<Rightarrow> string \<Rightarrow> fval option" where
  "set_flag (VInt _) s = map_option VInt (parse_int0 s)"
| "set_flag (VStr _) s = Some (VStr s)"
| "set_flag (VBool _) s = map_option VBool (parse_bool s)"

fun update_flag :: "string \<Rightarrow> fval \<Rightarrow> flags \<Rightarrow> flags" where
  "update_flag k v [] = []"
| "update_flag k v ((j, u) # fs) = (if j = k then (j, v) # fs else (j, u) # update_flag k v fs)"

text \<open>
  \<open>Parse\<close>: the values and the remaining arguments, or the exit status. An argument that is a single
  dash or does not begin with one ends the flags, as does \<open>--\<close>, which is dropped.
\<close>

definition flag_name :: "string \<Rightarrow> string" where
  "flag_name s = (if has_prefix s ''--'' then drop 2 s else drop 1 s)"

fun flag_parse :: "flags \<Rightarrow> string list \<Rightarrow> int + (flags \<times> string list)" where
  "flag_parse fs [] = Inr (fs, [])"
| "flag_parse fs (s # args) =
     (if length s < 2 \<or> hd s \<noteq> CHR ''-'' then Inr (fs, s # args)
      else if s = ''--'' then Inr (fs, args)
      else (let raw = flag_name s in
        if raw = [] \<or> hd raw = CHR ''-'' \<or> hd raw = CHR ''='' then Inl 2
        else (case (case cut CHR ''='' raw of None \<Rightarrow> (raw, None) | Some (n, v) \<Rightarrow> (n, Some v)) of
            (name, val) \<Rightarrow> (case map_of fs name of
                None \<Rightarrow> Inl (if name = ''help'' \<or> name = ''h'' then 0 else 2)
              | Some (VBool b) \<Rightarrow> (case set_flag (VBool b) (case val of None \<Rightarrow> ''true'' | Some v \<Rightarrow> v) of
                    None \<Rightarrow> Inl 2 | Some v \<Rightarrow> flag_parse (update_flag name v fs) args)
              | Some old \<Rightarrow> (case val of
                    Some v \<Rightarrow> (case set_flag old v of None \<Rightarrow> Inl 2
                      | Some v' \<Rightarrow> flag_parse (update_flag name v' fs) args)
                  | None \<Rightarrow> (case args of [] \<Rightarrow> Inl 2
                      | v # args' \<Rightarrow> (case set_flag old v of None \<Rightarrow> Inl 2
                        | Some v' \<Rightarrow> flag_parse (update_flag name v' fs) args')))))))"

text \<open>The values of a parsed set.\<close>

definition int_flag :: "flags \<Rightarrow> string \<Rightarrow> int" where
  "int_flag fs k = (case map_of fs k of Some (VInt i) \<Rightarrow> i | _ \<Rightarrow> 0)"

definition str_flag :: "flags \<Rightarrow> string \<Rightarrow> string" where
  "str_flag fs k = (case map_of fs k of Some (VStr s) \<Rightarrow> s | _ \<Rightarrow> '''')"

definition bool_flag :: "flags \<Rightarrow> string \<Rightarrow> bool" where
  "bool_flag fs k = (case map_of fs k of Some (VBool b) \<Rightarrow> b | _ \<Rightarrow> False)"

section \<open>Facts\<close>

lemma digits_in_decimal:
  "\<forall>c \<in> set s. is_digit c \<Longrightarrow> digits_in 10 acc s = parse_digits acc s"
proof (induction s arbitrary: acc)
  case (Cons c s)
  have c: "is_digit c" using Cons.prems by simp
  then have "48 \<le> (of_char c :: nat)" "(of_char c :: nat) \<le> 57" by (simp_all add: is_digit_code)
  then have "lower_char c = c" "c \<noteq> CHR ''_''" by (auto simp: lower_char_def Let_def)
  then have "digit36 c = digit_val c" "digit_val c \<noteq> None" "\<And>d. digit_val c = Some d \<Longrightarrow> d < 10"
    using \<open>48 \<le> _\<close> \<open>_ \<le> 57\<close> by (auto simp: digit36_def digit_val_def Let_def)
  then show ?case using Cons \<open>c \<noteq> CHR ''_''\<close> by (auto split: option.split)
qed simp

lemma dec_nat_head: "n \<noteq> 0 \<Longrightarrow> hd (dec_nat n) \<noteq> CHR ''0''"
proof (induction n rule: dec_nat.induct)
  case (1 n)
  show ?case
  proof (cases "n < 10")
    case True
    have "digit n \<noteq> CHR ''0''"
    proof
      assume "digit n = CHR ''0''"
      then have "(of_char (digit n) :: nat) = of_char CHR ''0''" by simp
      then show False using of_char_digit [OF True] 1(2) by simp
    qed
    then show ?thesis using True by (subst dec_nat.simps) simp
  next
    case False
    then have "hd (dec_nat (n div 10)) \<noteq> CHR ''0''" using 1 by simp
    then show ?thesis using False by (subst dec_nat.simps) (simp add: hd_append2)
  qed
qed

lemma parse_nat0_dec_nat: "parse_nat0 (dec_nat n) = Some n"
proof (cases "n = 0")
  case True
  have "dec_nat 0 = ''0''" by code_simp
  then show ?thesis using True by (simp add: parse_nat0_def base_of_def)
next
  case False
  have u: "CHR ''_'' \<notin> set (dec_nat n)" using dec_nat_digits [of n] by (auto simp: is_digit_code)
  have "base_of (dec_nat n) = (10, dec_nat n)" using dec_nat_head [OF False] by (simp add: base_of_def)
  moreover have "digits_in 10 0 (dec_nat n) = Some n"
    using digits_in_decimal [OF dec_nat_digits, of 0 n] by (simp add: parse_digits_dec_nat)
  ultimately show ?thesis using u by (simp add: parse_nat0_def)
qed

text \<open>A printed identifier is read back by a flag.\<close>

lemma parse_int0_itoa: "int64 i \<Longrightarrow> parse_int0 (itoa i) = Some i"
  by (auto simp: parse_int0_def itoa_def hd_dec_nat in_int64_def parse_nat0_dec_nat)

end
