(* ===== verification/Base64.thy ===== *)
theory Base64
  imports Go_Strings
begin

text \<open>
  \<open>base64.StdEncoding\<close> of the Go standard library, on byte strings: the encoder the pull secrets use
  (\<open>internal/k8s/pullsecret.go\<close>) and a decoder to state what it is good for.
\<close>

definition b64_digit :: "nat \<Rightarrow> char" where
  "b64_digit n = (if n < 26 then char_of (65 + n) else if n < 52 then char_of (71 + n)
     else if n < 62 then char_of (n - 4) else if n = 62 then CHR ''+'' else CHR ''/'')"

definition b64_value :: "char \<Rightarrow> nat option" where
  "b64_value c = (let n = (of_char c :: nat) in
     if 65 \<le> n \<and> n \<le> 90 then Some (n - 65) else if 97 \<le> n \<and> n \<le> 122 then Some (n - 71)
     else if 48 \<le> n \<and> n \<le> 57 then Some (n + 4) else if n = 43 then Some 62
     else if n = 47 then Some 63 else None)"

definition byte :: "char \<Rightarrow> nat" where
  "byte c = of_char c"

fun base64 :: "string \<Rightarrow> string" where
  "base64 [] = []"
| "base64 [a] = [b64_digit (byte a div 4), b64_digit (byte a mod 4 * 16), CHR ''='', CHR ''='']"
| "base64 [a, b] = [b64_digit (byte a div 4), b64_digit (byte a mod 4 * 16 + byte b div 16),
     b64_digit (byte b mod 16 * 4), CHR ''='']"
| "base64 (a # b # c # r) = b64_digit (byte a div 4) # b64_digit (byte a mod 4 * 16 + byte b div 16) #
     b64_digit (byte b mod 16 * 4 + byte c div 64) # b64_digit (byte c mod 64) # base64 r"

fun unbase64 :: "string \<Rightarrow> string option" where
  "unbase64 [] = Some []"
| "unbase64 (p # q # x # y # r) = (case (b64_value p, b64_value q) of
     (Some i, Some j) \<Rightarrow>
       if x = CHR ''='' then (if y = CHR ''='' \<and> r = [] then Some [char_of (i * 4 + j div 16)] else None)
       else (case b64_value x of None \<Rightarrow> None | Some k \<Rightarrow>
         if y = CHR ''='' then (if r = [] then Some [char_of (i * 4 + j div 16), char_of (j mod 16 * 16 + k div 4)] else None)
         else (case (b64_value y, unbase64 r) of
           (Some l, Some s) \<Rightarrow> Some (char_of (i * 4 + j div 16) # char_of (j mod 16 * 16 + k div 4) #
             char_of (k mod 4 * 64 + l) # s)
         | _ \<Rightarrow> None))
   | _ \<Rightarrow> None)"
| "unbase64 _ = None"

lemma byte_bound [simp]: "byte c < 256"
  using of_char_lt_256 by (simp add: byte_def)

lemma char_of_byte [simp]: "char_of (byte c) = c"
  by (simp add: byte_def)

lemma b64_digit_value:
  assumes "n < 64"
  shows "b64_value (b64_digit n) = Some n" "b64_digit n \<noteq> CHR ''=''"
proof -
  consider "n < 26" | "26 \<le> n" "n < 52" | "52 \<le> n" "n < 62" | "n = 62" | "n = 63"
    using assms by linarith
  then show v: "b64_value (b64_digit n) = Some n"
    by cases (simp_all add: b64_digit_def b64_value_def Let_def, linarith)
  have "b64_value (CHR ''='') = None" by (simp add: b64_value_def)
  then show "b64_digit n \<noteq> CHR ''=''" using v by (metis option.distinct(1))
qed

lemma div_bound: "n < k * m \<Longrightarrow> n div m < (k :: nat)"
  by (simp add: less_mult_imp_div_less)

lemma byte_div: "byte a div 4 < 64" "byte a div 16 < 16" "byte a div 64 < 4"
  by (rule div_bound, simp)+

lemma byte_mod: "byte a mod 4 < 4" "byte a mod 16 < 16" "byte a mod 64 < 64"
  by simp_all

lemma sextets:
  "byte a div 4 < 64" "byte a mod 4 * 16 < 64" "byte a mod 4 * 16 + byte b div 16 < 64"
  "byte a mod 16 * 4 < 64" "byte a mod 16 * 4 + byte b div 64 < 64" "byte a mod 64 < 64"
  using byte_div [of a] byte_div [of b] byte_mod [of a] by linarith+

lemma unsextets:
  "byte b div 16 div 16 = 0" "byte c div 64 div 4 = 0"
  "byte b div 16 mod 16 * 16 + byte b mod 16 = byte b"
  "byte c div 64 mod 4 * 64 + byte c mod 64 = byte c"
  using byte_div [of b] byte_div [of c] by simp_all

lemma unbase64_base64 [simp]: "unbase64 (base64 s) = Some s"
  by (induction s rule: base64.induct) (simp_all add: b64_digit_value sextets unsextets)

end
