(* ===== verification/Go_Json.thy ===== *)
theory Go_Json
  imports Base64
begin

text \<open>
  The part of Go's \<open>encoding/json\<close> and \<open>unicode/utf8\<close> the program uses: values as trees, the compact
  text \<open>Marshal\<close> writes, the parser behind \<open>Unmarshal\<close> and \<open>Decoder.Decode\<close>, and the decoding of a
  value into a Go variable of a known type. A number keeps its literal text.

  The last section proves that a printed value is read back.
\<close>

section \<open>UTF-8\<close>

definition continuation :: "char \<Rightarrow> bool" where
  "continuation c \<longleftrightarrow> 0x80 \<le> byte c \<and> byte c \<le> 0xBF"

text \<open>The length of the encoded rune a string starts with, 0 where there is none (\<open>RuneError\<close>).\<close>

definition rune_len :: "string \<Rightarrow> nat" where
  "rune_len s = (case s of [] \<Rightarrow> 0 | a # r \<Rightarrow> let x = byte a in
     if x < 0x80 then 1
     else case r of [] \<Rightarrow> 0 | b # r1 \<Rightarrow> let y = byte b in
       if 0xC2 \<le> x \<and> x \<le> 0xDF then (if continuation b then 2 else 0)
       else case r1 of [] \<Rightarrow> 0 | c # r2 \<Rightarrow>
         if 0xE0 \<le> x \<and> x \<le> 0xEF
         then (if continuation b \<and> continuation c \<and> (x = 0xE0 \<longrightarrow> 0xA0 \<le> y) \<and> (x = 0xED \<longrightarrow> y \<le> 0x9F)
               then 3 else 0)
         else case r2 of [] \<Rightarrow> 0 | d # _ \<Rightarrow>
           if 0xF0 \<le> x \<and> x \<le> 0xF4
           then (if continuation b \<and> continuation c \<and> continuation d \<and> (x = 0xF0 \<longrightarrow> 0x90 \<le> y)
                   \<and> (x = 0xF4 \<longrightarrow> y \<le> 0x8F) then 4 else 0)
           else 0)"

definition rune_bytes :: "nat \<Rightarrow> string" where
  "rune_bytes n =
     (if n < 0x80 then [char_of n]
      else if n < 0x800 then [char_of (0xC0 + n div 64), char_of (0x80 + n mod 64)]
      else if n < 0x10000 then [char_of (0xE0 + n div 4096), char_of (0x80 + n div 64 mod 64),
        char_of (0x80 + n mod 64)]
      else [char_of (0xF0 + n div 262144), char_of (0x80 + n div 4096 mod 64),
        char_of (0x80 + n div 64 mod 64), char_of (0x80 + n mod 64)])"

definition replacement :: string where
  "replacement = [CHR 0xEF, CHR 0xBF, CHR 0xBD]"

lemma rune_len_le: "rune_len s \<le> length s"
  by (auto simp: rune_len_def Let_def split: list.splits if_splits)

function rune_count :: "string \<Rightarrow> nat" where
  "rune_count s = (if s = [] then 0 else Suc (rune_count (drop (max 1 (rune_len s)) s)))"
  by pat_completeness auto
termination by (relation "measure length") auto

declare rune_count.simps [simp del]

function utf8 :: "string \<Rightarrow> bool" where
  "utf8 s = (if s = [] then True else if rune_len s = 0 then False else utf8 (drop (rune_len s) s))"
  by pat_completeness auto
termination by (relation "measure length") (auto simp: rune_len_le)

declare utf8.simps [simp del]

section \<open>Values and their text\<close>

datatype json = JNull | JBool bool | JNum string | JStr string | JArr "json list"
  | JObj "(string \<times> json) list"

text \<open>An integer as \<open>Marshal\<close> writes it.\<close>

abbreviation JInt :: "int \<Rightarrow> json" where
  "JInt i \<equiv> JNum (itoa i)"

definition quote_char :: char where "quote_char = CHR 0x22"
definition back_slash :: char where "back_slash = CHR 0x5C"

text \<open>\<open>appendString\<close> with the escapes for HTML, as \<open>Marshal\<close> calls it.\<close>

definition escape_ascii :: "char \<Rightarrow> string" where
  "escape_ascii c =
     (if c = quote_char \<or> c = back_slash then [back_slash, c]
      else if c = CHR 0x08 then [back_slash, CHR ''b'']
      else if c = CHR 0x0C then [back_slash, CHR ''f'']
      else if c = CHR 0x0A then [back_slash, CHR ''n'']
      else if c = CHR 0x0D then [back_slash, CHR ''r'']
      else if c = CHR 0x09 then [back_slash, CHR ''t'']
      else if byte c < 32 \<or> c = CHR ''<'' \<or> c = CHR ''>'' \<or> c = CHR ''&''
      then [back_slash, CHR ''u'', CHR ''0'', CHR ''0'', hex_digit (byte c div 16), hex_digit (byte c mod 16)]
      else [c])"

definition line_separators :: "(string \<times> string) list" where
  "line_separators = [([CHR 0xE2, CHR 0x80, CHR 0xA8], back_slash # ''u2028''),
     ([CHR 0xE2, CHR 0x80, CHR 0xA9], back_slash # ''u2029'')]"

function escape :: "string \<Rightarrow> string" where
  "escape s =
     (if s = [] then []
      else if byte (hd s) < 0x80 then escape_ascii (hd s) @ escape (tl s)
      else if rune_len s = 0 then (back_slash # ''ufffd'') @ escape (tl s)
      else (case map_of line_separators (take (rune_len s) s) of
          Some esc \<Rightarrow> esc | None \<Rightarrow> take (rune_len s) s) @ escape (drop (rune_len s) s))"
  by pat_completeness auto
termination by (relation "measure length") (auto simp: rune_len_le)

declare escape.simps [simp del]

definition json_string :: "string \<Rightarrow> string" where
  "json_string s = [quote_char] @ escape s @ [quote_char]"

fun json_text :: "json \<Rightarrow> string" where
  "json_text JNull = ''null''"
| "json_text (JBool b) = (if b then ''true'' else ''false'')"
| "json_text (JNum n) = n"
| "json_text (JStr s) = json_string s"
| "json_text (JArr js) = ''['' @ join '','' (map json_text js) @ '']''"
| "json_text (JObj ms) = ''{'' @ join '','' (map (\<lambda>m. json_string (fst m) @ '':'' @ json_text (snd m)) ms) @ ''}''"

section \<open>Parsing\<close>

definition json_space :: "char \<Rightarrow> bool" where
  "json_space c = (c \<in> set [CHR '' '', CHR 0x09, CHR 0x0D, CHR 0x0A])"

definition skip_space :: "string \<Rightarrow> string" where
  "skip_space s = dropWhile json_space s"

definition hex_value :: "char \<Rightarrow> nat option" where
  "hex_value c = (let n = byte c in
     if 48 \<le> n \<and> n \<le> 57 then Some (n - 48) else if 97 \<le> n \<and> n \<le> 102 then Some (n - 87)
     else if 65 \<le> n \<and> n \<le> 70 then Some (n - 55) else None)"

fun hex_number :: "nat \<Rightarrow> nat \<Rightarrow> string \<Rightarrow> nat option" where
  "hex_number acc 0 s = Some acc"
| "hex_number acc (Suc k) [] = None"
| "hex_number acc (Suc k) (c # s) =
     (case hex_value c of None \<Rightarrow> None | Some d \<Rightarrow> hex_number (16 * acc + d) k s)"

definition hex4 :: "string \<Rightarrow> nat option" where
  "hex4 s = hex_number 0 4 s"

text \<open>The rune of an escape, from what follows its letter \<open>u\<close>, with the surrogate pairs of UTF-16.\<close>

definition escaped_rune :: "string \<Rightarrow> (string \<times> string) option" where
  "escaped_rune s = (case hex4 s of None \<Rightarrow> None
     | Some r \<Rightarrow>
         if 0xD800 \<le> r \<and> r < 0xE000 then
           (case (if has_prefix (drop 4 s) [back_slash, CHR ''u''] then hex4 (drop 6 s) else None) of
              Some r1 \<Rightarrow> if r < 0xDC00 \<and> 0xDC00 \<le> r1 \<and> r1 < 0xE000
                then Some (rune_bytes (0x10000 + 1024 * (r - 0xD800) + (r1 - 0xDC00)), drop 10 s)
                else Some (replacement, drop 4 s)
            | None \<Rightarrow> Some (replacement, drop 4 s))
         else Some (rune_bytes r, drop 4 s))"

definition simple_escapes :: "(char \<times> char) list" where
  "simple_escapes = [(quote_char, quote_char), (back_slash, back_slash), (CHR ''/'', CHR ''/''),
     (CHR ''b'', CHR 0x08), (CHR ''f'', CHR 0x0C), (CHR ''n'', CHR 0x0A), (CHR ''r'', CHR 0x0D),
     (CHR ''t'', CHR 0x09)]"

definition onto :: "'a list \<Rightarrow> ('a list \<times> 'b) option \<Rightarrow> ('a list \<times> 'b) option" where
  "onto xs p = map_option (\<lambda>(ys, r). (xs @ ys, r)) p"

lemma hex_number_Some: "hex_number acc k s = Some n \<Longrightarrow> k \<le> length s"
  by (induction acc k s rule: hex_number.induct) (auto split: option.splits)

lemma escaped_rune_shorter: "escaped_rune s = Some (b, r) \<Longrightarrow> length r \<le> length s"
  by (auto simp: escaped_rune_def split: option.splits if_splits)

lemma escaped_rune_drop: "escaped_rune (drop 2 s) = Some (b, r) \<Longrightarrow> s \<noteq> [] \<Longrightarrow> length r < length s"
  using escaped_rune_shorter [of "drop 2 s" b r] by (cases s) auto

text \<open>The characters of a string literal after its opening quote, and what follows its end.\<close>

function parse_chars :: "string \<Rightarrow> (string \<times> string) option" where
  "parse_chars s =
     (if s = [] then None
      else if hd s = quote_char then Some ([], tl s)
      else if hd s = back_slash then
        (if tl s = [] then None
         else if hd (tl s) = CHR ''u'' then (case escaped_rune (drop 2 s) of None \<Rightarrow> None
           | Some (b, r) \<Rightarrow> onto b (parse_chars r))
         else (case map_of simple_escapes (hd (tl s)) of None \<Rightarrow> None
           | Some c \<Rightarrow> onto [c] (parse_chars (drop 2 s))))
      else if byte (hd s) < 32 then None
      else if rune_len s = 0 then onto replacement (parse_chars (tl s))
      else onto (take (rune_len s) s) (parse_chars (drop (rune_len s) s)))"
  by pat_completeness auto
termination by (relation "measure length") (auto simp: rune_len_le dest: escaped_rune_drop)

declare parse_chars.simps [simp del]

text \<open>What follows a number literal.\<close>

definition digits_rest :: "string \<Rightarrow> string option" where
  "digits_rest s = (if s \<noteq> [] \<and> is_digit (hd s) then Some (dropWhile is_digit s) else None)"

definition fraction_rest :: "string \<Rightarrow> string option" where
  "fraction_rest s = (if s \<noteq> [] \<and> hd s = CHR ''.'' then digits_rest (tl s) else Some s)"

definition exponent_rest :: "string \<Rightarrow> string option" where
  "exponent_rest s = (if s \<noteq> [] \<and> (hd s = CHR ''e'' \<or> hd s = CHR ''E'')
     then digits_rest (if tl s \<noteq> [] \<and> (hd (tl s) = CHR ''+'' \<or> hd (tl s) = CHR ''-'')
       then tl (tl s) else tl s)
     else Some s)"

definition sign_rest :: "string \<Rightarrow> string" where
  "sign_rest s = (if s \<noteq> [] \<and> hd s = CHR ''-'' then tl s else s)"

definition whole_rest :: "string \<Rightarrow> string option" where
  "whole_rest s = (if s \<noteq> [] \<and> hd s = CHR ''0'' then Some (tl s) else digits_rest s)"

definition number_rest :: "string \<Rightarrow> string option" where
  "number_rest s = Option.bind (Option.bind (whole_rest (sign_rest s)) fraction_rest) exponent_rest"

definition parse_number :: "string \<Rightarrow> (json \<times> string) option" where
  "parse_number s = map_option (\<lambda>r. (JNum (take (length s - length r) s), r)) (number_rest s)"

fun parse_value :: "nat \<Rightarrow> string \<Rightarrow> (json \<times> string) option"
and parse_elems :: "nat \<Rightarrow> string \<Rightarrow> (json list \<times> string) option"
and parse_members :: "nat \<Rightarrow> string \<Rightarrow> ((string \<times> json) list \<times> string) option" where
  "parse_value 0 s0 = None"
| "parse_value (Suc n) s0 = (let s = skip_space s0 in
     if s = [] then None
     else if hd s = quote_char then map_option (\<lambda>(t, r). (JStr t, r)) (parse_chars (tl s))
     else if hd s = CHR ''['' then
       (if has_prefix (skip_space (tl s)) '']'' then Some (JArr [], tl (skip_space (tl s)))
        else map_option (\<lambda>(js, r). (JArr js, r)) (parse_elems n (tl s)))
     else if hd s = CHR ''{'' then
       (if has_prefix (skip_space (tl s)) ''}'' then Some (JObj [], tl (skip_space (tl s)))
        else map_option (\<lambda>(ms, r). (JObj ms, r)) (parse_members n (tl s)))
     else if has_prefix s ''null'' then Some (JNull, drop 4 s)
     else if has_prefix s ''true'' then Some (JBool True, drop 4 s)
     else if has_prefix s ''false'' then Some (JBool False, drop 5 s)
     else parse_number s)"
| "parse_elems 0 s = None"
| "parse_elems (Suc n) s = (case parse_value n s of None \<Rightarrow> None
     | Some (j, r0) \<Rightarrow> let r = skip_space r0 in
         if r = [] then None
         else if hd r = CHR '']'' then Some ([j], tl r)
         else if hd r = CHR '','' then onto [j] (parse_elems n (tl r)) else None)"
| "parse_members 0 s0 = None"
| "parse_members (Suc n) s0 = (let s = skip_space s0 in
     if s = [] \<or> hd s \<noteq> quote_char then None
     else (case parse_chars (tl s) of None \<Rightarrow> None
       | Some (k, r0) \<Rightarrow> let r = skip_space r0 in
           if r = [] \<or> hd r \<noteq> CHR '':'' then None
           else (case parse_value n (tl r) of None \<Rightarrow> None
             | Some (j, q0) \<Rightarrow> let q = skip_space q0 in
                 if q = [] then None
                 else if hd q = CHR ''}'' then Some ([(k, j)], tl q)
                 else if hd q = CHR '','' then onto [(k, j)] (parse_members n (tl q)) else None)))"

fun json_depth :: "json \<Rightarrow> int" where
  "json_depth (JArr js) = 1 + foldr (max \<circ> json_depth) js 0"
| "json_depth (JObj ms) = 1 + foldr (\<lambda>m. max (json_depth (snd m))) ms 0"
| "json_depth _ = 0"

text \<open>
  \<open>Decoder.Decode\<close> reads the first value of its input, \<open>Unmarshal\<close> wants nothing but white space after
  it. Both refuse a value nested deeper than 10000.
\<close>

definition parse_first :: "string \<Rightarrow> (json \<times> string) option" where
  "parse_first s = (case parse_value (2 * length s + 1) s of None \<Rightarrow> None
     | Some (j, r) \<Rightarrow> if json_depth j \<le> 10000 then Some (j, r) else None)"

definition decode_json :: "string \<Rightarrow> json option" where
  "decode_json s = map_option fst (parse_first s)"

definition unmarshal_json :: "string \<Rightarrow> json option" where
  "unmarshal_json s = (case parse_first s of None \<Rightarrow> None
     | Some (j, r) \<Rightarrow> if skip_space r = [] then Some j else None)"

section \<open>Decoding into a variable\<close>

text \<open>
  A setter stores a value over the current one; \<open>None\<close> is a type mismatch, after which the decoder goes
  on but reports an error in the end. The value \<open>null\<close> empties a slice and leaves a variable of
  another type as it is. Keys that match no field are ignored; a key matches a field exactly or else
  up to case, where the Kelvin sign folds to k and the long s to s.
\<close>

type_synonym 'a setter = "json \<Rightarrow> 'a \<Rightarrow> 'a option"

function fold_key :: "string \<Rightarrow> string" where
  "fold_key s =
     (if s = [] then []
      else if has_prefix s [CHR 0xC5, CHR 0xBF] then CHR ''s'' # fold_key (drop 2 s)
      else if has_prefix s [CHR 0xE2, CHR 0x84, CHR 0xAA] then CHR ''k'' # fold_key (drop 3 s)
      else lower_char (hd s) # fold_key (tl s))"
  by pat_completeness auto
termination by (relation "measure length") auto

declare fold_key.simps [simp del]

definition field_of :: "(string \<times> 'a) list \<Rightarrow> string \<Rightarrow> 'a option" where
  "field_of fields k = (case map_of fields k of Some f \<Rightarrow> Some f
     | None \<Rightarrow> map_option snd (find (\<lambda>f. fold_key (fst f) = fold_key k) fields))"

fun set_str :: "string setter" where
  "set_str (JStr s) old = Some s"
| "set_str JNull old = Some old"
| "set_str _ old = None"

fun set_int :: "int setter" where
  "set_int (JNum n) old = parse_int n"
| "set_int JNull old = Some old"
| "set_int _ old = None"

fun set_bool :: "bool setter" where
  "set_bool (JBool b) old = Some b"
| "set_bool JNull old = Some old"
| "set_bool _ old = None"

fun set_elems :: "'a \<Rightarrow> 'a setter \<Rightarrow> json list \<Rightarrow> 'a list option" where
  "set_elems zero f [] = Some []"
| "set_elems zero f (j # js) = (case (f j zero, set_elems zero f js) of
     (Some x, Some xs) \<Rightarrow> Some (x # xs) | _ \<Rightarrow> None)"

fun set_list :: "'a \<Rightarrow> 'a setter \<Rightarrow> 'a list setter" where
  "set_list zero f (JArr js) old = set_elems zero f js"
| "set_list zero f JNull old = Some []"
| "set_list zero f _ old = None"

fun set_members :: "(string \<times> 'r setter) list \<Rightarrow> (string \<times> json) list \<Rightarrow> 'r \<Rightarrow> 'r option" where
  "set_members fields [] r = Some r"
| "set_members fields ((k, j) # ms) r = (case (case field_of fields k of None \<Rightarrow> Some r | Some f \<Rightarrow> f j r) of
     None \<Rightarrow> None | Some r' \<Rightarrow> set_members fields ms r')"

fun set_struct :: "(string \<times> 'r setter) list \<Rightarrow> 'r setter" where
  "set_struct fields (JObj ms) r = set_members fields ms r"
| "set_struct fields JNull r = Some r"
| "set_struct fields _ r = None"

text \<open>A setter of a field, from the field's selector and update.\<close>

definition into :: "('r \<Rightarrow> 'a) \<Rightarrow> (('a \<Rightarrow> 'a) \<Rightarrow> 'r \<Rightarrow> 'r) \<Rightarrow> 'a setter \<Rightarrow> 'r setter" where
  "into get upd f j r = map_option (\<lambda>v. upd (\<lambda>_. v) r) (f j (get r))"

section \<open>A printed value is read back\<close>

fun json_ok :: "json \<Rightarrow> bool" where
  "json_ok (JNum n) = (number_rest n = Some [])"
| "json_ok (JStr s) = utf8 s"
| "json_ok (JArr js) = list_all json_ok js"
| "json_ok (JObj ms) = list_all (\<lambda>m. utf8 (fst m) \<and> json_ok (snd m)) ms"
| "json_ok _ = True"

lemma rune_len_append: "0 < rune_len s \<Longrightarrow> rune_len (s @ x) = rune_len s"
  unfolding rune_len_def Let_def
  by (cases s; cases "tl s"; cases "tl (tl s)"; cases "tl (tl (tl s))"; simp split: if_splits)

lemma rune_len_prefix: "0 < rune_len s \<Longrightarrow> rune_len (take (rune_len s) s) = rune_len s"
  unfolding rune_len_def Let_def
  by (cases s; cases "tl s"; cases "tl (tl s)"; cases "tl (tl (tl s))"; auto split: if_split)

lemma rune_len_take: "rune_len s = n \<Longrightarrow> 0 < n \<Longrightarrow> rune_len (take n s @ x) = n"
  using rune_len_prefix rune_len_append by metis

lemma rune_len_ascii: "byte c < 0x80 \<Longrightarrow> rune_len (c # s) = 1"
  by (simp add: rune_len_def)

lemma utf8_tl: "utf8 (c # s) \<Longrightarrow> byte c < 0x80 \<Longrightarrow> utf8 s"
  by (subst (asm) utf8.simps) (simp add: rune_len_ascii)

lemma hex_value_digit: "n < 16 \<Longrightarrow> hex_value (hex_digit n) = Some n"
  by (auto simp: hex_value_def byte_def of_char_hex_digit Let_def)

lemma hex_value_zero: "hex_value CHR ''0'' = Some 0"
  by code_simp

lemma hex4_unfold:
  "hex4 (a # b # c # d # x) = (case (hex_value a, hex_value b, hex_value c, hex_value d) of
     (Some i, Some j, Some k, Some l) \<Rightarrow> Some (16 * (16 * (16 * i + j) + k) + l) | _ \<Rightarrow> None)"
proof -
  have "(4::nat) = Suc (Suc (Suc (Suc 0)))" by simp
  then show ?thesis by (simp only: hex4_def hex_number.simps) (simp split: option.split)
qed

lemma drop_four: "drop 4 (a # b # c # d # x) = x"
  by simp

lemma escaped_rune_byte:
  "byte c < 0x80 \<Longrightarrow>
     escaped_rune (CHR ''0'' # CHR ''0'' # hex_digit (byte c div 16) # hex_digit (byte c mod 16) # x) = Some ([c], x)"
proof -
  assume c: "byte c < 0x80"
  have "hex4 (CHR ''0'' # CHR ''0'' # hex_digit (byte c div 16) # hex_digit (byte c mod 16) # x) = Some (byte c)"
    using c by (simp add: hex4_unfold hex_value_zero hex_value_digit)
  then show ?thesis using c by (simp add: escaped_rune_def rune_bytes_def drop_four)
qed

lemma special_chars:
  "byte quote_char = 34" "byte back_slash = 92" "byte CHR ''u'' = 117" "quote_char \<noteq> back_slash"
  "back_slash \<noteq> quote_char" "CHR ''u'' \<noteq> quote_char" "CHR ''u'' \<noteq> back_slash"
  "byte CHR ''b'' = 98" "byte CHR ''f'' = 102" "byte CHR ''n'' = 110" "byte CHR ''r'' = 114" "byte CHR ''t'' = 116"
  by code_simp+

lemma simple_escapes_at:
  "map_of simple_escapes quote_char = Some quote_char" "map_of simple_escapes back_slash = Some back_slash"
  "map_of simple_escapes CHR ''b'' = Some CHR 0x08" "map_of simple_escapes CHR ''f'' = Some CHR 0x0C"
  "map_of simple_escapes CHR ''n'' = Some CHR 0x0A" "map_of simple_escapes CHR ''r'' = Some CHR 0x0D"
  "map_of simple_escapes CHR ''t'' = Some CHR 0x09"
  by code_simp+

lemma parse_escaped_simple:
  "e \<noteq> CHR ''u'' \<Longrightarrow> map_of simple_escapes e = Some c \<Longrightarrow>
     parse_chars (back_slash # e # x) = onto [c] (parse_chars x)"
  by (subst parse_chars.simps) (simp add: special_chars)

lemma parse_plain:
  "byte c < 0x80 \<Longrightarrow> 32 \<le> byte c \<Longrightarrow> c \<noteq> quote_char \<Longrightarrow> c \<noteq> back_slash \<Longrightarrow>
     parse_chars (c # x) = onto [c] (parse_chars x)"
  by (subst parse_chars.simps) (simp add: rune_len_ascii)

lemma parse_escaped_unicode:
  "escaped_rune s = Some (b, x) \<Longrightarrow> parse_chars (back_slash # CHR ''u'' # s) = onto b (parse_chars x)"
  by (subst parse_chars.simps) (simp add: special_chars eval_nat_numeral)

lemma parse_escape_ascii:
  assumes "byte c < 0x80"
  shows "parse_chars (escape_ascii c @ x) = onto [c] (parse_chars x)"
proof -
  consider "c = quote_char \<or> c = back_slash" | "c = CHR 0x08" | "c = CHR 0x0C" | "c = CHR 0x0A"
    | "c = CHR 0x0D" | "c = CHR 0x09"
    | (other) "\<not> (c = quote_char \<or> c = back_slash)" "c \<noteq> CHR 0x08" "c \<noteq> CHR 0x0C" "c \<noteq> CHR 0x0A"
        "c \<noteq> CHR 0x0D" "c \<noteq> CHR 0x09"
    by blast
  then show ?thesis
  proof cases
    case other
    show ?thesis
    proof (cases "byte c < 32 \<or> c = CHR ''<'' \<or> c = CHR ''>'' \<or> c = CHR ''&''")
      case True
      with other have "escape_ascii c = [back_slash, CHR ''u'', CHR ''0'', CHR ''0'',
          hex_digit (byte c div 16), hex_digit (byte c mod 16)]"
        unfolding escape_ascii_def by presburger
      then show ?thesis using parse_escaped_unicode [OF escaped_rune_byte [OF assms]] by simp
    next
      case False
      with other have "escape_ascii c = [c]" unfolding escape_ascii_def by presburger
      then show ?thesis using False other parse_plain assms by simp
    qed
  qed (auto simp: escape_ascii_def quote_char_def back_slash_def
      parse_escaped_simple [unfolded back_slash_def] simple_escapes_at [unfolded back_slash_def quote_char_def])
qed

lemma parse_multibyte:
  assumes "0 < rune_len s" "\<not> byte (hd s) < 0x80"
  shows "parse_chars (take (rune_len s) s @ x) = onto (take (rune_len s) s) (parse_chars x)"
proof -
  define u t where "u = take (rune_len s) s" and "t = u @ x"
  have s: "s \<noteq> []" using assms(1) by (auto simp: rune_len_def)
  then have u: "u \<noteq> []" "hd u = hd s" "length u = rune_len s"
    using assms(1) rune_len_le [of s] by (auto simp: u_def)
  have n: "rune_len t = length u" using rune_len_take [OF refl assms(1)] u(3) by (simp add: t_def u_def)
  have "hd s \<noteq> quote_char" "hd s \<noteq> back_slash" "\<not> byte (hd s) < 32"
    using assms(2) special_chars(1,2) by auto
  moreover have "t \<noteq> []" "hd t = hd s" "take (length u) t = u" "drop (length u) t = x"
    using u by (simp_all add: t_def)
  ultimately have "parse_chars t = onto u (parse_chars x)"
    using n u(1) by (subst parse_chars.simps) simp
  then show ?thesis by (simp add: t_def u_def)
qed

lemma map_of_two: "map_of [(a, x), (b, y)] t = Some e \<Longrightarrow> (t = a \<and> e = x) \<or> (t = b \<and> e = y)"
  by (auto split: if_splits)

lemma escaped_line_separators:
  "escaped_rune (''2028'' @ x) = Some ([CHR 0xE2, CHR 0x80, CHR 0xA8], x)"
  "escaped_rune (''2029'' @ x) = Some ([CHR 0xE2, CHR 0x80, CHR 0xA9], x)"
proof -
  have v: "hex_value CHR ''2'' = Some 2" "hex_value CHR ''0'' = Some 0" "hex_value CHR ''8'' = Some 8"
    "hex_value CHR ''9'' = Some 9"
    by code_simp+
  have bytes: "char_of (226::nat) = CHR 0xE2" "char_of (128::nat) = CHR 0x80"
    "char_of (168::nat) = CHR 0xA8" "char_of (169::nat) = CHR 0xA9"
    by code_simp+
  from v have "hex4 (''2028'' @ x) = Some 8232" "hex4 (''2029'' @ x) = Some 8233" by (simp_all add: hex4_unfold)
  moreover have "rune_bytes 8232 = [CHR 0xE2, CHR 0x80, CHR 0xA8]" "rune_bytes 8233 = [CHR 0xE2, CHR 0x80, CHR 0xA9]"
    by (simp_all add: rune_bytes_def bytes)
  ultimately show "escaped_rune (''2028'' @ x) = Some ([CHR 0xE2, CHR 0x80, CHR 0xA8], x)"
    "escaped_rune (''2029'' @ x) = Some ([CHR 0xE2, CHR 0x80, CHR 0xA9], x)"
    by (simp_all add: escaped_rune_def)
qed

lemma parse_separators:
  assumes "map_of line_separators t = Some e"
  shows "parse_chars (e @ x) = onto t (parse_chars x)"
proof (rule disjE [OF map_of_two [OF assms [unfolded line_separators_def]]]; elim conjE; hypsubst)
  show "parse_chars ((back_slash # ''u2028'') @ x) = onto [CHR 0xE2, CHR 0x80, CHR 0xA8] (parse_chars x)"
    unfolding append_Cons append_Nil
    by (rule parse_escaped_unicode [OF escaped_line_separators(1) [unfolded append_Cons append_Nil]])
  show "parse_chars ((back_slash # ''u2029'') @ x) = onto [CHR 0xE2, CHR 0x80, CHR 0xA9] (parse_chars x)"
    unfolding append_Cons append_Nil
    by (rule parse_escaped_unicode [OF escaped_line_separators(2) [unfolded append_Cons append_Nil]])
qed

lemma onto_Some [simp]: "onto xs (Some (ys, r)) = Some (xs @ ys, r)"
  by (simp add: onto_def)

lemma parse_escape: "utf8 s \<Longrightarrow> parse_chars (escape s @ quote_char # x) = Some (s, x)"
proof (induction s rule: escape.induct)
  case (1 s)
  show ?case
  proof (cases s)
    case Nil
    then show ?thesis by (simp add: escape.simps [of "[]"] parse_chars.simps [of "quote_char # x"])
  next
    case (Cons c t)
    show ?thesis
    proof (cases "byte c < 0x80")
      case True
      then have "parse_chars (escape t @ quote_char # x) = Some (t, x)"
        using 1 Cons utf8_tl by simp
      then show ?thesis using True Cons
        by (subst escape.simps) (simp add: parse_escape_ascii)
    next
      case False
      have n: "rune_len s > 0" "utf8 (drop (rune_len s) s)"
        using 1(4) Cons by (subst (asm) utf8.simps; simp split: if_splits)+
      let ?t = "take (rune_len s) s" and ?e = "escape (drop (rune_len s) s)"
      have ih: "parse_chars (?e @ quote_char # x) = Some (drop (rune_len s) s, x)"
        using 1(3) n False Cons by simp
      have e: "escape s = (case map_of line_separators ?t of Some esc \<Rightarrow> esc | None \<Rightarrow> ?t) @ ?e"
        using n False Cons by (subst escape.simps) simp
      have "parse_chars (escape s @ quote_char # x) = onto ?t (Some (drop (rune_len s) s, x))"
        unfolding e using parse_separators [of ?t] parse_multibyte [OF n(1)] False Cons ih
        by (cases "map_of line_separators ?t") (simp_all only: option.case append_assoc list.sel not_False_eq_True simp_thms)
      then show ?thesis by simp
    qed
  qed
qed

text \<open>A number literal ends where no digit, point or exponent follows.\<close>

definition ends_number :: "string \<Rightarrow> bool" where
  "ends_number x \<longleftrightarrow> x = [] \<or> (\<not> is_digit (hd x) \<and> hd x \<notin> {CHR ''.'', CHR ''e'', CHR ''E''})"

lemma digits_rest_append:
  "digits_rest s = Some r \<Longrightarrow> ends_number x \<Longrightarrow> digits_rest (s @ x) = Some (r @ x)"
  unfolding digits_rest_def ends_number_def
  by (cases "\<forall>c \<in> set s. is_digit c")
    (auto simp: dropWhile_append dropWhile_id dropWhile_all split: if_splits)

lemma fraction_rest_append:
  "fraction_rest s = Some r \<Longrightarrow> ends_number x \<Longrightarrow> fraction_rest (s @ x) = Some (r @ x)"
  by (cases s) (auto simp: fraction_rest_def ends_number_def digits_rest_append split: if_splits)

lemma exponent_rest_append:
  assumes "exponent_rest s = Some r" "ends_number x"
  shows "exponent_rest (s @ x) = Some (r @ x)"
proof (cases s)
  case Nil
  then show ?thesis using assms by (auto simp: exponent_rest_def ends_number_def)
next
  case (Cons c t)
  show ?thesis
  proof (cases t)
    case Nil
    then show ?thesis using assms Cons by (auto simp: exponent_rest_def digits_rest_def)
  next
    case (Cons d u)
    then show ?thesis using assms \<open>s = c # t\<close>
      digits_rest_append [of u r x] digits_rest_append [of "d # u" r x]
      by (auto simp: exponent_rest_def split: if_splits)
  qed
qed

lemma whole_rest_append:
  "whole_rest s = Some r \<Longrightarrow> ends_number x \<Longrightarrow> whole_rest (s @ x) = Some (r @ x)"
  using digits_rest_append [of s r x]
  by (cases s) (auto simp: whole_rest_def digits_rest_def [of "[]"] split: if_splits)

lemma sign_rest_append: "sign_rest s \<noteq> [] \<Longrightarrow> sign_rest (s @ x) = sign_rest s @ x"
  by (cases s) (auto simp: sign_rest_def)

lemma number_rest_append:
  assumes "number_rest s = Some r" "ends_number x"
  shows "number_rest (s @ x) = Some (r @ x)"
proof -
  obtain s2 s3 where 2: "whole_rest (sign_rest s) = Some s2"
    and 3: "fraction_rest s2 = Some s3" "exponent_rest s3 = Some r"
    using assms(1) by (auto simp: number_rest_def bind_eq_Some_conv)
  then have "sign_rest s \<noteq> []" by (auto simp: whole_rest_def digits_rest_def)
  then show ?thesis
    using sign_rest_append whole_rest_append [OF 2 assms(2)] fraction_rest_append [OF 3(1) assms(2)]
      exponent_rest_append [OF 3(2) assms(2)]
    by (simp add: number_rest_def)
qed

lemma parse_number_append:
  assumes "number_rest n = Some []" "ends_number x"
  shows "parse_number (n @ x) = Some (JNum n, x)"
  using number_rest_append [OF assms] by (simp add: parse_number_def)

text \<open>The first character of a literal decides how it is parsed.\<close>

lemma number_head:
  assumes "number_rest n = Some []"
  shows "n \<noteq> []" "hd n = CHR ''-'' \<or> is_digit (hd n)"
proof -
  have "sign_rest n \<noteq> []" using assms by (auto simp: number_rest_def whole_rest_def digits_rest_def)
  then show n: "n \<noteq> []" by (auto simp: sign_rest_def)
  show "hd n = CHR ''-'' \<or> is_digit (hd n)"
    using assms by (auto simp: number_rest_def whole_rest_def digits_rest_def sign_rest_def is_digit_code
        split: if_splits)
qed

lemma skip_space_id: "s \<noteq> [] \<Longrightarrow> \<not> json_space (hd s) \<Longrightarrow> skip_space s = s"
  by (cases s) (simp_all add: skip_space_def)

lemma structural_chars:
  "\<not> json_space quote_char" "\<not> json_space CHR ''[''" "\<not> json_space CHR ''{''" "\<not> json_space CHR '']''"
  "\<not> json_space CHR ''}''" "\<not> json_space CHR '',''" "\<not> json_space CHR '':''" "\<not> json_space CHR ''n''"
  "\<not> json_space CHR ''t''" "\<not> json_space CHR ''f''" "\<not> json_space CHR ''-''"
  "quote_char \<noteq> CHR ''[''" "quote_char \<noteq> CHR ''{''" "quote_char \<noteq> CHR '']''" "quote_char \<noteq> CHR ''}''"
  "quote_char \<noteq> CHR ''n''" "quote_char \<noteq> CHR ''t''" "quote_char \<noteq> CHR ''f''" "quote_char \<noteq> CHR ''-''"
  by code_simp+

lemma number_not_special:
  assumes "c = CHR ''-'' \<or> is_digit c"
  shows "\<not> json_space c" "c \<noteq> quote_char" "c \<noteq> CHR ''[''" "c \<noteq> CHR ''{''" "c \<noteq> CHR '']''" "c \<noteq> CHR ''n''"
    "c \<noteq> CHR ''t''" "c \<noteq> CHR ''f''"
  using assms by (auto simp: is_digit_code json_space_def quote_char_def)

lemma has_prefix_Cons: "has_prefix (c # s) (d # p) \<longleftrightarrow> c = d \<and> has_prefix s p" "has_prefix s []"
  by (simp_all add: has_prefix_def)

lemma parse_value_number:
  assumes "number_rest n = Some []" "ends_number x"
  shows "parse_value (Suc k) (n @ x) = Some (JNum n, x)"
proof -
  obtain c s where n: "n = c # s" using number_head(1) [OF assms(1)] by (cases n) auto
  have c: "c = CHR ''-'' \<or> is_digit c" using number_head(2) [OF assms(1)] n by simp
  have "parse_value (Suc k) (n @ x) = parse_number (n @ x)"
    using number_not_special [OF c] n by (simp add: skip_space_id Let_def has_prefix_Cons)
  then show ?thesis using parse_number_append [OF assms] by simp
qed

lemma parse_value_string:
  "utf8 s \<Longrightarrow> parse_value (Suc k) (json_string s @ x) = Some (JStr s, x)"
  by (simp add: json_string_def skip_space_id structural_chars parse_escape)

lemma parse_value_constant:
  "parse_value (Suc k) (''null'' @ x) = Some (JNull, x)"
  "parse_value (Suc k) (''true'' @ x) = Some (JBool True, x)"
  "parse_value (Suc k) (''false'' @ x) = Some (JBool False, x)"
  by (simp_all add: skip_space_id structural_chars has_prefix_Cons structural_chars(12-19) [THEN not_sym] Let_def)

text \<open>Elements and members, given their values are read back.\<close>

abbreviation reads_back :: "json \<Rightarrow> bool" where
  "reads_back j \<equiv> (\<forall>k x. 2 * length (json_text j) \<le> Suc k \<longrightarrow> ends_number x \<longrightarrow>
     parse_value k (json_text j @ x) = Some (j, x))"

definition member_text :: "string \<times> json \<Rightarrow> string" where
  "member_text m = json_string (fst m) @ '':'' @ json_text (snd m)"

lemma ends_number_structural [simp]:
  "ends_number (CHR '','' # x)" "ends_number (CHR '']'' # x)" "ends_number (CHR ''}'' # x)" "ends_number []"
  by (simp_all add: ends_number_def is_digit_code)

lemma skip_structural [simp]:
  "skip_space (CHR '','' # x) = CHR '','' # x" "skip_space (CHR '']'' # x) = CHR '']'' # x"
  "skip_space (CHR ''}'' # x) = CHR ''}'' # x" "skip_space (CHR '':'' # x) = CHR '':'' # x"
  by (simp_all add: skip_space_id structural_chars)

lemma parse_elems_text:
  assumes "\<And>j. j \<in> set js \<Longrightarrow> reads_back j \<and> json_text j \<noteq> []" "js \<noteq> []"
    and "2 * length (join '','' (map json_text js)) \<le> k"
  shows "parse_elems k (join '','' (map json_text js) @ CHR '']'' # x) = Some (js, x)"
  using assms
proof (induction js arbitrary: k)
  case (Cons j js)
  obtain n where k: "k = Suc n" using Cons.prems(1,3) by (cases k; cases js) auto
  show ?case
  proof (cases js)
    case Nil
    have "parse_value n (json_text j @ CHR '']'' # x) = Some (j, CHR '']'' # x)"
      using Cons.prems(1,3) Nil k by simp
    then show ?thesis using Nil k by simp
  next
    case (Cons j' js')
    let ?rest = "join '','' (map json_text js) @ CHR '']'' # x"
    have len: "join '','' (json_text j # map json_text js) = json_text j @ '','' @ join '','' (map json_text js)"
      using Cons by simp
    have "parse_value n (json_text j @ CHR '','' # ?rest) = Some (j, CHR '','' # ?rest)"
      using Cons.prems(1,3) k by (simp add: len)
    moreover have "parse_elems n ?rest = Some (js, x)"
      using Cons.IH [of n] Cons.prems(1,3) k Cons by (simp add: len)
    ultimately show ?thesis using k by (simp add: len)
  qed
qed simp

lemma parse_members_text:
  assumes "\<And>m. m \<in> set ms \<Longrightarrow> utf8 (fst m) \<and> reads_back (snd m)" "ms \<noteq> []"
    and "2 * length (join '','' (map member_text ms)) \<le> k"
  shows "parse_members k (join '','' (map member_text ms) @ CHR ''}'' # x) = Some (ms, x)"
  using assms
proof (induction ms arbitrary: k)
  case (Cons m ms)
  have long: "2 \<le> length (join '','' (map member_text (m # ms)))"
    by (cases ms) (simp_all add: json_string_def member_text_def)
  then obtain n where k: "k = Suc n" using Cons.prems(3) by (cases k) auto
  have member: "parse_members (Suc n) (member_text m @ y) = (let q = skip_space y in
      if q = [] then None else if hd q = CHR ''}'' then Some ([m], tl q)
      else if hd q = CHR '','' then onto [m] (parse_members n (tl q)) else None)"
    if "2 * length (member_text m) \<le> Suc n" "ends_number y" for y
    using that Cons.prems(1) [of m]
    by (simp add: member_text_def json_string_def skip_space_id structural_chars parse_escape Let_def)
  show ?case
  proof (cases ms)
    case Nil
    then show ?thesis using member [of "CHR ''}'' # x"] Cons.prems(3) k
      by (simp del: parse_members.simps)
  next
    case (Cons m' ms')
    have len: "join '','' (member_text m # map member_text ms) = member_text m @ '','' @ join '','' (map member_text ms)"
      using Cons by simp
    have "parse_members n (join '','' (map member_text ms) @ CHR ''}'' # x) = Some (ms, x)"
      using Cons.IH [of n] Cons.prems(1,3) k Cons by (simp add: len del: parse_members.simps)
    then show ?thesis
      using member [of "'','' @ join '','' (map member_text ms) @ CHR ''}'' # x"] Cons.prems(3) k
      by (simp add: len del: parse_members.simps)
  qed
qed simp

lemma json_text_head:
  assumes "json_ok j"
  shows "json_text j \<noteq> []" "\<not> json_space (hd (json_text j))" "hd (json_text j) \<noteq> CHR '']''"
  using assms number_head number_not_special [of "hd (case j of JNum n \<Rightarrow> n)"] structural_chars
  by (cases j; auto simp: json_string_def)+

lemma join_head: "s \<noteq> [] \<Longrightarrow> join sep (s # ss) \<noteq> [] \<and> hd (join sep (s # ss)) = hd s"
  by (cases ss) auto

lemma json_text_obj: "json_text (JObj ms) = ''{'' @ join '','' (map member_text ms) @ ''}''"
  by (simp add: member_text_def [abs_def])

lemma reads_back_arr:
  assumes "list_all json_ok js" "\<And>j. j \<in> set js \<Longrightarrow> reads_back j"
  shows "reads_back (JArr js)"
proof (intro allI impI)
  fix k x assume k: "2 * length (json_text (JArr js)) \<le> Suc k"
  then obtain n where n: "k = Suc n" by (cases k) auto
  show "parse_value k (json_text (JArr js) @ x) = Some (JArr js, x)"
  proof (cases js)
    case Nil
    then show ?thesis using n by (simp add: skip_space_id structural_chars structural_chars(12) [THEN not_sym]
        Let_def has_prefix_Cons)
  next
    case (Cons j js')
    let ?t = "join '','' (map json_text js) @ CHR '']'' # x"
    have "?t \<noteq> [] \<and> hd ?t = hd (json_text j)"
      using join_head [of "json_text j"] json_text_head(1) assms(1) Cons by simp
    then have t: "skip_space ?t = ?t" "\<not> has_prefix ?t '']''"
      using json_text_head [of j] assms(1) Cons by (simp_all add: skip_space_id, cases ?t) (auto simp: has_prefix_Cons)
    have "parse_elems n ?t = Some (js, x)"
    proof (rule parse_elems_text)
      show "reads_back i \<and> json_text i \<noteq> []" if "i \<in> set js" for i
        using that assms json_text_head(1) by (auto simp: list_all_iff)
    qed (use k n Cons in auto)
    then show ?thesis using n t
      by (simp add: skip_space_id structural_chars structural_chars(12) [THEN not_sym] Let_def)
  qed
qed

lemma reads_back_obj:
  assumes "list_all (\<lambda>m. utf8 (fst m)) ms" "\<And>m. m \<in> set ms \<Longrightarrow> reads_back (snd m)"
  shows "reads_back (JObj ms)"
proof (intro allI impI)
  fix k x assume k: "2 * length (json_text (JObj ms)) \<le> Suc k"
  then obtain n where n: "k = Suc n" by (cases k) auto
  show "parse_value k (json_text (JObj ms) @ x) = Some (JObj ms, x)"
  proof (cases ms)
    case Nil
    then show ?thesis using n by (simp add: skip_space_id structural_chars structural_chars(13) [THEN not_sym]
        Let_def has_prefix_Cons)
  next
    case (Cons m ms')
    let ?t = "join '','' (map member_text ms) @ CHR ''}'' # x"
    have "?t \<noteq> [] \<and> hd ?t = quote_char"
      using join_head [of "member_text m"] Cons by (simp add: member_text_def json_string_def)
    then have t: "skip_space ?t = ?t" "\<not> has_prefix ?t ''}''"
      using structural_chars by (simp_all add: skip_space_id, cases ?t) (auto simp: has_prefix_Cons)
    have "parse_members n ?t = Some (ms, x)"
    proof (rule parse_members_text)
      show "utf8 (fst m) \<and> reads_back (snd m)" if "m \<in> set ms" for m
        using that assms by (auto simp: list_all_iff)
    qed (use k [unfolded json_text_obj] n Cons in auto)
    then show ?thesis using n t unfolding json_text_obj
      by (simp add: skip_space_id structural_chars structural_chars(13) [THEN not_sym] Let_def)
  qed
qed

lemma json_reads_back: "json_ok j \<Longrightarrow> reads_back j"
proof (induction j)
  case JNull
  show ?case
  proof (intro allI impI)
    fix k x assume "2 * length (json_text JNull) \<le> Suc k"
    then obtain i where "k = Suc i" by (cases k) auto
    then show "parse_value k (json_text JNull @ x) = Some (JNull, x)"
      using parse_value_constant(1) by (simp del: parse_value.simps)
  qed
next
  case (JBool b)
  show ?case
  proof (intro allI impI)
    fix k x assume "2 * length (json_text (JBool b)) \<le> Suc k"
    then obtain i where "k = Suc i" by (cases k) (auto split: if_splits)
    then show "parse_value k (json_text (JBool b) @ x) = Some (JBool b, x)"
      using parse_value_constant(2,3) by (simp del: parse_value.simps)
  qed
next
  case (JNum n)
  show ?case
  proof (intro allI impI)
    fix k x assume k: "2 * length (json_text (JNum n)) \<le> Suc k" "ends_number x"
    have "n \<noteq> []" using number_head JNum by simp
    then obtain i where "k = Suc i" using k(1) by (cases k; cases n) auto
    then show "parse_value k (json_text (JNum n) @ x) = Some (JNum n, x)"
      using parse_value_number k(2) JNum by simp
  qed
next
  case (JStr s)
  show ?case
  proof (intro allI impI)
    fix k x assume "2 * length (json_text (JStr s)) \<le> Suc k"
    then obtain i where "k = Suc i" by (cases k) (auto simp: json_string_def)
    then show "parse_value k (json_text (JStr s) @ x) = Some (JStr s, x)"
      using parse_value_string JStr by simp
  qed
next
  case (JArr js)
  then show ?case using reads_back_arr by (auto simp: list_all_iff)
next
  case (JObj ms)
  then have "reads_back (snd m)" if "m \<in> set ms" for m
    using that by (cases m) (auto simp: list_all_iff)
  then show ?case using reads_back_obj [of ms] JObj.prems by (auto simp: list_all_iff)
qed

lemma unmarshal_json_text:
  assumes "json_ok j" "json_depth j \<le> 10000"
  shows "unmarshal_json (json_text j) = Some j"
  using json_reads_back [OF assms(1), rule_format, of "2 * length (json_text j) + 1" "[]"] assms(2)
  by (simp add: unmarshal_json_def parse_first_def skip_space_def)

lemma decode_json_text:
  assumes "json_ok j" "json_depth j \<le> 10000" "ends_number x"
  shows "decode_json (json_text j @ x) = Some j"
  using json_reads_back [OF assms(1), rule_format, of "2 * length (json_text j @ x) + 1" x] assms(2,3)
  by (simp add: decode_json_def parse_first_def)

section \<open>The fuel is enough\<close>

lemma onto_eq_Some: "onto xs p = Some (ys, r) \<longleftrightarrow> (\<exists>zs. p = Some (zs, r) \<and> ys = xs @ zs)"
  by (auto simp: onto_def)

lemma length_skip_space: "length (skip_space s) \<le> length s"
  by (simp add: skip_space_def length_dropWhile_le)

lemma parse_chars_shorter: "parse_chars s = Some (t, r) \<Longrightarrow> length r < length s"
proof (induction s arbitrary: t rule: parse_chars.induct)
  case (1 s)
  note run = 1(5) [unfolded parse_chars.simps [of s]]
  have s: "s \<noteq> []" using run by auto
  have shorter: "length (drop 2 s) < length s" "length (tl s) < length s" "length (drop (rune_len s) s) \<le> length s"
    using s by (cases s; simp)+
  show ?case
  proof (cases "hd s = quote_char")
    case True
    then show ?thesis using run s by auto
  next
    case q: False
    show ?thesis
    proof (cases "hd s = back_slash")
      case True
      show ?thesis
      proof (cases "hd (tl s) = CHR ''u''")
        case u: True
        obtain b r' t' where e: "escaped_rune (drop 2 s) = Some (b, r')" "parse_chars r' = Some (t', r)"
          using run s q True u by (auto simp: onto_eq_Some split: if_splits option.splits)
        have "length r < length r'" using 1(1) [OF s q True _ u e(1) refl e(2)] run s q True by (auto split: if_splits)
        also have "\<dots> < length s" using escaped_rune_drop e(1) s by blast
        finally show ?thesis .
      next
        case u: False
        obtain c t' where "map_of simple_escapes (hd (tl s)) = Some c" "parse_chars (drop 2 s) = Some (t', r)"
          "tl s \<noteq> []"
          using run s q True u by (auto simp: onto_eq_Some split: if_splits option.splits)
        then show ?thesis using 1(2) [OF s q True _ u] shorter(1) by fastforce
      qed
    next
      case b: False
      show ?thesis
      proof (cases "rune_len s = 0")
        case True
        then obtain t' where "parse_chars (tl s) = Some (t', r)" "\<not> byte (hd s) < 32"
          using run s q b by (auto simp: onto_eq_Some split: if_splits)
        then show ?thesis using 1(3) [OF s q b _ True] shorter(2) by fastforce
      next
        case False
        then obtain t' where "parse_chars (drop (rune_len s) s) = Some (t', r)" "\<not> byte (hd s) < 32"
          using run s q b by (auto simp: onto_eq_Some split: if_splits)
        then show ?thesis using 1(4) [OF s q b _ False] shorter(3) by fastforce
      qed
    qed
  qed
qed

lemma digits_rest_shorter: "digits_rest s = Some r \<Longrightarrow> length r < length s"
  by (cases s) (auto simp: digits_rest_def le_imp_less_Suc length_dropWhile_le split: if_splits)

lemma number_rest_shorter:
  assumes "number_rest s = Some r"
  shows "length r < length s"
proof -
  obtain s2 s3 where s: "whole_rest (sign_rest s) = Some s2" "fraction_rest s2 = Some s3" "exponent_rest s3 = Some r"
    using assms by (auto simp: number_rest_def bind_eq_Some_conv)
  have "length (sign_rest s) \<le> length s" by (simp add: sign_rest_def)
  moreover have "length s2 < length (sign_rest s)"
    using s(1) digits_rest_shorter by (auto simp: whole_rest_def split: if_splits)
  moreover have "length s3 \<le> length s2"
    using s(2) digits_rest_shorter [of "tl s2" s3] by (auto simp: fraction_rest_def split: if_splits)
  moreover have "length r \<le> length s3"
    using s(3) digits_rest_shorter [of "tl s3" r] digits_rest_shorter [of "tl (tl s3)" r]
    by (auto simp: exponent_rest_def split: if_splits)
  ultimately show ?thesis by linarith
qed

lemma parse_number_shorter: "parse_number s = Some (j, r) \<Longrightarrow> length r < length s"
  by (auto simp: parse_number_def dest: number_rest_shorter)

lemma tl_skip_shorter: "length s \<le> n \<Longrightarrow> tl (skip_space s) = r \<Longrightarrow> length r \<le> n"
  using length_skip_space [of s] by auto

lemma parse_value_step:
  assumes "parse_value (Suc n) s0 = Some (j, r)"
  obtains (str) t where "parse_chars (tl (skip_space s0)) = Some (t, r)" "skip_space s0 \<noteq> []"
    | (arr) js where "parse_elems n (tl (skip_space s0)) = Some (js, r)" "skip_space s0 \<noteq> []"
    | (obj) ms where "parse_members n (tl (skip_space s0)) = Some (ms, r)" "skip_space s0 \<noteq> []"
    | (number) "parse_number (skip_space s0) = Some (j, r)"
    | (plain) "r = drop 4 (skip_space s0) \<or> r = drop 5 (skip_space s0) \<or>
        r = tl (skip_space (tl (skip_space s0)))" "skip_space s0 \<noteq> []"
  using assms by (auto simp: Let_def split: if_splits)

lemma parse_elems_step:
  assumes "parse_elems (Suc n) s = Some (js, r)"
  obtains j r0 where "parse_value n s = Some (j, r0)"
    "r = tl (skip_space r0) \<or> (\<exists>js. parse_elems n (tl (skip_space r0)) = Some (js, r))"
  using assms by (auto simp: Let_def onto_eq_Some split: if_splits option.splits)

lemma parse_members_step:
  assumes "parse_members (Suc n) s0 = Some (ms, r)"
  obtains k r0 j q0 where "parse_chars (tl (skip_space s0)) = Some (k, r0)"
    "parse_value n (tl (skip_space r0)) = Some (j, q0)"
    "r = tl (skip_space q0) \<or> (\<exists>ms. parse_members n (tl (skip_space q0)) = Some (ms, r))"
  using assms by (auto simp: Let_def onto_eq_Some split: if_splits option.splits)

lemma tl_skip_le: "length (tl (skip_space s)) \<le> length s"
  using length_skip_space [of s] by simp

lemma tl_skip_less: "skip_space s \<noteq> [] \<Longrightarrow> length (tl (skip_space s)) < length s"
  using length_skip_space [of s] by (cases "skip_space s") auto

lemma parse_shorter:
  "(\<forall>s j r. parse_value n s = Some (j, r) \<longrightarrow> length r < length s) \<and>
   (\<forall>s js r. parse_elems n s = Some (js, r) \<longrightarrow> length r < length s) \<and>
   (\<forall>s ms r. parse_members n s = Some (ms, r) \<longrightarrow> length r < length s)"
proof (induction n)
  case (Suc n)
  then have ih: "\<And>s j r. parse_value n s = Some (j, r) \<Longrightarrow> length r < length s"
    "\<And>s js r. parse_elems n s = Some (js, r) \<Longrightarrow> length r < length s"
    "\<And>s ms r. parse_members n s = Some (ms, r) \<Longrightarrow> length r < length s"
    by blast+
  show ?case
  proof (intro conjI allI impI)
    fix s j r assume "parse_value (Suc n) s = Some (j, r)"
    then show "length r < length s"
    proof (cases rule: parse_value_step)
      case number
      then show ?thesis using parse_number_shorter length_skip_space [of s] by fastforce
    next
      case plain
      then have "length r < length (skip_space s)"
        using tl_skip_le [of "tl (skip_space s)"] by (cases "skip_space s") auto
      then show ?thesis using length_skip_space [of s] by linarith
    qed (use ih parse_chars_shorter tl_skip_less [of s] in fastforce)+
  next
    fix s js r assume "parse_elems (Suc n) s = Some (js, r)"
    then show "length r < length s"
      by (rule parse_elems_step) (metis ih(1,2) tl_skip_le less_trans order_le_less_trans order_less_le_trans)
  next
    fix s ms r assume "parse_members (Suc n) s = Some (ms, r)"
    then obtain k r0 j q0 where c: "parse_chars (tl (skip_space s)) = Some (k, r0)"
      and v: "parse_value n (tl (skip_space r0)) = Some (j, q0)"
      and r: "r = tl (skip_space q0) \<or> (\<exists>ms. parse_members n (tl (skip_space q0)) = Some (ms, r))"
      by (rule parse_members_step)
    have "length r \<le> length (tl (skip_space q0))" using r ih(3) [of "tl (skip_space q0)"] by (metis less_imp_le order_refl)
    then show "length r < length s"
      using parse_chars_shorter [OF c] ih(1) [OF v] tl_skip_le [of q0] tl_skip_le [of r0] tl_skip_le [of s]
      by linarith
  qed
qed simp

lemma parse_fuel_step:
  "(\<forall>s. 2 * length s < n \<longrightarrow> parse_value (Suc n) s = parse_value n s) \<and>
   (\<forall>s. Suc (2 * length s) < n \<longrightarrow> parse_elems (Suc n) s = parse_elems n s) \<and>
   (\<forall>s. Suc (2 * length s) < n \<longrightarrow> parse_members (Suc n) s = parse_members n s)"
proof (induction n)
  case (Suc n)
  then have ih: "\<And>s. 2 * length s < n \<Longrightarrow> parse_value (Suc n) s = parse_value n s"
    "\<And>s. Suc (2 * length s) < n \<Longrightarrow> parse_elems (Suc n) s = parse_elems n s"
    "\<And>s. Suc (2 * length s) < n \<Longrightarrow> parse_members (Suc n) s = parse_members n s"
    by blast+
  have shorter: "\<And>s j r. parse_value n s = Some (j, r) \<Longrightarrow> length r < length s"
    using parse_shorter by blast
  show ?case
  proof (intro conjI allI impI)
    fix s :: string assume s: "2 * length s < Suc n"
    show "parse_value (Suc (Suc n)) s = parse_value (Suc n) s"
    proof (cases "skip_space s = []")
      case False
      then have "Suc (2 * length (tl (skip_space s))) < n" using s tl_skip_less [of s] by linarith
      then show ?thesis using ih(2,3) by (simp only: parse_value.simps Let_def)
    qed simp
  next
    fix s :: string assume s: "Suc (2 * length s) < Suc n"
    have v: "parse_value (Suc n) s = parse_value n s" using ih(1) s by simp
    show "parse_elems (Suc (Suc n)) s = parse_elems (Suc n) s"
    proof (cases "parse_value n s")
      case (Some p)
      obtain j r0 where p: "p = (j, r0)" by fastforce
      have "Suc (2 * length (tl (skip_space r0))) < n"
        using shorter [OF Some [unfolded p]] tl_skip_le [of r0] s by linarith
      then show ?thesis using ih(2) v Some p by (simp only: parse_elems.simps option.case prod.case Let_def)
    qed (simp only: parse_elems.simps v option.case)
  next
    fix s :: string assume s: "Suc (2 * length s) < Suc n"
    show "parse_members (Suc (Suc n)) s = parse_members (Suc n) s"
    proof (cases "parse_chars (tl (skip_space s))")
      case None
      then show ?thesis by (simp only: parse_members.simps option.case Let_def)
    next
      case (Some p)
      obtain k r0 where p: "p = (k, r0)" by fastforce
      have r0: "length (tl (skip_space r0)) \<le> length s"
        using parse_chars_shorter Some p tl_skip_le [of r0] tl_skip_le [of s] by fastforce
      then have v: "parse_value (Suc n) (tl (skip_space r0)) = parse_value n (tl (skip_space r0))"
        using ih(1) s by simp
      have "parse_members (Suc n) (tl (skip_space q0)) = parse_members n (tl (skip_space q0))"
        if "parse_value n (tl (skip_space r0)) = Some (j, q0)" for j q0
      proof -
        have "length (tl (skip_space q0)) < length s" using shorter [OF that] tl_skip_le [of q0] r0 by linarith
        then show ?thesis using ih(3) s by simp
      qed
      then show ?thesis using Some p v
        by (cases "parse_value n (tl (skip_space r0))") (auto simp: Let_def simp del: parse_value.simps(2))
    qed
  qed
qed simp

lemma parse_fuel_enough:
  "2 * length s + 1 \<le> n \<Longrightarrow> parse_value n s = parse_value (2 * length s + 1) s"
  by (induction n rule: dec_induct) (use parse_fuel_step in auto)

end
