(* ===== verification/Effects.thy ===== *)
theory Effects
  imports Uran_Prelude
begin

text \<open>
  Effectful code as state passing. An action takes the world and returns a value and the new
  world; Go's pair \<open>(value, error)\<close> is a value of a sum type, \<open>Inl\<close> the error. A handler is
  written with the four combinators below, one per Go idiom:
  \<^item> \<open>ret\<close> returns;
  \<^item> \<open>bnd\<close> runs one call, then the rest with its value;
  \<^item> \<open>attempt m h k\<close> is \<open>x, err := m; if err != nil { return h err }; k x\<close>;
  \<^item> \<open>for_each\<close> is a \<open>range\<close> loop whose body may change the world.

  \<open>keeps view R m\<close> says that action \<open>m\<close> moves the part of the world that \<open>view\<close> reads only
  along the relation \<open>R\<close>. The locale \<open>evolution\<close> proves, once for every reflexive and
  transitive \<open>R\<close>, that the combinators preserve it; a component that promises such a
  relation interprets the locale and gets its handlers by structure.
\<close>

type_synonym ('w, 'a) act = "'w \<Rightarrow> 'a \<times> 'w"

definition ret :: "'a \<Rightarrow> ('w, 'a) act" where
  "ret a w = (a, w)"

definition bnd :: "('w, 'a) act \<Rightarrow> ('a \<Rightarrow> ('w, 'b) act) \<Rightarrow> ('w, 'b) act" where
  "bnd m k w = (case m w of (a, w') \<Rightarrow> k a w')"

definition attempt ::
    "('w, 'e + 'a) act \<Rightarrow> ('e \<Rightarrow> ('w, 'b) act) \<Rightarrow> ('a \<Rightarrow> ('w, 'b) act) \<Rightarrow> ('w, 'b) act" where
  "attempt m h k w = (case m w of (Inl e, w') \<Rightarrow> h e w' | (Inr a, w') \<Rightarrow> k a w')"

definition throwing :: "('w, 'e + 'a) act \<Rightarrow> ('a \<Rightarrow> ('w, 'e + 'b) act) \<Rightarrow> ('w, 'e + 'b) act" where
  "throwing m k = attempt m (\<lambda>e. ret (Inl e)) k"

fun for_each :: "('a \<Rightarrow> ('w, unit) act) \<Rightarrow> 'a list \<Rightarrow> ('w, unit) act" where
  "for_each f [] = ret ()"
| "for_each f (x # xs) = bnd (f x) (\<lambda>_. for_each f xs)"

lemma throwing_assoc: "throwing (throwing m k) h = throwing m (\<lambda>a. throwing (k a) h)"
  by (rule ext) (simp add: throwing_def attempt_def ret_def split: prod.split sum.split)

text \<open>A loop that collects one value per iteration that yields one (\<open>continue\<close> yields none).\<close>

fun collect :: "('a \<Rightarrow> ('w, 'b option) act) \<Rightarrow> 'a list \<Rightarrow> ('w, 'b list) act" where
  "collect f [] = ret []"
| "collect f (x # xs) =
     bnd (f x) (\<lambda>y. bnd (collect f xs) (\<lambda>ys. ret (case y of None \<Rightarrow> ys | Some b \<Rightarrow> b # ys)))"

lemmas [act_defs] = ret_def bnd_def attempt_def throwing_def

definition keeps :: "('w \<Rightarrow> 's) \<Rightarrow> ('s \<Rightarrow> 's \<Rightarrow> bool) \<Rightarrow> ('w, 'a) act \<Rightarrow> bool" where
  "keeps view R m \<longleftrightarrow> (\<forall>w. R (view w) (view (snd (m w))))"

lemma keepsD: "keeps view R m \<Longrightarrow> m w = (a, w') \<Longrightarrow> R (view w) (view w')"
  unfolding keeps_def by (metis snd_conv)

locale evolution =
  fixes view :: "'w \<Rightarrow> 's" and R :: "'s \<Rightarrow> 's \<Rightarrow> bool"
  assumes evo_refl: "R s s"
    and evo_trans: "R s t \<Longrightarrow> R t u \<Longrightarrow> R s u"
begin

lemma keeps_ret: "keeps view R (ret a)"
  by (simp add: keeps_def ret_def evo_refl)

lemma keeps_bnd: "keeps view R m \<Longrightarrow> (\<And>a. keeps view R (k a)) \<Longrightarrow> keeps view R (bnd m k)"
  unfolding keeps_def bnd_def by (auto split: prod.split) (metis evo_trans snd_conv)

lemma keeps_attempt:
  "keeps view R m \<Longrightarrow> (\<And>e. keeps view R (h e)) \<Longrightarrow> (\<And>a. keeps view R (k a)) \<Longrightarrow>
     keeps view R (attempt m h k)"
  unfolding keeps_def attempt_def
  by (auto split: prod.split sum.split) (metis evo_trans snd_conv)+

lemma keeps_throwing:
  "keeps view R m \<Longrightarrow> (\<And>a. keeps view R (k a)) \<Longrightarrow> keeps view R (throwing m k)"
  unfolding throwing_def by (intro keeps_attempt keeps_ret)

lemma keeps_for_each: "(\<And>x. keeps view R (f x)) \<Longrightarrow> keeps view R (for_each f xs)"
  by (induction xs) (auto intro: keeps_ret keeps_bnd)

lemma keeps_collect: "(\<And>x. keeps view R (f x)) \<Longrightarrow> keeps view R (collect f xs)"
  by (induction xs) (auto intro!: keeps_ret keeps_bnd)

lemma keeps_if: "keeps view R m \<Longrightarrow> keeps view R n \<Longrightarrow> keeps view R (if b then m else n)"
  by simp

lemma keeps_option:
  "keeps view R m \<Longrightarrow> (\<And>a. keeps view R (k a)) \<Longrightarrow>
     keeps view R (case x of None \<Rightarrow> m | Some a \<Rightarrow> k a)"
  by (cases x) auto

lemma keeps_sum:
  "(\<And>a. keeps view R (h a)) \<Longrightarrow> (\<And>a. keeps view R (k a)) \<Longrightarrow>
     keeps view R (case x of Inl a \<Rightarrow> h a | Inr a \<Rightarrow> k a)"
  by (cases x) auto

lemma keeps_prod:
  "(\<And>a b. keeps view R (k a b)) \<Longrightarrow> keeps view R (case x of (a, b) \<Rightarrow> k a b)"
  by (cases x) auto

lemma keeps_list:
  "keeps view R m \<Longrightarrow> (\<And>a as. keeps view R (k a as)) \<Longrightarrow>
     keeps view R (case x of [] \<Rightarrow> m | a # as \<Rightarrow> k a as)"
  by (cases x) auto

lemma keeps_let: "(\<And>a. keeps view R (k a)) \<Longrightarrow> keeps view R (Let x k)"
  by (simp add: Let_def)

lemmas keeps_rules =
  keeps_ret keeps_bnd keeps_attempt keeps_throwing keeps_for_each keeps_collect
  keeps_if keeps_option keeps_sum keeps_prod keeps_list keeps_let

end

text \<open>An invariant is the evolution \<open>I s \<longrightarrow> I t\<close>.\<close>

definition invariant_rel :: "('s \<Rightarrow> bool) \<Rightarrow> 's \<Rightarrow> 's \<Rightarrow> bool" where
  "invariant_rel I s t \<longleftrightarrow> (I s \<longrightarrow> I t)"

text \<open>Running an action that is chosen by a condition or a case.\<close>

lemma act_if: "(if b then m else n) w = (if b then m w else n w)"
  by simp

lemma act_option: "(case x of None \<Rightarrow> m | Some a \<Rightarrow> k a) w = (case x of None \<Rightarrow> m w | Some a \<Rightarrow> k a w)"
  by (cases x) auto

lemma act_sum: "(case x of Inl a \<Rightarrow> h a | Inr a \<Rightarrow> k a) w = (case x of Inl a \<Rightarrow> h a w | Inr a \<Rightarrow> k a w)"
  by (cases x) auto

lemma act_prod: "(case x of (a, b) \<Rightarrow> k a b) w = (case x of (a, b) \<Rightarrow> k a b w)"
  by (cases x) auto

lemma act_list: "(case x of [] \<Rightarrow> m | a # as \<Rightarrow> k a as) w = (case x of [] \<Rightarrow> m w | a # as \<Rightarrow> k a as w)"
  by (cases x) auto

lemmas act_run = ret_def bnd_def attempt_def throwing_def act_if act_option act_sum act_prod act_list

end
