(* ===== verification/Cli_Client.thy ===== *)
theory Cli_Client
  imports Cli_Flags Go_Json Effects
begin

text \<open>
  The client side of \<open>cmd/uran\<close>: the saved session (\<open>config.go\<close>), requests and errors
  (\<open>client.go\<close>), and the terminal the commands write to.

  A command is an action on a \<open>terminal\<close>: what it printed, the files of the configuration
  directory, the requests sent, and the rest of the world behind the network. The network is a
  function of the world: what \<open>NewRequest\<close> and \<open>http.Client.Do\<close> answer to a request, an error (a URL that
  does not parse, no connection) or a response with its whole body, which may end in a read error.
  The text of an error of the JSON decoder is not modelled, only where it is shown.
\<close>

section \<open>The terminal\<close>

record http_request =
  hq_method :: string
  hq_url :: string
  hq_authorization :: string
  hq_accept :: string
  hq_content_type :: string
  hq_body :: "string option"

record http_response =
  hs_status :: int
  hs_body :: string
  hs_broken :: "string option"

text \<open>Floating-point numbers: a JSON literal as the verbs \<open>%v\<close> and \<open>%.1f\<close> show it, if it is in range.\<close>

record floats =
  fl_show :: "string \<Rightarrow> string option"
  fl_tenth :: "string \<Rightarrow> string option"

text \<open>What ends a command: an error with its text, one of the decoder after a prefix, or \<open>os.Exit\<close>.\<close>

datatype cli_error = Message string | BadJson string | Exit int

datatype complaint = Usage | ErrorLine cli_error | Note string

text \<open>
  A disk fault is the error of a file operation; a failed write may have truncated the file and
  written some bytes.
\<close>

type_synonym disk_fault = "string \<times> nat option"

record 'y terminal =
  tt_out :: string
  tt_err :: "complaint list"
  tt_config :: "string + string"
  tt_files :: "(string \<times> string \<times> int) list"
  tt_dirs :: "(string \<times> int) list"
  tt_disk :: "disk_fault option list"
  tt_floats :: floats
  tt_sent :: "http_request list"
  tt_net :: "http_request \<Rightarrow> 'y \<Rightarrow> (string + http_response) \<times> 'y"
  tt_world :: 'y

type_synonym ('y, 'a) cli = "('y terminal, cli_error + 'a) act"

definition failing :: "string \<Rightarrow> ('y, 'a) cli" where
  "failing msg = ret (Inl (Message msg))"

definition print :: "string \<Rightarrow> ('y, unit) cli" where
  "print s w = (Inr (), w\<lparr>tt_out := tt_out w @ s\<rparr>)"

definition newline :: string where
  "newline = [CHR 0x0A]"

definition println :: "string \<Rightarrow> ('y, unit) cli" where
  "println s = print (s @ newline)"

definition complain :: "complaint \<Rightarrow> ('y, unit) cli" where
  "complain c w = (Inr (), w\<lparr>tt_err := tt_err w @ [c]\<rparr>)"

fun print_each :: "('a \<Rightarrow> string) \<Rightarrow> 'a list \<Rightarrow> ('y, unit) cli" where
  "print_each f [] = ret (Inr ())"
| "print_each f (x # xs) = throwing (print (f x)) (\<lambda>_. print_each f xs)"

definition pad_right :: "nat \<Rightarrow> string \<Rightarrow> string" where
  "pad_right n s = s @ replicate (n - rune_count s) CHR '' ''"

definition pad_left :: "nat \<Rightarrow> string \<Rightarrow> string" where
  "pad_left n s = replicate (n - rune_count s) CHR '' '' @ s"

section \<open>Files\<close>

definition next_disk :: "('y terminal, disk_fault option) act" where
  "next_disk w = (case tt_disk w of [] \<Rightarrow> (None, w) | f # fs \<Rightarrow> (f, w\<lparr>tt_disk := fs\<rparr>))"

definition os_ReadFile :: "string \<Rightarrow> ('y terminal, string + string) act" where
  "os_ReadFile path = bnd next_disk (\<lambda>f w. (case f of
      Some (e, _) \<Rightarrow> (Inl e, w)
    | None \<Rightarrow> (case map_of (tt_files w) path of
        None \<Rightarrow> (Inl (''open '' @ path @ '': no such file or directory''), w)
      | Some (data, _) \<Rightarrow> (Inr data, w))))"

definition os_MkdirAll :: "string \<Rightarrow> int \<Rightarrow> ('y terminal, string + unit) act" where
  "os_MkdirAll path perm = bnd next_disk (\<lambda>f w. (case f of
      Some (e, _) \<Rightarrow> (Inl e, w)
    | None \<Rightarrow> (Inr (), if map_of (tt_dirs w) path = None then w\<lparr>tt_dirs := (path, perm) # tt_dirs w\<rparr> else w)))"

text \<open>An existing file keeps its permissions.\<close>

definition put_file :: "string \<Rightarrow> string \<Rightarrow> int \<Rightarrow> 'y terminal \<Rightarrow> 'y terminal" where
  "put_file path data perm w = w\<lparr>tt_files :=
     (path, data, case map_of (tt_files w) path of Some (_, old) \<Rightarrow> old | None \<Rightarrow> perm) # tt_files w\<rparr>"

definition os_WriteFile :: "string \<Rightarrow> string \<Rightarrow> int \<Rightarrow> ('y terminal, string + unit) act" where
  "os_WriteFile path data perm = bnd next_disk (\<lambda>f w. (case f of
      Some (e, None) \<Rightarrow> (Inl e, w)
    | Some (e, Some n) \<Rightarrow> (Inl e, put_file path (take n data) perm w)
    | None \<Rightarrow> (Inr (), put_file path data perm w)))"

section \<open>The saved session\<close>

record credentials =
  cr_api_url :: string
  cr_token :: string

definition no_credentials :: credentials where
  "no_credentials = \<lparr>cr_api_url = '''', cr_token = ''''\<rparr>"

definition set_credentials :: "credentials setter" where
  "set_credentials = set_struct
     [(''api_url'', into cr_api_url cr_api_url_update set_str), (''token'', into cr_token cr_token_update set_str)]"

text \<open>\<open>json.MarshalIndent(c, "", "  ")\<close>.\<close>

definition credentials_text :: "credentials \<Rightarrow> string" where
  "credentials_text c =
     ''{'' @ newline @ ''  '' @ json_string ''api_url'' @ '': '' @ json_string (cr_api_url c) @ '','' @
     newline @ ''  '' @ json_string ''token'' @ '': '' @ json_string (cr_token c) @ newline @ ''}''"

definition credentialsDir :: "string \<Rightarrow> string" where
  "credentialsDir dir = dir @ ''/uran''"

definition credentialsPath :: "('y, string) cli" where
  "credentialsPath w = (case tt_config w of
      Inl e \<Rightarrow> (Inl (Message e), w)
    | Inr dir \<Rightarrow> (Inr (credentialsDir dir @ ''/credentials.json''), w))"

definition loadCredentials :: "('y, credentials) cli" where
  "loadCredentials = throwing credentialsPath (\<lambda>path.
     attempt (os_ReadFile path) (\<lambda>e. failing (''not logged in (run `uran login`): '' @ e)) (\<lambda>data.
       case Option.bind (unmarshal_json data) (\<lambda>j. set_credentials j no_credentials) of
         None \<Rightarrow> ret (Inl (BadJson (''corrupt credentials at '' @ path @ '': '')))
       | Some c \<Rightarrow> ret (Inr c)))"

definition file_dir :: "string \<Rightarrow> string" where
  "file_dir path = butlast (trim_right_if (\<lambda>c. c \<noteq> CHR ''/'') path)"

definition saveCredentials :: "credentials \<Rightarrow> ('y, unit) cli" where
  "saveCredentials c = throwing credentialsPath (\<lambda>path.
     attempt (os_MkdirAll (file_dir path) 448) failing (\<lambda>_.
     attempt (os_WriteFile path (credentials_text c) 384) failing (\<lambda>_. ret (Inr ()))))"

section \<open>Requests\<close>

record client =
  cl_apiURL :: string
  cl_token :: string

definition newClient :: "credentials \<Rightarrow> client" where
  "newClient c = \<lparr>cl_apiURL = trim_right_if (\<lambda>x. x = CHR ''/'') (cr_api_url c), cl_token = cr_token c\<rparr>"

definition client_request :: "client \<Rightarrow> string \<Rightarrow> string \<Rightarrow> json option \<Rightarrow> http_request" where
  "client_request c meth path body =
     \<lparr>hq_method = meth, hq_url = cl_apiURL c @ path,
      hq_authorization = (if cl_token c \<noteq> '''' then ''Bearer '' @ cl_token c else ''''),
      hq_accept = '''',
      hq_content_type = (if body \<noteq> None then ''application/json'' else ''''),
      hq_body = map_option json_text body\<rparr>"

definition send :: "http_request \<Rightarrow> ('y, http_response) cli" where
  "send rq w = (case tt_net w rq (tt_world w) of (res, y) \<Rightarrow>
     (map_sum Message id res, w\<lparr>tt_sent := tt_sent w @ [rq], tt_world := y\<rparr>))"

text \<open>At most 64 KiB of the body are read.\<close>

definition limited :: "string \<Rightarrow> string" where
  "limited s = (if int (length s) \<le> 65536 then s else take 65536 s)"

definition set_error :: "string setter" where
  "set_error = set_struct [(''error'', set_str)]"

definition serverError :: "http_response \<Rightarrow> string" where
  "serverError resp = (let data = limited (hs_body resp); code = '' ('' @ itoa (hs_status resp) @ '')'' in
     case Option.bind (unmarshal_json data) (\<lambda>j. set_error j '''') of
       Some e \<Rightarrow> if e \<noteq> '''' then e @ code else trim_space data @ code
     | None \<Rightarrow> trim_space data @ code)"

definition client_do :: "client \<Rightarrow> string \<Rightarrow> string \<Rightarrow> json option \<Rightarrow> 'a setter option \<Rightarrow> 'a \<Rightarrow> ('y, 'a) cli" where
  "client_do c meth path body out zero = throwing (send (client_request c meth path body)) (\<lambda>resp.
     if hs_status resp < 200 \<or> hs_status resp \<ge> 300
     then failing (meth @ '' '' @ path @ '': '' @ serverError resp)
     else (case out of
         None \<Rightarrow> ret (Inr zero)
       | Some put \<Rightarrow>
           if hs_status resp \<noteq> 204 then
             (case Option.bind (decode_json (hs_body resp)) (\<lambda>j. put j zero) of
                None \<Rightarrow> ret (Inl (BadJson '''')) | Some v \<Rightarrow> ret (Inr v))
           else ret (Inr zero)))"

definition authed :: "('y, client) cli" where
  "authed = throwing loadCredentials (\<lambda>creds. ret (Inr (newClient creds)))"

text \<open>A flag set, parsed: the values and the remaining arguments.\<close>

definition parsed :: "flags \<Rightarrow> string list \<Rightarrow> (flags \<Rightarrow> string list \<Rightarrow> ('y, 'a) cli) \<Rightarrow> ('y, 'a) cli" where
  "parsed fs args k = (case flag_parse fs args of Inl n \<Rightarrow> ret (Inl (Exit n)) | Inr (vs, rest) \<Rightarrow> k vs rest)"

lemma serverError_test:
  "serverError \<lparr>hs_status = 404, hs_body = ''{'' @ [quote_char] @ ''error'' @ [quote_char] @ '':'' @ [quote_char] @
      ''deploy not found'' @ [quote_char] @ ''}'', hs_broken = None\<rparr> = ''deploy not found (404)''"
  "serverError \<lparr>hs_status = 500, hs_body = ''boom'', hs_broken = None\<rparr> = ''boom (500)''"
  by code_simp+

section \<open>Quoting\<close>

text \<open>\<open>strconv.Quote\<close>, behind the verb \<open>%q\<close>, with every rune outside ASCII taken as printable.\<close>

definition quoted_ascii :: "char \<Rightarrow> string" where
  "quoted_ascii c =
     (if c = quote_char \<or> c = back_slash then [back_slash, c]
      else (case map_of [(CHR 0x07, CHR ''a''), (CHR 0x08, CHR ''b''), (CHR 0x0C, CHR ''f''), (CHR 0x0A, CHR ''n''),
          (CHR 0x0D, CHR ''r''), (CHR 0x09, CHR ''t''), (CHR 0x0B, CHR ''v'')] c of
        Some e \<Rightarrow> [back_slash, e]
      | None \<Rightarrow> if byte c < 32 \<or> byte c \<ge> 127
          then [back_slash, CHR ''x'', hex_digit (byte c div 16), hex_digit (byte c mod 16)] else [c]))"

function quoted_runes :: "string \<Rightarrow> string" where
  "quoted_runes s =
     (if s = [] then []
      else if byte (hd s) < 128 \<or> rune_len s = 0 then quoted_ascii (hd s) @ quoted_runes (tl s)
      else take (rune_len s) s @ quoted_runes (drop (rune_len s) s))"
  by pat_completeness auto
termination by (relation "measure length") (auto simp: rune_len_le)

declare quoted_runes.simps [simp del]

definition strconv_quote :: "string \<Rightarrow> string" where
  "strconv_quote s = [quote_char] @ quoted_runes s @ [quote_char]"

end
