(* ===== verification/Cli_Accounts.thy ===== *)
theory Cli_Accounts
  imports Cli_Client
begin

text \<open>
  The commands of \<open>cmd/uran/commands.go\<close> on accounts and orgs: \<open>login\<close>, \<open>token\<close>, \<open>whoami\<close>, \<open>audit\<close>,
  \<open>registry\<close> and \<open>member\<close>. A command takes its arguments and yields its error; a request is sent by
  \<open>client_do\<close>, whose decoder is the struct the source declares.
\<close>

abbreviation call :: "client \<Rightarrow> string \<Rightarrow> string \<Rightarrow> json option \<Rightarrow> ('y, unit) cli" where
  "call c meth path body \<equiv> client_do c meth path body None ()"

abbreviation JMap :: "(string \<times> string) list \<Rightarrow> json option" where
  "JMap ps \<equiv> Some (JObj (map (\<lambda>p. (fst p, JStr (snd p))) ps))"

definition unknown_sub :: "string \<Rightarrow> string \<Rightarrow> ('y, unit) cli" where
  "unknown_sub what sub = failing (''unknown '' @ what @ '' subcommand '' @ strconv_quote sub)"

section \<open>Login\<close>

definition set_token :: "string setter" where
  "set_token = set_struct [(''token'', set_str)]"

definition cmdLogin :: "string list \<Rightarrow> ('y, unit) cli" where
  "cmdLogin args = parsed [(''api'', VStr ''''), (''email'', VStr ''''), (''password'', VStr ''''), (''token'', VStr '''')] args
     (\<lambda>fs _. let api = str_flag fs ''api''; email = str_flag fs ''email''; password = str_flag fs ''password'';
          token = str_flag fs ''token'' in
      if api = '''' then failing ''usage: uran login --api URL [--email E --password P | --token TOKEN]''
      else if token \<noteq> '''' then
        throwing (saveCredentials \<lparr>cr_api_url = api, cr_token = token\<rparr>)
          (\<lambda>_. println (''saved API token for '' @ api))
      else if email = '''' \<or> password = ''''
      then failing ''usage: uran login --api URL --email EMAIL --password PASSWORD''
      else throwing (client_do (newClient \<lparr>cr_api_url = api, cr_token = ''''\<rparr>) ''POST'' ''/v1/auth/login''
          (JMap [(''email'', email), (''password'', password)]) (Some set_token) '''') (\<lambda>resp_token.
        throwing (saveCredentials \<lparr>cr_api_url = api, cr_token = resp_token\<rparr>)
          (\<lambda>_. println (''logged in to '' @ api))))"

section \<open>Tokens\<close>

record apiToken =
  at_id :: int
  at_name :: string
  at_prefix :: string
  at_token :: string

definition no_apiToken :: apiToken where
  "no_apiToken = \<lparr>at_id = 0, at_name = '''', at_prefix = '''', at_token = ''''\<rparr>"

definition set_apiToken :: "apiToken setter" where
  "set_apiToken = set_struct
     [(''id'', into at_id at_id_update set_int), (''name'', into at_name at_name_update set_str),
      (''prefix'', into at_prefix at_prefix_update set_str), (''token'', into at_token at_token_update set_str)]"

definition cmdTokenCreate :: "string list \<Rightarrow> ('y, unit) cli" where
  "cmdTokenCreate args = parsed [(''name'', VStr '''')] args (\<lambda>fs _. let name = str_flag fs ''name'' in
     if name = '''' then failing ''usage: uran token create --name NAME''
     else throwing authed (\<lambda>c.
       throwing (client_do c ''POST'' ''/v1/tokens'' (JMap [(''name'', name)]) (Some set_apiToken) no_apiToken) (\<lambda>t.
       throwing (println (at_token t)) (\<lambda>_.
       complain (Note (''(store this now '' @ [CHR 0xE2, CHR 0x80, CHR 0x94] @ '' it won't be shown again)''))))))"

definition cmdTokenList :: "string list \<Rightarrow> ('y, unit) cli" where
  "cmdTokenList args = throwing authed (\<lambda>c.
     throwing (client_do c ''GET'' ''/v1/tokens'' None (Some (set_list no_apiToken set_apiToken)) []) (\<lambda>tokens.
     if tokens = [] then println ''(no tokens)''
     else print_each (\<lambda>t. itoa (at_id t) @ ''  '' @ pad_right 20 (at_name t) @ '' '' @ at_prefix t @ ''...'' @ newline)
       tokens))"

definition cmdTokenRm :: "string list \<Rightarrow> ('y, unit) cli" where
  "cmdTokenRm args = parsed [(''id'', VInt 0)] args (\<lambda>fs _. let i = int_flag fs ''id'' in
     if i = 0 then failing ''usage: uran token rm --id ID''
     else throwing authed (\<lambda>c.
       throwing (call c ''DELETE'' (''/v1/tokens/'' @ itoa i) None) (\<lambda>_.
       println (''deleted token '' @ itoa i))))"

definition cmdToken :: "string list \<Rightarrow> ('y, unit) cli" where
  "cmdToken args = (case args of [] \<Rightarrow> failing ''usage: uran token <create|list|rm> ...''
     | sub # rest \<Rightarrow>
         if sub = ''create'' then cmdTokenCreate rest
         else if sub = ''list'' then cmdTokenList rest
         else if sub = ''rm'' then cmdTokenRm rest
         else unknown_sub ''token'' sub)"

section \<open>The current user\<close>

text \<open>A value of type \<open>any\<close>: a number must be in the range of \<open>float64\<close>.\<close>

fun any_ok :: "floats \<Rightarrow> json \<Rightarrow> bool" where
  "any_ok fl (JNum n) = (fl_show fl n \<noteq> None)"
| "any_ok fl (JArr js) = list_all (any_ok fl) js"
| "any_ok fl (JObj ms) = list_all (\<lambda>m. any_ok fl (snd m)) ms"
| "any_ok fl _ = True"

fun last_wins :: "(string \<times> 'a) list \<Rightarrow> (string \<times> 'a) list" where
  "last_wins [] = []"
| "last_wins (m # ms) = (if fst m \<in> fst ` set ms then last_wins ms else m # last_wins ms)"

fun show_any :: "floats \<Rightarrow> json \<Rightarrow> string" where
  "show_any fl JNull = ''<nil>''"
| "show_any fl (JBool b) = (if b then ''true'' else ''false'')"
| "show_any fl (JNum n) = (case fl_show fl n of Some s \<Rightarrow> s | None \<Rightarrow> '''')"
| "show_any fl (JStr s) = s"
| "show_any fl (JArr js) = ''['' @ join '' '' (map (show_any fl) js) @ '']''"
| "show_any fl (JObj ms) = ''map['' @ join '' '' (map (\<lambda>p. fst p @ '':'' @ snd p)
     (sort_key fst (last_wins (map (\<lambda>m. (fst m, show_any fl (snd m))) ms)))) @ '']''"

fun set_any_map :: "floats \<Rightarrow> (string \<times> json) list setter" where
  "set_any_map fl (JObj ms) old = (if list_all (\<lambda>m. any_ok fl (snd m)) ms then Some (old @ ms) else None)"
| "set_any_map fl JNull old = Some []"
| "set_any_map fl _ old = None"

definition any_at :: "(string \<times> json) list \<Rightarrow> string \<Rightarrow> json" where
  "any_at ms k = (case map_of (rev ms) k of Some j \<Rightarrow> j | None \<Rightarrow> JNull)"

definition with_floats :: "(floats \<Rightarrow> ('y, 'a) cli) \<Rightarrow> ('y, 'a) cli" where
  "with_floats k w = k (tt_floats w) w"

definition cmdWhoami :: "string list \<Rightarrow> ('y, unit) cli" where
  "cmdWhoami args = throwing authed (\<lambda>c. with_floats (\<lambda>fl.
     throwing (client_do c ''GET'' ''/v1/me'' None (Some (set_any_map fl)) []) (\<lambda>user.
     println (show_any fl (any_at user ''name'') @ '' <'' @ show_any fl (any_at user ''email'') @ ''>''))))"

section \<open>Audit log\<close>

record auditEntry =
  au_method :: string
  au_path :: string
  au_status :: int
  au_createdAt :: string

definition no_auditEntry :: auditEntry where
  "no_auditEntry = \<lparr>au_method = '''', au_path = '''', au_status = 0, au_createdAt = ''''\<rparr>"

definition set_auditEntry :: "auditEntry setter" where
  "set_auditEntry = set_struct
     [(''method'', into au_method au_method_update set_str), (''path'', into au_path au_path_update set_str),
      (''status'', into au_status au_status_update set_int),
      (''created_at'', into au_createdAt au_createdAt_update set_str)]"

definition audit_line :: "auditEntry \<Rightarrow> string" where
  "audit_line e = (let ts = (if length (au_createdAt e) \<ge> 19 then take 19 (au_createdAt e) else au_createdAt e) in
     ts @ ''  '' @ pad_right 6 (au_method e) @ '' '' @ itoa (au_status e) @ ''  '' @ au_path e @ newline)"

definition cmdAudit :: "string list \<Rightarrow> ('y, unit) cli" where
  "cmdAudit args = throwing authed (\<lambda>c.
     throwing (client_do c ''GET'' ''/v1/audit'' None (Some (set_list no_auditEntry set_auditEntry)) []) (\<lambda>entries.
     if entries = [] then println ''(no audited actions)''
     else print_each audit_line entries))"

section \<open>Registry credentials\<close>

record registryCred =
  rv_id :: int
  rv_registry :: string
  rv_username :: string

definition no_registryCred :: registryCred where
  "no_registryCred = \<lparr>rv_id = 0, rv_registry = '''', rv_username = ''''\<rparr>"

definition set_registryCred :: "registryCred setter" where
  "set_registryCred = set_struct
     [(''id'', into rv_id rv_id_update set_int), (''registry'', into rv_registry rv_registry_update set_str),
      (''username'', into rv_username rv_username_update set_str)]"

definition org_path :: "int \<Rightarrow> string \<Rightarrow> string" where
  "org_path org rest = ''/v1/orgs/'' @ itoa org @ rest"

definition cmdRegistryList :: "string list \<Rightarrow> ('y, unit) cli" where
  "cmdRegistryList args = parsed [(''org'', VInt 0)] args (\<lambda>fs _. let org = int_flag fs ''org'' in
     if org = 0 then failing ''usage: uran registry list --org ID''
     else throwing authed (\<lambda>c.
       throwing (client_do c ''GET'' (org_path org ''/registry-credentials'') None
         (Some (set_list no_registryCred set_registryCred)) []) (\<lambda>creds.
       print_each (\<lambda>cr. itoa (rv_id cr) @ ''  '' @ pad_right 30 (rv_registry cr) @ '' '' @ rv_username cr @ newline) creds)))"

definition cmdRegistryAdd :: "string list \<Rightarrow> ('y, unit) cli" where
  "cmdRegistryAdd args = parsed [(''org'', VInt 0), (''registry'', VStr ''''), (''username'', VStr ''''),
      (''password'', VStr '''')] args (\<lambda>fs _. let org = int_flag fs ''org''; registry = str_flag fs ''registry'';
        username = str_flag fs ''username''; password = str_flag fs ''password'' in
     if org = 0 \<or> registry = '''' \<or> username = '''' \<or> password = ''''
     then failing ''usage: uran registry add --org ID --registry HOST --username U --password P''
     else throwing authed (\<lambda>c.
       throwing (call c ''POST'' (org_path org ''/registry-credentials'')
         (JMap [(''password'', password), (''registry'', registry), (''username'', username)])) (\<lambda>_.
       println (''saved credentials for '' @ registry))))"

definition cmdRegistryRm :: "string list \<Rightarrow> ('y, unit) cli" where
  "cmdRegistryRm args = parsed [(''org'', VInt 0), (''id'', VInt 0)] args
     (\<lambda>fs _. let org = int_flag fs ''org''; i = int_flag fs ''id'' in
     if org = 0 \<or> i = 0 then failing ''usage: uran registry rm --org ID --id CRED_ID''
     else throwing authed (\<lambda>c.
       throwing (call c ''DELETE'' (org_path org (''/registry-credentials/'' @ itoa i)) None) (\<lambda>_.
       println (''deleted credential '' @ itoa i))))"

definition cmdRegistry :: "string list \<Rightarrow> ('y, unit) cli" where
  "cmdRegistry args = (case args of [] \<Rightarrow> failing ''usage: uran registry <list|add|rm> --org ID ...''
     | sub # rest \<Rightarrow>
         if sub = ''list'' then cmdRegistryList rest
         else if sub = ''add'' then cmdRegistryAdd rest
         else if sub = ''rm'' then cmdRegistryRm rest
         else unknown_sub ''registry'' sub)"

section \<open>Members\<close>

record member =
  mb_userID :: int
  mb_email :: string
  mb_role :: string

definition no_member :: member where
  "no_member = \<lparr>mb_userID = 0, mb_email = '''', mb_role = ''''\<rparr>"

definition set_member :: "member setter" where
  "set_member = set_struct
     [(''user_id'', into mb_userID mb_userID_update set_int), (''email'', into mb_email mb_email_update set_str),
      (''role'', into mb_role mb_role_update set_str)]"

definition cmdMemberList :: "string list \<Rightarrow> ('y, unit) cli" where
  "cmdMemberList args = parsed [(''org'', VInt 0)] args (\<lambda>fs _. let org = int_flag fs ''org'' in
     if org = 0 then failing ''usage: uran member list --org ID''
     else throwing authed (\<lambda>c.
       throwing (client_do c ''GET'' (org_path org ''/members'') None (Some (set_list no_member set_member)) []) (\<lambda>members.
       print_each (\<lambda>m. itoa (mb_userID m) @ ''  '' @ pad_right 28 (mb_email m) @ '' '' @ mb_role m @ newline) members)))"

definition cmdMemberAdd :: "string list \<Rightarrow> ('y, unit) cli" where
  "cmdMemberAdd args = parsed [(''org'', VInt 0), (''email'', VStr ''''), (''role'', VStr ''member'')] args
     (\<lambda>fs _. let org = int_flag fs ''org''; email = str_flag fs ''email''; role = str_flag fs ''role'' in
     if org = 0 \<or> email = '''' then failing ''usage: uran member add --org ID --email EMAIL [--role member]''
     else throwing authed (\<lambda>c.
       throwing (call c ''POST'' (org_path org ''/members'') (JMap [(''email'', email), (''role'', role)])) (\<lambda>_.
       println (''added '' @ email @ '' as '' @ role))))"

definition cmdMemberSetRole :: "string list \<Rightarrow> ('y, unit) cli" where
  "cmdMemberSetRole args = parsed [(''org'', VInt 0), (''user'', VInt 0), (''role'', VStr '''')] args
     (\<lambda>fs _. let org = int_flag fs ''org''; user = int_flag fs ''user''; role = str_flag fs ''role'' in
     if org = 0 \<or> user = 0 \<or> role = '''' then failing ''usage: uran member set-role --org ID --user ID --role ROLE''
     else throwing authed (\<lambda>c.
       throwing (call c ''PATCH'' (org_path org (''/members/'' @ itoa user)) (JMap [(''role'', role)])) (\<lambda>_.
       println (''set user '' @ itoa user @ '' to '' @ role))))"

definition cmdMemberRm :: "string list \<Rightarrow> ('y, unit) cli" where
  "cmdMemberRm args = parsed [(''org'', VInt 0), (''user'', VInt 0)] args
     (\<lambda>fs _. let org = int_flag fs ''org''; user = int_flag fs ''user'' in
     if org = 0 \<or> user = 0 then failing ''usage: uran member rm --org ID --user ID''
     else throwing authed (\<lambda>c.
       throwing (call c ''DELETE'' (org_path org (''/members/'' @ itoa user)) None) (\<lambda>_.
       println (''removed user '' @ itoa user))))"

definition cmdMember :: "string list \<Rightarrow> ('y, unit) cli" where
  "cmdMember args = (case args of [] \<Rightarrow> failing ''usage: uran member <list|add|set-role|rm> --org ID ...''
     | sub # rest \<Rightarrow>
         if sub = ''list'' then cmdMemberList rest
         else if sub = ''add'' then cmdMemberAdd rest
         else if sub = ''set-role'' then cmdMemberSetRole rest
         else if sub = ''rm'' then cmdMemberRm rest
         else unknown_sub ''member'' sub)"

end
