(* ===== verification/Cli_Databases.thy ===== *)
theory Cli_Databases
  imports Cli_Accounts
begin

text \<open>The subcommands of \<open>uran db\<close> (\<open>cmd/uran/commands.go\<close>).\<close>

record database_item =
  di_id :: int
  di_name :: string
  di_slug :: string
  di_engine :: string
  di_status :: string

definition no_database :: database_item where
  "no_database = \<lparr>di_id = 0, di_name = '''', di_slug = '''', di_engine = '''', di_status = ''''\<rparr>"

definition set_database :: "database_item setter" where
  "set_database = set_struct
     [(''id'', into di_id di_id_update set_int), (''name'', into di_name di_name_update set_str),
      (''slug'', into di_slug di_slug_update set_str), (''engine'', into di_engine di_engine_update set_str),
      (''status'', into di_status di_status_update set_str)]"

definition database_path :: "int \<Rightarrow> string \<Rightarrow> string" where
  "database_path i rest = ''/v1/databases/'' @ itoa i @ rest"

definition en_dash :: string where "en_dash = [CHR 0xE2, CHR 0x80, CHR 0x93]"
definition long_dash :: string where "long_dash = [CHR 0xE2, CHR 0x80, CHR 0x94]"

definition cmdDBCreate :: "string list \<Rightarrow> ('y, unit) cli" where
  "cmdDBCreate args = parsed
     [(''project'', VInt 0), (''engine'', VStr ''postgres''), (''tier'', VStr ''standard''), (''instances'', VInt 1),
      (''min'', VInt 1), (''max'', VInt 3), (''size'', VStr ''small''), (''storage'', VStr ''1Gi''),
      (''pooling'', VBool False), (''backups'', VBool False)] args
     (\<lambda>fs rest. let project = int_flag fs ''project''; engine = str_flag fs ''engine''; tier = str_flag fs ''tier'';
        instances = int_flag fs ''instances''; least = int_flag fs ''min''; most = int_flag fs ''max'' in
     if project = 0 \<or> length rest \<noteq> 1
     then failing ''usage: uran db create --project ID [--engine E] [--tier standard|autoscale] [--instances N | --min N --max N] [--size S --storage G] [--pooling] [--backups] NAME''
     else throwing authed (\<lambda>c.
       throwing (client_do c ''POST'' (''/v1/projects/'' @ itoa project @ ''/databases'')
         (Some (JObj [(''backups'', JBool (bool_flag fs ''backups'')), (''engine'', JStr engine),
            (''instances'', JInt instances), (''max_instances'', JInt most), (''min_instances'', JInt least),
            (''name'', JStr (hd rest)), (''pooling'', JBool (bool_flag fs ''pooling'')),
            (''size'', JStr (str_flag fs ''size'')), (''storage'', JStr (str_flag fs ''storage'')),
            (''tier'', JStr tier)]))
         (Some set_database) no_database) (\<lambda>db.
       if tier = ''autoscale''
       then println (''creating autoscale '' @ engine @ '' database '' @ itoa (di_id db) @ '' ('' @ itoa least @ en_dash @
         itoa most @ '' nodes) '' @ long_dash @ '' check: uran db connection --database '' @ itoa (di_id db))
       else println (''creating '' @ engine @ '' database '' @ itoa (di_id db) @ '' ('' @ itoa instances @ ''x '' @
         di_status db @ '') '' @ long_dash @ '' check: uran db connection --database '' @ itoa (di_id db)))))"

definition cmdDBScale :: "string list \<Rightarrow> ('y, unit) cli" where
  "cmdDBScale args = parsed
     [(''database'', VInt 0), (''instances'', VInt 0), (''size'', VStr ''''), (''storage'', VStr '''')] args
     (\<lambda>fs _. let i = int_flag fs ''database'' in
     if i = 0 then failing ''usage: uran db scale --database ID [--instances N --size S --storage G]''
     else throwing authed (\<lambda>c.
       throwing (call c ''POST'' (database_path i ''/scale'')
         (Some (JObj [(''instances'', JInt (int_flag fs ''instances'')), (''size'', JStr (str_flag fs ''size'')),
            (''storage'', JStr (str_flag fs ''storage''))]))) (\<lambda>_.
       println (''scaling database '' @ itoa i))))"

definition cmdDBList :: "string list \<Rightarrow> ('y, unit) cli" where
  "cmdDBList args = parsed [(''project'', VInt 0)] args (\<lambda>fs _. let project = int_flag fs ''project'' in
     if project = 0 then failing ''usage: uran db list --project ID''
     else throwing authed (\<lambda>c.
       throwing (client_do c ''GET'' (''/v1/projects/'' @ itoa project @ ''/databases'') None
         (Some (set_list no_database set_database)) []) (\<lambda>dbs.
       if dbs = [] then println ''(no databases)''
       else print_each (\<lambda>d. itoa (di_id d) @ ''  '' @ pad_right 20 (di_name d) @ '' '' @ pad_right 10 (di_engine d) @ '' '' @
         di_status d @ newline) dbs)))"

record connection =
  cn_uri :: string
  cn_read_uri :: string
  cn_pooled_uri :: string

definition no_connection :: connection where
  "no_connection = \<lparr>cn_uri = '''', cn_read_uri = '''', cn_pooled_uri = ''''\<rparr>"

definition set_connection :: "connection setter" where
  "set_connection = set_struct
     [(''uri'', into cn_uri cn_uri_update set_str), (''read_uri'', into cn_read_uri cn_read_uri_update set_str),
      (''pooled_uri'', into cn_pooled_uri cn_pooled_uri_update set_str)]"

definition cmdDBConnection :: "string list \<Rightarrow> ('y, unit) cli" where
  "cmdDBConnection args = parsed [(''database'', VInt 0)] args (\<lambda>fs _. let i = int_flag fs ''database'' in
     if i = 0 then failing ''usage: uran db connection --database ID''
     else throwing authed (\<lambda>c.
       throwing (client_do c ''GET'' (database_path i ''/connection'') None (Some set_connection) no_connection) (\<lambda>resp.
       throwing (println (cn_uri resp)) (\<lambda>_.
       throwing (if cn_read_uri resp \<noteq> '''' then println (''read:   '' @ cn_read_uri resp) else ret (Inr ())) (\<lambda>_.
       if cn_pooled_uri resp \<noteq> '''' then println (''pooled: '' @ cn_pooled_uri resp) else ret (Inr ()))))))"

definition cmdDBBackup :: "string list \<Rightarrow> ('y, unit) cli" where
  "cmdDBBackup args = parsed [(''database'', VInt 0)] args (\<lambda>fs _. let i = int_flag fs ''database'' in
     if i = 0 then failing ''usage: uran db backup --database ID''
     else throwing authed (\<lambda>c.
       throwing (call c ''POST'' (database_path i ''/backups'') None) (\<lambda>_.
       println ''backup requested'')))"

record backup_item =
  bk_name :: string
  bk_phase :: string
  bk_stopped_at :: string

definition no_backup :: backup_item where
  "no_backup = \<lparr>bk_name = '''', bk_phase = '''', bk_stopped_at = ''''\<rparr>"

definition set_backup :: "backup_item setter" where
  "set_backup = set_struct
     [(''name'', into bk_name bk_name_update set_str), (''phase'', into bk_phase bk_phase_update set_str),
      (''stopped_at'', into bk_stopped_at bk_stopped_at_update set_str)]"

definition cmdDBBackups :: "string list \<Rightarrow> ('y, unit) cli" where
  "cmdDBBackups args = parsed [(''database'', VInt 0)] args (\<lambda>fs _. let i = int_flag fs ''database'' in
     if i = 0 then failing ''usage: uran db backups --database ID''
     else throwing authed (\<lambda>c.
       throwing (client_do c ''GET'' (database_path i ''/backups'') None (Some (set_list no_backup set_backup)) []) (\<lambda>backups.
       if backups = [] then println ''(no backups)''
       else print_each (\<lambda>b. pad_right 40 (bk_name b) @ '' '' @ pad_right 12 (bk_phase b) @ '' '' @ bk_stopped_at b @ newline)
         backups)))"

definition cmdDBRm :: "string list \<Rightarrow> ('y, unit) cli" where
  "cmdDBRm args = parsed [(''database'', VInt 0)] args (\<lambda>fs _. let i = int_flag fs ''database'' in
     if i = 0 then failing ''usage: uran db rm --database ID''
     else throwing authed (\<lambda>c.
       throwing (call c ''DELETE'' (database_path i '''') None) (\<lambda>_.
       println (''deleted database '' @ itoa i))))"

definition cmdDB :: "string list \<Rightarrow> ('y, unit) cli" where
  "cmdDB args = (case args of [] \<Rightarrow> failing ''usage: uran db <create|list|connection|rm> ...''
     | sub # rest \<Rightarrow>
         if sub = ''create'' then cmdDBCreate rest
         else if sub = ''list'' then cmdDBList rest
         else if sub = ''connection'' then cmdDBConnection rest
         else if sub = ''scale'' then cmdDBScale rest
         else if sub = ''backup'' then cmdDBBackup rest
         else if sub = ''backups'' then cmdDBBackups rest
         else if sub = ''rm'' then cmdDBRm rest
         else unknown_sub ''db'' sub)"

end
