(* ===== verification/Cli_Services.thy ===== *)
theory Cli_Services
  imports Cli_Databases
begin

text \<open>
  The commands on services and deploys: \<open>deploy\<close>, \<open>status\<close>, \<open>rollback\<close>, \<open>domain\<close>, \<open>metrics\<close>, \<open>info\<close>,
  \<open>usage\<close>, \<open>scale\<close>, \<open>suspend\<close>, \<open>resume\<close>, \<open>health\<close>, \<open>disk\<close>, \<open>env\<close> (\<open>cmd/uran/commands.go\<close>), the streams of \<open>logs\<close>
  (\<open>logs.go\<close>), and the dispatch of \<open>main.go\<close>.
\<close>

definition service_path :: "int \<Rightarrow> string \<Rightarrow> string" where
  "service_path i rest = ''/v1/services/'' @ itoa i @ rest"

definition deploy_path :: "int \<Rightarrow> string \<Rightarrow> string" where
  "deploy_path i rest = ''/v1/deploys/'' @ itoa i @ rest"

section \<open>Deploys\<close>

record deployView =
  vw_id :: int
  vw_serviceID :: int
  vw_status :: string
  vw_commitSHA :: string
  vw_image :: string

definition no_deployView :: deployView where
  "no_deployView = \<lparr>vw_id = 0, vw_serviceID = 0, vw_status = '''', vw_commitSHA = '''', vw_image = ''''\<rparr>"

definition set_deployView :: "deployView setter" where
  "set_deployView = set_struct
     [(''id'', into vw_id vw_id_update set_int), (''service_id'', into vw_serviceID vw_serviceID_update set_int),
      (''status'', into vw_status vw_status_update set_str),
      (''commit_sha'', into vw_commitSHA vw_commitSHA_update set_str),
      (''image'', into vw_image vw_image_update set_str)]"

definition cmdDeploy :: "string list \<Rightarrow> ('y, unit) cli" where
  "cmdDeploy args = parsed [(''service'', VInt 0), (''commit'', VStr ''''), (''image'', VStr '''')] args
     (\<lambda>fs _. let service = int_flag fs ''service''; image = str_flag fs ''image'' in
     if service = 0 then failing ''usage: uran deploy --service ID [--commit SHA | --image REF]''
     else throwing authed (\<lambda>c.
       if image \<noteq> '''' then
         throwing (client_do c ''POST'' (service_path service ''/image-deploys'') (JMap [(''image'', image)])
           (Some set_deployView) no_deployView) (\<lambda>d.
         println (''deploying image '' @ image @ '' as deploy '' @ itoa (vw_id d)))
       else
         throwing (client_do c ''POST'' (service_path service ''/deploys'')
           (JMap [(''commit_sha'', str_flag fs ''commit'')]) (Some set_deployView) no_deployView) (\<lambda>d.
         throwing (println (''queued deploy '' @ itoa (vw_id d) @ '' for service '' @ itoa (vw_serviceID d))) (\<lambda>_.
         println (''stream logs: uran logs --deploy '' @ itoa (vw_id d))))))"

record service_state =
  sx_serviceID :: int
  sx_name :: string
  sx_type :: string
  sx_suspended :: bool
  sx_status :: string

definition no_state :: service_state where
  "no_state = \<lparr>sx_serviceID = 0, sx_name = '''', sx_type = '''', sx_suspended = False, sx_status = ''''\<rparr>"

definition set_state :: "service_state setter" where
  "set_state = set_struct
     [(''service_id'', into sx_serviceID sx_serviceID_update set_int), (''name'', into sx_name sx_name_update set_str),
      (''type'', into sx_type sx_type_update set_str), (''suspended'', into sx_suspended sx_suspended_update set_bool),
      (''status'', into sx_status sx_status_update set_str)]"

definition state_line :: "service_state \<Rightarrow> string" where
  "state_line st = pad_right 4 (itoa (sx_serviceID st)) @ '' '' @ pad_right 22 (sx_name st) @ '' '' @
     pad_right 8 (sx_type st) @ '' '' @ (if sx_suspended st then ''suspended'' else sx_status st) @ newline"

definition cmdServiceStatus :: "int \<Rightarrow> ('y, unit) cli" where
  "cmdServiceStatus project = throwing authed (\<lambda>c.
     throwing (client_do c ''GET'' (''/v1/projects/'' @ itoa project @ ''/status'') None
       (Some (set_list no_state set_state)) []) (print_each state_line))"

definition cmdStatus :: "string list \<Rightarrow> ('y, unit) cli" where
  "cmdStatus args = parsed [(''deploy'', VInt 0), (''project'', VInt 0)] args
     (\<lambda>fs _. let deployID = int_flag fs ''deploy''; project = int_flag fs ''project'' in
     if project \<noteq> 0 then cmdServiceStatus project
     else if deployID = 0 then failing ''usage: uran status --deploy ID | --project ID''
     else throwing authed (\<lambda>c.
       throwing (client_do c ''GET'' (deploy_path deployID '''') None (Some set_deployView) no_deployView) (\<lambda>d.
       println (''deploy '' @ itoa (vw_id d) @ ''  status='' @ vw_status d @ ''  image='' @ vw_image d))))"

definition cmdRollback :: "string list \<Rightarrow> ('y, unit) cli" where
  "cmdRollback args = parsed [(''deploy'', VInt 0)] args (\<lambda>fs _. let deployID = int_flag fs ''deploy'' in
     if deployID = 0 then failing ''usage: uran rollback --deploy ID''
     else throwing authed (\<lambda>c.
       throwing (client_do c ''POST'' (deploy_path deployID ''/rollback'') None (Some set_deployView) no_deployView) (\<lambda>d.
       println (''rollback created deploy '' @ itoa (vw_id d) @ '' (image '' @ vw_image d @ '')''))))"

section \<open>Domains\<close>

record domain_item =
  dm_id :: int
  dm_domain :: string

definition no_domain :: domain_item where
  "no_domain = \<lparr>dm_id = 0, dm_domain = ''''\<rparr>"

definition set_domain :: "domain_item setter" where
  "set_domain = set_struct
     [(''id'', into dm_id dm_id_update set_int), (''domain'', into dm_domain dm_domain_update set_str)]"

definition cmdDomainList :: "string list \<Rightarrow> ('y, unit) cli" where
  "cmdDomainList args = parsed [(''service'', VInt 0)] args (\<lambda>fs _. let service = int_flag fs ''service'' in
     if service = 0 then failing ''usage: uran domain list --service ID''
     else throwing authed (\<lambda>c.
       throwing (client_do c ''GET'' (service_path service ''/domains'') None (Some (set_list no_domain set_domain)) [])
       (\<lambda>domains. if domains = [] then println ''(no custom domains)''
         else print_each (\<lambda>d. dm_domain d @ newline) domains)))"

definition cmdDomainAdd :: "string list \<Rightarrow> ('y, unit) cli" where
  "cmdDomainAdd args = parsed [(''service'', VInt 0)] args (\<lambda>fs rest. let service = int_flag fs ''service'' in
     if service = 0 \<or> length rest \<noteq> 1 then failing ''usage: uran domain add --service ID DOMAIN''
     else throwing authed (\<lambda>c.
       throwing (call c ''POST'' (service_path service ''/domains'') (JMap [(''domain'', hd rest)])) (\<lambda>_.
       println (''added '' @ hd rest @ '' (apply with a deploy or rollback)''))))"

definition cmdDomainRm :: "string list \<Rightarrow> ('y, unit) cli" where
  "cmdDomainRm args = parsed [(''service'', VInt 0)] args (\<lambda>fs rest. let service = int_flag fs ''service'' in
     if service = 0 \<or> length rest \<noteq> 1 then failing ''usage: uran domain rm --service ID DOMAIN''
     else throwing authed (\<lambda>c.
       throwing (call c ''DELETE'' (service_path service (''/domains/'' @ hd rest)) None) (\<lambda>_.
       println (''removed '' @ hd rest))))"

definition cmdDomain :: "string list \<Rightarrow> ('y, unit) cli" where
  "cmdDomain args = (case args of [] \<Rightarrow> failing ''usage: uran domain <list|add|rm> --service ID ...''
     | sub # rest \<Rightarrow>
         if sub = ''list'' then cmdDomainList rest
         else if sub = ''add'' then cmdDomainAdd rest
         else if sub = ''rm'' then cmdDomainRm rest
         else unknown_sub ''domain'' sub)"

section \<open>Observation\<close>

record podMetric =
  pd_pod :: string
  pd_cpu :: int
  pd_memory :: int

definition no_metric :: podMetric where
  "no_metric = \<lparr>pd_pod = '''', pd_cpu = 0, pd_memory = 0\<rparr>"

definition set_metric :: "podMetric setter" where
  "set_metric = set_struct
     [(''pod'', into pd_pod pd_pod_update set_str), (''cpu_millicores'', into pd_cpu pd_cpu_update set_int),
      (''memory_bytes'', into pd_memory pd_memory_update set_int)]"

definition mebibytes :: "int \<Rightarrow> int" where
  "mebibytes i = sgn i * (\<bar>i\<bar> div (1024 * 1024))"

definition metric_line :: "podMetric \<Rightarrow> string" where
  "metric_line m = pad_right 40 (pd_pod m) @ '' '' @ pad_left 5 (itoa (pd_cpu m)) @ ''m CPU  '' @
     pad_left 6 (itoa (mebibytes (pd_memory m))) @ ''Mi'' @ newline"

definition cmdMetrics :: "string list \<Rightarrow> ('y, unit) cli" where
  "cmdMetrics args = parsed [(''service'', VInt 0)] args (\<lambda>fs _. let service = int_flag fs ''service'' in
     if service = 0 then failing ''usage: uran metrics --service ID''
     else throwing authed (\<lambda>c.
       throwing (client_do c ''GET'' (service_path service ''/metrics'') None (Some (set_list no_metric set_metric)) [])
       (\<lambda>metrics. if metrics = [] then println ''(no metrics yet)'' else print_each metric_line metrics)))"

record service_info =
  si_name :: string
  si_type :: string
  si_internalHost :: string

definition no_info :: service_info where
  "no_info = \<lparr>si_name = '''', si_type = '''', si_internalHost = ''''\<rparr>"

definition set_info :: "service_info setter" where
  "set_info = set_struct
     [(''name'', into si_name si_name_update set_str), (''type'', into si_type si_type_update set_str),
      (''internal_host'', into si_internalHost si_internalHost_update set_str)]"

definition cmdInfo :: "string list \<Rightarrow> ('y, unit) cli" where
  "cmdInfo args = parsed [(''service'', VInt 0)] args (\<lambda>fs _. let service = int_flag fs ''service'' in
     if service = 0 then failing ''usage: uran info --service ID''
     else throwing authed (\<lambda>c.
       throwing (client_do c ''GET'' (service_path service '''') None (Some set_info) no_info) (\<lambda>d.
       throwing (println (si_name d @ '' ('' @ si_type d @ '')'')) (\<lambda>_.
       if si_internalHost d \<noteq> ''''
       then println (''internal host: '' @ si_internalHost d @ ''  (reachable from other services in the project)'')
       else ret (Inr ())))))"

text \<open>The floating-point field keeps its literal; its zero prints as that of \<open>0\<close>.\<close>

record usage_rollup =
  ur_samples :: int
  ur_window :: int
  ur_cpu :: string
  ur_memory :: int

definition no_usage :: usage_rollup where
  "no_usage = \<lparr>ur_samples = 0, ur_window = 0, ur_cpu = ''0'', ur_memory = 0\<rparr>"

fun set_float :: "floats \<Rightarrow> string setter" where
  "set_float fl (JNum n) old = (if fl_tenth fl n = None then None else Some n)"
| "set_float fl JNull old = Some old"
| "set_float fl _ old = None"

definition set_usage :: "floats \<Rightarrow> usage_rollup setter" where
  "set_usage fl = set_struct
     [(''sample_count'', into ur_samples ur_samples_update set_int),
      (''window_seconds'', into ur_window ur_window_update set_int),
      (''cpu_core_seconds'', into ur_cpu ur_cpu_update (set_float fl)),
      (''avg_memory_mb'', into ur_memory ur_memory_update set_int)]"

definition show_tenth :: "floats \<Rightarrow> string \<Rightarrow> string" where
  "show_tenth fl n = (case fl_tenth fl n of Some s \<Rightarrow> s | None \<Rightarrow> '''')"

definition cmdUsage :: "string list \<Rightarrow> ('y, unit) cli" where
  "cmdUsage args = parsed [(''service'', VInt 0)] args (\<lambda>fs _. let service = int_flag fs ''service'' in
     if service = 0 then failing ''usage: uran usage --service ID''
     else throwing authed (\<lambda>c. with_floats (\<lambda>fl.
       throwing (client_do c ''GET'' (service_path service ''/usage'') None (Some (set_usage fl)) no_usage) (\<lambda>u.
       print (''window: '' @ itoa (ur_window u) @ ''s ('' @ itoa (ur_samples u) @ '' samples)'' @ newline @
         ''CPU: '' @ show_tenth fl (ur_cpu u) @ '' core-seconds'' @ newline @
         ''memory: '' @ itoa (ur_memory u) @ '' MB avg'' @ newline)))))"

section \<open>Settings\<close>

definition times_sign :: string where "times_sign = [CHR 0xC3, CHR 0x97]"

definition cmdScale :: "string list \<Rightarrow> ('y, unit) cli" where
  "cmdScale args = parsed [(''service'', VInt 0), (''replicas'', VInt 1), (''size'', VStr ''small''), (''min'', VInt 0),
      (''max'', VInt 0)] args (\<lambda>fs _. let service = int_flag fs ''service''; replicas = int_flag fs ''replicas'';
        size = str_flag fs ''size''; least = int_flag fs ''min''; most = int_flag fs ''max'' in
     if service = 0
     then failing ''usage: uran scale --service ID [--replicas N] [--size small|medium|large|xlarge|2xlarge] [--min N --max N]''
     else throwing authed (\<lambda>c.
       throwing (call c ''POST'' (service_path service ''/scale'')
         (Some (JObj [(''instance_size'', JStr size), (''max_replicas'', JInt most), (''min_replicas'', JInt least),
            (''replicas'', JInt replicas)]))) (\<lambda>_.
       if most > 0
       then println (''autoscaling '' @ itoa least @ en_dash @ itoa most @ '' ('' @ size @ ''); applying'')
       else println (''scaled to '' @ itoa replicas @ '' '' @ times_sign @ '' '' @ size @ ''; applying''))))"

definition suspendResume :: "string list \<Rightarrow> string \<Rightarrow> ('y, unit) cli" where
  "suspendResume args action = parsed [(''service'', VInt 0)] args (\<lambda>fs _. let service = int_flag fs ''service'' in
     if service = 0 then failing (''usage: uran '' @ action @ '' --service ID'')
     else throwing authed (\<lambda>c.
       throwing (call c ''POST'' (service_path service (''/'' @ action)) None) (\<lambda>_.
       println (action @ '' requested for service '' @ itoa service))))"

definition cmdSuspend :: "string list \<Rightarrow> ('y, unit) cli" where
  "cmdSuspend args = suspendResume args ''suspend''"

definition cmdResume :: "string list \<Rightarrow> ('y, unit) cli" where
  "cmdResume args = suspendResume args ''resume''"

definition cmdHealth :: "string list \<Rightarrow> ('y, unit) cli" where
  "cmdHealth args = parsed [(''service'', VInt 0), (''path'', VStr '''')] args
     (\<lambda>fs _. let service = int_flag fs ''service''; path = str_flag fs ''path'' in
     if service = 0 then failing ''usage: uran health --service ID --path /healthz''
     else throwing authed (\<lambda>c.
       throwing (call c ''POST'' (service_path service ''/health'') (JMap [(''path'', path)])) (\<lambda>_.
       println (''health check set to '' @ strconv_quote path @ ''; applying''))))"

definition cmdDiskAttach :: "string list \<Rightarrow> ('y, unit) cli" where
  "cmdDiskAttach args = parsed [(''service'', VInt 0), (''size'', VStr ''''), (''path'', VStr '''')] args
     (\<lambda>fs _. let service = int_flag fs ''service''; size = str_flag fs ''size''; path = str_flag fs ''path'' in
     if service = 0 \<or> size = '''' \<or> path = ''''
     then failing ''usage: uran disk attach --service ID --size 1Gi --path /data''
     else throwing authed (\<lambda>c.
       throwing (call c ''POST'' (service_path service ''/disk'') (JMap [(''path'', path), (''size'', size)])) (\<lambda>_.
       println (''attached '' @ size @ '' disk at '' @ path @ '' (single replica); applying''))))"

definition cmdDiskDetach :: "string list \<Rightarrow> ('y, unit) cli" where
  "cmdDiskDetach args = parsed [(''service'', VInt 0)] args (\<lambda>fs _. let service = int_flag fs ''service'' in
     if service = 0 then failing ''usage: uran disk detach --service ID''
     else throwing authed (\<lambda>c.
       throwing (call c ''DELETE'' (service_path service ''/disk'') None) (\<lambda>_.
       println ''disk detached; applying'')))"

definition cmdDisk :: "string list \<Rightarrow> ('y, unit) cli" where
  "cmdDisk args = (case args of [] \<Rightarrow> failing ''usage: uran disk <attach|detach> --service ID ...''
     | sub # rest \<Rightarrow>
         if sub = ''attach'' then cmdDiskAttach rest
         else if sub = ''detach'' then cmdDiskDetach rest
         else unknown_sub ''disk'' sub)"

section \<open>Environment variables\<close>

record envVar =
  vr_key :: string
  vr_value :: string
  vr_secret :: bool

definition no_envVar :: envVar where
  "no_envVar = \<lparr>vr_key = '''', vr_value = '''', vr_secret = False\<rparr>"

definition set_envVar :: "envVar setter" where
  "set_envVar = set_struct
     [(''key'', into vr_key vr_key_update set_str), (''value'', into vr_value vr_value_update set_str),
      (''secret'', into vr_secret vr_secret_update set_bool)]"

definition env_line :: "envVar \<Rightarrow> string" where
  "env_line v = vr_key v @ ''='' @ (if vr_secret v then ''********'' else vr_value v) @ newline"

definition cmdEnvList :: "string list \<Rightarrow> ('y, unit) cli" where
  "cmdEnvList args = parsed [(''service'', VInt 0)] args (\<lambda>fs _. let service = int_flag fs ''service'' in
     if service = 0 then failing ''usage: uran env list --service ID''
     else throwing authed (\<lambda>c.
       throwing (client_do c ''GET'' (service_path service ''/env'') None (Some (set_list no_envVar set_envVar)) [])
       (\<lambda>vars. if vars = [] then println ''(no env vars)'' else print_each env_line vars)))"

definition cmdEnvSet :: "string list \<Rightarrow> ('y, unit) cli" where
  "cmdEnvSet args = parsed [(''service'', VInt 0), (''secret'', VBool False), (''build'', VBool False)] args
     (\<lambda>fs rest. let service = int_flag fs ''service'' in
     if service = 0 \<or> length rest \<noteq> 1 \<or> \<not> contains (hd rest) ''=''
     then failing ''usage: uran env set --service ID [--secret] [--build] KEY=VALUE''
     else (case (case cut CHR ''='' (hd rest) of Some kv \<Rightarrow> kv | None \<Rightarrow> (hd rest, '''')) of (key, val) \<Rightarrow>
       throwing authed (\<lambda>c.
       throwing (call c ''POST'' (service_path service ''/env'')
         (Some (JObj [(''build_time'', JBool (bool_flag fs ''build'')), (''key'', JStr key),
            (''secret'', JBool (bool_flag fs ''secret'')), (''value'', JStr val)]))) (\<lambda>_.
       println (''set '' @ key @ '' (apply with: uran rollback --deploy <last-live-deploy>)'')))))"

definition cmdEnvRm :: "string list \<Rightarrow> ('y, unit) cli" where
  "cmdEnvRm args = parsed [(''service'', VInt 0)] args (\<lambda>fs rest. let service = int_flag fs ''service'' in
     if service = 0 \<or> length rest \<noteq> 1 then failing ''usage: uran env rm --service ID KEY''
     else throwing authed (\<lambda>c.
       throwing (call c ''DELETE'' (service_path service (''/env/'' @ hd rest)) None) (\<lambda>_.
       println (''removed '' @ hd rest))))"

definition cmdEnv :: "string list \<Rightarrow> ('y, unit) cli" where
  "cmdEnv args = (case args of [] \<Rightarrow> failing ''usage: uran env <list|set|rm> --service ID ...''
     | sub # rest \<Rightarrow>
         if sub = ''list'' then cmdEnvList rest
         else if sub = ''set'' then cmdEnvSet rest
         else if sub = ''rm'' then cmdEnvRm rest
         else unknown_sub ''env'' sub)"

section \<open>Logs\<close>

text \<open>
  The lines of \<open>bufio.Scanner\<close> with a buffer of 1 MiB: ended by a newline, a trailing carriage return
  dropped, the last one only if it is not empty. A line that fills the buffer ends the scan with an
  error, after the lines before it.
\<close>

definition drop_return :: "string \<Rightarrow> string" where
  "drop_return s = (if s \<noteq> [] \<and> last s = CHR 0x0D then butlast s else s)"

function scan_lines :: "string \<Rightarrow> string list \<times> bool" where
  "scan_lines s =
     (if s = [] then ([], True)
      else (let line = takeWhile (\<lambda>c. c \<noteq> CHR 0x0A) s; rest = drop (Suc (length line)) s in
        if int (length line) \<ge> 1048576 then ([], False)
        else (case scan_lines rest of (ls, ok) \<Rightarrow> (drop_return line # ls, ok))))"
  by pat_completeness auto
termination by (relation "measure length") auto

declare scan_lines.simps [simp del]

fun data_lines :: "string list \<Rightarrow> string list" where
  "data_lines [] = []"
| "data_lines (l # ls) = (case cut_prefix l ''data: '' of Some after \<Rightarrow> after # data_lines ls | None \<Rightarrow> data_lines ls)"

definition broken_error :: "http_response \<Rightarrow> ('y, unit) cli" where
  "broken_error resp = (case hs_broken resp of None \<Rightarrow> ret (Inr ()) | Some e \<Rightarrow> failing e)"

definition streamBuildLogs :: "int \<Rightarrow> ('y, unit) cli" where
  "streamBuildLogs deployID = throwing authed (\<lambda>c.
     throwing (send ((client_request c ''GET'' (deploy_path deployID ''/logs'') None)\<lparr>hq_accept := ''text/event-stream''\<rparr>)) (\<lambda>resp.
     if hs_status resp \<noteq> 200 then failing (''logs: '' @ serverError resp)
     else (case scan_lines (hs_body resp) of (ls, ok) \<Rightarrow>
       throwing (print_each (\<lambda>l. l @ newline) (data_lines ls)) (\<lambda>_.
       if ok then broken_error resp else failing ''bufio.Scanner: token too long''))))"

definition streamRuntimeLogs :: "int \<Rightarrow> ('y, unit) cli" where
  "streamRuntimeLogs serviceID = throwing authed (\<lambda>c.
     throwing (send (client_request c ''GET'' (service_path serviceID ''/runtime-logs'') None)) (\<lambda>resp.
     if hs_status resp \<noteq> 200 then failing (''runtime logs: '' @ serverError resp)
     else throwing (print (hs_body resp)) (\<lambda>_. broken_error resp)))"

definition cmdLogs :: "string list \<Rightarrow> ('y, unit) cli" where
  "cmdLogs args = parsed [(''deploy'', VInt 0), (''service'', VInt 0)] args
     (\<lambda>fs _. let deployID = int_flag fs ''deploy''; serviceID = int_flag fs ''service'' in
     if deployID = 0 \<and> serviceID = 0 then failing ''usage: uran logs --deploy ID | --service ID''
     else if serviceID \<noteq> 0 then streamRuntimeLogs serviceID
     else streamBuildLogs deployID)"

section \<open>The program\<close>

definition commands :: "(string \<times> (string list \<Rightarrow> ('y, unit) cli)) list" where
  "commands =
    [(''login'', cmdLogin), (''whoami'', cmdWhoami), (''deploy'', cmdDeploy), (''status'', cmdStatus),
     (''logs'', cmdLogs), (''rollback'', cmdRollback), (''env'', cmdEnv), (''domain'', cmdDomain),
     (''db'', cmdDB), (''scale'', cmdScale), (''health'', cmdHealth), (''disk'', cmdDisk),
     (''metrics'', cmdMetrics), (''token'', cmdToken), (''member'', cmdMember), (''audit'', cmdAudit),
     (''registry'', cmdRegistry), (''suspend'', cmdSuspend), (''resume'', cmdResume), (''info'', cmdInfo),
     (''usage'', cmdUsage)]"

text \<open>The text \<open>usage\<close> prints, line by line.\<close>

definition usage_text :: "string list" where
  "usage_text =
    [''uran '' @ long_dash @ '' control plane CLI'',
     '''',
     ''Usage:'',
     ''  uran login    --api URL --email EMAIL --password PASSWORD   (or --token PAT)'',
     ''  uran token create --name NAME'',
     ''  uran token list'',
     ''  uran token rm  --id ID'',
     ''  uran member list     --org ID'',
     ''  uran member add      --org ID --email EMAIL [--role member]'',
     ''  uran member set-role --org ID --user ID --role ROLE'',
     ''  uran member rm       --org ID --user ID'',
     ''  uran registry list --org ID'',
     ''  uran registry add  --org ID --registry HOST --username U --password P'',
     ''  uran registry rm   --org ID --id CRED_ID'',
     ''  uran whoami'',
     ''  uran deploy   --service ID [--commit SHA | --image REF]'',
     ''  uran status   --deploy ID | --project ID'',
     ''  uran info     --service ID'',
     ''  uran logs     --deploy ID | --service ID'',
     ''  uran metrics  --service ID'',
     ''  uran audit'',
     ''  uran rollback --deploy ID'',
     ''  uran env list    --service ID'',
     ''  uran env set     --service ID [--secret] KEY=VALUE'',
     ''  uran env rm      --service ID KEY'',
     ''  uran domain list --service ID'',
     ''  uran domain add  --service ID DOMAIN'',
     ''  uran domain rm   --service ID DOMAIN'',
     ''  uran db create     --project ID NAME'',
     ''  uran db list       --project ID'',
     ''  uran db connection --database ID'',
     ''  uran db rm         --database ID'',
     ''  uran scale  --service ID [--replicas N] [--size small|medium|large|xlarge|2xlarge] [--min N --max N]'',
     ''  uran health  --service ID --path /healthz'',
     ''  uran suspend --service ID'',
     ''  uran resume  --service ID'',
     ''  uran disk attach --service ID --size 1Gi --path /data'',
     ''  uran disk detach --service ID'']"


text \<open>The exit status; \<open>os.Args\<close> begins with the program's own name.\<close>

definition cli_main :: "string list \<Rightarrow> ('y terminal, int) act" where
  "cli_main os_args =
     (if length os_args < 2 then bnd (complain Usage) (\<lambda>_. ret 2)
      else (case map_of commands (os_args ! 1) of
          None \<Rightarrow> bnd (complain Usage) (\<lambda>_. ret 2)
        | Some cmd \<Rightarrow> attempt (cmd (drop 2 os_args))
            (\<lambda>e. case e of Exit n \<Rightarrow> ret n | _ \<Rightarrow> bnd (complain (ErrorLine e)) (\<lambda>_. ret 1))
            (\<lambda>_. ret 0)))"

text \<open>The text names every command but \<open>usage\<close>.\<close>

lemma undocumented_commands:
  "map fst (filter (\<lambda>c. \<not> list_ex (\<lambda>l. has_prefix l (''  uran '' @ fst c)) usage_text)
     (map (\<lambda>c. (fst c, ())) commands)) = [''usage'']"
  by code_simp

end
