(* ===== verification/Cli_Props.thy ===== *)
theory Cli_Props
  imports Cli_Services
begin

text \<open>
  Properties of every invocation of the client, whatever the server and the disk do: how many requests
  it sends, what happens when one is refused, where the saved token goes. Each is a predicate on
  actions with one rule per way the commands are put together, so that a command has it by structure.
\<close>

named_theorems cli_structure \<open>how commands are put together\<close>

lemmas [cli_structure] =
  cmdLogin_def cmdTokenCreate_def cmdTokenList_def cmdTokenRm_def cmdToken_def cmdWhoami_def cmdAudit_def
  cmdRegistryList_def cmdRegistryAdd_def cmdRegistryRm_def cmdRegistry_def cmdMemberList_def cmdMemberAdd_def
  cmdMemberSetRole_def cmdMemberRm_def cmdMember_def cmdDBCreate_def cmdDBScale_def cmdDBList_def
  cmdDBConnection_def cmdDBBackup_def cmdDBBackups_def cmdDBRm_def cmdDB_def cmdDeploy_def
  cmdServiceStatus_def cmdStatus_def cmdRollback_def cmdDomainList_def cmdDomainAdd_def cmdDomainRm_def
  cmdDomain_def cmdMetrics_def cmdInfo_def cmdUsage_def cmdScale_def suspendResume_def cmdSuspend_def
  cmdResume_def cmdHealth_def cmdDiskAttach_def cmdDiskDetach_def cmdDisk_def cmdEnvList_def cmdEnvSet_def
  cmdEnvRm_def cmdEnv_def cmdLogs_def unknown_sub_def

section \<open>Actions that leave the network alone\<close>

definition offline :: "('y terminal, 'a) act \<Rightarrow> bool" where
  "offline m \<longleftrightarrow> keeps (\<lambda>w. (tt_sent w, tt_net w, tt_world w)) (=) m"

definition mute :: "('y terminal, 'a) act \<Rightarrow> bool" where
  "mute m \<longleftrightarrow> keeps (\<lambda>w. (tt_out w, tt_err w, tt_files w)) (=) m"

interpretation off: evolution "\<lambda>w. (tt_sent w, tt_net w, tt_world w)" "(=)"
  by unfold_locales auto

interpretation mut: evolution "\<lambda>w. (tt_out w, tt_err w, tt_files w)" "(=)"
  by unfold_locales auto

lemma offline_basic [intro]:
  "offline (ret a)" "offline (failing msg)" "offline (print s)" "offline (println s)" "offline (complain c)"
  "offline next_disk" "offline credentialsPath"
  unfolding offline_def failing_def println_def
  by (auto simp: keeps_def ret_def print_def complain_def next_disk_def credentialsPath_def
      split: list.splits sum.splits)

lemma offline_combine:
  "offline m \<Longrightarrow> (\<And>a. offline (k a)) \<Longrightarrow> offline (throwing m k)"
  "offline n \<Longrightarrow> (\<And>e. offline (h e)) \<Longrightarrow> (\<And>a. offline (j a)) \<Longrightarrow> offline (attempt n h j)"
  "offline m' \<Longrightarrow> (\<And>a. offline (k' a)) \<Longrightarrow> offline (bnd m' k')"
  unfolding offline_def by (rule off.keeps_throwing off.keeps_attempt off.keeps_bnd; assumption)+

lemma offline_cases:
  "offline m \<Longrightarrow> (\<And>a. offline (k a)) \<Longrightarrow> offline (case x of None \<Rightarrow> m | Some a \<Rightarrow> k a)"
  "offline m' \<Longrightarrow> offline n' \<Longrightarrow> offline (if b then m' else n')"
  "(\<And>a b. offline (k' a b)) \<Longrightarrow> offline (case p of (a, b) \<Rightarrow> k' a b)"
  by (auto split: option.split prod.split)

lemma offline_files [intro]:
  "offline (os_ReadFile p)" "offline (os_MkdirAll p perm)" "offline (os_WriteFile p d perm)"
  unfolding os_ReadFile_def os_MkdirAll_def os_WriteFile_def
  by (rule offline_combine(3) [OF offline_basic(6)];
      auto simp: offline_def keeps_def put_file_def split: option.splits)+

lemma offline_print_each [intro]: "offline (print_each f xs)"
  by (induction xs) (auto intro: offline_combine(1))

lemma offline_session [intro]:
  "offline loadCredentials" "offline (saveCredentials c)" "offline authed"
  unfolding loadCredentials_def saveCredentials_def authed_def
  by (rule offline_combine offline_cases offline_basic offline_files)+

lemma mute_basic [intro]:
  "mute (ret a)" "mute (failing msg)" "mute next_disk" "mute credentialsPath"
  unfolding mute_def failing_def
  by (auto simp: keeps_def ret_def complain_def next_disk_def credentialsPath_def
      split: list.splits sum.splits)

lemma mute_combine:
  "mute m \<Longrightarrow> (\<And>a. mute (k a)) \<Longrightarrow> mute (throwing m k)"
  "mute n \<Longrightarrow> (\<And>e. mute (h e)) \<Longrightarrow> (\<And>a. mute (j a)) \<Longrightarrow> mute (attempt n h j)"
  "mute m' \<Longrightarrow> (\<And>a. mute (k' a)) \<Longrightarrow> mute (bnd m' k')"
  unfolding mute_def by (rule mut.keeps_throwing mut.keeps_attempt mut.keeps_bnd; assumption)+

lemma mute_cases:
  "mute m \<Longrightarrow> (\<And>a. mute (k a)) \<Longrightarrow> mute (case x of None \<Rightarrow> m | Some a \<Rightarrow> k a)"
  "mute m' \<Longrightarrow> mute n' \<Longrightarrow> mute (if b then m' else n')"
  "(\<And>a b. mute (k' a b)) \<Longrightarrow> mute (case p of (a, b) \<Rightarrow> k' a b)"
  by (auto split: option.split prod.split)

lemma mute_session [intro]: "mute (os_ReadFile p)" "mute loadCredentials" "mute authed"
proof -
  show r: "mute (os_ReadFile p)" for p :: string
    unfolding os_ReadFile_def
    by (rule mute_combine(3) [OF mute_basic(3)]) (auto simp: mute_def keeps_def split: option.splits)
  show l: "mute loadCredentials"
    unfolding loadCredentials_def by (rule mute_combine mute_cases mute_basic r)+
  show "mute authed" unfolding authed_def by (rule mute_combine mute_basic l)+
qed

section \<open>One request at most, and a refusal ends the command\<close>

definition accepted :: "string + http_response \<Rightarrow> bool" where
  "accepted res \<longleftrightarrow> (case res of Inl _ \<Rightarrow> False | Inr resp \<Rightarrow> 200 \<le> hs_status resp \<and> hs_status resp < 300)"

definition answer :: "'y terminal \<Rightarrow> http_request \<Rightarrow> string + http_response" where
  "answer w r = fst (tt_net w r (tt_world w))"

definition orderly :: "('y, 'a) cli \<Rightarrow> bool" where
  "orderly m \<longleftrightarrow> (\<forall>w. tt_sent (snd (m w)) = tt_sent w \<or>
     (\<exists>r. tt_sent (snd (m w)) = tt_sent w @ [r] \<and> (\<not> accepted (answer w r) \<longrightarrow>
        (\<exists>msg. fst (m w) = Inl (Message msg)) \<and> tt_out (snd (m w)) = tt_out w \<and>
        tt_err (snd (m w)) = tt_err w \<and> tt_files (snd (m w)) = tt_files w)))"

lemma orderly_offline: "offline m \<Longrightarrow> orderly m"
  by (auto simp: orderly_def offline_def keeps_def)

lemma offlineD: "offline m \<Longrightarrow> m w = (a, w') \<Longrightarrow> tt_sent w' = tt_sent w \<and> tt_net w' = tt_net w \<and> tt_world w' = tt_world w"
  unfolding offline_def by (drule (1) keepsD) simp

lemma muteD: "mute m \<Longrightarrow> m w = (a, w') \<Longrightarrow> tt_out w' = tt_out w \<and> tt_err w' = tt_err w \<and> tt_files w' = tt_files w"
  unfolding mute_def by (drule (1) keepsD) simp

lemma orderly_first:
  assumes "offline m" "mute m" "\<And>a. orderly (k a)"
  shows "orderly (throwing m k)"
  unfolding orderly_def
proof
  fix w
  obtain res w1 where m: "m w = (res, w1)" by fastforce
  show "tt_sent (snd (throwing m k w)) = tt_sent w \<or> (\<exists>r. tt_sent (snd (throwing m k w)) = tt_sent w @ [r] \<and>
      (\<not> accepted (answer w r) \<longrightarrow> (\<exists>msg. fst (throwing m k w) = Inl (Message msg)) \<and>
        tt_out (snd (throwing m k w)) = tt_out w \<and> tt_err (snd (throwing m k w)) = tt_err w \<and>
        tt_files (snd (throwing m k w)) = tt_files w))"
  proof (cases res)
    case (Inl e)
    then show ?thesis using m offlineD [OF assms(1) m] by (simp add: throwing_def attempt_def ret_def)
  next
    case (Inr a)
    then have run: "throwing m k w = k a w1" using m by (simp add: throwing_def attempt_def)
    show ?thesis
      using assms(3) [of a, unfolded orderly_def, rule_format, of w1] offlineD [OF assms(1) m] muteD [OF assms(2) m]
      by (simp add: run answer_def)
  qed
qed

lemma orderly_send:
  fixes k :: "http_response \<Rightarrow> ('y, 'a) cli"
  assumes "\<And>resp. offline (k resp)"
    and "\<And>resp. \<not> (200 \<le> hs_status resp \<and> hs_status resp < 300) \<Longrightarrow> \<exists>msg. k resp = failing msg"
  shows "orderly (throwing (send rq) k)"
  unfolding orderly_def
proof
  fix w :: "'y terminal"
  obtain res y where net: "tt_net w rq (tt_world w) = (res, y)" by fastforce
  define w1 where "w1 = w\<lparr>tt_sent := tt_sent w @ [rq], tt_world := y\<rparr>"
  have run: "throwing (send rq) k w = (case res of Inl e \<Rightarrow> (Inl (Message e), w1) | Inr resp \<Rightarrow> k resp w1)"
    using net by (cases res) (simp_all add: throwing_def attempt_def send_def ret_def w1_def)
  have same: "tt_out w1 = tt_out w" "tt_err w1 = tt_err w" "tt_files w1 = tt_files w" "tt_sent w1 = tt_sent w @ [rq]"
    by (simp_all add: w1_def)
  have ans: "answer w rq = res" using net by (simp add: answer_def)
  show "tt_sent (snd (throwing (send rq) k w)) = tt_sent w \<or> (\<exists>r. tt_sent (snd (throwing (send rq) k w)) = tt_sent w @ [r] \<and>
      (\<not> accepted (answer w r) \<longrightarrow> (\<exists>msg. fst (throwing (send rq) k w) = Inl (Message msg)) \<and>
        tt_out (snd (throwing (send rq) k w)) = tt_out w \<and> tt_err (snd (throwing (send rq) k w)) = tt_err w \<and>
        tt_files (snd (throwing (send rq) k w)) = tt_files w))"
  proof (cases res)
    case (Inl e)
    then show ?thesis using same run by simp
  next
    case (Inr resp)
    obtain x w2 where k: "k resp w1 = (x, w2)" by fastforce
    show ?thesis
    proof (cases "accepted res")
      case True
      then show ?thesis using offlineD [OF assms(1) k] same(4) run Inr k ans by auto
    next
      case False
      then obtain msg where "k resp = failing msg" using assms(2) Inr by (auto simp: accepted_def)
      then show ?thesis using same run Inr by (simp add: failing_def ret_def)
    qed
  qed
qed

lemma throwing_failing: "throwing (failing msg) k = failing msg"
  by (rule ext) (simp add: throwing_def attempt_def failing_def ret_def)

lemma throwing_ret: "throwing (ret (Inl e)) k = ret (Inl e)" "throwing (ret (Inr a)) k = k a"
  by (rule ext, simp add: throwing_def attempt_def ret_def)+

lemma orderly_call: "(\<And>a. offline (k a)) \<Longrightarrow> orderly (throwing (client_do c meth path body out zero) k)"
  unfolding client_do_def throwing_assoc
proof (rule orderly_send)
  assume k: "\<And>a. offline (k a)"
  show "offline (throwing (if hs_status resp < 200 \<or> 300 \<le> hs_status resp
      then failing (meth @ '' '' @ path @ '': '' @ serverError resp)
      else (case out of None \<Rightarrow> ret (Inr zero)
        | Some put \<Rightarrow> if hs_status resp \<noteq> 204
            then (case Option.bind (decode_json (hs_body resp)) (\<lambda>j. put j zero) of
                None \<Rightarrow> ret (Inl (BadJson '''')) | Some v \<Rightarrow> ret (Inr v))
            else ret (Inr zero))) k)" for resp
    by (rule offline_combine(1) offline_cases offline_basic k)+
qed (auto simp: throwing_failing)

lemma orderly_logs:
  "orderly (streamBuildLogs i)" "orderly (streamRuntimeLogs i)"
proof -
  have b: "offline (broken_error resp :: ('y, unit) cli)" for resp
    unfolding broken_error_def by (rule offline_cases offline_basic)+
  show "orderly (streamBuildLogs i)"
    unfolding streamBuildLogs_def
    by (rule orderly_first orderly_send offline_session mute_session offline_cases offline_combine(1)
        offline_basic offline_print_each b)+ auto
  show "orderly (streamRuntimeLogs i)"
    unfolding streamRuntimeLogs_def
    by (rule orderly_first orderly_send offline_session mute_session offline_cases offline_combine(1)
        offline_basic offline_print_each b)+ auto
qed

lemma orderly_cases:
  "orderly m \<Longrightarrow> orderly n \<Longrightarrow> orderly (if b then m else n)"
  "(\<And>a. orderly (k a)) \<Longrightarrow> orderly (Let x k)"
  "(\<And>a b. orderly (f a b)) \<Longrightarrow> orderly (case p of (a, b) \<Rightarrow> f a b)"
  "orderly m \<Longrightarrow> (\<And>s ss. orderly (g s ss)) \<Longrightarrow> orderly (case args of [] \<Rightarrow> m | s # ss \<Rightarrow> g s ss)"
  "(\<And>vs rest. orderly (f' vs rest)) \<Longrightarrow> orderly (parsed fs args f')"
  by (auto simp: Let_def parsed_def intro: orderly_offline split: prod.split list.split sum.split)

lemma orderly_authed: "(\<And>c. orderly (k c)) \<Longrightarrow> orderly (throwing authed k)"
  by (rule orderly_first [OF offline_session(3) mute_session(3)])

lemma orderly_with_floats: "(\<And>fl. orderly (k fl)) \<Longrightarrow> orderly (with_floats k)"
  unfolding with_floats_def by (simp add: orderly_def)

lemmas orderly_rules = orderly_cases orderly_logs orderly_call orderly_authed orderly_with_floats
  orderly_offline offline_combine(1) offline_cases offline_basic offline_session(2) offline_print_each

lemma list_all_unfold: "list_all P [] = True" "list_all P (x # xs) \<longleftrightarrow> P x \<and> list_all P xs"
  by simp_all

lemma commands_orderly: "(name, cmd) \<in> set commands \<Longrightarrow> orderly (cmd args)"
proof -
  have "list_all (\<lambda>(_, cmd). \<forall>args. orderly (cmd args)) commands"
    unfolding commands_def list_all_unfold prod.case cli_structure
    by (intro conjI allI TrueI) (rule orderly_rules)+
  then show "(name, cmd) \<in> set commands \<Longrightarrow> orderly (cmd args)"
    by (fastforce simp: list_all_iff)
qed

text \<open>A client that is logged in to a server that answers every request alike.\<close>

definition demo_credentials :: credentials where
  "demo_credentials = \<lparr>cr_api_url = ''https://uran.dev/'', cr_token = ''t0k''\<rparr>"

definition demo_terminal :: "http_response \<Rightarrow> unit terminal" where
  "demo_terminal resp = \<lparr>tt_out = '''', tt_err = [], tt_config = Inr ''/home/ann/.config'',
     tt_files = [(''/home/ann/.config/uran/credentials.json'', credentials_text demo_credentials, 384)],
     tt_dirs = [], tt_disk = [], tt_floats = \<lparr>fl_show = Some, fl_tenth = Some\<rparr>,
     tt_sent = [], tt_net = (\<lambda>_ _. (Inr resp, ())), tt_world = ()\<rparr>"

definition forbidden :: http_response where
  "forbidden = \<lparr>hs_status = 403, hs_body = json_text (JObj [(''error'', JStr ''not a member of this org'')]), hs_broken = None\<rparr>"

text \<open>C38.
  An invocation of the client sends at most one request. If the network fails or the server refuses
  it with a status outside 200 to 299, the exit status is 1, one error is complained of, nothing is
  printed and no file is written.\<close>

theorem refusal_ends_command:
  fixes w :: "'y terminal"
  assumes "cli_main args w = (st, w')" "tt_sent w' \<noteq> tt_sent w"
  shows "\<exists>r. tt_sent w' = tt_sent w @ [r] \<and> (\<not> accepted (answer w r) \<longrightarrow>
     st = 1 \<and> tt_out w' = tt_out w \<and> tt_files w' = tt_files w \<and>
     (\<exists>msg. tt_err w' = tt_err w @ [ErrorLine (Message msg)]))"
proof -
  obtain cmd :: "string list \<Rightarrow> ('y, unit) cli"
    where cmd: "map_of commands (args ! 1) = Some cmd" "length args \<ge> 2"
    using assms by (auto simp: cli_main_def complain_def bnd_def ret_def split: if_splits option.splits)
  obtain res w1 where run: "cmd (drop 2 args) w = (res, w1)" by fastforce
  have main: "cli_main args w = (case res of
      Inl (Exit n) \<Rightarrow> (n, w1) | Inl e \<Rightarrow> (1, w1\<lparr>tt_err := tt_err w1 @ [ErrorLine e]\<rparr>) | Inr _ \<Rightarrow> (0, w1))"
    using cmd run
    by (auto simp: cli_main_def attempt_def complain_def bnd_def ret_def split: sum.split cli_error.split)
  have "tt_sent w' = tt_sent w1"
    using main assms(1) by (auto split: sum.splits cli_error.splits)
  moreover have "orderly (cmd (drop 2 args))" using commands_orderly map_of_SomeD [OF cmd(1)] by blast
  ultimately obtain r where r: "tt_sent w1 = tt_sent w @ [r]" "\<not> accepted (answer w r) \<longrightarrow>
        (\<exists>msg. res = Inl (Message msg)) \<and> tt_out w1 = tt_out w \<and> tt_err w1 = tt_err w \<and> tt_files w1 = tt_files w"
    using assms(2) run unfolding orderly_def by (metis fst_conv snd_conv)
  show ?thesis
  proof (intro exI [of _ r] conjI impI)
    show "tt_sent w' = tt_sent w @ [r]" using r(1) \<open>tt_sent w' = tt_sent w1\<close> by simp
    assume "\<not> accepted (answer w r)"
    then obtain msg where "res = Inl (Message msg)" "tt_out w1 = tt_out w" "tt_err w1 = tt_err w" "tt_files w1 = tt_files w"
      using r(2) by blast
    then show "st = 1" "tt_out w' = tt_out w" "tt_files w' = tt_files w"
      "\<exists>msg. tt_err w' = tt_err w @ [ErrorLine (Message msg)]"
      using main assms(1) by auto
  qed
qed

theorem refusal_ends_command_witness:
  "\<exists>w'. cli_main [''uran'', ''suspend'', ''--service'', ''7''] (demo_terminal forbidden) = (1, w') \<and> tt_out w' = ''''"
proof -
  let ?args = "[''uran'', ''suspend'', ''--service'', ''7'']"
  obtain st w' where run: "cli_main ?args (demo_terminal forbidden) = (st, w')" by fastforce
  have "length (tt_sent (snd (cli_main ?args (demo_terminal forbidden)))) = 1" by code_simp
  then have "tt_sent w' \<noteq> tt_sent (demo_terminal forbidden)" using run by (auto simp: demo_terminal_def)
  from refusal_ends_command [OF run this] show ?thesis using run
    by (auto simp: answer_def accepted_def demo_terminal_def forbidden_def)
qed

section \<open>The calls of the client\<close>

text \<open>Every call a command makes: method, path and JSON body.\<close>

inductive cli_call :: "string \<Rightarrow> string \<Rightarrow> json option \<Rightarrow> bool" where
  "cli_call ''POST'' ''/v1/auth/login'' (JMap [(''email'', e), (''password'', p)])"
| "cli_call ''POST'' ''/v1/tokens'' (JMap [(''name'', n)])"
| "cli_call ''GET'' ''/v1/tokens'' None"
| "cli_call ''DELETE'' (''/v1/tokens/'' @ itoa i) None"
| "cli_call ''GET'' ''/v1/me'' None"
| "cli_call ''GET'' ''/v1/audit'' None"
| "cli_call ''GET'' (org_path i ''/registry-credentials'') None"
| "cli_call ''POST'' (org_path i ''/registry-credentials'')
     (JMap [(''password'', p), (''registry'', r), (''username'', u)])"
| "cli_call ''DELETE'' (org_path i (''/registry-credentials/'' @ itoa j)) None"
| "cli_call ''GET'' (org_path i ''/members'') None"
| "cli_call ''POST'' (org_path i ''/members'') (JMap [(''email'', e), (''role'', r)])"
| "cli_call ''PATCH'' (org_path i (''/members/'' @ itoa j)) (JMap [(''role'', r)])"
| "cli_call ''DELETE'' (org_path i (''/members/'' @ itoa j)) None"
| "cli_call ''POST'' (''/v1/projects/'' @ itoa i @ ''/databases'') (Some (JObj
     [(''backups'', JBool b), (''engine'', JStr e), (''instances'', JInt n), (''max_instances'', JInt h),
      (''min_instances'', JInt l), (''name'', JStr m), (''pooling'', JBool q), (''size'', JStr s),
      (''storage'', JStr g), (''tier'', JStr t)]))"
| "cli_call ''GET'' (''/v1/projects/'' @ itoa i @ ''/databases'') None"
| "cli_call ''GET'' (''/v1/projects/'' @ itoa i @ ''/status'') None"
| "cli_call ''POST'' (database_path i ''/scale'')
     (Some (JObj [(''instances'', JInt n), (''size'', JStr s), (''storage'', JStr g)]))"
| "cli_call ''GET'' (database_path i ''/connection'') None"
| "cli_call ''POST'' (database_path i ''/backups'') None"
| "cli_call ''GET'' (database_path i ''/backups'') None"
| "cli_call ''DELETE'' (database_path i '''') None"
| "cli_call ''GET'' (deploy_path i '''') None"
| "cli_call ''POST'' (deploy_path i ''/rollback'') None"
| "cli_call ''GET'' (deploy_path i ''/logs'') None"
| "cli_call ''POST'' (service_path i ''/image-deploys'') (JMap [(''image'', m)])"
| "cli_call ''POST'' (service_path i ''/deploys'') (JMap [(''commit_sha'', c)])"
| "cli_call ''GET'' (service_path i ''/runtime-logs'') None"
| "cli_call ''GET'' (service_path i ''/domains'') None"
| "cli_call ''POST'' (service_path i ''/domains'') (JMap [(''domain'', d)])"
| "cli_call ''DELETE'' (service_path i (''/domains/'' @ d)) None"
| "cli_call ''GET'' (service_path i ''/metrics'') None"
| "cli_call ''GET'' (service_path i '''') None"
| "cli_call ''GET'' (service_path i ''/usage'') None"
| "cli_call ''POST'' (service_path i ''/scale'') (Some (JObj
     [(''instance_size'', JStr s), (''max_replicas'', JInt h), (''min_replicas'', JInt l), (''replicas'', JInt n)]))"
| "cli_call ''POST'' (service_path i (''/'' @ ''suspend'')) None"
| "cli_call ''POST'' (service_path i (''/'' @ ''resume'')) None"
| "cli_call ''POST'' (service_path i ''/health'') (JMap [(''path'', p)])"
| "cli_call ''POST'' (service_path i ''/disk'') (JMap [(''path'', p), (''size'', s)])"
| "cli_call ''DELETE'' (service_path i ''/disk'') None"
| "cli_call ''GET'' (service_path i ''/env'') None"
| "cli_call ''POST'' (service_path i ''/env'') (Some (JObj
     [(''build_time'', JBool b), (''key'', JStr k), (''secret'', JBool s), (''value'', JStr v)]))"
| "cli_call ''DELETE'' (service_path i (''/env/'' @ k)) None"

definition grown :: "(http_request \<Rightarrow> bool) \<Rightarrow> http_request list \<Rightarrow> http_request list \<Rightarrow> bool" where
  "grown P s t \<longleftrightarrow> (\<exists>new. t = s @ new \<and> (\<forall>r \<in> set new. P r))"

definition call_of :: "client \<Rightarrow> http_request \<Rightarrow> bool" where
  "call_of c r \<longleftrightarrow> (\<exists>meth path body acc. cli_call meth path body \<and>
     r = (client_request c meth path body)\<lparr>hq_accept := acc\<rparr>)"

text \<open>What a command sends is a call with the session saved before it ran, or one without a token.\<close>

definition issued :: "'y terminal \<Rightarrow> http_request \<Rightarrow> bool" where
  "issued w r \<longleftrightarrow> (\<exists>cr. (fst (loadCredentials w) = Inr cr \<or> cr_token cr = '''') \<and> call_of (newClient cr) r)"

definition speaks :: "client \<Rightarrow> ('y terminal, 'a) act \<Rightarrow> bool" where
  "speaks c m \<longleftrightarrow> keeps tt_sent (grown (call_of c)) m"

definition issues :: "('y terminal, 'a) act \<Rightarrow> bool" where
  "issues m \<longleftrightarrow> (\<forall>w. grown (issued w) (tt_sent w) (tt_sent (snd (m w))))"

interpretation spk: evolution tt_sent "grown P"
proof
  show "grown P s s" for s by (auto simp: grown_def)
  show "grown P s u" if "grown P s t" "grown P t u" for s t u
    using that by (auto simp: grown_def)
qed

lemma speaks_offline: "offline m \<Longrightarrow> speaks c m"
  by (auto simp: speaks_def keeps_def offline_def grown_def)

lemma speaks_combine: "speaks c m \<Longrightarrow> (\<And>a. speaks c (k a)) \<Longrightarrow> speaks c (throwing m k)"
  unfolding speaks_def by (rule spk.keeps_throwing)

lemma speaks_send:
  "cli_call meth path body \<Longrightarrow> speaks c (send ((client_request c meth path body)\<lparr>hq_accept := acc\<rparr>))"
  "cli_call meth path body \<Longrightarrow> speaks c (send (client_request c meth path body))"
proof -
  assume call: "cli_call meth path body"
  have "client_request c meth path body = (client_request c meth path body)\<lparr>hq_accept := ''''\<rparr>"
    by (simp add: client_request_def)
  then have "call_of c (client_request c meth path body)" using call by (auto simp: call_of_def)
  then show "speaks c (send (client_request c meth path body))"
    by (auto simp: speaks_def keeps_def send_def grown_def split: prod.split)
  have "call_of c ((client_request c meth path body)\<lparr>hq_accept := acc\<rparr>)" using call by (auto simp: call_of_def)
  then show "speaks c (send ((client_request c meth path body)\<lparr>hq_accept := acc\<rparr>))"
    by (auto simp: speaks_def keeps_def send_def grown_def split: prod.split)
qed

lemma speaks_do: "cli_call meth path body \<Longrightarrow> speaks c (client_do c meth path body out zero)"
  unfolding client_do_def
  by (rule speaks_combine speaks_send offline_cases offline_basic speaks_offline | assumption)+

lemma speaks_cases:
  "speaks c m \<Longrightarrow> speaks c n \<Longrightarrow> speaks c (if b then m else n)"
  "(\<And>a b. speaks c (f a b)) \<Longrightarrow> speaks c (case p of (a, b) \<Rightarrow> f a b)"
  "(\<And>fl. speaks c (k fl)) \<Longrightarrow> speaks c (with_floats k)"
  by (auto simp: speaks_def keeps_def with_floats_def split: prod.split)

lemma issues_authed:
  fixes k :: "client \<Rightarrow> ('y, 'a) cli"
  assumes "\<And>c. speaks c (k c)"
  shows "issues (throwing authed k)"
  unfolding issues_def
proof
  fix w :: "'y terminal"
  obtain res w1 where l: "loadCredentials w = (res, w1)" by fastforce
  have same: "tt_sent w1 = tt_sent w" using offlineD [OF offline_session(1) l] by simp
  show "grown (issued w) (tt_sent w) (tt_sent (snd (throwing authed k w)))"
  proof (cases res)
    case (Inl e)
    then show ?thesis using l same by (simp add: authed_def throwing_def attempt_def ret_def grown_def)
  next
    case (Inr cr)
    then have "throwing authed k w = k (newClient cr) w1"
      using l by (simp add: authed_def throwing_def attempt_def ret_def)
    moreover have "grown (call_of (newClient cr)) (tt_sent w1) (tt_sent (snd (k (newClient cr) w1)))"
      using assms by (simp add: speaks_def keeps_def)
    ultimately show ?thesis using same l Inr by (fastforce simp: grown_def issued_def)
  qed
qed

lemma issues_login: "speaks (newClient \<lparr>cr_api_url = api, cr_token = ''''\<rparr>) m \<Longrightarrow> issues m"
  unfolding issues_def speaks_def keeps_def grown_def issued_def by (metis credentials.select_convs(2))

lemma issues_offline: "offline m \<Longrightarrow> issues m"
  by (auto simp: issues_def keeps_def offline_def grown_def)

lemma issues_cases:
  "issues m \<Longrightarrow> issues n \<Longrightarrow> issues (if b then m else n)"
  "(\<And>a. issues (k a)) \<Longrightarrow> issues (Let x k)"
  "(\<And>a b. issues (f a b)) \<Longrightarrow> issues (case p of (a, b) \<Rightarrow> f a b)"
  "issues m \<Longrightarrow> (\<And>s ss. issues (g s ss)) \<Longrightarrow> issues (case args of [] \<Rightarrow> m | s # ss \<Rightarrow> g s ss)"
  "(\<And>vs rest. issues (f' vs rest)) \<Longrightarrow> issues (parsed fs args f')"
  by (auto simp: Let_def parsed_def intro: issues_offline split: prod.split list.split sum.split)

lemma offline_broken [intro]: "offline (broken_error resp)"
  unfolding broken_error_def by (rule offline_cases offline_basic)+

lemmas issues_rules = issues_cases issues_authed issues_login [OF speaks_combine [OF speaks_do]] cli_call.intros speaks_cases speaks_do speaks_send
  speaks_combine [OF speaks_do] speaks_combine [OF speaks_send(1)] speaks_combine [OF speaks_send(2)]
  offline_combine(1) offline_cases offline_basic offline_session(2) offline_print_each offline_broken
  speaks_offline issues_offline

lemma commands_issue: "(name, cmd) \<in> set commands \<Longrightarrow> issues (cmd args)"
proof -
  have "list_all (\<lambda>(_, cmd). \<forall>args. issues (cmd args)) commands"
    unfolding commands_def list_all_unfold prod.case cli_structure streamBuildLogs_def streamRuntimeLogs_def
    by (intro conjI allI TrueI) (rule issues_rules)+
  then show "(name, cmd) \<in> set commands \<Longrightarrow> issues (cmd args)"
    by (fastforce simp: list_all_iff)
qed

lemma cli_call_path: "cli_call meth path body \<Longrightarrow> has_prefix path ''/v1/''"
  by (induction rule: cli_call.induct)
    (simp_all add: org_path_def database_path_def deploy_path_def service_path_def has_prefix_Cons)

lemma main_grows:
  fixes w :: "'y terminal"
  shows "grown (issued w) (tt_sent w) (tt_sent (snd (cli_main args w)))"
proof (cases "length args < 2 \<or> map_of (commands :: (string \<times> (string list \<Rightarrow> ('y, unit) cli)) list) (args ! 1) = None")
  case True
  then show ?thesis by (auto simp: cli_main_def complain_def bnd_def ret_def grown_def)
next
  case False
  then obtain cmd :: "string list \<Rightarrow> ('y, unit) cli" where cmd: "map_of commands (args ! 1) = Some cmd" by auto
  obtain res w1 where run: "cmd (drop 2 args) w = (res, w1)" by fastforce
  have "tt_sent (snd (cli_main args w)) = tt_sent w1"
    using False cmd run
    by (auto simp: cli_main_def attempt_def complain_def bnd_def ret_def split: sum.split cli_error.split)
  then show ?thesis using commands_issue [OF map_of_SomeD [OF cmd], of "drop 2 args", unfolded issues_def, rule_format, of w] run
    by simp
qed

text \<open>The saved token leaves the machine only in the Authorization header of requests to the API it was
  saved with: every other request of an invocation has no such header.\<close>

theorem token_goes_to_its_api:
  assumes "cli_main args w = (st, w')" "r \<in> set (drop (length (tt_sent w)) (tt_sent w'))"
    and "hq_authorization r \<noteq> ''''"
  shows "\<exists>cr path. fst (loadCredentials w) = Inr cr \<and> hq_authorization r = ''Bearer '' @ cr_token cr \<and>
     hq_url r = trim_right_if (\<lambda>c. c = CHR ''/'') (cr_api_url cr) @ path \<and> has_prefix path ''/v1/''"
proof -
  have "grown (issued w) (tt_sent w) (tt_sent w')" using main_grows [of w args] assms(1) by simp
  then have "issued w r" using assms(2) by (auto simp: grown_def)
  then obtain cr meth path body acc where cr: "fst (loadCredentials w) = Inr cr \<or> cr_token cr = ''''"
    and call: "cli_call meth path body"
    and r: "r = (client_request (newClient cr) meth path body)\<lparr>hq_accept := acc\<rparr>"
    unfolding issued_def call_of_def by blast
  show ?thesis using cr assms(3) cli_call_path [OF call]
    by (auto simp: r client_request_def newClient_def split: if_splits)
qed

theorem token_goes_to_its_api_witness:
  "\<exists>r. tt_sent (snd (cli_main [''uran'', ''whoami''] (demo_terminal forbidden))) = [r] \<and>
     hq_authorization r = ''Bearer t0k'' \<and> hq_url r = ''https://uran.dev/v1/me''"
proof -
  let ?w = "demo_terminal forbidden"
  obtain st w' where run: "cli_main [''uran'', ''whoami''] ?w = (st, w')" by fastforce
  have all: "map (\<lambda>r. (hq_authorization r, hq_url r)) (tt_sent (snd (cli_main [''uran'', ''whoami''] ?w))) =
      [(''Bearer t0k'', ''https://uran.dev/v1/me'')]"
    by code_simp
  then obtain r where r: "tt_sent w' = [r]" "hq_authorization r = ''Bearer t0k''" "hq_url r = ''https://uran.dev/v1/me''"
    using run by (cases "tt_sent w'") auto
  have "r \<in> set (drop (length (tt_sent ?w)) (tt_sent w'))" using r(1) by (simp add: demo_terminal_def)
  from token_goes_to_its_api [OF run this] r run show ?thesis by auto
qed

section \<open>The saved session\<close>

lemma skip_blank: "skip_space (newline @ x) = skip_space x" "skip_space (CHR '' '' # x) = skip_space x"
  by (simp_all add: skip_space_def newline_def json_space_def)

lemma skip_quoted: "skip_space (json_string s @ x) = json_string s @ x"
  by (simp add: json_string_def skip_space_id structural_chars)

lemma parse_member_spaced:
  assumes "utf8 k" "utf8 v"
  shows "parse_members (Suc (Suc n)) (newline @ ''  '' @ json_string k @ '': '' @ json_string v @ x) =
     (let q = skip_space x in
      if q = [] then None else if hd q = CHR ''}'' then Some ([(k, JStr v)], tl q)
      else if hd q = CHR '','' then onto [(k, JStr v)] (parse_members (Suc n) (tl q)) else None)"
proof -
  have val: "parse_value (Suc n) (CHR '' '' # json_string v @ x) = Some (JStr v, x)"
    using assms(2) by (simp add: skip_blank skip_quoted) (simp add: json_string_def parse_escape)
  have "skip_space (newline @ ''  '' @ json_string k @ '': '' @ json_string v @ x) =
      quote_char # escape k @ quote_char # CHR '':'' # CHR '' '' # json_string v @ x"
    by (simp add: skip_blank skip_quoted) (simp add: json_string_def)
  then show ?thesis
    using val by (simp add: parse_escape [OF assms(1)] Let_def del: parse_value.simps)
qed

lemma credentials_text_parsed:
  assumes "utf8 (cr_api_url c)" "utf8 (cr_token c)"
  shows "unmarshal_json (credentials_text c) =
     Some (JObj [(''api_url'', JStr (cr_api_url c)), (''token'', JStr (cr_token c))])" (is "_ = Some ?j")
proof -
  have keys: "utf8 ''api_url''" "utf8 ''token''" by code_simp+
  have closing: "skip_space (newline @ ''}'') = ''}''" by (simp add: skip_blank)
  let ?t = "newline @ ''  '' @ json_string ''token'' @ '': '' @ json_string (cr_token c) @ newline @ ''}''"
  let ?m = "newline @ ''  '' @ json_string ''api_url'' @ '': '' @ json_string (cr_api_url c) @ '','' @ ?t"
  have members: "parse_members (Suc (Suc (Suc n))) ?m =
      Some ([(''api_url'', JStr (cr_api_url c)), (''token'', JStr (cr_token c))], [])" for n
    unfolding parse_member_spaced [OF keys(1) assms(1)]
    using parse_member_spaced [OF keys(2) assms(2), of n "newline @ ''}''"]
    by (simp add: closing Let_def del: parse_members.simps)
  have shape: "credentials_text c = CHR ''{'' # ?m" by (simp add: credentials_text_def)
  have "\<not> has_prefix (skip_space ?m) ''}''"
    by (simp add: skip_blank skip_quoted) (simp add: json_string_def has_prefix_Cons structural_chars)
  then have "parse_value (Suc (Suc (Suc (Suc n)))) (credentials_text c) = Some (?j, [])" for n
    unfolding shape parse_value.simps(2) using members [of n]
    by (simp add: skip_space_id structural_chars structural_chars(13) [THEN not_sym] Let_def
        del: parse_members.simps parse_value.simps)
  moreover obtain n where "2 * length (credentials_text c) + 1 = Suc (Suc (Suc (Suc n)))"
    by (simp add: credentials_text_def) 
  ultimately show ?thesis by (simp add: unmarshal_json_def parse_first_def skip_space_def)
qed

end
