(* ===== verification/Deploy_State.thy ===== *)
theory Deploy_State
  imports Uran_Prelude
begin

text \<open>
  Package \<open>deploy\<close> (\<open>internal/deploy/state.go\<close>): the deploy statuses, the build statuses, the
  deploy kinds and the table of allowed transitions. The map of the source is an association
  list, a missing key giving the empty slice as in Go. The lemmas show the shape of the state
  machine: every allowed move goes to a later phase, so no run has more than three moves, and the
  terminal statuses are those without a move.
\<close>

definition StatusQueued :: string where "StatusQueued = ''queued''"
definition StatusBuilding :: string where "StatusBuilding = ''building''"
definition StatusDeploying :: string where "StatusDeploying = ''deploying''"
definition StatusLive :: string where "StatusLive = ''live''"
definition StatusFailed :: string where "StatusFailed = ''failed''"

definition BuildQueued :: string where "BuildQueued = ''queued''"
definition BuildRunning :: string where "BuildRunning = ''running''"
definition BuildSucceeded :: string where "BuildSucceeded = ''succeeded''"
definition BuildFailed :: string where "BuildFailed = ''failed''"

definition KindProduction :: string where "KindProduction = ''production''"
definition KindPreview :: string where "KindPreview = ''preview''"

text \<open>The constants are kept folded in proofs; all that matters of them is that they differ.\<close>

lemma status_distinct [simp]:
  "StatusQueued \<noteq> StatusBuilding" "StatusQueued \<noteq> StatusDeploying"
  "StatusQueued \<noteq> StatusLive" "StatusQueued \<noteq> StatusFailed"
  "StatusBuilding \<noteq> StatusQueued" "StatusBuilding \<noteq> StatusDeploying"
  "StatusBuilding \<noteq> StatusLive" "StatusBuilding \<noteq> StatusFailed"
  "StatusDeploying \<noteq> StatusQueued" "StatusDeploying \<noteq> StatusBuilding"
  "StatusDeploying \<noteq> StatusLive" "StatusDeploying \<noteq> StatusFailed"
  "StatusLive \<noteq> StatusQueued" "StatusLive \<noteq> StatusBuilding"
  "StatusLive \<noteq> StatusDeploying" "StatusLive \<noteq> StatusFailed"
  "StatusFailed \<noteq> StatusQueued" "StatusFailed \<noteq> StatusBuilding"
  "StatusFailed \<noteq> StatusDeploying" "StatusFailed \<noteq> StatusLive"
  by (simp_all add: StatusQueued_def StatusBuilding_def StatusDeploying_def StatusLive_def StatusFailed_def)

lemma build_distinct [simp]:
  "BuildQueued \<noteq> BuildRunning" "BuildQueued \<noteq> BuildSucceeded"
  "BuildQueued \<noteq> BuildFailed" "BuildRunning \<noteq> BuildQueued"
  "BuildRunning \<noteq> BuildSucceeded" "BuildRunning \<noteq> BuildFailed"
  "BuildSucceeded \<noteq> BuildQueued" "BuildSucceeded \<noteq> BuildRunning"
  "BuildSucceeded \<noteq> BuildFailed" "BuildFailed \<noteq> BuildQueued"
  "BuildFailed \<noteq> BuildRunning" "BuildFailed \<noteq> BuildSucceeded"
  by (simp_all add: BuildQueued_def BuildRunning_def BuildSucceeded_def BuildFailed_def)

lemma kind_distinct [simp]:
  "KindProduction \<noteq> KindPreview" "KindPreview \<noteq> KindProduction"
  by (simp_all add: KindProduction_def KindPreview_def)

lemmas status_defs =
  StatusQueued_def StatusBuilding_def StatusDeploying_def StatusLive_def StatusFailed_def
  BuildQueued_def BuildRunning_def BuildSucceeded_def BuildFailed_def
  KindProduction_def KindPreview_def

definition transitions :: "(string \<times> string list) list" where
  "transitions =
     [(StatusQueued, [StatusBuilding, StatusFailed]),
      (StatusBuilding, [StatusDeploying, StatusFailed]),
      (StatusDeploying, [StatusLive, StatusFailed]),
      (StatusLive, []),
      (StatusFailed, [])]"

definition allowed_next :: "string \<Rightarrow> string list" where
  "allowed_next from = (case map_of transitions from of None \<Rightarrow> [] | Some next \<Rightarrow> next)"

definition CanTransition :: "string \<Rightarrow> string \<Rightarrow> bool" where
  "CanTransition from to = list_ex (\<lambda>allowed. allowed = to) (allowed_next from)"

definition IsTerminal :: "string \<Rightarrow> bool" where
  "IsTerminal status = (length (allowed_next status) = 0)"

section \<open>The shape of the state machine\<close>

lemma CanTransition_iff:
  "CanTransition from to \<longleftrightarrow>
     (from, to) \<in> {(StatusQueued, StatusBuilding), (StatusQueued, StatusFailed),
                   (StatusBuilding, StatusDeploying), (StatusBuilding, StatusFailed),
                   (StatusDeploying, StatusLive), (StatusDeploying, StatusFailed)}"
  unfolding CanTransition_def allowed_next_def transitions_def
  by (cases "from = StatusQueued"; cases "from = StatusBuilding"; cases "from = StatusDeploying";
      cases "from = StatusLive"; cases "from = StatusFailed") auto

text \<open>The phase of a status; an unknown status is not part of the machine.\<close>

definition phase :: "string \<Rightarrow> nat" where
  "phase s = (if s = StatusQueued then 0 else if s = StatusBuilding then 1
     else if s = StatusDeploying then 2 else 3)"

lemma CanTransition_phase: "CanTransition from to \<Longrightarrow> phase from < phase to"
  by (auto simp: CanTransition_iff phase_def)

lemma CanTransition_irrefl: "\<not> CanTransition s s"
  using CanTransition_phase by blast

lemma IsTerminal_iff: "IsTerminal s \<longleftrightarrow> s \<notin> {StatusQueued, StatusBuilding, StatusDeploying}"
  by (auto simp: IsTerminal_def allowed_next_def transitions_def)

lemma IsTerminal_no_move: "IsTerminal s \<longleftrightarrow> (\<forall>t. \<not> CanTransition s t)"
  by (auto simp: IsTerminal_iff CanTransition_iff)

definition moves :: "string \<Rightarrow> string \<Rightarrow> bool" where
  "moves = CanTransition\<^sup>*\<^sup>*"

lemma moves_refl [simp]: "moves s s"
  by (simp add: moves_def)

lemma moves_trans: "moves s t \<Longrightarrow> moves t u \<Longrightarrow> moves s u"
  by (simp add: moves_def)

lemma moves_step: "CanTransition s t \<Longrightarrow> moves s t"
  by (simp add: moves_def)

lemma moves_phase: "moves s t \<Longrightarrow> s = t \<or> phase s < phase t"
  unfolding moves_def
  by (induction rule: rtranclp_induct) (auto dest: CanTransition_phase)

lemma moves_terminal: "moves s t \<Longrightarrow> IsTerminal s \<Longrightarrow> t = s"
  unfolding moves_def by (induction rule: converse_rtranclp_induct) (auto simp: IsTerminal_no_move)

text \<open>A run of allowed moves is a list of statuses; it has at most four of them.\<close>

fun status_run :: "string list \<Rightarrow> bool" where
  "status_run [] = True"
| "status_run [s] = True"
| "status_run (s # t # rest) = (CanTransition s t \<and> status_run (t # rest))"

lemma status_run_phase: "status_run (s # rest) \<Longrightarrow> phase s + length rest \<le> 3"
proof (induction rest arbitrary: s)
  case Nil
  then show ?case by (simp add: phase_def)
next
  case (Cons t rest)
  then have "phase s < phase t" "phase t + length rest \<le> 3"
    by (auto dest: CanTransition_phase)
  then show ?case by simp
qed



end
