(* ===== verification/Naming.thy ===== *)
theory Naming
  imports Go_Strings Deploy_State
begin

text \<open>
  Package \<open>naming\<close> (\<open>internal/naming/naming.go\<close>): the Kubernetes names derived from the domain
  objects, shared by the API and the controller. The lemmas say where the names are injective,
  and where two different objects get the same name.
\<close>

definition NamespaceForOrg :: "int \<Rightarrow> string" where
  "NamespaceForOrg orgID = ''uran-org-'' @ itoa orgID"

definition WorkloadName :: "string \<Rightarrow> string \<Rightarrow> int option \<Rightarrow> string" where
  "WorkloadName slug kind prNumber =
     (if kind = KindPreview \<and> prNumber \<noteq> None
      then slug @ ''-pr-'' @ itoa (the prNumber) else slug)"

definition DatabaseCluster :: "string \<Rightarrow> string" where
  "DatabaseCluster slug = ''db-'' @ slug"

lemma NamespaceForOrg_inject [simp]: "NamespaceForOrg a = NamespaceForOrg b \<longleftrightarrow> a = b"
  by (simp add: NamespaceForOrg_def)

lemma NamespaceForOrg_no_colon [simp]: "CHR '':'' \<notin> set (NamespaceForOrg a)"
  using itoa_no_colon by (auto simp: NamespaceForOrg_def)

lemma NamespaceForOrg_system [simp]:
  "NamespaceForOrg a \<noteq> ''kube-system''" "NamespaceForOrg a \<noteq> ''cnpg-system''"
  by (simp_all add: NamespaceForOrg_def)

lemma DatabaseCluster_inject [simp]: "DatabaseCluster a = DatabaseCluster b \<longleftrightarrow> a = b"
  by (simp add: DatabaseCluster_def)

lemma WorkloadName_production [simp]: "WorkloadName slug KindProduction pr = slug"
  by (simp add: WorkloadName_def)

lemma WorkloadName_preview [simp]:
  "WorkloadName slug KindPreview (Some pr) = slug @ ''-pr-'' @ itoa pr"
  by (simp add: WorkloadName_def)

lemma WorkloadName_preview_inject:
  "WorkloadName slug KindPreview (Some m) = WorkloadName slug KindPreview (Some n) \<longleftrightarrow> m = n"
  by simp

lemma WorkloadName_preview_production:
  "WorkloadName slug KindPreview (Some m) \<noteq> WorkloadName slug KindProduction p"
  by simp

end
