(* ===== verification/Store_Types.thy ===== *)
theory Store_Types
  imports Effects Naming
begin

text \<open>
  The data of package \<open>store\<close>: one record per table row (\<open>internal/store/models.go\<close> and the row
  types of the other files), the record \<open>tables\<close> of all tables in insertion order with their
  identity sequences, and the database connection \<open>pg\<close>.

  A database call can fail for reasons the program does not control (connection lost, context
  cancelled). The field \<open>faults\<close> lists, for the calls to come, whether each fails; an exhausted
  list means no failure. Every error branch of the source is thereby reachable. \<open>bus\<close> records the
  \<open>NOTIFY\<close>s sent, oldest first, and \<open>now\<close> is the database clock.

  The locale \<open>table_evolution\<close> extends \<open>evolution\<close> to database actions: reads and notifications
  never move the tables, a statement moves them by its table operation.
\<close>

section \<open>Rows\<close>

record user =
  u_id :: int
  u_email :: string
  u_hash :: string
  u_name :: string
  u_created :: int

record session =
  s_token :: string
  s_user :: int
  s_expires :: int

record org =
  o_id :: int
  o_name :: string
  o_slug :: string
  o_created :: int

record org_member =
  m_org :: int
  m_user :: int
  m_role :: string

record project =
  p_id :: int
  p_org :: int
  p_name :: string
  p_slug :: string
  p_created :: int

record service =
  sv_id :: int
  sv_project :: int
  sv_name :: string
  sv_slug :: string
  sv_type :: string
  sv_repo :: string
  sv_branch :: string
  sv_schedule :: string
  sv_replicas :: int
  sv_size :: string
  sv_health :: string
  sv_min :: int
  sv_max :: int
  sv_disk_size :: string
  sv_disk_path :: string
  sv_suspended :: bool
  sv_created :: int

record deploy =
  d_id :: int
  d_service :: int
  d_status :: string
  d_commit :: string
  d_image :: string
  d_kind :: string
  d_pr :: "int option"
  d_created :: int
  d_updated :: int

record build =
  b_id :: int
  b_deploy :: int
  b_status :: string
  b_logs :: string
  b_started :: "int option"
  b_ended :: "int option"

record env_var =
  e_service :: int
  e_key :: string
  e_value :: string
  e_secret :: bool
  e_build_time :: bool

record custom_domain =
  cd_id :: int
  cd_service :: int
  cd_domain :: string

record database =
  db_id :: int
  db_project :: int
  db_name :: string
  db_slug :: string
  db_engine :: string
  db_status :: string
  db_tier :: string
  db_instances :: int
  db_min :: int
  db_max :: int
  db_size :: string
  db_storage :: string
  db_pooling :: bool
  db_backups :: bool
  db_uri :: string
  db_read_uri :: string
  db_pooled_uri :: string

record api_token =
  t_id :: int
  t_user :: int
  t_name :: string
  t_hash :: string
  t_prefix :: string
  t_created :: int
  t_last_used :: "int option"

record audit_log =
  a_id :: int
  a_actor :: int
  a_email :: string
  a_method :: string
  a_path :: string
  a_status :: int
  a_created :: int

record registry_credential =
  rc_id :: int
  rc_org :: int
  rc_registry :: string
  rc_username :: string
  rc_password :: string

record usage_sample =
  us_id :: int
  us_service :: int
  us_cpu :: int
  us_mem :: int
  us_at :: int

record github_connection =
  gc_org :: int
  gc_token :: string
  gc_account :: string

section \<open>Tables and the connection\<close>

text \<open>The tables with an identity column, each with its own sequence.\<close>

datatype seq_name =
  SUsers | SOrgs | SProjects | SServices | SDeploys | SBuilds | SDomains | SDatabases | STokens
  | SAudit | SCreds | SUsage

record tables =
  users :: "user list"
  sessions :: "session list"
  orgs :: "org list"
  org_members :: "org_member list"
  projects :: "project list"
  services :: "service list"
  env_vars :: "env_var list"
  deploys :: "deploy list"
  builds :: "build list"
  custom_domains :: "custom_domain list"
  databases :: "database list"
  api_tokens :: "api_token list"
  audit_logs :: "audit_log list"
  registry_credentials :: "registry_credential list"
  usage_samples :: "usage_sample list"
  github_connections :: "github_connection list"
  seqs :: "seq_name \<Rightarrow> int"

definition empty_tables :: tables where
  "empty_tables = \<lparr>users = [], sessions = [], orgs = [], org_members = [], projects = [],
     services = [], env_vars = [], deploys = [], builds = [], custom_domains = [],
     databases = [], api_tokens = [], audit_logs = [], registry_credentials = [],
     usage_samples = [], github_connections = [], seqs = (\<lambda>_. 1)\<rparr>"

record pg =
  tabs :: tables
  bus :: "(string \<times> string) list"
  faults :: "bool list"
  now :: int

definition start_pg :: pg where
  "start_pg = \<lparr>tabs = empty_tables, bus = [], faults = [], now = 0\<rparr>"

text \<open>
  The errors of the store: its own sentinels, then the driver's (no row for a query that wants
  one, a unique or foreign-key violation, any other failure).
\<close>

datatype store_error =
  ErrNotFound | ErrDuplicate | ErrInvalidTransition string string
  | PgNoRows | PgUnique | PgForeignKey | PgFault

type_synonym ('z, 'a) sop = "('z pg_scheme, store_error + 'a) act"

section \<open>Running statements\<close>

definition next_fault :: "'z pg_scheme \<Rightarrow> bool \<times> 'z pg_scheme" where
  "next_fault w = (case faults w of [] \<Rightarrow> (False, w) | b # bs \<Rightarrow> (b, w\<lparr>faults := bs\<rparr>))"

definition pg_read :: "(int \<Rightarrow> tables \<Rightarrow> store_error + 'a) \<Rightarrow> ('z, 'a) sop" where
  "pg_read q w = (case next_fault w of
      (True, w') \<Rightarrow> (Inl PgFault, w')
    | (False, w') \<Rightarrow> (q (now w') (tabs w'), w'))"

definition pg_exec :: "(int \<Rightarrow> tables \<Rightarrow> store_error + ('a \<times> tables)) \<Rightarrow> ('z, 'a) sop" where
  "pg_exec f w = (case next_fault w of
      (True, w') \<Rightarrow> (Inl PgFault, w')
    | (False, w') \<Rightarrow> (case f (now w') (tabs w') of
          Inl e \<Rightarrow> (Inl e, w')
        | Inr (a, t) \<Rightarrow> (Inr a, w'\<lparr>tabs := t\<rparr>)))"

text \<open>\<open>BEGIN\<close>, the body, \<open>COMMIT\<close>; a failure anywhere rolls the tables back.\<close>

definition pg_tx :: "('z, 'a) sop \<Rightarrow> ('z, 'a) sop" where
  "pg_tx body w = (case next_fault w of
      (True, w1) \<Rightarrow> (Inl PgFault, w1)
    | (False, w1) \<Rightarrow> (case body w1 of
          (Inl e, w2) \<Rightarrow> (Inl e, w2\<lparr>tabs := tabs w1\<rparr>)
        | (Inr a, w2) \<Rightarrow> (case next_fault w2 of
              (True, w3) \<Rightarrow> (Inl PgFault, w3\<lparr>tabs := tabs w1\<rparr>)
            | (False, w3) \<Rightarrow> (Inr a, w3))))"

lemma next_fault_frame:
  assumes "next_fault w = (b, w')"
  shows "tabs w' = tabs w" "bus w' = bus w" "now w' = now w"
  using assms by (auto simp: next_fault_def split: list.splits)

lemma next_fault_none [simp]: "faults w = [] \<Longrightarrow> next_fault w = (False, w)"
  by (simp add: next_fault_def)

lemma next_fault_Cons [simp]: "faults w = b # bs \<Longrightarrow> next_fault w = (b, w\<lparr>faults := bs\<rparr>)"
  by (simp add: next_fault_def)

lemma pg_read_none [simp]: "faults w = [] \<Longrightarrow> pg_read q w = (q (now w) (tabs w), w)"
  by (simp add: pg_read_def)

lemma pg_exec_none [simp]:
  "faults w = [] \<Longrightarrow> pg_exec f w = (case f (now w) (tabs w) of Inl e \<Rightarrow> (Inl e, w)
     | Inr (a, t) \<Rightarrow> (Inr a, w\<lparr>tabs := t\<rparr>))"
  by (simp add: pg_exec_def)

lemma pg_read_frame:
  assumes "pg_read q w = (r, w')"
  shows "tabs w' = tabs w" "bus w' = bus w" "now w' = now w"
    "r = Inl PgFault \<or> r = q (now w) (tabs w)"
  using assms next_fault_frame [of w]
  by (auto simp: pg_read_def split: prod.splits bool.splits)

lemma pg_exec_cases:
  assumes "pg_exec f w = (r, w')"
  shows "bus w' = bus w \<and> now w' = now w \<and>
    ((\<exists>a t. r = Inr a \<and> f (now w) (tabs w) = Inr (a, t) \<and> tabs w' = t) \<or>
     (\<exists>e. r = Inl e \<and> tabs w' = tabs w))"
  using assms next_fault_frame [of w]
  by (auto simp: pg_exec_def split: prod.splits bool.splits sum.splits)

locale table_evolution = evolution "tabs :: 'z pg_scheme \<Rightarrow> tables" R
  for R :: "tables \<Rightarrow> tables \<Rightarrow> bool"
begin

lemma keeps_read: "keeps (tabs :: 'z pg_scheme \<Rightarrow> tables) R (pg_read q)"
  unfolding keeps_def using pg_read_frame(1) by (metis evo_refl prod.collapse)

lemma keeps_exec:
  assumes "\<And>n t a t'. f n t = Inr (a, t') \<Longrightarrow> R t t'"
  shows "keeps (tabs :: 'z pg_scheme \<Rightarrow> tables) R (pg_exec f)"
proof -
  have "R (tabs w) (tabs (snd (pg_exec f w)))" for w :: "'z pg_scheme"
    using pg_exec_cases [of f w "fst (pg_exec f w)" "snd (pg_exec f w)"] assms evo_refl
    by (metis prod.collapse)
  then show ?thesis by (simp add: keeps_def)
qed

lemma keeps_tx:
  assumes "keeps (tabs :: 'z pg_scheme \<Rightarrow> tables) R body"
  shows "keeps (tabs :: 'z pg_scheme \<Rightarrow> tables) R (pg_tx body)"
proof -
  have "R (tabs w) (tabs (snd (pg_tx body w)))" for w :: "'z pg_scheme"
  proof -
    obtain b w1 where 1: "next_fault w = (b, w1)" by fastforce
    obtain r w2 where 2: "body w1 = (r, w2)" by fastforce
    obtain c w3 where 3: "next_fault w2 = (c, w3)" by fastforce
    have t: "tabs w1 = tabs w" "tabs w3 = tabs w2"
      using next_fault_frame(1) [OF 1] next_fault_frame(1) [OF 3] by simp_all
    moreover have "R (tabs w1) (tabs w2)" using assms 2 by (rule keepsD)
    ultimately show ?thesis
      by (auto simp: pg_tx_def 1 2 3 evo_refl split: bool.splits sum.splits)
  qed
  then show ?thesis by (simp add: keeps_def)
qed

lemmas keeps_db_rules = keeps_rules keeps_read keeps_tx

end

end
