(* ===== verification/Svctype_Instance.thy ===== *)
theory Svctype_Instance
  imports Uran_Prelude
begin

text \<open>
  Packages \<open>svctype\<close> (\<open>internal/svctype/svctype.go\<close>: the service types and the rules that tell
  them apart) and \<open>instance\<close> (\<open>internal/instance/instance.go\<close>: the instance sizes and their
  resource quantities). Resource quantities are kept as the strings of the source; parsing them is
  the Kubernetes library's work.
\<close>

section \<open>Service types\<close>

definition Web :: string where "Web = ''web''"
definition Static :: string where "Static = ''static''"
definition Worker :: string where "Worker = ''worker''"
definition Cron :: string where "Cron = ''cron''"

lemma svctype_distinct [simp]:
  "Web \<noteq> Static" "Web \<noteq> Worker" "Web \<noteq> Cron" "Static \<noteq> Web"
  "Static \<noteq> Worker" "Static \<noteq> Cron" "Worker \<noteq> Web" "Worker \<noteq> Static"
  "Worker \<noteq> Cron" "Cron \<noteq> Web" "Cron \<noteq> Static" "Cron \<noteq> Worker"
  by (simp_all add: Web_def Static_def Worker_def Cron_def)

definition svctype_IsValid :: "string \<Rightarrow> bool" where
  "svctype_IsValid t = (t = Web \<or> t = Static \<or> t = Worker \<or> t = Cron)"

definition RequiresSchedule :: "string \<Rightarrow> bool" where
  "RequiresSchedule t = (t = Cron)"

definition IsRoutable :: "string \<Rightarrow> bool" where
  "IsRoutable t = (t = Web \<or> t = Static)"

lemma routable_valid: "IsRoutable t \<Longrightarrow> svctype_IsValid t \<and> \<not> RequiresSchedule t"
  by (auto simp: IsRoutable_def svctype_IsValid_def RequiresSchedule_def)

section \<open>Instance sizes\<close>

definition Small :: string where "Small = ''small''"
definition Medium :: string where "Medium = ''medium''"
definition Large :: string where "Large = ''large''"
definition XLarge :: string where "XLarge = ''xlarge''"
definition XXLarge :: string where "XXLarge = ''2xlarge''"

lemma size_distinct [simp]:
  "Small \<noteq> Medium" "Small \<noteq> Large" "Small \<noteq> XLarge"
  "Small \<noteq> XXLarge" "Medium \<noteq> Small" "Medium \<noteq> Large"
  "Medium \<noteq> XLarge" "Medium \<noteq> XXLarge" "Large \<noteq> Small"
  "Large \<noteq> Medium" "Large \<noteq> XLarge" "Large \<noteq> XXLarge"
  "XLarge \<noteq> Small" "XLarge \<noteq> Medium" "XLarge \<noteq> Large"
  "XLarge \<noteq> XXLarge" "XXLarge \<noteq> Small" "XXLarge \<noteq> Medium"
  "XXLarge \<noteq> Large" "XXLarge \<noteq> XLarge"
  by (simp_all add: Small_def Medium_def Large_def XLarge_def XXLarge_def)

record resources =
  CPURequest :: string
  MemRequest :: string
  CPULimit :: string
  MemLimit :: string

definition sizes :: "(string \<times> resources) list" where
  "sizes =
    [(Small, \<lparr>CPURequest = ''50m'', MemRequest = ''64Mi'', CPULimit = ''250m'', MemLimit = ''256Mi''\<rparr>),
     (Medium, \<lparr>CPURequest = ''250m'', MemRequest = ''256Mi'', CPULimit = ''1'', MemLimit = ''512Mi''\<rparr>),
     (Large, \<lparr>CPURequest = ''500m'', MemRequest = ''512Mi'', CPULimit = ''2'', MemLimit = ''1Gi''\<rparr>),
     (XLarge, \<lparr>CPURequest = ''1'', MemRequest = ''1Gi'', CPULimit = ''4'', MemLimit = ''4Gi''\<rparr>),
     (XXLarge, \<lparr>CPURequest = ''2'', MemRequest = ''2Gi'', CPULimit = ''8'', MemLimit = ''8Gi''\<rparr>)]"

definition instance_IsValid :: "string \<Rightarrow> bool" where
  "instance_IsValid s = (map_of sizes s \<noteq> None)"

definition instance_Get :: "string \<Rightarrow> resources" where
  "instance_Get s = (case map_of sizes s of Some r \<Rightarrow> r
     | None \<Rightarrow> (case map_of sizes Small of Some r \<Rightarrow> r
         | None \<Rightarrow> \<lparr>CPURequest = '''', MemRequest = '''', CPULimit = '''', MemLimit = ''''\<rparr>))"

lemma instance_IsValid_iff:
  "instance_IsValid s \<longleftrightarrow> s \<in> {Small, Medium, Large, XLarge, XXLarge}"
  by (auto simp: instance_IsValid_def sizes_def)

lemma instance_Get_unknown: "\<not> instance_IsValid s \<Longrightarrow> instance_Get s = instance_Get Small"
  by (auto simp: instance_Get_def instance_IsValid_def split: option.split)

lemma instance_Get_in_sizes: "\<exists>n. (n, instance_Get s) \<in> set sizes \<and> instance_IsValid n"
proof (cases "map_of sizes s")
  case None
  then have "instance_Get s = instance_Get Small"
    by (simp add: instance_Get_unknown instance_IsValid_def)
  moreover have "(Small, instance_Get Small) \<in> set sizes" "instance_IsValid Small"
    by (simp_all add: instance_Get_def sizes_def instance_IsValid_def)
  ultimately show ?thesis by metis
next
  case (Some r)
  then show ?thesis by (metis instance_Get_def instance_IsValid_def map_of_SomeD option.simps(3,5))
qed

end
