(* ===== verification/Schema_Ok.thy ===== *)
theory Schema_Ok
  imports Schema
begin

text \<open>
  The consistency of the database: every identity column unique and below its sequence, every
  unique key unique, every foreign key with its parent. Each is one of three generic
  predicates on tables, whose behaviour under appending, filtering and updating rows is proved
  once; each operation of \<open>Schema\<close> is then shown to preserve the whole of \<open>schema_ok\<close>.
\<close>

section \<open>Generic table predicates\<close>

definition keyed :: "('r \<Rightarrow> int) \<Rightarrow> int \<Rightarrow> 'r list \<Rightarrow> bool" where
  "keyed key n rows \<longleftrightarrow> distinct (map key rows) \<and> (\<forall>r \<in> set rows. key r < n)"

definition uniq :: "('r \<Rightarrow> 'k) \<Rightarrow> 'r list \<Rightarrow> bool" where
  "uniq key rows \<longleftrightarrow> distinct (map key rows)"

definition refs :: "('r \<Rightarrow> int) \<Rightarrow> 'r list \<Rightarrow> ('p \<Rightarrow> int) \<Rightarrow> 'p list \<Rightarrow> bool" where
  "refs key rows pkey parents \<longleftrightarrow> (\<forall>r \<in> set rows. key r \<in> pkey ` set parents)"

lemma keyed_Nil [simp]: "keyed key n []"
  by (simp add: keyed_def)

lemma keyed_snoc [simp]: "keyed key n rows \<Longrightarrow> key r = n \<Longrightarrow> keyed key (n + 1) (rows @ [r])"
  by (fastforce simp: keyed_def)

lemma keyed_filter [simp]: "keyed key n rows \<Longrightarrow> keyed key n (filter P rows)"
  by (simp add: keyed_def distinct_map_filterI)

lemma map_key_update: "(\<And>r. key (f r) = key r) \<Longrightarrow> map key (sql_update P f rows) = map key rows"
  by (simp add: sql_update_def o_def if_distrib cong: if_cong)

lemma keyed_update [simp]: "keyed key n rows \<Longrightarrow> (\<And>r. key (f r) = key r) \<Longrightarrow>
    keyed key n (sql_update P f rows)"
  using map_key_update [of key f P rows]
  by (auto simp: keyed_def) (auto simp: sql_update_def)

lemma keyed_find: "keyed key n rows \<Longrightarrow> r \<in> set rows \<Longrightarrow> find (\<lambda>x. key x = key r) rows = Some r"
  by (simp add: keyed_def find_key_unique)

lemma keyed_inj: "keyed key n rows \<Longrightarrow> r \<in> set rows \<Longrightarrow> s \<in> set rows \<Longrightarrow> key r = key s \<Longrightarrow> r = s"
  by (metis keyed_find option.inject)

lemma uniq_Nil [simp]: "uniq key []"
  by (simp add: uniq_def)

lemma uniq_snoc [simp]: "uniq key (rows @ [r]) \<longleftrightarrow> uniq key rows \<and> (\<forall>s \<in> set rows. key s \<noteq> key r)"
  unfolding uniq_def by (simp add: image_iff) metis

lemma uniq_filter [simp]: "uniq key rows \<Longrightarrow> uniq key (filter P rows)"
  by (simp add: uniq_def distinct_map_filterI)

lemma uniq_update [simp]: "uniq key rows \<Longrightarrow> (\<And>r. key (f r) = key r) \<Longrightarrow> uniq key (sql_update P f rows)"
  by (simp add: uniq_def map_key_update)

text \<open>An update of the one row with a given id that moves its unique key to a free value.\<close>

lemma uniq_rekey:
  assumes "uniq key rows" "distinct (map ident rows)"
    and "\<forall>s \<in> set rows. ident s \<noteq> i \<longrightarrow> key s \<noteq> k" "\<And>r. r \<in> set rows \<Longrightarrow> ident r = i \<Longrightarrow> key (f r) = k"
  shows "uniq key (sql_update (\<lambda>r. ident r = i) f rows)"
  using assms
proof (induction rows)
  case (Cons r rows)
  then have IH: "uniq key (sql_update (\<lambda>r. ident r = i) f rows)" by (auto simp: uniq_def)
  show ?case
  proof (cases "ident r = i")
    case True
    then have "\<forall>s \<in> set rows. ident s \<noteq> i" using Cons.prems(2) by (auto simp: image_iff)
    then have "sql_update (\<lambda>r. ident r = i) f rows = rows"
      by (auto simp: sql_update_def intro: map_idI)
    then show ?thesis using True Cons.prems \<open>\<forall>s \<in> set rows. ident s \<noteq> i\<close>
      by (auto simp: uniq_def sql_update_def image_iff)
  next
    case False
    have "key r \<noteq> key (if ident s = i then f s else s)" if "s \<in> set rows" for s
      using that False Cons.prems by (auto simp: uniq_def)
    then show ?thesis using False IH by (auto simp: uniq_def sql_update_def)
  qed
qed (simp add: sql_update_def)

lemma refs_Nil [simp]: "refs key [] pkey parents"
  by (simp add: refs_def)

lemma refs_snoc [simp]:
  "refs key (rows @ [r]) pkey ps \<longleftrightarrow> refs key rows pkey ps \<and> key r \<in> pkey ` set ps"
  by (auto simp: refs_def)

lemma refs_parent_snoc [simp]: "refs key rows pkey ps \<Longrightarrow> refs key rows pkey (ps @ [p])"
  by (auto simp: refs_def)

lemma refs_filter [simp]: "refs key rows pkey ps \<Longrightarrow> refs key (filter P rows) pkey ps"
  by (auto simp: refs_def)

lemma refs_update [simp]: "refs key rows pkey ps \<Longrightarrow> (\<And>r. key (f r) = key r) \<Longrightarrow>
    refs key (sql_update P f rows) pkey ps"
  by (auto simp: refs_def sql_update_def)

lemma refs_parent_update [simp]:
  assumes "\<And>p. pkey (f p) = pkey p"
  shows "refs key rows pkey (sql_update P f ps) \<longleftrightarrow> refs key rows pkey ps"
proof -
  have "set (map pkey (sql_update P f ps)) = set (map pkey ps)"
    using assms by (simp only: map_key_update)
  then show ?thesis by (simp add: refs_def)
qed

text \<open>A cascade removes with the parents exactly the children that refer to them.\<close>

lemma refs_cascade:
  assumes "refs key rows pkey ps" and "\<And>r. r \<in> set rows \<Longrightarrow> Q r \<Longrightarrow> key r \<notin> G"
    and "\<And>p. p \<in> set ps \<Longrightarrow> pkey p \<notin> G \<Longrightarrow> P p"
  shows "refs key (filter Q rows) pkey (filter P ps)"
  using assms by (fastforce simp: refs_def)

lemma refs_cascade_children [simp]:
  "refs key rows pkey ps \<Longrightarrow>
     refs key (filter (\<lambda>r. key r \<notin> G) rows) pkey (filter (\<lambda>p. pkey p \<notin> G) ps)"
  by (rule refs_cascade) auto

lemma refs_cascade_one [simp]:
  "refs key rows pkey ps \<Longrightarrow>
     refs key (filter (\<lambda>r. key r \<noteq> i) rows) pkey (filter (\<lambda>p. pkey p \<noteq> i) ps)"
  using refs_cascade_children [of key rows pkey ps "{i}"] by simp

section \<open>The consistent databases\<close>

definition keys_ok :: "tables \<Rightarrow> bool" where
  "keys_ok t \<longleftrightarrow>
     keyed u_id (seqs t SUsers) (users t) \<and> keyed o_id (seqs t SOrgs) (orgs t) \<and>
     keyed p_id (seqs t SProjects) (projects t) \<and> keyed sv_id (seqs t SServices) (services t) \<and>
     keyed d_id (seqs t SDeploys) (deploys t) \<and> keyed b_id (seqs t SBuilds) (builds t) \<and>
     keyed cd_id (seqs t SDomains) (custom_domains t) \<and>
     keyed db_id (seqs t SDatabases) (databases t) \<and> keyed t_id (seqs t STokens) (api_tokens t) \<and>
     keyed a_id (seqs t SAudit) (audit_logs t) \<and>
     keyed rc_id (seqs t SCreds) (registry_credentials t) \<and>
     keyed us_id (seqs t SUsage) (usage_samples t)"

definition uniques_ok :: "tables \<Rightarrow> bool" where
  "uniques_ok t \<longleftrightarrow>
     uniq u_email (users t) \<and> uniq s_token (sessions t) \<and> uniq o_slug (orgs t) \<and>
     uniq (\<lambda>m. (m_org m, m_user m)) (org_members t) \<and>
     uniq (\<lambda>p. (p_org p, p_slug p)) (projects t) \<and>
     uniq (\<lambda>s. (sv_project s, sv_slug s)) (services t) \<and>
     uniq (\<lambda>e. (e_service e, e_key e)) (env_vars t) \<and> uniq cd_domain (custom_domains t) \<and>
     uniq (\<lambda>d. (db_project d, db_slug d)) (databases t) \<and> uniq t_hash (api_tokens t) \<and>
     uniq (\<lambda>c. (rc_org c, rc_registry c)) (registry_credentials t) \<and>
     uniq gc_org (github_connections t)"

definition refs_ok :: "tables \<Rightarrow> bool" where
  "refs_ok t \<longleftrightarrow>
     refs s_user (sessions t) u_id (users t) \<and> refs m_org (org_members t) o_id (orgs t) \<and>
     refs m_user (org_members t) u_id (users t) \<and> refs p_org (projects t) o_id (orgs t) \<and>
     refs sv_project (services t) p_id (projects t) \<and>
     refs e_service (env_vars t) sv_id (services t) \<and>
     refs d_service (deploys t) sv_id (services t) \<and> refs b_deploy (builds t) d_id (deploys t) \<and>
     refs cd_service (custom_domains t) sv_id (services t) \<and>
     refs db_project (databases t) p_id (projects t) \<and> refs t_user (api_tokens t) u_id (users t) \<and>
     refs a_actor (audit_logs t) u_id (users t) \<and>
     refs rc_org (registry_credentials t) o_id (orgs t) \<and>
     refs us_service (usage_samples t) sv_id (services t) \<and>
     refs gc_org (github_connections t) o_id (orgs t)"

definition schema_ok :: "tables \<Rightarrow> bool" where
  "schema_ok t \<longleftrightarrow> keys_ok t \<and> uniques_ok t \<and> refs_ok t"

lemmas schema_defs = schema_ok_def keys_ok_def uniques_ok_def refs_ok_def

lemma schema_ok_empty: "schema_ok empty_tables"
  by (simp add: schema_defs empty_tables_def)

section \<open>Preservation\<close>

named_theorems schema_intros \<open>preservation of \<open>schema_ok\<close> by the table operations\<close>

lemma ins_user_ok [schema_intros]: "ins_user e h nm n t = Inr (a, t') \<Longrightarrow> schema_ok t \<Longrightarrow> schema_ok t'"
  by (clarsimp simp: ins_user_def Let_def split: if_splits, simp_all add: nextval_def schema_defs)

lemma ins_session_ok [schema_intros]: "ins_session k u x n t = Inr (a, t') \<Longrightarrow> schema_ok t \<Longrightarrow> schema_ok t'"
  by (clarsimp simp: ins_session_def Let_def split: if_splits, simp_all add: nextval_def schema_defs)

lemma ins_org_ok [schema_intros]: "ins_org nm sl n t = Inr (a, t') \<Longrightarrow> schema_ok t \<Longrightarrow> schema_ok t'"
  by (clarsimp simp: ins_org_def Let_def split: if_splits, simp_all add: nextval_def schema_defs)

lemma ins_member_ok [schema_intros]: "ins_member i u r n t = Inr (a, t') \<Longrightarrow> schema_ok t \<Longrightarrow> schema_ok t'"
  by (clarsimp simp: ins_member_def Let_def split: if_splits, simp_all add: nextval_def schema_defs)

lemma upsert_member_ok [schema_intros]:
  "upsert_member i u r n t = Inr (a, t') \<Longrightarrow> schema_ok t \<Longrightarrow> schema_ok t'"
  by (cases "\<exists>m \<in> set (org_members t). m_org m = i \<and> m_user m = u")
    (clarsimp simp: upsert_member_def, simp add: schema_defs, auto simp: upsert_member_def intro: ins_member_ok)

lemma ins_project_ok [schema_intros]: "ins_project i nm sl n t = Inr (a, t') \<Longrightarrow> schema_ok t \<Longrightarrow> schema_ok t'"
  by (clarsimp simp: ins_project_def Let_def split: if_splits, simp_all add: nextval_def schema_defs)

lemma ins_service_ok [schema_intros]:
  "ins_service p nm sl ty re br sc n t = Inr (a, t') \<Longrightarrow> schema_ok t \<Longrightarrow> schema_ok t'"
  by (clarsimp simp: ins_service_def Let_def split: if_splits, simp_all add: nextval_def schema_defs)

lemma upsert_env_ok [schema_intros]:
  "upsert_env s k v se bt n t = Inr (a, t') \<Longrightarrow> schema_ok t \<Longrightarrow> schema_ok t'"
  by (clarsimp simp: upsert_env_def Let_def split: if_splits, simp_all add: nextval_def schema_defs)

lemma ins_deploy_ok [schema_intros]:
  "ins_deploy s st c im k pr n t = Inr (a, t') \<Longrightarrow> schema_ok t \<Longrightarrow> schema_ok t'"
  by (clarsimp simp: ins_deploy_def Let_def split: if_splits, simp_all add: nextval_def schema_defs)

lemma ins_build_ok [schema_intros]:
  "ins_build d st l s e n t = Inr (a, t') \<Longrightarrow> schema_ok t \<Longrightarrow> schema_ok t'"
  by (clarsimp simp: ins_build_def Let_def split: if_splits, simp_all add: nextval_def schema_defs)

lemma ins_domain_ok [schema_intros]: "ins_domain s d n t = Inr (a, t') \<Longrightarrow> schema_ok t \<Longrightarrow> schema_ok t'"
  by (clarsimp simp: ins_domain_def Let_def split: if_splits, simp_all add: nextval_def schema_defs)

lemma ins_database_ok [schema_intros]:
  "ins_database p nm sl en ti i mn mx sz st po ba n t = Inr (a, t') \<Longrightarrow> schema_ok t \<Longrightarrow> schema_ok t'"
  by (clarsimp simp: ins_database_def Let_def split: if_splits, simp_all add: nextval_def schema_defs)

lemma ins_token_ok [schema_intros]:
  "ins_token u nm h p n t = Inr (a, t') \<Longrightarrow> schema_ok t \<Longrightarrow> schema_ok t'"
  by (clarsimp simp: ins_token_def Let_def split: if_splits, simp_all add: nextval_def schema_defs)

lemma ins_audit_ok [schema_intros]:
  "ins_audit u e m p st n t = Inr (a, t') \<Longrightarrow> schema_ok t \<Longrightarrow> schema_ok t'"
  by (clarsimp simp: ins_audit_def Let_def split: if_splits, simp_all add: nextval_def schema_defs)

lemma upsert_credential_ok [schema_intros]:
  "upsert_credential i r u p n t = Inr (a, t') \<Longrightarrow> schema_ok t \<Longrightarrow> schema_ok t'"
  by (clarsimp simp: upsert_credential_def Let_def find_None_all split: if_splits option.splits;
      simp add: nextval_def schema_defs)

lemma ins_usage_ok [schema_intros]: "ins_usage s c m n t = Inr (a, t') \<Longrightarrow> schema_ok t \<Longrightarrow> schema_ok t'"
  by (clarsimp simp: ins_usage_def Let_def split: if_splits, simp_all add: nextval_def schema_defs)

lemma upsert_github_ok [schema_intros]:
  "upsert_github i k ac n t = Inr (a, t') \<Longrightarrow> schema_ok t \<Longrightarrow> schema_ok t'"
  by (clarsimp simp: upsert_github_def Let_def split: if_splits, simp_all add: nextval_def schema_defs)

lemma upd_service_ok [schema_intros]:
  assumes "\<And>s. sv_id (f s) = sv_id s \<and> sv_project (f s) = sv_project s \<and> sv_slug (f s) = sv_slug s"
  shows "schema_ok t \<Longrightarrow> schema_ok (upd_service i f t)"
  using assms by (simp add: upd_service_def schema_defs)

lemma upd_deploy_ok [schema_intros]:
  assumes "\<And>d. d_id (f d) = d_id d \<and> d_service (f d) = d_service d"
  shows "schema_ok t \<Longrightarrow> schema_ok (upd_deploy P f t)"
  using assms by (simp add: upd_deploy_def schema_defs)

lemma upd_build_ok [schema_intros]:
  assumes "\<And>b. b_id (f b) = b_id b \<and> b_deploy (f b) = b_deploy b"
  shows "schema_ok t \<Longrightarrow> schema_ok (upd_build i f t)"
  using assms by (simp add: upd_build_def schema_defs)

lemma upd_database_ok [schema_intros]:
  assumes "\<And>d. db_id (f d) = db_id d \<and> db_project (f d) = db_project d \<and> db_slug (f d) = db_slug d"
  shows "schema_ok t \<Longrightarrow> schema_ok (upd_database i f t)"
  using assms by (simp add: upd_database_def schema_defs)

lemma upd_token_ok [schema_intros]:
  assumes "\<And>k. t_id (f k) = t_id k \<and> t_user (f k) = t_user k \<and> t_hash (f k) = t_hash k"
  shows "schema_ok t \<Longrightarrow> schema_ok (upd_token h f t)"
  using assms by (simp add: upd_token_def schema_defs)

lemma upd_org_ok [schema_intros]:
  assumes "upd_org i nm sl n t = Inr (a, t')" "schema_ok t"
  shows "schema_ok t'"
proof -
  have "uniq o_slug (sql_update (\<lambda>r. o_id r = i) (\<lambda>r. r\<lparr>o_name := nm, o_slug := sl\<rparr>) (orgs t))"
    using assms by (intro uniq_rekey [where k = sl])
      (auto simp: upd_org_def schema_defs keyed_def split: option.splits if_splits)
  then show ?thesis using assms
    by (clarsimp simp: upd_org_def split: option.splits if_splits) (simp add: schema_defs)
qed

lemma upd_project_ok [schema_intros]:
  assumes "upd_project i nm sl n t = Inr (a, t')" "schema_ok t"
  shows "schema_ok t'"
proof -
  obtain p where p: "find (\<lambda>p. p_id p = i) (projects t) = Some p"
    using assms(1) by (auto simp: upd_project_def split: option.splits)
  then have pin: "p \<in> set (projects t)" "p_id p = i" by (auto dest: find_Some_in)
  have keyed: "keyed p_id (seqs t SProjects) (projects t)" using assms(2) by (simp add: schema_defs)
  have "uniq (\<lambda>p. (p_org p, p_slug p))
      (sql_update (\<lambda>r. p_id r = i) (\<lambda>r. r\<lparr>p_name := nm, p_slug := sl\<rparr>) (projects t))"
  proof (rule uniq_rekey [where k = "(p_org p, sl)"])
    show "uniq (\<lambda>p. (p_org p, p_slug p)) (projects t)" using assms(2) by (simp add: schema_defs)
    show "distinct (map p_id (projects t))" using keyed by (simp add: keyed_def)
    show "\<forall>s \<in> set (projects t). p_id s \<noteq> i \<longrightarrow> (p_org s, p_slug s) \<noteq> (p_org p, sl)"
      using assms(1) p by (auto simp: upd_project_def split: if_splits)
    show "(p_org (r\<lparr>p_name := nm, p_slug := sl\<rparr>), p_slug (r\<lparr>p_name := nm, p_slug := sl\<rparr>)) = (p_org p, sl)"
      if "r \<in> set (projects t)" "p_id r = i" for r
      using keyed_inj [OF keyed that(1) pin(1)] that pin by simp
  qed
  then show ?thesis using assms
    by (clarsimp simp: upd_project_def split: option.splits if_splits) (simp add: schema_defs)
qed

lemma del_services_ok [schema_intros]:
  assumes "schema_ok t"
  shows "schema_ok (del_services P t)"
proof -
  let ?gone = "set (map sv_id (filter P (services t)))"
  let ?dgone = "set (map d_id (filter (\<lambda>d. d_service d \<in> ?gone) (deploys t)))"
  have k: "keyed d_id (seqs t SDeploys) (deploys t)" using assms by (simp add: schema_defs)
  have d: "d_id d \<in> ?dgone \<longleftrightarrow> d_service d \<in> ?gone" if "d \<in> set (deploys t)" for d
    using keyed_inj [OF k] that by auto
  have "refs b_deploy (filter (\<lambda>b. b_deploy b \<notin> ?dgone) (builds t)) d_id
      (filter (\<lambda>d. d_service d \<notin> ?gone) (deploys t))"
    by (rule refs_cascade [where G = ?dgone])
      (use assms d in \<open>auto simp: schema_defs simp del: set_map\<close>)
  then show ?thesis using assms
    by (simp add: del_services_def Let_def schema_defs del: set_map)
qed

lemma del_projects_ok [schema_intros]:
  assumes "schema_ok t"
  shows "schema_ok (del_projects P t)"
proof -
  let ?gone = "set (map p_id (filter P (projects t)))"
  let ?t = "del_services (\<lambda>s. sv_project s \<in> ?gone) t"
  have t: "projects ?t = projects t" "databases ?t = databases t" "seqs ?t = seqs t"
    by (simp_all add: del_services_def Let_def)
  have ok: "schema_ok ?t" using assms by (rule del_services_ok)
  have gone: "\<forall>s \<in> set (services ?t). sv_project s \<notin> ?gone"
    by (auto simp: del_services_def Let_def)
  have "refs sv_project (services ?t) p_id (projects ?t)" using ok unfolding schema_defs by blast
  then have "refs sv_project (services ?t) p_id (projects t)" by (simp only: t)
  then have "refs sv_project (services ?t) p_id (filter (\<lambda>p. p_id p \<notin> ?gone) (projects t))"
    using gone unfolding refs_def by fastforce
  then show ?thesis using ok assms
    by (simp add: del_projects_def Let_def schema_defs t del: set_map)
qed

lemma del_org_ok [schema_intros]:
  assumes "schema_ok t"
  shows "schema_ok (del_org i t)"
proof -
  let ?t = "del_projects (\<lambda>p. p_org p = i) t"
  have ok: "schema_ok ?t" using assms by (rule del_projects_ok)
  have gone: "\<forall>p \<in> set (projects ?t). p_org p \<noteq> i"
    by (auto simp: del_projects_def Let_def)
  have "refs p_org (projects ?t) o_id (orgs ?t)" using ok by (simp add: schema_defs)
  then have "refs p_org (projects ?t) o_id (filter (\<lambda>r. o_id r \<noteq> i) (orgs ?t))"
    using gone unfolding refs_def by fastforce
  moreover have "orgs ?t = orgs t" "org_members ?t = org_members t"
      "registry_credentials ?t = registry_credentials t"
      "github_connections ?t = github_connections t"
    by (simp_all add: del_projects_def del_services_def Let_def)
  ultimately show ?thesis using ok by (simp add: del_org_def Let_def schema_defs)
qed

text \<open>Deletes from a table that nothing refers to.\<close>

lemma del_leaf_ok [schema_intros]:
  assumes "schema_ok t"
  shows "schema_ok (t\<lparr>sessions := filter P1 (sessions t)\<rparr>)"
    "schema_ok (t\<lparr>org_members := filter P2 (org_members t)\<rparr>)"
    "schema_ok (t\<lparr>env_vars := filter P3 (env_vars t)\<rparr>)"
    "schema_ok (t\<lparr>custom_domains := filter P4 (custom_domains t)\<rparr>)"
    "schema_ok (t\<lparr>databases := filter P5 (databases t)\<rparr>)"
    "schema_ok (t\<lparr>api_tokens := filter P6 (api_tokens t)\<rparr>)"
    "schema_ok (t\<lparr>registry_credentials := filter P7 (registry_credentials t)\<rparr>)"
    "schema_ok (t\<lparr>github_connections := filter P8 (github_connections t)\<rparr>)"
  using assms by (simp_all add: schema_defs)

section \<open>A small consistent database\<close>

text \<open>Two users, one org with an owner and a viewer, one service with a queued deploy.\<close>

definition demo_service :: service where
  "demo_service = \<lparr>sv_id = 1, sv_project = 1, sv_name = ''Web'', sv_slug = ''web'', sv_type = ''web'',
     sv_repo = ''https://github.com/acme/web.git'', sv_branch = ''main'', sv_schedule = '''',
     sv_replicas = 1, sv_size = ''small'', sv_health = '''', sv_min = 0, sv_max = 0,
     sv_disk_size = '''', sv_disk_path = '''', sv_suspended = False, sv_created = 0\<rparr>"

definition demo_deploy :: deploy where
  "demo_deploy = \<lparr>d_id = 1, d_service = 1, d_status = ''queued'', d_commit = ''abc'',
     d_image = '''', d_kind = ''production'', d_pr = None, d_created = 0, d_updated = 0\<rparr>"

definition demo_tables :: tables where
  "demo_tables = empty_tables\<lparr>
     users := [\<lparr>u_id = 1, u_email = ''ann@acme.io'', u_hash = ''h1'', u_name = ''Ann'', u_created = 0\<rparr>,
               \<lparr>u_id = 2, u_email = ''bob@acme.io'', u_hash = ''h2'', u_name = ''Bob'', u_created = 0\<rparr>],
     orgs := [\<lparr>o_id = 1, o_name = ''Acme'', o_slug = ''acme'', o_created = 0\<rparr>],
     org_members := [\<lparr>m_org = 1, m_user = 1, m_role = ''owner''\<rparr>,
                     \<lparr>m_org = 1, m_user = 2, m_role = ''viewer''\<rparr>],
     projects := [\<lparr>p_id = 1, p_org = 1, p_name = ''Site'', p_slug = ''site'', p_created = 0\<rparr>],
     services := [demo_service], deploys := [demo_deploy],
     builds := [\<lparr>b_id = 1, b_deploy = 1, b_status = ''queued'', b_logs = '''', b_started = None,
                  b_ended = None\<rparr>],
     seqs := (\<lambda>_. 3)\<rparr>"

lemma demo_tables_ok: "schema_ok demo_tables"
  by (simp add: schema_defs demo_tables_def demo_service_def demo_deploy_def empty_tables_def
      keyed_def uniq_def refs_def)

end
