(* ===== verification/Db_Evolution.thy ===== *)
theory Db_Evolution
  imports Schema_Ok Deploy_State
begin

text \<open>
  What every statement of the program does to the database, in one reflexive and transitive
  relation \<open>db_evolves\<close>: consistency (\<open>schema_ok\<close>) is preserved, and deploys live their lifecycle.
  A deploy is born queued or deploying, with a fresh id; it keeps its service, commit, kind and
  pull request; its status makes only moves of the state machine.

  The theory interprets \<open>table_evolution\<close> with it, so that a method, handler or processor made of
  statements that respect the relation respects it too, whatever its control flow and whichever
  of its calls fail.
\<close>

definition same_deploy :: "deploy \<Rightarrow> deploy \<Rightarrow> bool" where
  "same_deploy d d' \<longleftrightarrow> d_id d = d_id d' \<and> d_service d = d_service d' \<and> d_commit d = d_commit d' \<and>
     d_kind d = d_kind d' \<and> d_pr d = d_pr d' \<and> d_created d = d_created d' \<and>
     moves (d_status d) (d_status d')"

definition born_at :: "int \<Rightarrow> deploy \<Rightarrow> bool" where
  "born_at n d \<longleftrightarrow> n \<le> d_id d \<and> (moves StatusQueued (d_status d) \<or> moves StatusDeploying (d_status d))"

definition deploys_evolve :: "tables \<Rightarrow> tables \<Rightarrow> bool" where
  "deploys_evolve t t' \<longleftrightarrow> seqs t SDeploys \<le> seqs t' SDeploys \<and>
     (\<forall>d' \<in> set (deploys t'). (\<exists>d \<in> set (deploys t). same_deploy d d') \<or> born_at (seqs t SDeploys) d')"

definition db_evolves :: "tables \<Rightarrow> tables \<Rightarrow> bool" where
  "db_evolves t t' \<longleftrightarrow> (schema_ok t \<longrightarrow> schema_ok t' \<and> deploys_evolve t t')"

named_theorems evolves \<open>actions and table operations that respect \<open>db_evolves\<close>\<close>

lemma same_deploy_refl [simp]: "same_deploy d d"
  by (simp add: same_deploy_def)

lemma same_deploy_trans: "same_deploy d e \<Longrightarrow> same_deploy e f \<Longrightarrow> same_deploy d f"
  unfolding same_deploy_def by (simp; metis moves_trans)

lemma born_at_same: "born_at n d \<Longrightarrow> same_deploy d e \<Longrightarrow> born_at n e"
  unfolding born_at_def same_deploy_def by (metis moves_trans)

lemma deploys_evolve_refl [simp]: "deploys_evolve t t"
  unfolding deploys_evolve_def by (metis order_refl same_deploy_refl)

lemma deploys_evolve_trans:
  assumes 1: "deploys_evolve t u" and 2: "deploys_evolve u v"
  shows "deploys_evolve t v"
  unfolding deploys_evolve_def
proof (intro conjI ballI)
  show "seqs t SDeploys \<le> seqs v SDeploys"
    using 1 2 unfolding deploys_evolve_def by linarith
  fix f assume "f \<in> set (deploys v)"
  then consider e where "e \<in> set (deploys u)" "same_deploy e f" | "born_at (seqs u SDeploys) f"
    using 2 unfolding deploys_evolve_def by blast
  then show "(\<exists>d \<in> set (deploys t). same_deploy d f) \<or> born_at (seqs t SDeploys) f"
  proof cases
    case 1
    then show ?thesis using assms(1) born_at_same same_deploy_trans
      unfolding deploys_evolve_def by blast
  next
    case 2
    then show ?thesis using assms(1) unfolding deploys_evolve_def born_at_def by force
  qed
qed

lemma db_evolves_refl [simp]: "db_evolves t t"
  by (simp add: db_evolves_def)

lemma db_evolves_trans: "db_evolves t u \<Longrightarrow> db_evolves u v \<Longrightarrow> db_evolves t v"
  unfolding db_evolves_def using deploys_evolve_trans by blast

interpretation evo: table_evolution db_evolves
  by unfold_locales (rule db_evolves_refl, rule db_evolves_trans)

lemmas evo_rules = evo.keeps_db_rules

text \<open>An operation that leaves the deploys alone only has to keep the schema consistent.\<close>

lemma db_evolves_frameI:
  assumes "schema_ok t \<Longrightarrow> schema_ok t'" "deploys t' = deploys t"
    "seqs t' SDeploys = seqs t SDeploys"
  shows "db_evolves t t'"
  using assms unfolding db_evolves_def deploys_evolve_def by (metis order_refl same_deploy_refl)

lemma ins_frame:
  "ins_user e h nm n t = Inr (u, t') \<Longrightarrow> deploys t' = deploys t \<and> seqs t' SDeploys = seqs t SDeploys"
  "ins_session k i x n t = Inr (a, t') \<Longrightarrow> deploys t' = deploys t \<and> seqs t' SDeploys = seqs t SDeploys"
  "ins_org nm sl n t = Inr (b, t') \<Longrightarrow> deploys t' = deploys t \<and> seqs t' SDeploys = seqs t SDeploys"
  "upsert_member i j r n t = Inr (a, t') \<Longrightarrow> deploys t' = deploys t \<and> seqs t' SDeploys = seqs t SDeploys"
  "ins_member i j r n t = Inr (a, t') \<Longrightarrow> deploys t' = deploys t \<and> seqs t' SDeploys = seqs t SDeploys"
  "ins_project i nm sl n t = Inr (c, t') \<Longrightarrow> deploys t' = deploys t \<and> seqs t' SDeploys = seqs t SDeploys"
  "ins_service i nm sl ty re br sc n t = Inr (s, t') \<Longrightarrow> deploys t' = deploys t \<and> seqs t' SDeploys = seqs t SDeploys"
  "upsert_env i k v se bt n t = Inr (a, t') \<Longrightarrow> deploys t' = deploys t \<and> seqs t' SDeploys = seqs t SDeploys"
  by (auto simp: ins_user_def ins_session_def ins_org_def ins_member_def upsert_member_def
      ins_project_def ins_service_def upsert_env_def nextval_def Let_def split: if_splits)

lemma ins_frame':
  "ins_build i st l bs be n t = Inr (a, t') \<Longrightarrow> deploys t' = deploys t \<and> seqs t' SDeploys = seqs t SDeploys"
  "ins_domain i d n t = Inr (cd, t') \<Longrightarrow> deploys t' = deploys t \<and> seqs t' SDeploys = seqs t SDeploys"
  "ins_database i nm sl en ti inst mn mx sz sto po ba n t = Inr (db, t') \<Longrightarrow>
     deploys t' = deploys t \<and> seqs t' SDeploys = seqs t SDeploys"
  "ins_token i nm h p n t = Inr (tk, t') \<Longrightarrow> deploys t' = deploys t \<and> seqs t' SDeploys = seqs t SDeploys"
  "ins_audit i e m p s n t = Inr (a, t') \<Longrightarrow> deploys t' = deploys t \<and> seqs t' SDeploys = seqs t SDeploys"
  "upsert_credential i r u p n t = Inr (rc, t') \<Longrightarrow> deploys t' = deploys t \<and> seqs t' SDeploys = seqs t SDeploys"
  "ins_usage i c mem n t = Inr (a, t') \<Longrightarrow> deploys t' = deploys t \<and> seqs t' SDeploys = seqs t SDeploys"
  "upsert_github i tok ac n t = Inr (a, t') \<Longrightarrow> deploys t' = deploys t \<and> seqs t' SDeploys = seqs t SDeploys"
  "upd_org i nm sl n t = Inr (og, t') \<Longrightarrow> deploys t' = deploys t \<and> seqs t' SDeploys = seqs t SDeploys"
  "upd_project i nm sl n t = Inr (pj, t') \<Longrightarrow> deploys t' = deploys t \<and> seqs t' SDeploys = seqs t SDeploys"
  by (auto simp: ins_build_def ins_domain_def ins_database_def ins_token_def ins_audit_def
      upsert_credential_def ins_usage_def upsert_github_def upd_org_def upd_project_def
      nextval_def Let_def split: if_splits option.splits)

lemmas frames = ins_frame ins_frame'

text \<open>One fact per inserting statement, as an action.\<close>

lemma exec_evolves:
  assumes "\<And>n t a t'. f n t = Inr (a, t') \<Longrightarrow> schema_ok t \<Longrightarrow> schema_ok t'"
    and "\<And>n t a t'. f n t = Inr (a, t') \<Longrightarrow> deploys t' = deploys t \<and> seqs t' SDeploys = seqs t SDeploys"
  shows "keeps tabs db_evolves (pg_exec f)"
  using assms by (metis evo.keeps_exec db_evolves_frameI)

lemma exec_insert_evolves [evolves]:
  "keeps tabs db_evolves (pg_exec (ins_user e h nm))"
  "keeps tabs db_evolves (pg_exec (ins_session k i x))"
  "keeps tabs db_evolves (pg_exec (ins_org nm sl))"
  "keeps tabs db_evolves (pg_exec (ins_member i j r))"
  "keeps tabs db_evolves (pg_exec (upsert_member i j r))"
  "keeps tabs db_evolves (pg_exec (ins_project i nm sl))"
  "keeps tabs db_evolves (pg_exec (ins_service i nm sl ty re br sc))"
  "keeps tabs db_evolves (pg_exec (upsert_env i k v se bt))"
  "keeps tabs db_evolves (pg_exec (ins_build i st l bs be))"
  "keeps tabs db_evolves (pg_exec (ins_domain i d))"
  "keeps tabs db_evolves (pg_exec (ins_database i nm sl en ti inst mn mx sz sto po ba))"
  "keeps tabs db_evolves (pg_exec (ins_token i nm h p))"
  "keeps tabs db_evolves (pg_exec (ins_audit i e m p s))"
  "keeps tabs db_evolves (pg_exec (upsert_credential i r u p))"
  "keeps tabs db_evolves (pg_exec (ins_usage i c mem))"
  "keeps tabs db_evolves (pg_exec (upsert_github i tok ac))"
  "keeps tabs db_evolves (pg_exec (upd_org i nm sl))"
  "keeps tabs db_evolves (pg_exec (upd_project i nm sl))"
  by (rule exec_evolves, erule (1) schema_intros, erule frames)+

section \<open>Operations on the deploys\<close>

lemma ins_deploy_evolves:
  assumes "ins_deploy s st c im k pr n t = Inr (d, t')" "st \<in> {StatusQueued, StatusDeploying}"
  shows "db_evolves t t'"
  unfolding db_evolves_def
proof (intro impI conjI)
  assume ok: "schema_ok t"
  then show "schema_ok t'" using assms(1) ins_deploy_ok by blast
  show "deploys_evolve t t'" unfolding deploys_evolve_def
    using assms by (force simp: ins_deploy_def nextval_def Let_def born_at_def
        intro: same_deploy_refl split: if_splits)
qed

lemma upd_deploy_evolves:
  assumes "\<And>d. P d \<Longrightarrow> d \<in> set (deploys t) \<Longrightarrow> same_deploy d (f d)"
    and "\<And>d. d_id (f d) = d_id d \<and> d_service (f d) = d_service d"
  shows "db_evolves t (upd_deploy P f t)"
  unfolding db_evolves_def
proof (intro impI conjI)
  assume "schema_ok t"
  then show "schema_ok (upd_deploy P f t)" using assms(2) by (rule upd_deploy_ok [rotated]) 
  show "deploys_evolve t (upd_deploy P f t)"
    using assms(1) unfolding deploys_evolve_def upd_deploy_def sql_update_def
    by (auto intro: same_deploy_refl)
qed

lemma deploys_subset_evolve:
  assumes "set (deploys t') \<subseteq> set (deploys t)" "seqs t' = seqs t"
  shows "deploys_evolve t t'"
  using assms unfolding deploys_evolve_def by (auto intro: same_deploy_refl)

lemma del_evolves [evolves]:
  "db_evolves t (del_services P t)" "db_evolves t (del_projects Q t)" "db_evolves t (del_org i t)"
  by (auto simp: db_evolves_def intro!: deploys_subset_evolve del_services_ok del_projects_ok
      del_org_ok) (auto simp: del_services_def del_projects_def del_org_def Let_def)

lemma upd_evolves [evolves]:
  "(\<And>s. sv_id (f s) = sv_id s \<and> sv_project (f s) = sv_project s \<and> sv_slug (f s) = sv_slug s) \<Longrightarrow>
     db_evolves t (upd_service i f t)"
  "(\<And>b. b_id (g b) = b_id b \<and> b_deploy (g b) = b_deploy b) \<Longrightarrow> db_evolves t (upd_build i g t)"
  "(\<And>d. db_id (h d) = db_id d \<and> db_project (h d) = db_project d \<and> db_slug (h d) = db_slug d) \<Longrightarrow>
     db_evolves t (upd_database i h t)"
  "(\<And>k. t_id (j k) = t_id k \<and> t_user (j k) = t_user k \<and> t_hash (j k) = t_hash k) \<Longrightarrow>
     db_evolves t (upd_token z j t)"
  by (rule db_evolves_frameI,
      (rule upd_service_ok upd_build_ok upd_database_ok upd_token_ok, simp, assumption),
      simp add: upd_service_def upd_build_def upd_database_def upd_token_def,
      simp add: upd_service_def upd_build_def upd_database_def upd_token_def)+

lemma del_leaf_evolves [evolves]:
  "db_evolves t (t\<lparr>sessions := filter P1 (sessions t)\<rparr>)"
  "db_evolves t (t\<lparr>org_members := filter P2 (org_members t)\<rparr>)"
  "db_evolves t (t\<lparr>env_vars := filter P3 (env_vars t)\<rparr>)"
  "db_evolves t (t\<lparr>custom_domains := filter P4 (custom_domains t)\<rparr>)"
  "db_evolves t (t\<lparr>databases := filter P5 (databases t)\<rparr>)"
  "db_evolves t (t\<lparr>api_tokens := filter P6 (api_tokens t)\<rparr>)"
  "db_evolves t (t\<lparr>registry_credentials := filter P7 (registry_credentials t)\<rparr>)"
  "db_evolves t (t\<lparr>github_connections := filter P8 (github_connections t)\<rparr>)"
  by (rule db_evolves_frameI, erule del_leaf_ok, simp_all)+

end
