(* ===== verification/Store_Deploys.thy ===== *)
theory Store_Deploys
  imports Db_Evolution
begin

text \<open>
  \<open>internal/store/deploys.go\<close>, \<open>builds.go\<close>, \<open>Notify\<close> of \<open>events.go\<close> and
  \<open>LatestImagedDeploy\<close> of \<open>settings.go\<close>: one action per method. The section on the lifecycle
  states what every one of them does to the deploys: a deploy that stays keeps its service, kind
  and pull request, and its status only makes moves of the state machine.
\<close>

section \<open>Deploys\<close>

definition createBuildableDeploy ::
    "int \<Rightarrow> string \<Rightarrow> string \<Rightarrow> int option \<Rightarrow> ('z, deploy) sop" where
  "createBuildableDeploy serviceID commitSHA kind prNumber =
     pg_tx (throwing (pg_exec (ins_deploy serviceID StatusQueued commitSHA '''' kind prNumber))
       (\<lambda>d. throwing (pg_exec (ins_build (d_id d) BuildQueued '''' None None))
       (\<lambda>_. ret (Inr d))))"

definition CreateDeploy :: "int \<Rightarrow> string \<Rightarrow> ('z, deploy) sop" where
  "CreateDeploy serviceID commitSHA = createBuildableDeploy serviceID commitSHA KindProduction None"

definition CreatePreviewDeploy :: "int \<Rightarrow> string \<Rightarrow> int \<Rightarrow> ('z, deploy) sop" where
  "CreatePreviewDeploy serviceID commitSHA prNumber =
     createBuildableDeploy serviceID commitSHA KindPreview (Some prNumber)"

definition createImagedDeploy :: "int \<Rightarrow> string \<Rightarrow> string \<Rightarrow> string \<Rightarrow> ('z, deploy) sop" where
  "createImagedDeploy serviceID img commitSHA buildLog =
     pg_tx (throwing
       (pg_exec (ins_deploy serviceID StatusDeploying commitSHA img KindProduction None))
       (\<lambda>d. throwing (pg_exec (\<lambda>n. ins_build (d_id d) BuildSucceeded buildLog (Some n) (Some n) n))
       (\<lambda>_. ret (Inr d))))"

definition CreateRollbackDeploy :: "int \<Rightarrow> string \<Rightarrow> string \<Rightarrow> int \<Rightarrow> ('z, deploy) sop" where
  "CreateRollbackDeploy serviceID img commitSHA fromDeployID =
     createImagedDeploy serviceID img commitSHA
       (''rolled back: reused image '' @ img @ '' from deploy '' @ itoa fromDeployID @ ''\<newline>'')"

definition CreateImageDeploy :: "int \<Rightarrow> string \<Rightarrow> ('z, deploy) sop" where
  "CreateImageDeploy serviceID img =
     createImagedDeploy serviceID img '''' (''deployed prebuilt image '' @ img @ ''\<newline>'')"

definition DeployByID :: "int \<Rightarrow> ('z, deploy) sop" where
  "DeployByID i = pg_read (\<lambda>_ t. sql_one (\<lambda>d. d_id d = i) (deploys t))"

definition ListDeploys :: "int \<Rightarrow> ('z, deploy list) sop" where
  "ListDeploys serviceID = pg_read (\<lambda>_ t.
     Inr (rev (sql_order d_id (filter (\<lambda>d. d_service d = serviceID) (deploys t)))))"

definition set_status :: "int \<Rightarrow> string \<Rightarrow> int \<Rightarrow> tables \<Rightarrow> store_error + (deploy \<times> tables)" where
  "set_status i to n t = (case find (\<lambda>d. d_id d = i) (deploys t) of
      None \<Rightarrow> Inl PgNoRows
    | Some d \<Rightarrow> Inr (d\<lparr>d_status := to, d_updated := n\<rparr>,
        upd_deploy (\<lambda>d. d_id d = i) (\<lambda>d. d\<lparr>d_status := to, d_updated := n\<rparr>) t))"

definition UpdateDeployStatus :: "int \<Rightarrow> string \<Rightarrow> ('z, deploy) sop" where
  "UpdateDeployStatus i to = throwing (DeployByID i) (\<lambda>current.
     if \<not> CanTransition (d_status current) to
     then ret (Inl (ErrInvalidTransition (d_status current) to))
     else pg_exec (set_status i to))"

definition QueuedDeployIDs :: "('z, int list) sop" where
  "QueuedDeployIDs = pg_read (\<lambda>_ t.
     Inr (map d_id (sql_order d_id (filter (\<lambda>d. d_status d = StatusQueued) (deploys t)))))"

definition claim_queued :: "int \<Rightarrow> int \<Rightarrow> tables \<Rightarrow> bool \<times> tables" where
  "claim_queued i n t =
     (let hit = (\<lambda>d. d_id d = i \<and> d_status d = StatusQueued)
      in (length (filter hit (deploys t)) = 1,
          upd_deploy hit (\<lambda>d. d\<lparr>d_status := StatusBuilding, d_updated := n\<rparr>) t))"

definition ClaimQueuedDeploy :: "int \<Rightarrow> ('z, bool) sop" where
  "ClaimQueuedDeploy i = pg_exec (\<lambda>n t. Inr (claim_queued i n t))"

definition SetDeployImage :: "int \<Rightarrow> string \<Rightarrow> ('z, unit) sop" where
  "SetDeployImage i img = pg_exec (\<lambda>n t.
     Inr ((), upd_deploy (\<lambda>d. d_id d = i) (\<lambda>d. d\<lparr>d_image := img, d_updated := n\<rparr>) t))"

definition LatestImagedDeploy :: "int \<Rightarrow> ('z, deploy) sop" where
  "LatestImagedDeploy serviceID = pg_read (\<lambda>_ t.
     case rev (sql_order d_id (filter (\<lambda>d. d_service d = serviceID \<and> d_image d \<noteq> '''') (deploys t))) of
       [] \<Rightarrow> Inl ErrNotFound | d # _ \<Rightarrow> Inr d)"

text \<open>
  \<open>lower(trim(trailing '.git' from url))\<close>: in SQL the characters to trim are a set, so this
  strips every trailing \<open>.\<close>, \<open>g\<close>, \<open>i\<close> and \<open>t\<close>.
\<close>

definition repo_key :: "string \<Rightarrow> string" where
  "repo_key url = to_lower (trim_right_if (\<lambda>c. c \<in> set ''.git'') url)"

definition ServicesByRepo :: "string \<Rightarrow> string \<Rightarrow> ('z, service list) sop" where
  "ServicesByRepo repoURL branch = pg_read (\<lambda>_ t.
     Inr (filter (\<lambda>s. sv_branch s = branch \<and> repo_key (sv_repo s) = repo_key repoURL) (services t)))"

definition ServicesByRepoURL :: "string \<Rightarrow> ('z, service list) sop" where
  "ServicesByRepoURL repoURL = pg_read (\<lambda>_ t.
     Inr (filter (\<lambda>s. repo_key (sv_repo s) = repo_key repoURL) (services t)))"

definition service_org :: "int \<Rightarrow> tables \<Rightarrow> (service \<times> int) option" where
  "service_org i t = (case find (\<lambda>s. sv_id s = i) (services t) of
      None \<Rightarrow> None
    | Some s \<Rightarrow> (case find (\<lambda>p. p_id p = sv_project s) (projects t) of
        None \<Rightarrow> None
      | Some p \<Rightarrow> Some (s, p_org p)))"

definition ServiceByID :: "int \<Rightarrow> ('z, service \<times> int) sop" where
  "ServiceByID i = pg_read (\<lambda>_ t.
     case service_org i t of None \<Rightarrow> Inl ErrNotFound | Some r \<Rightarrow> Inr r)"

section \<open>Builds and notifications\<close>

definition BuildByDeployID :: "int \<Rightarrow> ('z, build) sop" where
  "BuildByDeployID deployID = pg_read (\<lambda>_ t. sql_one (\<lambda>b. b_deploy b = deployID) (builds t))"

definition StartBuild :: "int \<Rightarrow> string \<Rightarrow> ('z, unit) sop" where
  "StartBuild buildID status = pg_exec (\<lambda>n t.
     Inr ((), upd_build buildID (\<lambda>b. b\<lparr>b_status := status, b_started := Some n\<rparr>) t))"

definition FinishBuild :: "int \<Rightarrow> string \<Rightarrow> ('z, unit) sop" where
  "FinishBuild buildID status = pg_exec (\<lambda>n t.
     Inr ((), upd_build buildID (\<lambda>b. b\<lparr>b_status := status, b_ended := Some n\<rparr>) t))"

definition AppendBuildLog :: "int \<Rightarrow> string \<Rightarrow> ('z, unit) sop" where
  "AppendBuildLog buildID chunk = pg_exec (\<lambda>n t.
     Inr ((), upd_build buildID (\<lambda>b. b\<lparr>b_logs := b_logs b @ chunk\<rparr>) t))"

definition DeployChannel :: string where "DeployChannel = ''uran_deploys''"
definition DeploymentChannel :: string where "DeploymentChannel = ''uran_deployments''"
definition TeardownChannel :: string where "TeardownChannel = ''uran_teardowns''"
definition ResourceTeardownChannel :: string where
  "ResourceTeardownChannel = ''uran_resource_teardowns''"
definition DatabaseChannel :: string where "DatabaseChannel = ''uran_databases''"
definition DatabaseTeardownChannel :: string where "DatabaseTeardownChannel = ''uran_db_teardowns''"
definition DatabaseBackupChannel :: string where "DatabaseBackupChannel = ''uran_db_backups''"

definition Notify :: "string \<Rightarrow> string \<Rightarrow> ('z, unit) sop" where
  "Notify channel payload w = (case next_fault w of
      (True, w') \<Rightarrow> (Inl PgFault, w')
    | (False, w') \<Rightarrow> (Inr (), w'\<lparr>bus := bus w' @ [(channel, payload)]\<rparr>))"

lemma Notify_frame: "tabs (snd (Notify c p w)) = tabs w" "now (snd (Notify c p w)) = now w"
  using next_fault_frame [of w "fst (next_fault w)" "snd (next_fault w)"]
  by (cases "next_fault w"; cases "fst (next_fault w)"; simp add: Notify_def)+

section \<open>Every method respects the lifecycle\<close>

lemma keeps_exec_total:
  assumes "\<And>n t. db_evolves t (g n t)"
  shows "keeps tabs db_evolves (pg_exec (\<lambda>n t. Inr (f n t, g n t)))"
  using assms by (intro evo.keeps_exec) auto

lemma Notify_evolves [evolves]: "keeps tabs db_evolves (Notify c p)"
  by (simp add: keeps_def Notify_frame)

lemma ins_deploy_exec_evolves [evolves]:
  "keeps tabs db_evolves (pg_exec (ins_deploy s StatusQueued c im k pr))"
  "keeps tabs db_evolves (pg_exec (ins_deploy s StatusDeploying c im k pr))"
  by (rule evo.keeps_exec, erule ins_deploy_evolves, simp)+

lemma ins_ended_build_evolves [evolves]:
  "keeps tabs db_evolves (pg_exec (\<lambda>n. ins_build i st l (Some n) (Some n) n))"
  by (rule exec_evolves) (auto dest: ins_build_ok frames)

lemma creation_evolves [evolves]:
  "keeps tabs db_evolves (createBuildableDeploy i c k pr)"
  "keeps tabs db_evolves (createImagedDeploy i im c l)"
  unfolding createBuildableDeploy_def createImagedDeploy_def by (intro evo_rules evolves)+

lemma deploy_reads_evolve [evolves]:
  "keeps tabs db_evolves (DeployByID i)" "keeps tabs db_evolves (ListDeploys i)"
  "keeps tabs db_evolves QueuedDeployIDs" "keeps tabs db_evolves (LatestImagedDeploy i)"
  "keeps tabs db_evolves (ServicesByRepo r b)" "keeps tabs db_evolves (ServicesByRepoURL r)"
  "keeps tabs db_evolves (ServiceByID i)" "keeps tabs db_evolves (BuildByDeployID i)"
  unfolding DeployByID_def ListDeploys_def QueuedDeployIDs_def LatestImagedDeploy_def
    ServicesByRepo_def ServicesByRepoURL_def ServiceByID_def BuildByDeployID_def
  by (rule evo.keeps_read)+

lemma create_evolves [evolves]:
  "keeps tabs db_evolves (CreateDeploy i c)" "keeps tabs db_evolves (CreatePreviewDeploy i c n)"
  "keeps tabs db_evolves (CreateRollbackDeploy i im c j)"
  "keeps tabs db_evolves (CreateImageDeploy i im)"
  unfolding CreateDeploy_def CreatePreviewDeploy_def CreateRollbackDeploy_def CreateImageDeploy_def
  by (rule creation_evolves)+

lemma build_writes_evolve [evolves]:
  "keeps tabs db_evolves (StartBuild i st)" "keeps tabs db_evolves (FinishBuild i st)"
  "keeps tabs db_evolves (AppendBuildLog i l)"
  unfolding StartBuild_def FinishBuild_def AppendBuildLog_def
  by (intro keeps_exec_total upd_evolves; simp)+

lemma claim_queued_evolves: "db_evolves t (snd (claim_queued i n t))"
  unfolding claim_queued_def Let_def snd_conv
  by (rule upd_deploy_evolves) (auto simp: same_deploy_def CanTransition_iff intro: moves_step)

lemma ClaimQueuedDeploy_evolves [evolves]: "keeps tabs db_evolves (ClaimQueuedDeploy i)"
  unfolding ClaimQueuedDeploy_def
  by (rule evo.keeps_exec) (metis Inr_inject claim_queued_evolves snd_conv)

lemma SetDeployImage_evolves [evolves]: "keeps tabs db_evolves (SetDeployImage i im)"
  unfolding SetDeployImage_def
  by (rule keeps_exec_total, rule upd_deploy_evolves) (auto simp: same_deploy_def)

text \<open>
  \<open>UpdateDeployStatus\<close> checks the status it read; run without another writer in between, the row
  it updates is the row it checked.
\<close>

lemma DeployByID_cases:
  assumes "DeployByID i w = (r, w')"
  shows "tabs w' = tabs w" "bus w' = bus w" "now w' = now w"
    "r = Inl PgFault \<or> (find (\<lambda>d. d_id d = i) (deploys (tabs w)) = None \<and> r = Inl ErrNotFound) \<or>
     (\<exists>d. find (\<lambda>d. d_id d = i) (deploys (tabs w)) = Some d \<and> r = Inr d)"
  using pg_read_frame [OF assms [unfolded DeployByID_def]]
  by (auto simp: sql_one_def split: option.splits)

lemma set_status_evolves:
  assumes "find (\<lambda>d. d_id d = i) (deploys t) = Some d" "CanTransition (d_status d) to"
    "set_status i to n t = Inr (d', t')"
  shows "db_evolves t t'"
proof (cases "schema_ok t")
  case True
  have "same_deploy e (e\<lparr>d_status := to, d_updated := n\<rparr>)" if "d_id e = i" "e \<in> set (deploys t)" for e
  proof -
    have k: "keyed d_id (seqs t SDeploys) (deploys t)" using True by (simp add: schema_defs)
    have d: "d \<in> set (deploys t)" "d_id d = i" using find_Some_in [OF assms(1)] by simp_all
    have "e = d" by (rule keyed_inj [OF k]) (simp_all add: that d)
    then show ?thesis using assms(2) by (simp add: same_deploy_def moves_step)
  qed
  then have "db_evolves t (upd_deploy (\<lambda>d. d_id d = i) (\<lambda>d. d\<lparr>d_status := to, d_updated := n\<rparr>) t)"
    by (intro upd_deploy_evolves) simp_all
  then show ?thesis using assms(1,3) by (simp add: set_status_def)
qed (simp add: db_evolves_def)

lemma UpdateDeployStatus_evolves [evolves]: "keeps tabs db_evolves (UpdateDeployStatus i to :: ('z, deploy) sop)"
proof -
  have "db_evolves (tabs w) (tabs (snd (UpdateDeployStatus i to w)))" for w :: "'z pg_scheme"
  proof -
    obtain r w1 where 1: "DeployByID i w = (r, w1)" by fastforce
    note c = DeployByID_cases [OF 1]
    show ?thesis
    proof (cases r)
      case (Inl e)
      then show ?thesis by (simp add: UpdateDeployStatus_def throwing_def attempt_def ret_def 1 c)
    next
      case (Inr d)
      then have d: "find (\<lambda>d. d_id d = i) (deploys (tabs w)) = Some d" using c(4) by auto
      show ?thesis
      proof (cases "CanTransition (d_status d) to")
        case True
        obtain q w2 where 2: "pg_exec (set_status i to) w1 = (q, w2)" by fastforce
        have "db_evolves (tabs w1) (tabs w2)"
          using pg_exec_cases [OF 2] set_status_evolves d True c(1) by (metis db_evolves_refl)
        then show ?thesis using True
          by (simp add: UpdateDeployStatus_def throwing_def attempt_def 1 c Inr 2)
      qed (simp add: UpdateDeployStatus_def throwing_def attempt_def ret_def 1 c Inr)
    qed
  qed
  then show ?thesis by (simp add: keeps_def)
qed

section \<open>Claiming under concurrency\<close>

text \<open>
  Several builders, the controller and the API run against one database; the database
  serialises their statements, not their methods. One step of the system is one statement: a claim
  (labelled with the deploy it took), the write of \<open>UpdateDeployStatus\<close>, whose check may have seen
  any earlier row, or any statement that respects \<open>db_evolves\<close>.
\<close>

inductive deploy_step :: "tables \<Rightarrow> int option \<Rightarrow> tables \<Rightarrow> bool" where
  step_claim: "claim_queued i n t = (True, t') \<Longrightarrow> deploy_step t (Some i) t'"
| step_miss: "claim_queued i n t = (False, t') \<Longrightarrow> deploy_step t None t'"
| step_status: "CanTransition seen to \<Longrightarrow> set_status i to n t = Inr (d, t') \<Longrightarrow> deploy_step t None t'"
| step_other: "db_evolves t t' \<Longrightarrow> deploy_step t None t'"

inductive deploy_steps :: "tables \<Rightarrow> int option list \<Rightarrow> tables \<Rightarrow> bool" where
  steps_Nil: "deploy_steps t [] t"
| steps_Cons: "deploy_step t l u \<Longrightarrow> deploy_steps u ls v \<Longrightarrow> deploy_steps t (l # ls) v"

inductive_cases claim_stepE: "deploy_step t (Some i) t'"

text \<open>Once claimed, a deploy is never queued again.\<close>

definition taken :: "int \<Rightarrow> tables \<Rightarrow> bool" where
  "taken i t \<longleftrightarrow> i < seqs t SDeploys \<and> (\<forall>d \<in> set (deploys t). d_id d = i \<longrightarrow> d_status d \<noteq> StatusQueued)"

lemma not_to_queued: "\<not> CanTransition s StatusQueued"
  by (simp add: CanTransition_iff)

lemma moves_queued: "moves s StatusQueued \<Longrightarrow> s = StatusQueued"
  using moves_phase by (fastforce simp: phase_def)

lemma taken_evolves:
  assumes "taken i t" "deploys_evolve t t'"
  shows "taken i t'"
  unfolding taken_def
proof (intro conjI ballI impI)
  show "i < seqs t' SDeploys" using assms unfolding taken_def deploys_evolve_def by linarith
  fix d' assume "d' \<in> set (deploys t')" "d_id d' = i"
  then obtain d where "d \<in> set (deploys t)" "same_deploy d d'"
    using assms unfolding taken_def deploys_evolve_def born_at_def by fastforce
  then show "d_status d' \<noteq> StatusQueued"
    using assms(1) \<open>d_id d' = i\<close> moves_queued unfolding taken_def same_deploy_def by metis
qed

lemma taken_status:
  assumes "taken i t" "set_status j to n t = Inr (d, t')" "to \<noteq> StatusQueued"
  shows "taken i t'"
proof -
  let ?f = "\<lambda>d. d\<lparr>d_status := to, d_updated := n\<rparr>"
  have t': "t' = upd_deploy (\<lambda>d. d_id d = j) ?f t"
    using assms(2) by (simp add: set_status_def split: option.splits)
  have "\<forall>d \<in> set (deploys t). d_id d = i \<longrightarrow> d_status (if d_id d = j then ?f d else d) \<noteq> StatusQueued"
    using assms(1,3) by (simp add: taken_def)
  then show ?thesis using assms(1) unfolding t' taken_def upd_deploy_def sql_update_def by auto
qed

lemma claim_takes:
  assumes "schema_ok t" "claim_queued i n t = (True, t')"
  shows "taken i t'" "\<not> taken i t"
proof -
  let ?hit = "\<lambda>d. d_id d = i \<and> d_status d = StatusQueued"
  have "length (filter ?hit (deploys t)) = 1" using assms(2) by (simp add: claim_queued_def Let_def)
  then have "filter ?hit (deploys t) \<noteq> []" by fastforce
  then obtain d where d: "d \<in> set (deploys t)" "?hit d" by (auto simp: filter_empty_conv)
  then show "\<not> taken i t" unfolding taken_def by blast
  have "keyed d_id (seqs t SDeploys) (deploys t)" using assms(1) by (simp add: schema_defs)
  then have "i < seqs t SDeploys" using d by (auto simp: keyed_def)
  moreover have "t' = upd_deploy ?hit (\<lambda>d. d\<lparr>d_status := StatusBuilding, d_updated := n\<rparr>) t"
    using assms(2) by (simp add: claim_queued_def Let_def)
  ultimately show "taken i t'" unfolding taken_def upd_deploy_def sql_update_def by (simp add: ball_Un)
qed

lemma deploy_step_schema: "deploy_step t l t' \<Longrightarrow> schema_ok t \<Longrightarrow> schema_ok t'"
proof (induction rule: deploy_step.induct)
  case (step_claim i n t t')
  then show ?case using claim_queued_evolves [of t i n] by (simp add: db_evolves_def)
next
  case (step_miss i n t t')
  then show ?case using claim_queued_evolves [of t i n] by (simp add: db_evolves_def)
next
  case (step_status seen to i n t d t')
  then show ?case by (auto simp: set_status_def intro!: upd_deploy_ok split: option.splits)
qed (simp add: db_evolves_def)

lemma deploy_step_taken:
  assumes "deploy_step t l t'" "schema_ok t" "taken i t"
  shows "taken i t' \<and> l \<noteq> Some i"
  using assms
proof (induction rule: deploy_step.induct)
  case (step_claim j n t t')
  then show ?case using claim_queued_evolves [of t j n] claim_takes(2) [of t j n t']
    by (auto simp: db_evolves_def intro: taken_evolves)
next
  case (step_miss j n t t')
  then show ?case using claim_queued_evolves [of t j n]
    by (auto simp: db_evolves_def intro: taken_evolves)
next
  case (step_status seen to j n t d t')
  then show ?case using taken_status not_to_queued by blast
qed (auto simp: db_evolves_def intro: taken_evolves)

lemma deploy_steps_taken:
  "deploy_steps t ls v \<Longrightarrow> schema_ok t \<Longrightarrow> taken i t \<Longrightarrow> count_list ls (Some i) = 0"
  by (induction rule: deploy_steps.induct) (auto dest: deploy_step_schema deploy_step_taken)

text \<open>C6.
  However the statements of concurrent builders, sweeps and status updates interleave, from a
  consistent database each deploy is claimed for building at most once.\<close>

theorem claim_exclusive:
  assumes "deploy_steps t ls v" "schema_ok t"
  shows "count_list ls (Some i) \<le> 1"
  using assms
proof (induction rule: deploy_steps.induct)
  case (steps_Cons t l u ls v)
  then have ok: "schema_ok u" using deploy_step_schema by blast
  show ?case
  proof (cases "l = Some i")
    case True
    then obtain n where "claim_queued i n t = (True, u)"
      using steps_Cons.hyps(1) by (auto elim: claim_stepE)
    then have "taken i u" using claim_takes steps_Cons.prems by blast
    then show ?thesis using True ok steps_Cons.hyps(2) by (simp add: deploy_steps_taken)
  qed (use steps_Cons ok in simp)
qed simp

theorem claim_exclusive_witness:
  "\<exists>ls v. deploy_steps demo_tables ls v \<and> Some 1 \<in> set ls \<and> count_list ls (Some 1) \<le> 1"
proof -
  let ?u = "snd (claim_queued 1 5 demo_tables)"
  let ?v = "snd (claim_queued 1 6 ?u)"
  have "claim_queued 1 5 demo_tables = (True, ?u)"
    by (simp add: claim_queued_def demo_tables_def demo_deploy_def status_defs)
  moreover have "claim_queued 1 6 ?u = (False, ?v)"
    by (simp add: claim_queued_def demo_tables_def demo_deploy_def status_defs upd_deploy_def sql_update_def)
  ultimately have run: "deploy_steps demo_tables [Some 1, None] ?v"
    by (metis steps_Cons [OF step_claim] steps_Cons [OF step_miss] steps_Nil)
  show ?thesis using run claim_exclusive [OF run demo_tables_ok, of 1] by auto
qed

end
