(* ===== verification/Rbac.thy ===== *)
theory Rbac
  imports Uran_Prelude
begin

text \<open>
  Package \<open>rbac\<close> (\<open>internal/rbac/rbac.go\<close>): the membership roles and their ranks. The abstract
  specification is the datatype \<open>role\<close> with its linear order; the lemmas show that the
  string-level checks of the source refine that order.
\<close>

definition Viewer :: string where "Viewer = ''viewer''"
definition Member :: string where "Member = ''member''"
definition Admin :: string where "Admin = ''admin''"
definition Owner :: string where "Owner = ''owner''"

lemma role_distinct [simp]:
  "Viewer \<noteq> Member" "Viewer \<noteq> Admin" "Viewer \<noteq> Owner"
  "Member \<noteq> Viewer" "Member \<noteq> Admin" "Member \<noteq> Owner"
  "Admin \<noteq> Viewer" "Admin \<noteq> Member" "Admin \<noteq> Owner" "Owner \<noteq> Viewer"
  "Owner \<noteq> Member" "Owner \<noteq> Admin"
  by (simp_all add: Viewer_def Member_def Admin_def Owner_def)

lemma role_nonempty [simp]: "Viewer \<noteq> []" "Member \<noteq> []" "Admin \<noteq> []" "Owner \<noteq> []"
    "[] \<noteq> Viewer" "[] \<noteq> Member" "[] \<noteq> Admin" "[] \<noteq> Owner"
  by (simp_all add: Viewer_def Member_def Admin_def Owner_def)

lemmas role_defs = Viewer_def Member_def Admin_def Owner_def

definition rank :: "(string \<times> int) list" where
  "rank = [(Viewer, 1), (Member, 2), (Admin, 3), (Owner, 4)]"

definition rbac_IsValid :: "string \<Rightarrow> bool" where
  "rbac_IsValid r = (map_of rank r \<noteq> None)"

definition Rank :: "string \<Rightarrow> int" where
  "Rank r = (case map_of rank r of None \<Rightarrow> 0 | Some n \<Rightarrow> n)"

definition AtLeast :: "string \<Rightarrow> string \<Rightarrow> bool" where
  "AtLeast role least = (Rank role \<ge> Rank least \<and> Rank role > 0)"

definition CanWrite :: "string \<Rightarrow> bool" where
  "CanWrite role = AtLeast role Member"

section \<open>The abstract roles\<close>

datatype role = RViewer | RMember | RAdmin | ROwner

fun role_level :: "role \<Rightarrow> nat" where
  "role_level RViewer = 1"
| "role_level RMember = 2"
| "role_level RAdmin = 3"
| "role_level ROwner = 4"

lemma role_level_inject: "role_level a = role_level b \<longleftrightarrow> a = b"
  by (cases a; cases b) auto

instantiation role :: linorder
begin

definition less_eq_role :: "role \<Rightarrow> role \<Rightarrow> bool" where
  "less_eq_role a b = (role_level a \<le> role_level b)"

definition less_role :: "role \<Rightarrow> role \<Rightarrow> bool" where
  "less_role a b = (role_level a < role_level b)"

instance
  by standard (auto simp: less_eq_role_def less_role_def role_level_inject)

end

definition role_of :: "string \<Rightarrow> role option" where
  "role_of r = map_of [(Viewer, RViewer), (Member, RMember), (Admin, RAdmin), (Owner, ROwner)] r"

lemma role_of_level: "Rank r = (case role_of r of None \<Rightarrow> 0 | Some a \<Rightarrow> int (role_level a))"
  by (auto simp: Rank_def rank_def role_of_def)

lemma rbac_IsValid_role_of: "rbac_IsValid r \<longleftrightarrow> role_of r \<noteq> None"
  by (auto simp: rbac_IsValid_def rank_def role_of_def)

lemma role_level_pos: "0 < role_level a"
  by (cases a) auto

lemma AtLeast_role_of:
  "AtLeast r m \<longleftrightarrow> (case role_of r of None \<Rightarrow> False | Some a \<Rightarrow>
     (case role_of m of None \<Rightarrow> True | Some b \<Rightarrow> b \<le> a))"
  using role_level_pos
  by (auto simp: AtLeast_def role_of_level less_eq_role_def split: option.split)

lemma AtLeast_trans: "AtLeast a b \<Longrightarrow> AtLeast b c \<Longrightarrow> AtLeast a c"
  by (auto simp: AtLeast_def)

lemma AtLeast_Owner [simp]: "AtLeast r Owner \<longleftrightarrow> r = Owner"
  by (auto simp: AtLeast_def Rank_def rank_def)

lemma AtLeast_Admin [simp]: "AtLeast r Admin \<longleftrightarrow> r = Admin \<or> r = Owner"
  by (auto simp: AtLeast_def Rank_def rank_def)

lemma CanWrite_iff: "CanWrite r \<longleftrightarrow> r = Member \<or> r = Admin \<or> r = Owner"
  by (auto simp: CanWrite_def AtLeast_def Rank_def rank_def)

text \<open>The role check of the source refines the linear order of the abstract roles: for two
  known roles it is that order, an unknown role passes no check at all, and an unknown minimum
  is met by exactly the known roles.\<close>

theorem AtLeast_refines_role_order:
  "(case (role_of r, role_of m) of
      (Some a, Some b) \<Rightarrow> AtLeast r m \<longleftrightarrow> b \<le> a
    | (None, _) \<Rightarrow> \<not> AtLeast r m
    | (Some _, None) \<Rightarrow> AtLeast r m)
   \<and> (CanWrite r \<longleftrightarrow> (\<exists>a. role_of r = Some a \<and> RMember \<le> a))
   \<and> (rbac_IsValid r \<longleftrightarrow> role_of r \<noteq> None)"
  unfolding CanWrite_def AtLeast_role_of rbac_IsValid_role_of
  by (auto split: option.split simp: role_of_def)

end
