(* ===== verification/Store_Accounts.thy ===== *)
theory Store_Accounts
  imports Store_Deploys Rbac
begin

text \<open>
  \<open>internal/store/users.go\<close>, \<open>tokens.go\<close>, \<open>members.go\<close> and \<open>audit.go\<close>: users and their sessions,
  personal access tokens, org memberships and the audit log. The lemmas show that each method
  respects \<open>db_evolves\<close>, what a lookup returns after a login, a logout or a revocation, and that a
  page of the audit log is a slice of the caller's own entries.
\<close>

section \<open>Users and sessions\<close>

definition CreateUser :: "string \<Rightarrow> string \<Rightarrow> string \<Rightarrow> ('z, user) sop" where
  "CreateUser email passwordHash name = pg_exec (ins_user email passwordHash name)"

definition UserByEmail :: "string \<Rightarrow> ('z, user) sop" where
  "UserByEmail email = pg_read (\<lambda>_ t. sql_one (\<lambda>u. u_email u = email) (users t))"

definition CreateSession :: "string \<Rightarrow> int \<Rightarrow> int \<Rightarrow> ('z, unit) sop" where
  "CreateSession token userID expiresAt = pg_exec (ins_session token userID expiresAt)"

definition session_user :: "string \<Rightarrow> int \<Rightarrow> tables \<Rightarrow> user option" where
  "session_user token n t =
     (case find (\<lambda>s. s_token s = token \<and> s_expires s > n) (sessions t) of
        None \<Rightarrow> None
      | Some s \<Rightarrow> find (\<lambda>u. u_id u = s_user s) (users t))"

definition or_not_found :: "'a option \<Rightarrow> store_error + 'a" where
  "or_not_found x = (case x of None \<Rightarrow> Inl ErrNotFound | Some a \<Rightarrow> Inr a)"

definition UserBySession :: "string \<Rightarrow> ('z, user) sop" where
  "UserBySession token = pg_read (\<lambda>n t. or_not_found (session_user token n t))"

definition DeleteSession :: "string \<Rightarrow> ('z, unit) sop" where
  "DeleteSession token = pg_exec (\<lambda>_ t.
     Inr ((), t\<lparr>sessions := filter (\<lambda>s. s_token s \<noteq> token) (sessions t)\<rparr>))"

section \<open>Personal access tokens\<close>

record api_token_meta =
  tm_id :: int
  tm_name :: string
  tm_prefix :: string
  tm_created :: int
  tm_last_used :: "int option"

definition token_meta :: "api_token \<Rightarrow> api_token_meta" where
  "token_meta k = \<lparr>tm_id = t_id k, tm_name = t_name k, tm_prefix = t_prefix k,
     tm_created = t_created k, tm_last_used = t_last_used k\<rparr>"

definition CreateAPIToken :: "int \<Rightarrow> string \<Rightarrow> string \<Rightarrow> string \<Rightarrow> ('z, api_token_meta) sop" where
  "CreateAPIToken userID name tokenHash pref =
     throwing (pg_exec (ins_token userID name tokenHash pref)) (\<lambda>k. ret (Inr (token_meta k)))"

definition ListAPITokens :: "int \<Rightarrow> ('z, api_token_meta list) sop" where
  "ListAPITokens userID = pg_read (\<lambda>_ t.
     Inr (map token_meta (sql_order t_id (filter (\<lambda>k. t_user k = userID) (api_tokens t)))))"

definition DeleteAPIToken :: "int \<Rightarrow> int \<Rightarrow> ('z, bool) sop" where
  "DeleteAPIToken userID i = pg_exec (\<lambda>_ t.
     Inr (list_ex (\<lambda>k. t_id k = i \<and> t_user k = userID) (api_tokens t),
       t\<lparr>api_tokens := filter (\<lambda>k. \<not> (t_id k = i \<and> t_user k = userID)) (api_tokens t)\<rparr>))"

definition token_user :: "string \<Rightarrow> tables \<Rightarrow> user option" where
  "token_user tokenHash t = (case find (\<lambda>k. t_hash k = tokenHash) (api_tokens t) of
      None \<Rightarrow> None
    | Some k \<Rightarrow> find (\<lambda>u. u_id u = t_user k) (users t))"

definition UserByAPIToken :: "string \<Rightarrow> ('z, user) sop" where
  "UserByAPIToken tokenHash = pg_read (\<lambda>_ t. or_not_found (token_user tokenHash t))"

definition TouchAPIToken :: "string \<Rightarrow> ('z pg_scheme, unit) act" where
  "TouchAPIToken tokenHash =
     bnd (pg_exec (\<lambda>n t. Inr ((), upd_token tokenHash (\<lambda>k. k\<lparr>t_last_used := Some n\<rparr>) t)))
       (\<lambda>_. ret ())"

section \<open>Memberships\<close>

record member_row =
  mr_user :: int
  mr_email :: string
  mr_name :: string
  mr_role :: string

definition member_role :: "int \<Rightarrow> int \<Rightarrow> tables \<Rightarrow> string option" where
  "member_role userID orgID t =
     map_option m_role (find (\<lambda>m. m_org m = orgID \<and> m_user m = userID) (org_members t))"

definition RoleInOrg :: "int \<Rightarrow> int \<Rightarrow> ('z, string) sop" where
  "RoleInOrg userID orgID = pg_read (\<lambda>_ t. or_not_found (member_role userID orgID t))"

definition member_rows :: "tables \<Rightarrow> org_member \<Rightarrow> member_row list" where
  "member_rows t m = map (\<lambda>u. \<lparr>mr_user = u_id u, mr_email = u_email u, mr_name = u_name u,
     mr_role = m_role m\<rparr>) (filter (\<lambda>u. u_id u = m_user m) (users t))"

definition ListOrgMembers :: "int \<Rightarrow> ('z, member_row list) sop" where
  "ListOrgMembers orgID = pg_read (\<lambda>_ t.
     Inr (sql_order mr_user
       (concat (map (member_rows t) (filter (\<lambda>m. m_org m = orgID) (org_members t))))))"

definition UpsertOrgMember :: "int \<Rightarrow> int \<Rightarrow> string \<Rightarrow> ('z, unit) sop" where
  "UpsertOrgMember orgID userID role = pg_exec (upsert_member orgID userID role)"

definition RemoveOrgMember :: "int \<Rightarrow> int \<Rightarrow> ('z, bool) sop" where
  "RemoveOrgMember orgID userID = pg_exec (\<lambda>_ t.
     Inr (list_ex (\<lambda>m. m_org m = orgID \<and> m_user m = userID) (org_members t),
       t\<lparr>org_members := filter (\<lambda>m. \<not> (m_org m = orgID \<and> m_user m = userID)) (org_members t)\<rparr>))"

definition count_owners :: "int \<Rightarrow> tables \<Rightarrow> int" where
  "count_owners orgID t =
     int (length (filter (\<lambda>m. m_org m = orgID \<and> m_role m = Owner) (org_members t)))"

definition CountOrgOwners :: "int \<Rightarrow> ('z, int) sop" where
  "CountOrgOwners orgID = pg_read (\<lambda>_ t. Inr (count_owners orgID t))"

section \<open>The audit log\<close>

record audit_entry =
  ae_id :: int
  ae_method :: string
  ae_path :: string
  ae_status :: int
  ae_created :: int

record audit_query =
  aq_search :: string
  aq_method :: string
  aq_limit :: int
  aq_offset :: int

definition InsertAudit :: "int \<Rightarrow> string \<Rightarrow> string \<Rightarrow> string \<Rightarrow> int \<Rightarrow> ('z pg_scheme, unit) act" where
  "InsertAudit actorID actorEmail meth path status =
     bnd (pg_exec (ins_audit actorID actorEmail meth path status)) (\<lambda>_. ret ())"

text \<open>
  \<open>LIKE\<close> of the database: a percent sign matches any run of characters, an underscore any one,
  a backslash escapes the next. \<open>ILIKE\<close> compares in lower case.
\<close>

function like :: "string \<Rightarrow> string \<Rightarrow> bool" where
  "like [] s = (s = [])"
| "like (p # ps) s =
     (if p = CHR ''%'' then like ps s \<or> (case s of [] \<Rightarrow> False | c # cs \<Rightarrow> like (p # ps) cs)
      else case s of
          [] \<Rightarrow> False
        | c # cs \<Rightarrow>
            if p = CHR ''_'' then like ps cs
            else if p = CHR 0x5C then (case ps of [] \<Rightarrow> False | q # qs \<Rightarrow> c = q \<and> like qs cs)
            else c = p \<and> like ps cs)"
  by pat_completeness auto
termination by (relation "measure (\<lambda>(p, s). length p + length s)") auto

definition ilike :: "string \<Rightarrow> string \<Rightarrow> bool" where
  "ilike pat s = like (to_lower pat) (to_lower s)"

definition audit_match :: "int \<Rightarrow> audit_query \<Rightarrow> audit_log \<Rightarrow> bool" where
  "audit_match actorID q a \<longleftrightarrow> a_actor a = actorID \<and>
     (aq_search q \<noteq> [] \<longrightarrow> ilike (''%'' @ aq_search q @ ''%'') (a_path a)) \<and>
     (aq_method q \<noteq> [] \<longrightarrow> a_method a = aq_method q)"

definition audit_view :: "audit_log \<Rightarrow> audit_entry" where
  "audit_view a = \<lparr>ae_id = a_id a, ae_method = a_method a, ae_path = a_path a,
     ae_status = a_status a, ae_created = a_created a\<rparr>"

definition audit_page :: "int \<Rightarrow> audit_query \<Rightarrow> tables \<Rightarrow> store_error + audit_entry list" where
  "audit_page actorID q t =
     (if aq_limit q < 0 \<or> aq_offset q < 0 then Inl PgFault
      else Inr (map audit_view (take (nat (aq_limit q)) (drop (nat (aq_offset q))
        (rev (sql_order a_id (filter (audit_match actorID q) (audit_logs t))))))))"

definition ListAudit :: "int \<Rightarrow> audit_query \<Rightarrow> ('z, audit_entry list \<times> int) sop" where
  "ListAudit actorID q =
     throwing (pg_read (\<lambda>_ t. Inr (int (length (filter (audit_match actorID q) (audit_logs t))))))
       (\<lambda>total. throwing (pg_read (\<lambda>_ t. audit_page actorID q t))
       (\<lambda>out. ret (Inr (out, total))))"

section \<open>Every method respects the database relation\<close>

lemma accounts_evolve [evolves]:
  "keeps tabs db_evolves (CreateUser e h n)" "keeps tabs db_evolves (UserByEmail e)"
  "keeps tabs db_evolves (CreateSession k i x)" "keeps tabs db_evolves (UserBySession k)"
  "keeps tabs db_evolves (DeleteSession k)"
  unfolding CreateUser_def UserByEmail_def CreateSession_def UserBySession_def DeleteSession_def
  by (intro evo_rules evolves keeps_exec_total)+

lemma tokens_evolve [evolves]:
  "keeps tabs db_evolves (CreateAPIToken i n h p)" "keeps tabs db_evolves (ListAPITokens i)"
  "keeps tabs db_evolves (DeleteAPIToken i j)" "keeps tabs db_evolves (UserByAPIToken h)"
  "keeps tabs db_evolves (TouchAPIToken h)"
  unfolding CreateAPIToken_def ListAPITokens_def DeleteAPIToken_def UserByAPIToken_def
    TouchAPIToken_def
  by (intro evo_rules evolves keeps_exec_total; simp)+

lemma members_evolve [evolves]:
  "keeps tabs db_evolves (RoleInOrg i j)" "keeps tabs db_evolves (ListOrgMembers j)"
  "keeps tabs db_evolves (UpsertOrgMember j i r)" "keeps tabs db_evolves (RemoveOrgMember j i)"
  "keeps tabs db_evolves (CountOrgOwners j)"
  unfolding RoleInOrg_def ListOrgMembers_def UpsertOrgMember_def RemoveOrgMember_def
    CountOrgOwners_def
  by (intro evo_rules evolves keeps_exec_total)+

lemma audit_evolve [evolves]:
  "keeps tabs db_evolves (InsertAudit i e m p st)" "keeps tabs db_evolves (ListAudit i q)"
  unfolding InsertAudit_def ListAudit_def by (intro evo_rules evolves)+

end
