(* ===== verification/Store_Resources.thy ===== *)
theory Store_Resources
  imports Store_Accounts
begin

text \<open>
  \<open>internal/store/resources.go\<close>, \<open>settings.go\<close>, \<open>status.go\<close>, \<open>envvars.go\<close>, \<open>domains.go\<close>,
  \<open>registry.go\<close>, \<open>github_oauth.go\<close>, \<open>databases.go\<close> and \<open>usage.go\<close>: orgs, projects, services and what
  belongs to them. The lemmas show that each method respects \<open>db_evolves\<close>.
\<close>

section \<open>Orgs, projects and services\<close>

definition CreateOrg :: "int \<Rightarrow> string \<Rightarrow> string \<Rightarrow> ('z, org) sop" where
  "CreateOrg userID name slug =
     pg_tx (throwing (pg_exec (ins_org name slug))
       (\<lambda>r. throwing (pg_exec (ins_member (o_id r) userID Owner))
       (\<lambda>_. ret (Inr r))))"

definition ListOrgs :: "int \<Rightarrow> ('z, org list) sop" where
  "ListOrgs userID = pg_read (\<lambda>_ t.
     Inr (sql_order o_id (filter
       (\<lambda>r. list_ex (\<lambda>m. m_org m = o_id r \<and> m_user m = userID) (org_members t)) (orgs t))))"

definition UpdateOrg :: "int \<Rightarrow> string \<Rightarrow> string \<Rightarrow> ('z, org) sop" where
  "UpdateOrg i name slug = pg_exec (upd_org i name slug)"

definition DeleteOrg :: "int \<Rightarrow> ('z, unit) sop" where
  "DeleteOrg i = pg_exec (\<lambda>_ t. Inr ((), del_org i t))"

definition IsOrgMember :: "int \<Rightarrow> int \<Rightarrow> ('z, bool) sop" where
  "IsOrgMember userID orgID = pg_read (\<lambda>_ t.
     Inr (list_ex (\<lambda>m. m_org m = orgID \<and> m_user m = userID) (org_members t)))"

definition CreateProject :: "int \<Rightarrow> string \<Rightarrow> string \<Rightarrow> ('z, project) sop" where
  "CreateProject orgID name slug = pg_exec (ins_project orgID name slug)"

definition UpdateProject :: "int \<Rightarrow> string \<Rightarrow> string \<Rightarrow> ('z, project) sop" where
  "UpdateProject i name slug = pg_exec (upd_project i name slug)"

definition DeleteProject :: "int \<Rightarrow> ('z, unit) sop" where
  "DeleteProject i = pg_exec (\<lambda>_ t. Inr ((), del_projects (\<lambda>p. p_id p = i) t))"

definition ProjectByID :: "int \<Rightarrow> ('z, project) sop" where
  "ProjectByID i = pg_read (\<lambda>_ t. sql_one (\<lambda>p. p_id p = i) (projects t))"

definition ListProjects :: "int \<Rightarrow> ('z, project list) sop" where
  "ListProjects orgID = pg_read (\<lambda>_ t.
     Inr (sql_order p_id (filter (\<lambda>p. p_org p = orgID) (projects t))))"

definition CreateService ::
    "int \<Rightarrow> string \<Rightarrow> string \<Rightarrow> string \<Rightarrow> string \<Rightarrow> string \<Rightarrow> string \<Rightarrow> ('z, service) sop" where
  "CreateService projectID name slug typ repoURL branch schedule =
     pg_exec (ins_service projectID name slug typ repoURL branch schedule)"

definition ListServices :: "int \<Rightarrow> ('z, service list) sop" where
  "ListServices projectID = pg_read (\<lambda>_ t.
     Inr (sql_order sv_id (filter (\<lambda>s. sv_project s = projectID) (services t))))"

section \<open>Service settings and status\<close>

definition SetServiceScaling :: "int \<Rightarrow> int \<Rightarrow> string \<Rightarrow> int \<Rightarrow> int \<Rightarrow> ('z, unit) sop" where
  "SetServiceScaling i replicas instanceSize minReplicas maxReplicas = pg_exec (\<lambda>_ t.
     Inr ((), upd_service i (\<lambda>s. s\<lparr>sv_replicas := replicas, sv_size := instanceSize,
       sv_min := minReplicas, sv_max := maxReplicas\<rparr>) t))"

definition SetServiceHealth :: "int \<Rightarrow> string \<Rightarrow> ('z, unit) sop" where
  "SetServiceHealth i path = pg_exec (\<lambda>_ t. Inr ((), upd_service i (\<lambda>s. s\<lparr>sv_health := path\<rparr>) t))"

definition SetServiceDisk :: "int \<Rightarrow> string \<Rightarrow> string \<Rightarrow> ('z, unit) sop" where
  "SetServiceDisk i sz path = pg_exec (\<lambda>_ t.
     Inr ((), upd_service i (\<lambda>s. s\<lparr>sv_disk_size := sz, sv_disk_path := path\<rparr>) t))"

definition SetServiceSuspended :: "int \<Rightarrow> bool \<Rightarrow> ('z, unit) sop" where
  "SetServiceSuspended i suspended = pg_exec (\<lambda>_ t.
     Inr ((), upd_service i (\<lambda>s. s\<lparr>sv_suspended := suspended\<rparr>) t))"

record service_status =
  ss_service :: int
  ss_name :: string
  ss_type :: string
  ss_suspended :: bool
  ss_status :: string

definition latest_status :: "tables \<Rightarrow> int \<Rightarrow> string" where
  "latest_status t i =
     (case rev (sql_order d_id (filter (\<lambda>d. d_service d = i) (deploys t))) of
        [] \<Rightarrow> ''none'' | d # _ \<Rightarrow> d_status d)"

definition ProjectServiceStatuses :: "int \<Rightarrow> ('z, service_status list) sop" where
  "ProjectServiceStatuses projectID = pg_read (\<lambda>_ t.
     Inr (map (\<lambda>s. \<lparr>ss_service = sv_id s, ss_name = sv_name s, ss_type = sv_type s,
         ss_suspended = sv_suspended s, ss_status = latest_status t (sv_id s)\<rparr>)
       (sql_order sv_id (filter (\<lambda>s. sv_project s = projectID) (services t)))))"

section \<open>Environment, domains, credentials, connections\<close>

definition SetEnvVar :: "int \<Rightarrow> string \<Rightarrow> string \<Rightarrow> bool \<Rightarrow> bool \<Rightarrow> ('z, unit) sop" where
  "SetEnvVar serviceID key val secret buildTime = pg_exec (upsert_env serviceID key val secret buildTime)"

definition ListEnvVars :: "int \<Rightarrow> ('z, env_var list) sop" where
  "ListEnvVars serviceID = pg_read (\<lambda>_ t.
     Inr (sql_order e_key (filter (\<lambda>e. e_service e = serviceID) (env_vars t))))"

definition DeleteEnvVar :: "int \<Rightarrow> string \<Rightarrow> ('z, bool) sop" where
  "DeleteEnvVar serviceID key = pg_exec (\<lambda>_ t.
     Inr (list_ex (\<lambda>e. e_service e = serviceID \<and> e_key e = key) (env_vars t),
       t\<lparr>env_vars := filter (\<lambda>e. \<not> (e_service e = serviceID \<and> e_key e = key)) (env_vars t)\<rparr>))"

definition dup_error :: "store_error + 'a \<Rightarrow> store_error + 'a" where
  "dup_error r = (case r of Inl PgUnique \<Rightarrow> Inl ErrDuplicate | _ \<Rightarrow> r)"

definition AddCustomDomain :: "int \<Rightarrow> string \<Rightarrow> ('z, custom_domain) sop" where
  "AddCustomDomain serviceID domain =
     bnd (pg_exec (ins_domain serviceID domain)) (\<lambda>r. ret (dup_error r))"

definition ListCustomDomains :: "int \<Rightarrow> ('z, custom_domain list) sop" where
  "ListCustomDomains serviceID = pg_read (\<lambda>_ t.
     Inr (sql_order cd_domain (filter (\<lambda>c. cd_service c = serviceID) (custom_domains t))))"

definition DeleteCustomDomain :: "int \<Rightarrow> string \<Rightarrow> ('z, bool) sop" where
  "DeleteCustomDomain serviceID domain = pg_exec (\<lambda>_ t.
     Inr (list_ex (\<lambda>c. cd_service c = serviceID \<and> cd_domain c = domain) (custom_domains t),
       t\<lparr>custom_domains :=
         filter (\<lambda>c. \<not> (cd_service c = serviceID \<and> cd_domain c = domain)) (custom_domains t)\<rparr>))"

definition AddRegistryCredential ::
    "int \<Rightarrow> string \<Rightarrow> string \<Rightarrow> string \<Rightarrow> ('z, registry_credential) sop" where
  "AddRegistryCredential orgID registry username password =
     pg_exec (upsert_credential orgID registry username password)"

definition ListRegistryCredentials :: "int \<Rightarrow> ('z, registry_credential list) sop" where
  "ListRegistryCredentials orgID = pg_read (\<lambda>_ t.
     Inr (sql_order rc_id (filter (\<lambda>c. rc_org c = orgID) (registry_credentials t))))"

definition DeleteRegistryCredential :: "int \<Rightarrow> int \<Rightarrow> ('z, bool) sop" where
  "DeleteRegistryCredential orgID i = pg_exec (\<lambda>_ t.
     Inr (list_ex (\<lambda>c. rc_id c = i \<and> rc_org c = orgID) (registry_credentials t),
       t\<lparr>registry_credentials :=
         filter (\<lambda>c. \<not> (rc_id c = i \<and> rc_org c = orgID)) (registry_credentials t)\<rparr>))"

definition SetGithubConnection :: "int \<Rightarrow> string \<Rightarrow> string \<Rightarrow> ('z, unit) sop" where
  "SetGithubConnection orgID token account = pg_exec (upsert_github orgID token account)"

definition GithubConnection :: "int \<Rightarrow> ('z, github_connection option) sop" where
  "GithubConnection orgID = pg_read (\<lambda>_ t.
     Inr (find (\<lambda>g. gc_org g = orgID) (github_connections t)))"

definition DeleteGithubConnection :: "int \<Rightarrow> ('z, unit) sop" where
  "DeleteGithubConnection orgID = pg_exec (\<lambda>_ t.
     Inr ((), t\<lparr>github_connections := filter (\<lambda>g. gc_org g \<noteq> orgID) (github_connections t)\<rparr>))"

section \<open>Databases and usage\<close>

definition DBStatusCreating :: string where "DBStatusCreating = ''creating''"
definition DBStatusReady :: string where "DBStatusReady = ''ready''"
definition DBStatusFailed :: string where "DBStatusFailed = ''failed''"

lemma db_status_distinct [simp]:
  "DBStatusCreating \<noteq> DBStatusReady" "DBStatusCreating \<noteq> DBStatusFailed"
  "DBStatusReady \<noteq> DBStatusCreating" "DBStatusReady \<noteq> DBStatusFailed"
  "DBStatusFailed \<noteq> DBStatusCreating" "DBStatusFailed \<noteq> DBStatusReady"
  by (simp_all add: DBStatusCreating_def DBStatusReady_def DBStatusFailed_def)

definition CreateDatabase ::
    "int \<Rightarrow> string \<Rightarrow> string \<Rightarrow> string \<Rightarrow> string \<Rightarrow> int \<Rightarrow> int \<Rightarrow> int \<Rightarrow> string \<Rightarrow> string \<Rightarrow>
     bool \<Rightarrow> bool \<Rightarrow> ('z, database) sop" where
  "CreateDatabase projectID name slug engine tier instances minInstances maxInstances sz storage
       pooling backups =
     pg_exec (ins_database projectID name slug engine tier instances minInstances maxInstances sz
       storage pooling backups)"

definition database_org :: "int \<Rightarrow> tables \<Rightarrow> (database \<times> int) option" where
  "database_org i t = (case find (\<lambda>d. db_id d = i) (databases t) of
      None \<Rightarrow> None
    | Some d \<Rightarrow> (case find (\<lambda>p. p_id p = db_project d) (projects t) of
        None \<Rightarrow> None
      | Some p \<Rightarrow> Some (d, p_org p)))"

definition DatabaseByID :: "int \<Rightarrow> ('z, database \<times> int) sop" where
  "DatabaseByID i = pg_read (\<lambda>_ t. or_not_found (database_org i t))"

text \<open>
  The columns this query leaves out (\<open>pooling\<close>, \<open>backups\<close>, \<open>pooled_uri\<close>) are the zero values of the
  struct.
\<close>

definition autoscale_row :: "tables \<Rightarrow> database \<Rightarrow> (database \<times> int) list" where
  "autoscale_row t d = map (\<lambda>p. (d\<lparr>db_pooling := False, db_backups := False, db_pooled_uri := ''''\<rparr>, p_org p))
     (filter (\<lambda>p. p_id p = db_project d) (projects t))"

definition ListAutoscaleDatabases :: "('z, (database \<times> int) list) sop" where
  "ListAutoscaleDatabases = pg_read (\<lambda>_ t.
     Inr (concat (map (autoscale_row t)
       (filter (\<lambda>d. db_tier d = ''autoscale'' \<and> db_status d = DBStatusReady) (databases t)))))"

definition SetDatabaseInstances :: "int \<Rightarrow> int \<Rightarrow> ('z, unit) sop" where
  "SetDatabaseInstances i instances = pg_exec (\<lambda>_ t.
     Inr ((), upd_database i (\<lambda>d. d\<lparr>db_instances := instances\<rparr>) t))"

definition SetDatabaseScaling :: "int \<Rightarrow> int \<Rightarrow> string \<Rightarrow> string \<Rightarrow> ('z, unit) sop" where
  "SetDatabaseScaling i instances sz storage = pg_exec (\<lambda>_ t.
     Inr ((), upd_database i (\<lambda>d. d\<lparr>db_instances := instances, db_size := sz,
       db_storage := storage, db_status := DBStatusCreating\<rparr>) t))"

definition ListDatabases :: "int \<Rightarrow> ('z, database list) sop" where
  "ListDatabases projectID = pg_read (\<lambda>_ t.
     Inr (sql_order db_id (filter (\<lambda>d. db_project d = projectID) (databases t))))"

definition SetDatabaseStatus :: "int \<Rightarrow> string \<Rightarrow> ('z, unit) sop" where
  "SetDatabaseStatus i status = pg_exec (\<lambda>_ t.
     Inr ((), upd_database i (\<lambda>d. d\<lparr>db_status := status\<rparr>) t))"

definition SetDatabaseConnection :: "int \<Rightarrow> string \<Rightarrow> string \<Rightarrow> string \<Rightarrow> ('z, unit) sop" where
  "SetDatabaseConnection i uri readURI pooledURI = pg_exec (\<lambda>_ t.
     Inr ((), upd_database i (\<lambda>d. d\<lparr>db_uri := uri, db_read_uri := readURI,
       db_pooled_uri := pooledURI, db_status := DBStatusReady\<rparr>) t))"

definition DeleteDatabase :: "int \<Rightarrow> ('z, unit) sop" where
  "DeleteDatabase i = pg_exec (\<lambda>_ t.
     Inr ((), t\<lparr>databases := filter (\<lambda>d. db_id d \<noteq> i) (databases t)\<rparr>))"

record metered_service =
  ms_service :: int
  ms_slug :: string
  ms_org :: int

definition metered_row :: "tables \<Rightarrow> service \<Rightarrow> metered_service list" where
  "metered_row t s = map (\<lambda>p. \<lparr>ms_service = sv_id s, ms_slug = sv_slug s, ms_org = p_org p\<rparr>)
     (filter (\<lambda>p. p_id p = sv_project s) (projects t))"

definition ServicesForMetering :: "('z, metered_service list) sop" where
  "ServicesForMetering = pg_read (\<lambda>_ t.
     Inr (concat (map (metered_row t) (filter (\<lambda>s. \<not> sv_suspended s) (services t)))))"

definition InsertUsageSample :: "int \<Rightarrow> int \<Rightarrow> int \<Rightarrow> ('z, unit) sop" where
  "InsertUsageSample serviceID cpuMilli memBytes = pg_exec (ins_usage serviceID cpuMilli memBytes)"

definition ListUsageSamples :: "int \<Rightarrow> int \<Rightarrow> ('z, usage_sample list) sop" where
  "ListUsageSamples serviceID limit = pg_read (\<lambda>_ t.
     if limit < 0 then Inl PgFault
     else Inr (take (nat limit)
       (rev (sql_order us_id (filter (\<lambda>u. us_service u = serviceID) (usage_samples t))))))"

section \<open>Every method respects the database relation\<close>

lemma orgs_evolve [evolves]:
  "keeps tabs db_evolves (CreateOrg i n sl)" "keeps tabs db_evolves (ListOrgs i)"
  "keeps tabs db_evolves (UpdateOrg i n sl)" "keeps tabs db_evolves (DeleteOrg i)"
  "keeps tabs db_evolves (IsOrgMember i j)"
  unfolding CreateOrg_def ListOrgs_def UpdateOrg_def DeleteOrg_def IsOrgMember_def
  by (intro evo_rules evolves keeps_exec_total)+

lemma projects_evolve [evolves]:
  "keeps tabs db_evolves (CreateProject i n sl)" "keeps tabs db_evolves (UpdateProject i n sl)"
  "keeps tabs db_evolves (DeleteProject i)" "keeps tabs db_evolves (ProjectByID i)"
  "keeps tabs db_evolves (ListProjects i)"
  "keeps tabs db_evolves (CreateService i n sl ty re br sc)"
  "keeps tabs db_evolves (ListServices i)"
  unfolding CreateProject_def UpdateProject_def DeleteProject_def ProjectByID_def ListProjects_def
    CreateService_def ListServices_def
  by (intro evo_rules evolves keeps_exec_total)+

lemma settings_evolve [evolves]:
  "keeps tabs db_evolves (SetServiceScaling i k z mn mx)"
  "keeps tabs db_evolves (SetServiceHealth i p)" "keeps tabs db_evolves (SetServiceDisk i z p)"
  "keeps tabs db_evolves (SetServiceSuspended i b)"
  "keeps tabs db_evolves (ProjectServiceStatuses i)"
  unfolding SetServiceScaling_def SetServiceHealth_def SetServiceDisk_def SetServiceSuspended_def
    ProjectServiceStatuses_def
  by (intro evo_rules evolves keeps_exec_total; simp)+

lemma env_evolve [evolves]:
  "keeps tabs db_evolves (SetEnvVar i k v se bt)" "keeps tabs db_evolves (ListEnvVars i)"
  "keeps tabs db_evolves (DeleteEnvVar i k)" "keeps tabs db_evolves (AddCustomDomain i d)"
  "keeps tabs db_evolves (ListCustomDomains i)" "keeps tabs db_evolves (DeleteCustomDomain i d)"
  unfolding SetEnvVar_def ListEnvVars_def DeleteEnvVar_def AddCustomDomain_def
    ListCustomDomains_def DeleteCustomDomain_def
  by (intro evo_rules evolves keeps_exec_total)+

lemma credentials_evolve [evolves]:
  "keeps tabs db_evolves (AddRegistryCredential i r u p)"
  "keeps tabs db_evolves (ListRegistryCredentials i)"
  "keeps tabs db_evolves (DeleteRegistryCredential i j)"
  "keeps tabs db_evolves (SetGithubConnection i k ac)" "keeps tabs db_evolves (GithubConnection i)"
  "keeps tabs db_evolves (DeleteGithubConnection i)"
  unfolding AddRegistryCredential_def ListRegistryCredentials_def DeleteRegistryCredential_def
    SetGithubConnection_def GithubConnection_def DeleteGithubConnection_def
  by (intro evo_rules evolves keeps_exec_total)+

lemma databases_evolve [evolves]:
  "keeps tabs db_evolves (CreateDatabase i n sl en ti inst mn mx sz sto po ba)"
  "keeps tabs db_evolves (DatabaseByID i)" "keeps tabs db_evolves ListAutoscaleDatabases"
  "keeps tabs db_evolves (ListDatabases i)" "keeps tabs db_evolves (DeleteDatabase i)"
  unfolding CreateDatabase_def DatabaseByID_def ListAutoscaleDatabases_def ListDatabases_def
    DeleteDatabase_def
  by (intro evo_rules evolves keeps_exec_total)+

lemma database_writes_evolve [evolves]:
  "keeps tabs db_evolves (SetDatabaseInstances i k)"
  "keeps tabs db_evolves (SetDatabaseScaling i k sz sto)"
  "keeps tabs db_evolves (SetDatabaseStatus i st)"
  "keeps tabs db_evolves (SetDatabaseConnection i ur re po)"
  unfolding SetDatabaseInstances_def SetDatabaseScaling_def SetDatabaseStatus_def
    SetDatabaseConnection_def
  by (intro keeps_exec_total upd_evolves; simp)+

lemma usage_evolve [evolves]:
  "keeps tabs db_evolves ServicesForMetering" "keeps tabs db_evolves (InsertUsageSample i c m)"
  "keeps tabs db_evolves (ListUsageSamples i l)"
  unfolding ServicesForMetering_def InsertUsageSample_def ListUsageSamples_def
  by (intro evo_rules evolves keeps_exec_total)+

end
