(* ===== verification/Api_Access.thy ===== *)
theory Api_Access
  imports Store_Resources Svctype_Instance
begin

text \<open>
  The frame of package \<open>api\<close>: requests, responses, \<open>readJSON\<close>, \<open>writeError\<close>, \<open>pathInt\<close>
  (\<open>internal/api/server.go\<close>, \<open>resource_handlers.go\<close>) and the access checks of
  \<open>rbac_access.go\<close> and of the \<open>require...\<close> helpers next to the handlers.

  A handler is an action on the database that yields the response. A helper that writes an error
  and returns \<open>false\<close> yields \<open>Inl\<close> of that response; \<open>check\<close> is \<open>x, ok := helper(); if !ok
  return\<close>. \<open>readJSON\<close> is the request's decoded body with a success flag: the fields are whatever
  the decoder stored, on failure too.

  The locale \<open>access_guard\<close> is the contract of every such helper: it changes nothing, it fails
  with a client error, and success means the caller was granted what the handler then does. Every
  helper is an interpretation of it.
\<close>

section \<open>Requests and responses\<close>

record body =
  bd_readable :: bool
  bd_name :: string
  bd_type :: string
  bd_repo_url :: string
  bd_branch :: string
  bd_schedule :: string
  bd_email :: string
  bd_password :: string
  bd_role :: string
  bd_commit :: string
  bd_image :: string
  bd_key :: string
  bd_value :: string
  bd_secret :: bool
  bd_build_time :: bool
  bd_domain :: string
  bd_replicas :: int
  bd_instance_size :: string
  bd_min_replicas :: int
  bd_max_replicas :: int
  bd_path :: string
  bd_size :: string
  bd_storage :: string
  bd_engine :: string
  bd_tier :: string
  bd_instances :: int
  bd_min_instances :: int
  bd_max_instances :: int
  bd_pooling :: bool
  bd_backups :: bool
  bd_registry :: string
  bd_username :: string
  bd_code :: string

record request =
  rq_method :: string
  rq_param :: "string \<Rightarrow> string"
  rq_query :: "string \<Rightarrow> string"
  rq_path :: string
  rq_authorization :: string
  rq_event :: string
  rq_signature :: string
  rq_raw :: "string option"
  rq_user :: user
  rq_body :: body
  rq_random :: "string option"
  rq_now :: int

record user_view =
  uv_id :: int
  uv_email :: string
  uv_name :: string
  uv_created :: int

record cred_view =
  cv_id :: int
  cv_registry :: string
  cv_username :: string

record database_view =
  dv_id :: int
  dv_project :: int
  dv_name :: string
  dv_slug :: string
  dv_engine :: string
  dv_status :: string
  dv_tier :: string
  dv_instances :: int
  dv_min :: int
  dv_max :: int
  dv_size :: string
  dv_storage :: string
  dv_pooling :: bool
  dv_backups :: bool

record deploy_brief =
  br_deploy :: int
  br_service :: int
  br_commit :: string

record repo =
  rp_full_name :: string
  rp_clone_url :: string
  rp_default_branch :: string
  rp_private :: bool

record backup_info =
  bi_name :: string
  bi_phase :: string
  bi_started :: string
  bi_stopped :: string

record pod_metric =
  pm_pod :: string
  pm_cpu :: int
  pm_memory :: int

text \<open>The bodies of the responses, one constructor per type the handlers encode.\<close>

datatype payload =
    NoBody | ErrorBody string | HealthBody | IgnoredBody string
  | UserBody user_view | AuthBody string user_view
  | OrgBody org | OrgsBody "org list" | ProjectBody project | ProjectsBody "project list"
  | ServiceBody service | ServicesBody "service list" | DetailBody service string string
  | StatusesBody "service_status list" | MembersBody "member_row list" | MemberBody member_row
  | TokenBody api_token_meta string | TokensBody "api_token_meta list"
  | AuditBody "audit_entry list" int int int
  | DeployBody deploy | DeploysBody "deploy list" | WebhookBody int "deploy_brief list"
  | EnvBody "env_var list" | DomainBody custom_domain | DomainsBody "custom_domain list"
  | CredBody cred_view | CredsBody "cred_view list"
  | DatabaseBody database_view | DatabasesBody "database_view list"
  | ConnectionBody "(string \<times> string) list" | BackupsBody "backup_info list"
  | UsageBody "usage_sample list" int int int int
  | GithubBody bool "string option" "string option" | GithubConnectedBody string
  | ReposBody "repo list" | MetricsBody "pod_metric list" | StreamBody string

type_synonym response = "int \<times> payload"
type_synonym 'z handler = "('z pg_scheme, response) act"

definition writeJSON :: "int \<Rightarrow> payload \<Rightarrow> 'z handler" where
  "writeJSON status v = ret (status, v)"

definition writeError :: "int \<Rightarrow> string \<Rightarrow> 'z handler" where
  "writeError status msg = writeJSON status (ErrorBody msg)"

definition client_error :: "response \<Rightarrow> bool" where
  "client_error r \<longleftrightarrow> fst r \<in> {400..499} \<and> (\<exists>m. snd r = ErrorBody m)"

definition reject :: "int \<Rightarrow> string \<Rightarrow> ('z pg_scheme, response + 'a) act" where
  "reject status msg = ret (Inl (status, ErrorBody msg))"

definition check :: "('z pg_scheme, response + 'a) act \<Rightarrow> ('a \<Rightarrow> 'z handler) \<Rightarrow> 'z handler" where
  "check m k = attempt m ret k"

definition pathInt :: "request \<Rightarrow> string \<Rightarrow> int option" where
  "pathInt r key = parse_int (rq_param r key)"

section \<open>Access checks\<close>

definition isMutation :: "string \<Rightarrow> bool" where
  "isMutation meth \<longleftrightarrow> meth \<notin> {''GET'', ''HEAD'', ''OPTIONS''}"

definition authorizeOrg :: "request \<Rightarrow> int \<Rightarrow> ('z pg_scheme, response + string) act" where
  "authorizeOrg r orgID = attempt (RoleInOrg (u_id (rq_user r)) orgID)
     (\<lambda>_. reject 403 ''not a member of this org'')
     (\<lambda>role. if isMutation (rq_method r) \<and> \<not> CanWrite role
       then reject 403 ''read-only access (viewer role)''
       else ret (Inr role))"

definition requireOrgRole :: "request \<Rightarrow> int \<Rightarrow> string \<Rightarrow> ('z pg_scheme, response + string) act" where
  "requireOrgRole r orgID least = attempt (RoleInOrg (u_id (rq_user r)) orgID)
     (\<lambda>_. reject 403 ''not a member of this org'')
     (\<lambda>role. if \<not> AtLeast role least then reject 403 (''requires '' @ least @ '' role'')
       else ret (Inr role))"

definition requireOrgMember :: "request \<Rightarrow> ('z pg_scheme, response + int) act" where
  "requireOrgMember r = (case pathInt r ''orgID'' of
      None \<Rightarrow> reject 400 ''invalid org id''
    | Some orgID \<Rightarrow> throwing (authorizeOrg r orgID) (\<lambda>_. ret (Inr orgID)))"

definition requireProjectAccess :: "request \<Rightarrow> ('z pg_scheme, response + int) act" where
  "requireProjectAccess r = (case pathInt r ''projectID'' of
      None \<Rightarrow> reject 400 ''invalid project id''
    | Some projectID \<Rightarrow> attempt (ProjectByID projectID) (\<lambda>_. reject 404 ''project not found'')
        (\<lambda>p. throwing (authorizeOrg r (p_org p)) (\<lambda>_. ret (Inr projectID))))"

definition requireServiceWithOrg :: "request \<Rightarrow> ('z pg_scheme, response + (service \<times> int)) act" where
  "requireServiceWithOrg r = (case pathInt r ''serviceID'' of
      None \<Rightarrow> reject 400 ''invalid service id''
    | Some i \<Rightarrow> attempt (ServiceByID i) (\<lambda>_. reject 404 ''service not found'')
        (\<lambda>(svc, orgID). throwing (authorizeOrg r orgID) (\<lambda>_. ret (Inr (svc, orgID)))))"

definition requireServiceAccess :: "request \<Rightarrow> ('z pg_scheme, response + service) act" where
  "requireServiceAccess r = (case pathInt r ''serviceID'' of
      None \<Rightarrow> reject 400 ''invalid service id''
    | Some i \<Rightarrow> attempt (ServiceByID i) (\<lambda>_. reject 404 ''service not found'')
        (\<lambda>(svc, orgID). throwing (authorizeOrg r orgID) (\<lambda>_. ret (Inr svc))))"

definition requireDeployAccess :: "request \<Rightarrow> ('z pg_scheme, response + deploy) act" where
  "requireDeployAccess r = (case pathInt r ''deployID'' of
      None \<Rightarrow> reject 400 ''invalid deploy id''
    | Some i \<Rightarrow> attempt (DeployByID i) (\<lambda>_. reject 404 ''deploy not found'')
        (\<lambda>d. attempt (ServiceByID (d_service d)) (\<lambda>_. reject 404 ''deploy not found'')
        (\<lambda>(_, orgID). throwing (authorizeOrg r orgID) (\<lambda>_. ret (Inr d)))))"

definition requireDatabaseAccess :: "request \<Rightarrow> ('z pg_scheme, response + (database \<times> int)) act" where
  "requireDatabaseAccess r = (case pathInt r ''databaseID'' of
      None \<Rightarrow> reject 400 ''invalid database id''
    | Some i \<Rightarrow> attempt (DatabaseByID i) (\<lambda>_. reject 404 ''database not found'')
        (\<lambda>(db, orgID). throwing (authorizeOrg r orgID) (\<lambda>_. ret (Inr (db, orgID)))))"

section \<open>The contract of an access check\<close>

definition readonly :: "('z pg_scheme, 'a) act \<Rightarrow> bool" where
  "readonly m \<longleftrightarrow> keeps (\<lambda>w. (tabs w, bus w)) (=) m"

interpretation same: evolution "\<lambda>w. (tabs w, bus w)" "(=)"
  by unfold_locales auto

lemma readonly_pg_read [simp]: "readonly (pg_read q)"
  using pg_read_frame [of q] unfolding readonly_def keeps_def by (metis prod.collapse)

lemma readonly_ret [simp]: "readonly (ret a)" "readonly (reject st m)"
  unfolding readonly_def reject_def by (rule same.keeps_ret)+

lemma readonly_attempt:
  "readonly m \<Longrightarrow> (\<And>e. readonly (h e)) \<Longrightarrow> (\<And>a. readonly (k a)) \<Longrightarrow> readonly (attempt m h k)"
  unfolding readonly_def by (rule same.keeps_attempt)

lemma readonlyD: "readonly m \<Longrightarrow> m w = (a, w') \<Longrightarrow> tabs w' = tabs w \<and> bus w' = bus w"
  unfolding readonly_def by (drule (1) keepsD) simp

locale access_guard =
  fixes guard :: "('z pg_scheme, response + 'a) act" and granted :: "tables \<Rightarrow> 'a \<Rightarrow> bool"
  assumes guard_readonly: "readonly guard"
    and guard_grants: "guard w = (Inr a, w') \<Longrightarrow> granted (tabs w) a"
    and guard_denies: "guard w = (Inl resp, w') \<Longrightarrow> client_error resp"
begin

lemma guard_cases:
  assumes "guard w = (res, w')"
  shows "tabs w' = tabs w \<and> bus w' = bus w \<and>
    (case res of Inl resp \<Rightarrow> client_error resp | Inr a \<Rightarrow> granted (tabs w) a)"
  using readonlyD [OF guard_readonly assms] guard_grants guard_denies assms
  by (cases res) auto

text \<open>A guarded handler of a caller who is granted nothing is refused and changes nothing.\<close>

lemma check_refused:
  assumes "\<And>a. \<not> granted (tabs w) a" "check guard k w = (resp, w')"
  shows "client_error resp \<and> tabs w' = tabs w \<and> bus w' = bus w"
proof -
  obtain res w1 where g: "guard w = (res, w1)" by fastforce
  then obtain resp' where "res = Inl resp'" using assms(1) guard_cases [OF g] by (cases res) auto
  then show ?thesis using assms(2) g guard_cases [OF g]
    by (simp add: check_def attempt_def ret_def)
qed

text \<open>Otherwise it is refused, or its body runs from an unchanged database with a grant.\<close>

lemma check_cases:
  assumes "check guard k w = (resp, w')"
  obtains (refused) "client_error resp" "tabs w' = tabs w" "bus w' = bus w"
  | (granted) a w1 where "guard w = (Inr a, w1)" "granted (tabs w) a" "tabs w1 = tabs w"
      "bus w1 = bus w" "k a w1 = (resp, w')"
proof -
  obtain res w1 where g: "guard w = (res, w1)" by fastforce
  show ?thesis
  proof (cases res)
    case (Inl resp')
    then show ?thesis using refused assms guard_cases [OF g] g
      by (simp add: check_def attempt_def ret_def)
  next
    case (Inr a)
    then show ?thesis using granted [of a w1] assms guard_cases [OF g] g
      by (simp add: check_def attempt_def)
  qed
qed

end

text \<open>A check that first looks a row up, then runs another check on what it found.\<close>

lemma access_guard_lookup:
  assumes "readonly m" "\<And>a w w'. m w = (Inr a, w') \<Longrightarrow> found (tabs w) a"
    and "\<And>a. access_guard (g a) (\<lambda>t b. found t a \<longrightarrow> granted t b)"
    and "client_error (st, ErrorBody msg)"
  shows "access_guard (attempt m (\<lambda>_. reject st msg) g) granted"
proof
  show "readonly (attempt m (\<lambda>_. reject st msg) g)"
    using assms(1,3) by (intro readonly_attempt) (auto simp: access_guard_def)
  fix w a w' resp
  {
    assume "attempt m (\<lambda>_. reject st msg) g w = (Inr a, w')"
    then obtain b w1 where m: "m w = (Inr b, w1)" and g: "g b w1 = (Inr a, w')"
      by (auto simp: attempt_def reject_def ret_def split: prod.splits sum.splits)
    have "tabs w1 = tabs w" using readonlyD [OF assms(1) m] by simp
    then show "granted (tabs w) a"
      using access_guard.guard_grants [OF assms(3) g] assms(2) [OF m] by simp
  next
    assume "attempt m (\<lambda>_. reject st msg) g w = (Inl resp, w')"
    then consider "resp = (st, ErrorBody msg)"
      | b w1 where "m w = (Inr b, w1)" "g b w1 = (Inl resp, w')"
      by (auto simp: attempt_def reject_def ret_def split: prod.splits sum.splits)
    then show "client_error resp"
      using assms(4) access_guard.guard_denies [OF assms(3)] by cases auto
  }
qed

lemma access_guard_reject: "client_error (st, ErrorBody msg) \<Longrightarrow> access_guard (reject st msg) granted"
  by unfold_locales (auto simp: reject_def ret_def)

lemma access_guard_ret: "(\<And>t. granted t a) \<Longrightarrow> access_guard (ret (Inr a)) granted"
  by unfold_locales (auto simp: ret_def)

lemma access_guard_if:
  "(b \<Longrightarrow> access_guard m P) \<Longrightarrow> (\<not> b \<Longrightarrow> access_guard n P) \<Longrightarrow> access_guard (if b then m else n) P"
  by simp

text \<open>A check followed by a computation of what it hands on.\<close>

lemma access_guard_map:
  assumes "access_guard g granted" "\<And>t a. granted t a \<Longrightarrow> granted' t b"
  shows "access_guard (throwing g (\<lambda>_. ret (Inr b))) granted'"
proof
  show "readonly (throwing g (\<lambda>_. ret (Inr b)))"
    using assms(1) unfolding throwing_def by (intro readonly_attempt) (auto simp: access_guard_def)
  fix w a w' resp
  {
    assume "throwing g (\<lambda>_. ret (Inr b)) w = (Inr a, w')"
    then show "granted' (tabs w) a"
      using assms(2) [OF access_guard.guard_grants [OF assms(1)]]
      by (auto simp: throwing_def attempt_def ret_def split: prod.splits sum.splits)
  next
    assume "throwing g (\<lambda>_. ret (Inr b)) w = (Inl resp, w')"
    then show "client_error resp"
      using access_guard.guard_denies [OF assms(1)]
      by (auto simp: throwing_def attempt_def ret_def split: prod.splits sum.splits)
  }
qed

section \<open>What the checks grant\<close>

definition may_access :: "request \<Rightarrow> tables \<Rightarrow> int \<Rightarrow> bool" where
  "may_access r t orgID \<longleftrightarrow> (\<exists>role. member_role (u_id (rq_user r)) orgID t = Some role \<and>
     (isMutation (rq_method r) \<longrightarrow> CanWrite role))"

definition has_role :: "request \<Rightarrow> string \<Rightarrow> tables \<Rightarrow> int \<Rightarrow> bool" where
  "has_role r least t orgID \<longleftrightarrow>
     (\<exists>role. member_role (u_id (rq_user r)) orgID t = Some role \<and> AtLeast role least)"

lemma RoleInOrg_cases:
  assumes "RoleInOrg u i w = (res, w')"
  shows "tabs w' = tabs w" "bus w' = bus w"
    "case res of Inl e \<Rightarrow> True | Inr role \<Rightarrow> member_role u i (tabs w) = Some role"
  using pg_read_frame [OF assms [unfolded RoleInOrg_def]]
  by (auto simp: or_not_found_def split: option.splits)

lemma client_error_simp [simp]: "client_error (st, ErrorBody m) \<longleftrightarrow> 400 \<le> st \<and> st \<le> 499"
  by (simp add: client_error_def)

lemma readonly_RoleInOrg [simp]: "readonly (RoleInOrg u i)"
  by (simp add: RoleInOrg_def)

interpretation authorize: access_guard "authorizeOrg r orgID"
  "\<lambda>t role. member_role (u_id (rq_user r)) orgID t = Some role \<and>
     (isMutation (rq_method r) \<longrightarrow> CanWrite role)"
  unfolding authorizeOrg_def
proof (rule access_guard_lookup [where found = "\<lambda>t role. member_role (u_id (rq_user r)) orgID t = Some role"])
  show "member_role (u_id (rq_user r)) orgID (tabs w) = Some a"
    if "RoleInOrg (u_id (rq_user r)) orgID w = (Inr a, w')" for a and w w' :: "'a pg_scheme"
    using RoleInOrg_cases(3) [OF that] by simp
qed (rule readonly_RoleInOrg access_guard_if access_guard_reject access_guard_ret | simp)+

interpretation org_role: access_guard "requireOrgRole r orgID least"
  "\<lambda>t role. member_role (u_id (rq_user r)) orgID t = Some role \<and> AtLeast role least"
  unfolding requireOrgRole_def
proof (rule access_guard_lookup [where found = "\<lambda>t role. member_role (u_id (rq_user r)) orgID t = Some role"])
  show "member_role (u_id (rq_user r)) orgID (tabs w) = Some a"
    if "RoleInOrg (u_id (rq_user r)) orgID w = (Inr a, w')" for a and w w' :: "'a pg_scheme"
    using RoleInOrg_cases(3) [OF that] by simp
qed (rule readonly_RoleInOrg access_guard_if access_guard_reject access_guard_ret | simp)+

lemma authorize_guard:
  "access_guard (authorizeOrg r orgID) (\<lambda>t role. member_role (u_id (rq_user r)) orgID t = Some role \<and>
     (isMutation (rq_method r) \<longrightarrow> CanWrite role))"
  by (rule authorize.access_guard_axioms)

lemma authorized_map:
  assumes "\<And>t. may_access r t orgID \<Longrightarrow> granted t b"
  shows "access_guard (throwing (authorizeOrg r orgID) (\<lambda>_. ret (Inr b))) granted"
  by (rule access_guard_map [OF authorize_guard]) (use assms in \<open>auto simp: may_access_def\<close>)

lemma access_guard_param:
  assumes "x = None \<Longrightarrow> access_guard m P" "\<And>i. x = Some i \<Longrightarrow> access_guard (g i) P"
  shows "access_guard (case x of None \<Rightarrow> m | Some i \<Rightarrow> g i) P"
  using assms by (cases x) auto

lemma access_guard_prod:
  "(\<And>x y. p = (x, y) \<Longrightarrow> access_guard (g x y) P) \<Longrightarrow> access_guard (case p of (x, y) \<Rightarrow> g x y) P"
  by (cases p) auto

text \<open>The rows the checks look up.\<close>

definition project_at :: "int \<Rightarrow> tables \<Rightarrow> project option" where
  "project_at i t = find (\<lambda>p. p_id p = i) (projects t)"

definition deploy_at :: "int \<Rightarrow> tables \<Rightarrow> deploy option" where
  "deploy_at i t = find (\<lambda>d. d_id d = i) (deploys t)"

lemma lookups_readonly [simp]:
  "readonly (ProjectByID i)" "readonly (ServiceByID i)" "readonly (DeployByID i)"
  "readonly (DatabaseByID i)"
  by (simp_all add: ProjectByID_def ServiceByID_def DeployByID_def DatabaseByID_def)

lemma lookups_found:
  "ProjectByID i w = (Inr p, w') \<Longrightarrow> project_at i (tabs w) = Some p"
  "ServiceByID i w = (Inr s, w') \<Longrightarrow> service_org i (tabs w) = Some s"
  "DeployByID i w = (Inr d, w') \<Longrightarrow> deploy_at i (tabs w) = Some d"
  "DatabaseByID i w = (Inr b, w') \<Longrightarrow> database_org i (tabs w) = Some b"
  by (auto simp: ProjectByID_def ServiceByID_def DeployByID_def DatabaseByID_def project_at_def
      deploy_at_def sql_one_def or_not_found_def dest!: pg_read_frame(4) split: option.splits)

interpretation org_member: access_guard "requireOrgMember r"
  "\<lambda>t orgID. pathInt r ''orgID'' = Some orgID \<and> may_access r t orgID"
  unfolding requireOrgMember_def
  by (rule access_guard_param access_guard_reject authorized_map | simp)+

interpretation project_access: access_guard "requireProjectAccess r"
  "\<lambda>t i. pathInt r ''projectID'' = Some i \<and>
     (\<exists>p. project_at i t = Some p \<and> may_access r t (p_org p))"
  unfolding requireProjectAccess_def
  by (rule access_guard_param access_guard_reject
      access_guard_lookup [where found = "\<lambda>t p. project_at (the (pathInt r ''projectID'')) t = Some p"]
      authorized_map | simp add: lookups_found)+

interpretation service_access: access_guard "requireServiceAccess r"
  "\<lambda>t s. \<exists>i orgID. pathInt r ''serviceID'' = Some i \<and> service_org i t = Some (s, orgID) \<and>
     may_access r t orgID"
  unfolding requireServiceAccess_def
  by (rule access_guard_param access_guard_reject
      access_guard_lookup [where found = "\<lambda>t p. service_org (the (pathInt r ''serviceID'')) t = Some p"]
      access_guard_prod authorized_map | simp add: lookups_found)+

interpretation service_with_org: access_guard "requireServiceWithOrg r"
  "\<lambda>t (s, orgID). \<exists>i. pathInt r ''serviceID'' = Some i \<and> service_org i t = Some (s, orgID) \<and>
     may_access r t orgID"
  unfolding requireServiceWithOrg_def
  by (rule access_guard_param access_guard_reject
      access_guard_lookup [where found = "\<lambda>t p. service_org (the (pathInt r ''serviceID'')) t = Some p"]
      access_guard_prod authorized_map | simp add: lookups_found)+

interpretation database_access: access_guard "requireDatabaseAccess r"
  "\<lambda>t (d, orgID). \<exists>i. pathInt r ''databaseID'' = Some i \<and> database_org i t = Some (d, orgID) \<and>
     may_access r t orgID"
  unfolding requireDatabaseAccess_def
  by (rule access_guard_param access_guard_reject
      access_guard_lookup [where found = "\<lambda>t p. database_org (the (pathInt r ''databaseID'')) t = Some p"]
      access_guard_prod authorized_map | simp add: lookups_found)+

interpretation deploy_access: access_guard "requireDeployAccess r"
  "\<lambda>t d. \<exists>i s orgID. pathInt r ''deployID'' = Some i \<and> deploy_at i t = Some d \<and>
     service_org (d_service d) t = Some (s, orgID) \<and> may_access r t orgID"
proof -
  have inner: "access_guard (attempt (ServiceByID (d_service d)) (\<lambda>_. reject 404 ''deploy not found'')
        (\<lambda>(_, orgID). throwing (authorizeOrg r orgID) (\<lambda>_. ret (Inr d))))
      (\<lambda>t b. b = d \<and> (\<exists>s orgID. service_org (d_service d) t = Some (s, orgID) \<and> may_access r t orgID))"
    for d
    by (rule access_guard_lookup [where found = "\<lambda>t p. service_org (d_service d) t = Some p"]
      access_guard_prod authorized_map | simp add: lookups_found)+
  show "access_guard (requireDeployAccess r)
     (\<lambda>t d. \<exists>i s orgID. pathInt r ''deployID'' = Some i \<and> deploy_at i t = Some d \<and>
       service_org (d_service d) t = Some (s, orgID) \<and> may_access r t orgID)"
    unfolding requireDeployAccess_def
  proof (rule access_guard_param, rule access_guard_reject, simp,
      rule access_guard_lookup [where found = "\<lambda>t d. deploy_at (the (pathInt r ''deployID'')) t = Some d"])
    fix i d assume i: "pathInt r ''deployID'' = Some i"
    show "access_guard (attempt (ServiceByID (d_service d)) (\<lambda>_. reject 404 ''deploy not found'')
        (\<lambda>(_, orgID). throwing (authorizeOrg r orgID) (\<lambda>_. ret (Inr d))))
      (\<lambda>t b. deploy_at (the (pathInt r ''deployID'')) t = Some d \<longrightarrow>
         (\<exists>i s orgID. pathInt r ''deployID'' = Some i \<and> deploy_at i t = Some b \<and>
           service_org (d_service b) t = Some (s, orgID) \<and> may_access r t orgID))"
      using inner [of d] i unfolding access_guard_def by simp blast
  qed (simp_all add: lookups_found)
qed

section \<open>The orgs a request may act on\<close>

text \<open>A client error is all a caller gets who may access nothing the request names.\<close>

lemmas guard_refusals =
  authorize.check_refused org_role.check_refused org_member.check_refused
  project_access.check_refused service_access.check_refused service_with_org.check_refused
  deploy_access.check_refused database_access.check_refused

lemma check_evolves [evolves]:
  assumes "access_guard g P" "\<And>a. keeps tabs db_evolves (k a)"
  shows "keeps tabs db_evolves (check g k)"
proof -
  have "keeps tabs db_evolves g"
    using assms(1) unfolding access_guard_def readonly_def keeps_def by force
  then show ?thesis unfolding check_def using assms(2) by (intro evo_rules)
qed

section \<open>An example request\<close>

text \<open>Ann, the owner of the demo org, sends \<open>meth\<close> with the given parameters and body.\<close>

definition empty_body :: body where
  "empty_body = \<lparr>bd_readable = True, bd_name = '''', bd_type = '''', bd_repo_url = '''',
     bd_branch = '''', bd_schedule = '''', bd_email = '''', bd_password = '''', bd_role = '''',
     bd_commit = '''', bd_image = '''', bd_key = '''', bd_value = '''', bd_secret = False,
     bd_build_time = False, bd_domain = '''', bd_replicas = 0, bd_instance_size = '''',
     bd_min_replicas = 0, bd_max_replicas = 0, bd_path = '''', bd_size = '''', bd_storage = '''',
     bd_engine = '''', bd_tier = '''', bd_instances = 0, bd_min_instances = 0,
     bd_max_instances = 0, bd_pooling = False, bd_backups = False, bd_registry = '''',
     bd_username = '''', bd_code = ''''\<rparr>"

definition demo_request :: "string \<Rightarrow> (string \<times> string) list \<Rightarrow> body \<Rightarrow> request" where
  "demo_request meth params b = \<lparr>rq_method = meth,
     rq_param = (\<lambda>k. case map_of params k of None \<Rightarrow> '''' | Some v \<Rightarrow> v), rq_query = (\<lambda>_. ''''),
     rq_path = ''/'', rq_authorization = '''', rq_event = '''', rq_signature = '''',
     rq_raw = Some '''', rq_user = \<lparr>u_id = 1, u_email = ''ann@acme.io'', u_hash = ''h1'',
     u_name = ''Ann'', u_created = 0\<rparr>, rq_body = b, rq_random = None, rq_now = 0\<rparr>"

definition demo_pg :: pg where
  "demo_pg = start_pg\<lparr>tabs := demo_tables\<rparr>"

end
