(* ===== verification/Slug.thy ===== *)
theory Slug
  imports Go_Strings
begin

text \<open>
  Two small string routines with a contract: \<open>slugify\<close> (\<open>internal/api/resource_handlers.go\<close>),
  which turns a display name into the slug used for Kubernetes objects and hostnames, and
  \<open>pgQuoteIdent\<close> (\<open>internal/store/events.go\<close>), which quotes the channel name of a \<open>LISTEN\<close>.
  The first is shown to be a retraction onto the slugs, the second to be read back exactly by
  the SQL lexer's rule for quoted identifiers.
\<close>

section \<open>slugify\<close>

definition is_alnum :: "char \<Rightarrow> bool" where
  "is_alnum r = (let n = (of_char r :: nat) in (97 \<le> n \<and> n \<le> 122) \<or> (48 \<le> n \<and> n \<le> 57))"

fun slug_loop :: "string \<Rightarrow> bool \<Rightarrow> string \<Rightarrow> string" where
  "slug_loop b prevDash [] = b"
| "slug_loop b prevDash (r # rs) =
     (if is_alnum r then slug_loop (b @ [r]) False rs
      else if \<not> prevDash \<and> length b > 0 then slug_loop (b @ ''-'') True rs
      else slug_loop b prevDash rs)"

definition slugify :: "string \<Rightarrow> string" where
  "slugify s = trim_if (\<lambda>c. c = CHR ''-'') (slug_loop [] False (to_lower (trim_space s)))"

fun no_double_dash :: "string \<Rightarrow> bool" where
  "no_double_dash (x # y # r) = (\<not> (x = CHR ''-'' \<and> y = CHR ''-'') \<and> no_double_dash (y # r))"
| "no_double_dash _ = True"

text \<open>What a slug is: lower-case letters and digits in groups joined by single dashes.\<close>

definition is_slug :: "string \<Rightarrow> bool" where
  "is_slug s \<longleftrightarrow> (\<forall>c \<in> set s. is_alnum c \<or> c = CHR ''-'') \<and> no_double_dash s \<and>
     (s = [] \<or> (hd s \<noteq> CHR ''-'' \<and> last s \<noteq> CHR ''-''))"

lemma is_alnum_dash [simp]: "\<not> is_alnum CHR ''-''"
  by (simp add: is_alnum_def)

lemma is_alnum_colon [simp]: "\<not> is_alnum CHR '':''"
  by (simp add: is_alnum_def)

lemma no_double_dash_snoc:
  "no_double_dash (s @ [c]) \<longleftrightarrow> no_double_dash s \<and> (s = [] \<or> \<not> (last s = CHR ''-'' \<and> c = CHR ''-''))"
  by (induction s rule: no_double_dash.induct) auto

lemma no_double_dash_appendD: "no_double_dash (s @ t) \<Longrightarrow> no_double_dash s \<and> no_double_dash t"
proof (induction s)
  case (Cons a s)
  then show ?case by (cases s; cases t) auto
qed simp

text \<open>The loop's invariant: the buffer is a slug but for a dash at its end, which \<open>prevDash\<close> tells.\<close>

definition slug_inv :: "string \<Rightarrow> bool \<Rightarrow> bool" where
  "slug_inv b prev \<longleftrightarrow> (\<forall>c \<in> set b. is_alnum c \<or> c = CHR ''-'') \<and> no_double_dash b \<and>
     (b = [] \<or> hd b \<noteq> CHR ''-'') \<and> (prev \<longleftrightarrow> b \<noteq> [] \<and> last b = CHR ''-'')"

lemma slug_loop_inv: "slug_inv b prev \<Longrightarrow> \<exists>prev'. slug_inv (slug_loop b prev s) prev'"
proof (induction b prev s rule: slug_loop.induct)
  case (1 b prev)
  then show ?case by auto
next
  case (2 b prev r rs)
  show ?case
  proof (cases "is_alnum r")
    case True
    then have "slug_inv (b @ [r]) False"
      using "2.prems" by (auto simp: slug_inv_def no_double_dash_snoc hd_append)
    then show ?thesis using "2.IH"(1) True by simp
  next
    case no: False
    show ?thesis
    proof (cases "\<not> prev \<and> length b > 0")
      case True
      then have "slug_inv (b @ ''-'') True"
        using "2.prems" by (auto simp: slug_inv_def no_double_dash_snoc hd_append)
      then show ?thesis using "2.IH"(2) True no by simp
    next
      case False
      then show ?thesis using "2.IH"(3) "2.prems" no by auto
    qed
  qed
qed

lemma is_slug_trim:
  assumes "slug_inv b prev"
  shows "is_slug (trim_if (\<lambda>c. c = CHR ''-'') b)"
proof -
  let ?P = "\<lambda>c. c = CHR ''-''"
  let ?d = "dropWhile ?P b"
  have t: "trim_if ?P b = rev (dropWhile ?P (rev ?d))"
    by (simp add: trim_if_def trim_right_if_def)
  obtain u where "rev ?d = u @ dropWhile ?P (rev ?d)" by (metis takeWhile_dropWhile_id)
  then have d: "?d = trim_if ?P b @ rev u" by (metis t rev_append rev_rev_ident)
  obtain v where b: "b = v @ ?d" by (metis takeWhile_dropWhile_id)
  have "no_double_dash (trim_if ?P b)"
    using assms b d unfolding slug_inv_def by (metis no_double_dash_appendD)
  moreover have "\<forall>c \<in> set (trim_if ?P b). is_alnum c \<or> c = CHR ''-''"
    using assms trim_if_subset [of ?P b] unfolding slug_inv_def by blast
  ultimately show ?thesis
    unfolding is_slug_def using trim_if_ends [of ?P b] by blast
qed

lemma slugify_is_slug: "is_slug (slugify s)"
proof -
  have "slug_inv [] False" by (simp add: slug_inv_def)
  from slug_loop_inv [OF this] show ?thesis unfolding slugify_def using is_slug_trim by blast
qed

lemma is_alnum_lower: "is_alnum c \<Longrightarrow> lower_char c = c"
  by (auto simp: is_alnum_def lower_char_def Let_def)

lemma is_alnum_not_space: "is_alnum c \<Longrightarrow> \<not> is_space c"
  by (auto simp: is_alnum_def is_space_def)

lemma slug_char: "is_slug s \<Longrightarrow> c \<in> set s \<Longrightarrow> is_alnum c \<or> c = CHR ''-''"
  by (simp add: is_slug_def)

lemma dash_not_space [simp]: "\<not> is_space CHR ''-''"
  by (simp add: is_space_def)

lemma dash_lower [simp]: "lower_char CHR ''-'' = CHR ''-''"
  by (simp add: lower_char_def)

lemma slug_not_space: "is_slug s \<Longrightarrow> c \<in> set s \<Longrightarrow> \<not> is_space c"
  using slug_char is_alnum_not_space dash_not_space by metis

lemma slug_trim_space: "is_slug s \<Longrightarrow> trim_space s = s"
  unfolding trim_space_def by (rule trim_if_id) (metis slug_not_space hd_in_set last_in_set)

lemma slug_lower: "is_slug s \<Longrightarrow> to_lower s = s"
  unfolding to_lower_def by (rule map_idI) (metis slug_char is_alnum_lower dash_lower)

text \<open>On a string that continues a slug, the loop copies.\<close>

lemma slug_loop_copy:
  assumes "no_double_dash (b @ s)" "\<forall>c \<in> set s. is_alnum c \<or> c = CHR ''-''"
    "b = [] \<Longrightarrow> s = [] \<or> hd s \<noteq> CHR ''-''" "prev \<longleftrightarrow> b \<noteq> [] \<and> last b = CHR ''-''"
  shows "slug_loop b prev s = b @ s"
  using assms
proof (induction s arbitrary: b prev)
  case (Cons r rs)
  have nd: "no_double_dash ((b @ [r]) @ rs)" using Cons.prems(1) by simp
  then have snoc: "no_double_dash (b @ [r])" using no_double_dash_appendD by blast
  show ?case
  proof (cases "is_alnum r")
    case True
    have "slug_loop (b @ [r]) False rs = (b @ [r]) @ rs"
      by (rule Cons.IH) (use nd Cons.prems True in auto)
    then show ?thesis using True by simp
  next
    case False
    then have r: "r = CHR ''-''" using Cons.prems(2) by auto
    have b: "b \<noteq> []" using Cons.prems(3) r by auto
    then have "\<not> prev" using snoc r Cons.prems(4) by (auto simp: no_double_dash_snoc)
    moreover have "slug_loop (b @ [r]) True rs = (b @ [r]) @ rs"
      by (rule Cons.IH) (use nd Cons.prems r in auto)
    ultimately show ?thesis using False b r by simp
  qed
qed simp

lemma slugify_fix: "is_slug s \<Longrightarrow> slugify s = s"
proof -
  assume s: "is_slug s"
  have "slug_loop [] False s = [] @ s"
    by (rule slug_loop_copy) (use s in \<open>auto simp: is_slug_def\<close>)
  moreover have "trim_if (\<lambda>c. c = CHR ''-'') s = s"
    by (rule trim_if_id) (use s in \<open>auto simp: is_slug_def\<close>)
  ultimately show ?thesis by (simp add: slugify_def slug_trim_space slug_lower s)
qed

lemma is_slug_no_colon: "is_slug s \<Longrightarrow> CHR '':'' \<notin> set s"
  by (auto simp: is_slug_def)

lemma slugify_no_colon [simp]: "CHR '':'' \<notin> set (slugify s)"
  using is_slug_no_colon slugify_is_slug by blast

text \<open>
  \<open>slugify\<close> is a retraction onto the slugs: its result is always made of lower-case
  letters and digits in groups joined by single dashes, with no dash at either end, and a name
  that is already a slug is returned unchanged, so slugifying twice changes nothing.\<close>

theorem slugify_retraction:
  "is_slug (slugify s) \<and> slugify (slugify s) = slugify s \<and> (is_slug t \<longrightarrow> slugify t = t)"
  using slugify_is_slug slugify_fix by blast

theorem slugify_retraction_witness:
  "is_slug ''my-cool-service'' \<and> slugify ''  My_Cool.Service!'' = ''my-cool-service'' \<and>
   slugify ''my-cool-service'' = ''my-cool-service''"
proof -
  have a: "is_slug ''my-cool-service''" by (simp add: is_slug_def is_alnum_def)
  moreover have "slugify ''  My_Cool.Service!'' = ''my-cool-service''" by code_simp
  ultimately show ?thesis using slugify_retraction [of "''x''" "''my-cool-service''"] by simp
qed

text \<open>Nothing bounds a slug's length, although a Kubernetes label holds 63 characters.\<close>

lemma slugify_unbounded: "length (slugify (replicate n CHR ''a'')) = n"
proof -
  have "no_double_dash (replicate m CHR ''a'')" for m
    by (induction m rule: induct_nat_012) auto
  then have "is_slug (replicate n CHR ''a'')"
    by (cases "n = 0") (auto simp: is_slug_def is_alnum_def)
  then show ?thesis by (simp add: slugify_fix)
qed

section \<open>pgQuoteIdent\<close>

fun double_quotes :: "string \<Rightarrow> string" where
  "double_quotes [] = []"
| "double_quotes (c # cs) =
     (if c = CHR 0x22 then CHR 0x22 # c # double_quotes cs else c # double_quotes cs)"

definition pgQuoteIdent :: "string \<Rightarrow> string" where
  "pgQuoteIdent ident = CHR 0x22 # double_quotes ident @ [CHR 0x22]"

text \<open>The SQL rule: after the opening quote, a doubled quote is one quote, a single one ends.\<close>

fun read_quoted :: "string \<Rightarrow> (string \<times> string) option" where
  "read_quoted [] = None"
| "read_quoted [c] = (if c = CHR 0x22 then Some ([], []) else None)"
| "read_quoted (c # d # r) =
     (if c = CHR 0x22 then
        (if d = CHR 0x22 then (case read_quoted r of None \<Rightarrow> None | Some (a, b) \<Rightarrow> Some (c # a, b))
         else Some ([], d # r))
      else (case read_quoted (d # r) of None \<Rightarrow> None | Some (a, b) \<Rightarrow> Some (c # a, b)))"

lemma read_quoted_plain:
  "c \<noteq> CHR 0x22 \<Longrightarrow> read_quoted (c # s) =
     (case read_quoted s of None \<Rightarrow> None | Some (a, b) \<Rightarrow> Some (c # a, b))"
  by (cases s) auto

text \<open>C23. A quoted identifier is read back by the SQL lexer as exactly the name that was quoted,
  with the rest of the statement left over: no channel name can end the identifier early.\<close>

theorem pgQuoteIdent_roundtrip:
  assumes "rest = [] \<or> hd rest \<noteq> CHR 0x22"
  shows "pgQuoteIdent ident @ rest = CHR 0x22 # tl (pgQuoteIdent ident @ rest) \<and>
    read_quoted (tl (pgQuoteIdent ident @ rest)) = Some (ident, rest)"
proof -
  have "read_quoted (double_quotes ident @ CHR 0x22 # rest) = Some (ident, rest)"
  proof (induction ident)
    case Nil
    then show ?case using assms by (cases rest) auto
  next
    case (Cons c cs)
    then show ?case by (cases "c = CHR 0x22") (simp_all add: read_quoted_plain)
  qed
  then show ?thesis by (simp add: pgQuoteIdent_def)
qed

theorem pgQuoteIdent_roundtrip_witness:
  "read_quoted (tl (pgQuoteIdent [CHR ''a'', CHR 0x22, CHR ''b''] @ '';'')) =
     Some ([CHR ''a'', CHR 0x22, CHR ''b''], '';'')"
  using pgQuoteIdent_roundtrip [of "'';''" "[CHR ''a'', CHR 0x22, CHR ''b'']"] by simp

end
