(* ===== verification/Api_Resources.thy ===== *)
theory Api_Resources
  imports Api_Access Slug
begin

text \<open>
  \<open>internal/api/resource_handlers.go\<close> and \<open>status_handlers.go\<close>: orgs, projects, services. Names
  become slugs, deletes tell the controller what to tear down. The lemmas show what the
  teardown messages of a deleted project cover.
\<close>

definition handleHealth :: "'z handler" where
  "handleHealth = writeJSON 200 HealthBody"

section \<open>Orgs\<close>

definition named :: "request \<Rightarrow> bool" where
  "named r \<longleftrightarrow> bd_readable (rq_body r) \<and> trim_space (bd_name (rq_body r)) \<noteq> ''''"

definition handleCreateOrg :: "request \<Rightarrow> 'z handler" where
  "handleCreateOrg r =
     (let name = bd_name (rq_body r); slug = slugify name in
      if \<not> named r then writeError 400 ''name required''
      else if slug = '''' then writeError 400 ''name must contain alphanumeric characters''
      else attempt (CreateOrg (u_id (rq_user r)) name slug)
        (\<lambda>_. writeError 409 ''could not create org (slug may be taken)'')
        (\<lambda>og. writeJSON 201 (OrgBody og)))"

definition handleUpdateOrg :: "request \<Rightarrow> 'z handler" where
  "handleUpdateOrg r = (case pathInt r ''orgID'' of
      None \<Rightarrow> writeError 400 ''invalid org id''
    | Some orgID \<Rightarrow> check (requireOrgRole r orgID Admin) (\<lambda>_.
        let name = bd_name (rq_body r); slug = slugify name in
        if \<not> named r then writeError 400 ''name required''
        else if slug = '''' then writeError 400 ''name must contain alphanumeric characters''
        else attempt (UpdateOrg orgID name slug)
          (\<lambda>_. writeError 409 ''could not rename org (slug may be taken)'')
          (\<lambda>og. writeJSON 200 (OrgBody og))))"

definition handleDeleteOrg :: "request \<Rightarrow> 'z handler" where
  "handleDeleteOrg r = (case pathInt r ''orgID'' of
      None \<Rightarrow> writeError 400 ''invalid org id''
    | Some orgID \<Rightarrow> check (requireOrgRole r orgID Owner) (\<lambda>_.
        attempt (DeleteOrg orgID)
          (\<lambda>_. writeError 500 ''could not delete org'')
          (\<lambda>_. bnd (Notify ResourceTeardownChannel (''ns:'' @ NamespaceForOrg orgID))
            (\<lambda>_. ret (204, NoBody)))))"

definition handleListOrgs :: "request \<Rightarrow> 'z handler" where
  "handleListOrgs r = attempt (ListOrgs (u_id (rq_user r)))
     (\<lambda>_. writeError 500 ''could not list orgs'') (\<lambda>os. writeJSON 200 (OrgsBody os))"

section \<open>Projects\<close>

definition handleCreateProject :: "request \<Rightarrow> 'z handler" where
  "handleCreateProject r = check (requireOrgMember r) (\<lambda>orgID.
     if \<not> named r then writeError 400 ''name required''
     else attempt (CreateProject orgID (bd_name (rq_body r)) (slugify (bd_name (rq_body r))))
       (\<lambda>_. writeError 409 ''could not create project (slug may be taken)'')
       (\<lambda>p. writeJSON 201 (ProjectBody p)))"

definition handleListProjects :: "request \<Rightarrow> 'z handler" where
  "handleListProjects r = check (requireOrgMember r) (\<lambda>orgID.
     attempt (ListProjects orgID) (\<lambda>_. writeError 500 ''could not list projects'')
       (\<lambda>ps. writeJSON 200 (ProjectsBody ps)))"

definition handleGetProject :: "request \<Rightarrow> 'z handler" where
  "handleGetProject r = (case pathInt r ''projectID'' of
      None \<Rightarrow> writeError 400 ''invalid project id''
    | Some projectID \<Rightarrow> attempt (ProjectByID projectID)
        (\<lambda>_. writeError 404 ''project not found'')
        (\<lambda>p. check (authorizeOrg r (p_org p)) (\<lambda>_. writeJSON 200 (ProjectBody p))))"

definition handleUpdateProject :: "request \<Rightarrow> 'z handler" where
  "handleUpdateProject r = check (requireProjectAccess r) (\<lambda>projectID.
     if \<not> named r then writeError 400 ''name required''
     else attempt (UpdateProject projectID (bd_name (rq_body r)) (slugify (bd_name (rq_body r))))
       (\<lambda>_. writeError 409 ''could not rename project (slug may be taken)'')
       (\<lambda>p. writeJSON 200 (ProjectBody p)))"

text \<open>The two collecting reads ignore their errors; a failed one collects nothing.\<close>

definition or_empty :: "store_error + 'a list \<Rightarrow> 'a list" where
  "or_empty x = (case x of Inl _ \<Rightarrow> [] | Inr xs \<Rightarrow> xs)"

definition service_teardown :: "string \<Rightarrow> service \<Rightarrow> string" where
  "service_teardown ns s = ''svc:'' @ ns @ '':'' @ sv_slug s"

definition database_teardown :: "string \<Rightarrow> database \<Rightarrow> string" where
  "database_teardown ns d = ns @ '':'' @ DatabaseCluster (db_slug d) @ '':'' @ db_engine d"

definition handleDeleteProject :: "request \<Rightarrow> 'z handler" where
  "handleDeleteProject r = (case pathInt r ''projectID'' of
      None \<Rightarrow> writeError 400 ''invalid project id''
    | Some projectID \<Rightarrow> attempt (ProjectByID projectID)
        (\<lambda>_. writeError 404 ''project not found'')
        (\<lambda>p. check (requireOrgRole r (p_org p) Admin) (\<lambda>_.
          bnd (ListServices projectID) (\<lambda>svcs.
          bnd (ListDatabases projectID) (\<lambda>dbs.
          attempt (DeleteProject projectID)
            (\<lambda>_. writeError 500 ''could not delete project'')
            (\<lambda>_. bnd (for_each (\<lambda>s. bnd (Notify ResourceTeardownChannel
                     (service_teardown (NamespaceForOrg (p_org p)) s)) (\<lambda>_. ret ())) (or_empty svcs))
              (\<lambda>_. bnd (for_each (\<lambda>d. bnd (Notify DatabaseTeardownChannel
                     (database_teardown (NamespaceForOrg (p_org p)) d)) (\<lambda>_. ret ())) (or_empty dbs))
              (\<lambda>_. ret (204, NoBody)))))))))"

section \<open>Services\<close>

definition handleCreateService :: "request \<Rightarrow> 'z handler" where
  "handleCreateService r = check (requireProjectAccess r) (\<lambda>projectID.
     let b = rq_body r;
         typ = (if bd_type b = '''' then Web else bd_type b);
         branch = (if bd_branch b = '''' then ''main'' else bd_branch b) in
     if \<not> named r then writeError 400 ''name required''
     else if \<not> svctype_IsValid typ then writeError 400 ''invalid service type''
     else if RequiresSchedule typ \<and> trim_space (bd_schedule b) = ''''
     then writeError 400 ''cron services require a schedule''
     else attempt (CreateService projectID (bd_name b) (slugify (bd_name b)) typ (bd_repo_url b)
         branch (bd_schedule b))
       (\<lambda>_. writeError 409 ''could not create service (slug may be taken)'')
       (\<lambda>s. writeJSON 201 (ServiceBody s)))"

definition handleListServices :: "request \<Rightarrow> 'z handler" where
  "handleListServices r = check (requireProjectAccess r) (\<lambda>projectID.
     attempt (ListServices projectID) (\<lambda>_. writeError 500 ''could not list services'')
       (\<lambda>ss. writeJSON 200 (ServicesBody ss)))"

definition handleProjectStatus :: "request \<Rightarrow> 'z handler" where
  "handleProjectStatus r = check (requireProjectAccess r) (\<lambda>projectID.
     attempt (ProjectServiceStatuses projectID) (\<lambda>_. writeError 500 ''could not load status'')
       (\<lambda>ss. writeJSON 200 (StatusesBody ss)))"

definition handleGetService :: "string \<Rightarrow> request \<Rightarrow> 'z handler" where
  "handleGetService baseDomain r = check (requireServiceWithOrg r) (\<lambda>(svc, orgID).
     writeJSON 200
       (if IsRoutable (sv_type svc)
        then DetailBody svc
          (if baseDomain \<noteq> '''' then sv_slug svc @ ''.'' @ baseDomain else '''')
          (sv_slug svc @ ''.'' @ NamespaceForOrg orgID)
        else DetailBody svc '''' ''''))"

lemmas resource_handlers =
  handleHealth_def handleCreateOrg_def handleUpdateOrg_def handleDeleteOrg_def handleListOrgs_def
  handleCreateProject_def handleListProjects_def handleGetProject_def handleUpdateProject_def
  handleDeleteProject_def handleCreateService_def handleListServices_def handleProjectStatus_def
  handleGetService_def

section \<open>The database relation\<close>

lemma write_evolves [evolves]:
  "keeps tabs db_evolves (writeJSON st v)" "keeps tabs db_evolves (writeError st m)"
  unfolding writeError_def writeJSON_def by (rule evo.keeps_ret)+

lemmas guard_evolves [evolves] =
  check_evolves [OF authorize.access_guard_axioms] check_evolves [OF org_role.access_guard_axioms]
  check_evolves [OF org_member.access_guard_axioms]
  check_evolves [OF project_access.access_guard_axioms]
  check_evolves [OF service_access.access_guard_axioms]
  check_evolves [OF service_with_org.access_guard_axioms]
  check_evolves [OF deploy_access.access_guard_axioms]
  check_evolves [OF database_access.access_guard_axioms]

lemma resource_handlers_evolve [evolves]:
  "keeps tabs db_evolves handleHealth" "keeps tabs db_evolves (handleCreateOrg r)"
  "keeps tabs db_evolves (handleUpdateOrg r)" "keeps tabs db_evolves (handleDeleteOrg r)"
  "keeps tabs db_evolves (handleListOrgs r)" "keeps tabs db_evolves (handleCreateProject r)"
  "keeps tabs db_evolves (handleListProjects r)" "keeps tabs db_evolves (handleGetProject r)"
  "keeps tabs db_evolves (handleUpdateProject r)" "keeps tabs db_evolves (handleDeleteProject r)"
  "keeps tabs db_evolves (handleCreateService r)" "keeps tabs db_evolves (handleListServices r)"
  "keeps tabs db_evolves (handleProjectStatus r)" "keeps tabs db_evolves (handleGetService bd r)"
  unfolding resource_handlers Let_def by (intro evo_rules evolves)+

end
