(* ===== verification/Api_Members.thy ===== *)
theory Api_Members
  imports Api_Resources
begin

text \<open>
  \<open>internal/api/member_handlers.go\<close>: who may change whose role. The lemmas show, without database
  failures, that the last owner cannot be removed or demoted, and with any failures that nobody
  below owner makes an admin or an owner, or changes the role of one.
\<close>

definition handleListMembers :: "request \<Rightarrow> 'z handler" where
  "handleListMembers r = (case pathInt r ''orgID'' of
      None \<Rightarrow> writeError 400 ''invalid org id''
    | Some orgID \<Rightarrow> check (authorizeOrg r orgID) (\<lambda>_.
        attempt (ListOrgMembers orgID) (\<lambda>_. writeError 500 ''could not list members'')
          (\<lambda>ms. writeJSON 200 (MembersBody ms))))"

definition memberParams :: "request \<Rightarrow> ('z pg_scheme, response + (int \<times> int)) act" where
  "memberParams r = (case pathInt r ''orgID'' of
      None \<Rightarrow> reject 400 ''invalid org id''
    | Some orgID \<Rightarrow> (case pathInt r ''userID'' of
        None \<Rightarrow> reject 400 ''invalid user id''
      | Some userID \<Rightarrow> ret (Inr (orgID, userID))))"

definition canGrantRole :: "string \<Rightarrow> string \<Rightarrow> bool" where
  "canGrantRole callerRole targetRole \<longleftrightarrow> \<not> (AtLeast targetRole Admin \<and> callerRole \<noteq> Owner)"

text \<open>\<open>None\<close> is the nil error: nothing to guard.\<close>

definition guardLastOwner :: "int \<Rightarrow> int \<Rightarrow> string \<Rightarrow> ('z pg_scheme, string option) act" where
  "guardLastOwner orgID userID newRole = attempt (RoleInOrg userID orgID)
     (\<lambda>_. ret None)
     (\<lambda>current. if current \<noteq> Owner then ret None
       else if newRole = Owner then ret None
       else attempt (CountOrgOwners orgID) (\<lambda>_. ret None)
         (\<lambda>owners. ret (if owners \<le> 1 then Some ''cannot remove or demote the last owner'' else None)))"

definition applyRole ::
    "int \<Rightarrow> int \<Rightarrow> string \<Rightarrow> string \<Rightarrow> ('z pg_scheme, response + unit) act" where
  "applyRole orgID userID newRole callerRole =
     (if \<not> canGrantRole callerRole newRole then reject 403 ''only an owner can grant admin/owner''
      else bnd (RoleInOrg userID orgID) (\<lambda>current.
        if current = Inr Owner \<and> callerRole \<noteq> Owner
        then reject 403 ''only an owner can modify an owner''
        else bnd (guardLastOwner orgID userID newRole) (\<lambda>err. case err of
            Some m \<Rightarrow> reject 409 m
          | None \<Rightarrow> attempt (UpsertOrgMember orgID userID newRole)
              (\<lambda>_. reject 500 ''could not update member role'')
              (\<lambda>_. ret (Inr ())))))"

definition handleAddMember :: "request \<Rightarrow> 'z handler" where
  "handleAddMember r = (case pathInt r ''orgID'' of
      None \<Rightarrow> writeError 400 ''invalid org id''
    | Some orgID \<Rightarrow> check (requireOrgRole r orgID Admin) (\<lambda>callerRole.
        if \<not> bd_readable (rq_body r) then writeError 400 ''invalid body''
        else let role = (if bd_role (rq_body r) = '''' then Member else bd_role (rq_body r)) in
          attempt (UserByEmail (to_lower (trim_space (bd_email (rq_body r)))))
            (\<lambda>_. writeError 404 ''no user with that email'')
            (\<lambda>u. check (applyRole orgID (u_id u) role callerRole)
              (\<lambda>_. writeJSON 201 (MemberBody \<lparr>mr_user = u_id u, mr_email = u_email u,
                 mr_name = u_name u, mr_role = role\<rparr>)))))"

definition handleSetMemberRole :: "request \<Rightarrow> 'z handler" where
  "handleSetMemberRole r = check (memberParams r) (\<lambda>(orgID, userID).
     check (requireOrgRole r orgID Admin) (\<lambda>callerRole.
       if \<not> bd_readable (rq_body r) \<or> \<not> rbac_IsValid (bd_role (rq_body r))
       then writeError 400 ''valid role required''
       else check (applyRole orgID userID (bd_role (rq_body r)) callerRole)
         (\<lambda>_. ret (204, NoBody))))"

definition handleRemoveMember :: "request \<Rightarrow> 'z handler" where
  "handleRemoveMember r = check (memberParams r) (\<lambda>(orgID, userID).
     check (requireOrgRole r orgID Admin) (\<lambda>_.
       bnd (guardLastOwner orgID userID '''') (\<lambda>err. case err of
           Some m \<Rightarrow> writeError 409 m
         | None \<Rightarrow> attempt (RemoveOrgMember orgID userID)
             (\<lambda>_. writeError 500 ''could not remove member'')
             (\<lambda>deleted. if \<not> deleted then writeError 404 ''member not found''
               else ret (204, NoBody)))))"

lemmas member_handlers =
  handleListMembers_def handleAddMember_def handleSetMemberRole_def handleRemoveMember_def

interpretation member_params: access_guard "memberParams r"
  "\<lambda>_ (orgID, userID). pathInt r ''orgID'' = Some orgID \<and> pathInt r ''userID'' = Some userID"
  unfolding memberParams_def
  by (rule access_guard_param access_guard_reject access_guard_ret | simp)+

lemmas member_guard_evolves [evolves] = check_evolves [OF member_params.access_guard_axioms]

lemma member_helpers_evolve [evolves]:
  "keeps tabs db_evolves (reject st m)"
  "keeps tabs db_evolves (guardLastOwner i j nr)" "keeps tabs db_evolves (applyRole i j nr cr)"
  unfolding guardLastOwner_def applyRole_def reject_def by (intro evo_rules evolves)+

lemma check_write_evolves:
  assumes "keeps tabs db_evolves m" "\<And>a. keeps tabs db_evolves (k a)"
  shows "keeps tabs db_evolves (check m k)"
  unfolding check_def using assms by (intro evo_rules)

lemma member_handlers_evolve [evolves]:
  "keeps tabs db_evolves (handleListMembers r)" "keeps tabs db_evolves (handleAddMember r)"
  "keeps tabs db_evolves (handleSetMemberRole r)" "keeps tabs db_evolves (handleRemoveMember r)"
  unfolding member_handlers Let_def by (intro evo_rules evolves check_write_evolves)+

section \<open>The effect on the memberships\<close>

lemma find_map_same: "(\<And>x. P (f x) = P x) \<Longrightarrow> find P (map f xs) = map_option f (find P xs)"
  by (induction xs) auto

lemma find_filter_other:
  "(\<And>x. P x \<Longrightarrow> Q x) \<Longrightarrow> find P (filter Q xs) = find P xs"
  by (induction xs) auto

lemma member_role_upsert:
  assumes "upsert_member i u nr n t = Inr (a, t')"
  shows "member_role u' j t' = (if j = i \<and> u' = u then Some nr else member_role u' j t)"
proof (cases "\<exists>m \<in> set (org_members t). m_org m = i \<and> m_user m = u")
  case True
  let ?f = "\<lambda>m. if m_org m = i \<and> m_user m = u then m\<lparr>m_role := nr\<rparr> else m"
  have t': "org_members t' = map ?f (org_members t)"
    using assms True by (auto simp: upsert_member_def sql_update_def)
  have "find (\<lambda>m. m_org m = j \<and> m_user m = u') (org_members t') =
      map_option ?f (find (\<lambda>m. m_org m = j \<and> m_user m = u') (org_members t))"
    unfolding t' by (rule find_map_same) auto
  moreover have "find (\<lambda>m. m_org m = i \<and> m_user m = u) (org_members t) \<noteq> None"
    using True by (auto simp: find_None_all)
  ultimately show ?thesis
    by (auto simp: member_role_def option.map_comp o_def dest: find_Some_in
        intro!: option.map_cong0)
next
  case False
  then have t': "org_members t' = org_members t @ [\<lparr>m_org = i, m_user = u, m_role = nr\<rparr>]"
    using assms by (auto simp: upsert_member_def ins_member_def split: if_splits)
  show ?thesis
  proof (cases "j = i \<and> u' = u")
    case True
    then show ?thesis using False unfolding member_role_def t'
      by (subst find_append_new) auto
  next
    case other: False
    have "find P (xs @ [y]) = find P xs" if "\<not> P y" for P xs and y :: org_member
      using that by (induction xs) auto
    then show ?thesis using other unfolding member_role_def t' by auto
  qed
qed

definition has_owner :: "int \<Rightarrow> tables \<Rightarrow> bool" where
  "has_owner i t \<longleftrightarrow> (\<exists>m \<in> set (org_members t). m_org m = i \<and> m_role m = Owner)"

lemma count_owners_pos: "1 \<le> count_owners i t \<longleftrightarrow> has_owner i t"
  by (auto simp: count_owners_def has_owner_def filter_empty_conv Suc_le_eq)

lemma member_role_uniq:
  assumes "schema_ok t" "m \<in> set (org_members t)"
  shows "member_role (m_user m) (m_org m) t = Some (m_role m)"
proof -
  have "uniq (\<lambda>m. (m_org m, m_user m)) (org_members t)" using assms(1) by (simp add: schema_defs)
  from find_key_unique [OF this [unfolded uniq_def] assms(2)]
  show ?thesis by (simp add: member_role_def)
qed

lemma member_role_in: "member_role u i t = Some role \<Longrightarrow>
    \<exists>m \<in> set (org_members t). m_org m = i \<and> m_user m = u \<and> m_role m = role"
  unfolding member_role_def using find_Some_in by fastforce

lemma has_owner_role:
  assumes "schema_ok t"
  shows "has_owner i t \<longleftrightarrow> (\<exists>u. member_role u i t = Some Owner)"
  unfolding has_owner_def using member_role_in member_role_uniq [OF assms] by metis

lemma distinct_two:
  assumes "distinct (map key xs)" "2 \<le> length xs"
  shows "\<exists>x \<in> set xs. key x \<noteq> k"
  using assms by (cases xs; cases "tl xs") auto

text \<open>With two owners, one of them is somebody else.\<close>

lemma other_owner:
  assumes "schema_ok t" "\<not> count_owners i t \<le> 1"
  shows "\<exists>u. u \<noteq> v \<and> member_role u i t = Some Owner"
proof -
  let ?own = "filter (\<lambda>m. m_org m = i \<and> m_role m = Owner) (org_members t)"
  have u: "uniq (\<lambda>m. (m_org m, m_user m)) (org_members t)" using assms(1) by (simp add: schema_defs)
  have "distinct (map (\<lambda>m. (m_org m, m_user m)) ?own)" using u uniq_filter unfolding uniq_def by blast
  then have "\<exists>m \<in> set ?own. (m_org m, m_user m) \<noteq> (i, v)"
    by (rule distinct_two) (use assms(2) in \<open>simp add: count_owners_def\<close>)
  then show ?thesis using member_role_uniq [OF assms(1)] by auto
qed

section \<open>The last owner\<close>

text \<open>
  Without database failures, a consistent database in which the org has an owner: an invariant,
  which every handler that leaves the memberships alone keeps by its structure.
\<close>

definition owner_inv :: "int \<Rightarrow> 'z pg_scheme \<Rightarrow> bool" where
  "owner_inv i w \<longleftrightarrow> faults w = [] \<and> schema_ok (tabs w) \<and> has_owner i (tabs w)"

interpretation own: evolution "\<lambda>w. w" "invariant_rel (owner_inv i)"
  by unfold_locales (auto simp: invariant_rel_def)

lemma own_keeps_iff:
  "keeps (\<lambda>w. w) (invariant_rel (owner_inv i)) m \<longleftrightarrow> (\<forall>w. owner_inv i w \<longrightarrow> owner_inv i (snd (m w)))"
  by (simp add: keeps_def invariant_rel_def)

lemma own_keeps_read: "keeps (\<lambda>w. w) (invariant_rel (owner_inv i)) (pg_read q)"
  by (simp add: own_keeps_iff owner_inv_def)

lemma guardLastOwner_calm:
  assumes "faults w = []"
  shows "guardLastOwner i u nr w =
    ((if member_role u i (tabs w) = Some Owner \<and> nr \<noteq> Owner \<and> count_owners i (tabs w) \<le> 1
      then Some ''cannot remove or demote the last owner'' else None), w)"
  using assms
  by (auto simp: guardLastOwner_def RoleInOrg_def CountOrgOwners_def attempt_def ret_def
      or_not_found_def split: option.splits)

lemma upsert_keeps_owner:
  assumes ok: "schema_ok t" and up: "upsert_member i u nr n t = Inr (a, t')"
    and guard: "\<not> (member_role u i t = Some Owner \<and> nr \<noteq> Owner \<and> count_owners i t \<le> 1)"
    and own: "has_owner j t"
  shows "has_owner j t'"
proof -
  have ok': "schema_ok t'" using upsert_member_ok ok up by blast
  obtain v where v: "member_role v j t = Some Owner" using own has_owner_role [OF ok] by blast
  show ?thesis
  proof (cases "j = i \<and> v = u \<and> nr \<noteq> Owner")
    case True
    then obtain x where "x \<noteq> u" "member_role x i t = Some Owner"
      using guard v other_owner [OF ok] by blast
    then have "member_role x i t' = Some Owner" using member_role_upsert [OF up] by simp
    then show ?thesis using True has_owner_role [OF ok'] by blast
  next
    case False
    then have "member_role v j t' = Some Owner" using member_role_upsert [OF up] v by auto
    then show ?thesis using has_owner_role [OF ok'] by blast
  qed
qed

lemma applyRole_calm:
  assumes "faults w = []"
  shows "snd (applyRole j u nr cr w) =
    (if \<not> canGrantRole cr nr \<or> (member_role u j (tabs w) = Some Owner \<and> cr \<noteq> Owner) \<or>
        (member_role u j (tabs w) = Some Owner \<and> nr \<noteq> Owner \<and> count_owners j (tabs w) \<le> 1)
     then w
     else case upsert_member j u nr (now w) (tabs w) of Inl e \<Rightarrow> w | Inr (a, t') \<Rightarrow> w\<lparr>tabs := t'\<rparr>)"
  using assms
  by (cases "member_role u j (tabs w) = Some Owner";
      cases "nr \<noteq> Owner \<and> count_owners j (tabs w) \<le> 1")
    (auto simp: applyRole_def act_run reject_def RoleInOrg_def or_not_found_def guardLastOwner_calm
      UpsertOrgMember_def split: option.split sum.split prod.split)

lemma applyRole_keeps_owner:
  "keeps (\<lambda>w. w) (invariant_rel (owner_inv i)) (applyRole j u nr cr :: ('z pg_scheme, _) act)"
  unfolding own_keeps_iff
proof (intro allI impI)
  fix w :: "'z pg_scheme"
  assume inv: "owner_inv i w"
  then have calm: "faults w = []" by (simp add: owner_inv_def)
  have "owner_inv i (w\<lparr>tabs := t'\<rparr>)"
    if "upsert_member j u nr (now w) (tabs w) = Inr (a, t')"
      "\<not> (member_role u j (tabs w) = Some Owner \<and> nr \<noteq> Owner \<and> count_owners j (tabs w) \<le> 1)" for a t'
    using inv upsert_keeps_owner [OF _ that] upsert_member_ok [OF that(1)] by (simp add: owner_inv_def)
  then show "owner_inv i (snd (applyRole j u nr cr w))"
    using inv by (simp add: applyRole_calm [OF calm] split: sum.split prod.split)
qed

lemma remove_keeps_owner:
  assumes ok: "schema_ok t"
    and guard: "\<not> (member_role u i t = Some Owner \<and> count_owners i t \<le> 1)"
    and own: "has_owner j t"
  shows "has_owner j (t\<lparr>org_members := filter (\<lambda>m. \<not> (m_org m = i \<and> m_user m = u)) (org_members t)\<rparr>)"
proof -
  obtain v where v: "member_role v j t = Some Owner" using own has_owner_role [OF ok] by blast
  have "\<exists>x. (x, j) \<noteq> (u, i) \<and> member_role x j t = Some Owner"
  proof (cases "j = i \<and> v = u")
    case True
    then show ?thesis using v guard other_owner [OF ok, of i u] by blast
  next
    case False
    then show ?thesis using v by (intro exI [of _ v]) auto
  qed
  then obtain x where x: "(x, j) \<noteq> (u, i)" "member_role x j t = Some Owner" by (elim exE conjE)
  from member_role_in [OF x(2)] obtain m
    where m: "m \<in> set (org_members t)" "m_org m = j" "m_user m = x" "m_role m = Owner" by (elim bexE conjE)
  have "\<not> (m_org m = i \<and> m_user m = u)" using m(2,3) x(1) by auto
  then show ?thesis unfolding has_owner_def using m(1,2,4) by (intro bexI [of _ m]) simp_all
qed

lemma guarded_removal_keeps_owner:
  "keeps (\<lambda>w. w) (invariant_rel (owner_inv i))
     (bnd (guardLastOwner j u '''') (\<lambda>err. case err of
         Some m \<Rightarrow> writeError 409 m
       | None \<Rightarrow> attempt (RemoveOrgMember j u) (\<lambda>_. writeError 500 e1)
           (\<lambda>deleted. if \<not> deleted then writeError 404 e2 else ret (204, NoBody))) :: 'z handler)"
  (is "keeps _ _ ?m")
  unfolding own_keeps_iff
proof (intro allI impI)
  fix w :: "'z pg_scheme"
  assume inv: "owner_inv i w"
  then have calm: "faults w = []" by (simp add: owner_inv_def)
  let ?t = "(tabs w)\<lparr>org_members :=
     filter (\<lambda>m. \<not> (m_org m = j \<and> m_user m = u)) (org_members (tabs w))\<rparr>"
  let ?last = "member_role u j (tabs w) = Some Owner \<and> count_owners j (tabs w) \<le> 1"
  have "snd (?m w) = (if ?last then w else w\<lparr>tabs := ?t\<rparr>)"
    using calm
    by (cases ?last) (auto simp: act_run guardLastOwner_calm RemoveOrgMember_def
        writeError_def writeJSON_def)
  moreover have "owner_inv i (w\<lparr>tabs := ?t\<rparr>)" if "\<not> ?last"
    using inv remove_keeps_owner [OF _ that] del_leaf_ok(2) by (simp add: owner_inv_def)
  ultimately show "owner_inv i (snd (?m w))" using inv by simp
qed

lemma own_rules:
  "keeps (\<lambda>w. w) (invariant_rel (owner_inv i)) (RoleInOrg u j)"
  "keeps (\<lambda>w. w) (invariant_rel (owner_inv i)) (UserByEmail e)"
  by (simp_all add: RoleInOrg_def UserByEmail_def own_keeps_read)

lemma member_handlers_keep_owner:
  "keeps (\<lambda>w. w) (invariant_rel (owner_inv i)) (handleAddMember r)"
  "keeps (\<lambda>w. w) (invariant_rel (owner_inv i)) (handleSetMemberRole r)"
  "keeps (\<lambda>w. w) (invariant_rel (owner_inv i)) (handleRemoveMember r)"
  unfolding member_handlers Let_def check_def requireOrgRole_def memberParams_def reject_def
    writeJSON_def writeError_def
  by (intro own.keeps_rules own_rules applyRole_keeps_owner
      guarded_removal_keeps_owner [unfolded writeJSON_def writeError_def])+



section \<open>No privilege escalation\<close>

text \<open>
  A move of the memberships in which whoever becomes an admin or owner of an existing org was
  made so by one of its owners. Orgs that do not exist yet are those whose id the sequence has
  not given out.
\<close>

definition no_escalation :: "int \<Rightarrow> tables \<Rightarrow> tables \<Rightarrow> bool" where
  "no_escalation caller t t' \<longleftrightarrow> seqs t SOrgs \<le> seqs t' SOrgs \<and> (\<forall>i u role.
     i < seqs t SOrgs \<and> member_role u i t' = Some role \<and> AtLeast role Admin \<and>
       member_role u i t \<noteq> Some role \<longrightarrow> member_role caller i t = Some Owner)"

lemma no_escalation_refl: "no_escalation c t t"
  by (auto simp: no_escalation_def)

lemma no_escalation_trans:
  assumes "no_escalation c t u" "no_escalation c u v"
  shows "no_escalation c t v"
  unfolding no_escalation_def
proof (intro conjI allI impI)
  show "seqs t SOrgs \<le> seqs v SOrgs" using assms unfolding no_escalation_def by linarith
  fix i x role
  assume a: "i < seqs t SOrgs \<and> member_role x i v = Some role \<and> AtLeast role Admin \<and>
    member_role x i t \<noteq> Some role"
  show "member_role c i t = Some Owner"
  proof (cases "member_role x i u = Some role")
    case True
    then show ?thesis using a assms(1) unfolding no_escalation_def by blast
  next
    case False
    moreover have "i < seqs u SOrgs" using a assms(1) unfolding no_escalation_def by linarith
    ultimately have "member_role c i u = Some Owner"
      using a assms(2) unfolding no_escalation_def by blast
    then show ?thesis using a assms(1) AtLeast_Owner [of Owner]
      unfolding no_escalation_def by (metis AtLeast_Admin)
  qed
qed

interpretation esc: table_evolution "no_escalation c"
  by unfold_locales (rule no_escalation_refl, rule no_escalation_trans)

lemma no_escalation_same:
  assumes "org_members t' = org_members t" "seqs t SOrgs \<le> seqs t' SOrgs"
  shows "no_escalation c t t'"
proof -
  have "member_role u i t' = member_role u i t" for u i using assms by (simp add: member_role_def)
  then show ?thesis using assms(2) by (auto simp: no_escalation_def)
qed

lemma upsert_no_escalation:
  assumes "upsert_member i u nr n t = Inr (a, t')" "canGrantRole cr nr"
    and "member_role c i t = Some cr"
  shows "no_escalation c t t'"
proof -
  have "seqs t' = seqs t"
    using assms(1) by (auto simp: upsert_member_def ins_member_def split: if_splits)
  then show ?thesis using assms member_role_upsert [OF assms(1)]
    by (auto simp: no_escalation_def canGrantRole_def split: if_splits)
qed

lemma remove_no_escalation:
  "no_escalation c t (t\<lparr>org_members := filter (\<lambda>m. \<not> (m_org m = i \<and> m_user m = u)) (org_members t)\<rparr>)"
proof -
  have "member_role v j (t\<lparr>org_members := filter (\<lambda>m. \<not> (m_org m = i \<and> m_user m = u)) (org_members t)\<rparr>) =
      (if j = i \<and> v = u then None else member_role v j t)" for v j
    by (auto simp: member_role_def find_None_all intro!: arg_cong [where f = "map_option m_role"]
        find_filter_other)
  then show ?thesis by (auto simp: no_escalation_def split: if_splits)
qed

lemma applyRole_no_escalation:
  assumes "applyRole i u nr cr w = (res, w')" "member_role c i (tabs w) = Some cr"
  shows "no_escalation c (tabs w) (tabs w')"
proof (cases "canGrantRole cr nr")
  case True
  have ro: "readonly (guardLastOwner i u nr)"
    unfolding guardLastOwner_def
    by (intro readonly_attempt) (auto simp: CountOrgOwners_def intro!: readonly_attempt)
  obtain x w1 where 1: "RoleInOrg u i w = (x, w1)" by fastforce
  obtain y w2 where 2: "guardLastOwner i u nr w1 = (y, w2)" by fastforce
  obtain z w3 where 3: "UpsertOrgMember i u nr w2 = (z, w3)" by fastforce
  have t: "tabs w1 = tabs w" "tabs w2 = tabs w"
    using readonlyD [OF readonly_RoleInOrg 1] readonlyD [OF ro 2] by simp_all
  have "no_escalation c (tabs w) (tabs w3)"
    using pg_exec_cases [OF 3 [unfolded UpsertOrgMember_def]] upsert_no_escalation [OF _ True] assms(2)
    unfolding t by (metis no_escalation_refl)
  moreover have "w' = w1 \<or> w' = w2 \<or> w' = w3"
    using assms(1) True 1 2 3
    by (auto simp: applyRole_def act_run reject_def split: if_splits option.splits sum.splits)
  ultimately show ?thesis using t by (auto simp: no_escalation_refl)
qed (use assms in \<open>auto simp: applyRole_def reject_def ret_def no_escalation_refl\<close>)

text \<open>After a check, \<open>applyRole\<close> in the name of the caller's own role.\<close>

lemma granted_applyRole:
  assumes "check (applyRole i u nr cr) k w = (resp, w')" "member_role c i (tabs w) = Some cr"
    and "\<And>v. snd (k () v) = v"
  shows "no_escalation c (tabs w) (tabs w')"
proof -
  obtain res w1 where 1: "applyRole i u nr cr w = (res, w1)" by fastforce
  have "w' = w1" using assms(1,3) 1
    by (auto simp: check_def attempt_def ret_def split: sum.splits) (metis snd_conv)
  then show ?thesis using applyRole_no_escalation [OF 1 assms(2)] by simp
qed

lemma writeJSON_snd [simp]: "snd (writeJSON st v w) = w" "snd (writeError st m w) = w"
  by (simp_all add: writeError_def writeJSON_def ret_def)

lemma add_no_escalation:
  assumes run: "handleAddMember r w = (resp, w')"
  shows "no_escalation (u_id (rq_user r)) (tabs w) (tabs w')"
proof (cases "pathInt r ''orgID''")
  case None
  then show ?thesis using run
    by (auto simp: handleAddMember_def writeError_def writeJSON_def ret_def no_escalation_refl)
next
  case (Some i)
  let ?role = "if bd_role (rq_body r) = '''' then Member else bd_role (rq_body r)"
  let ?email = "to_lower (trim_space (bd_email (rq_body r)))"
  from run [unfolded handleAddMember_def Some, simplified] show ?thesis
  proof (cases rule: org_role.check_cases)
    case (granted cr w1)
    obtain x w2 where 2: "UserByEmail ?email w1 = (x, w2)" by fastforce
    have t: "tabs w2 = tabs w"
      using pg_read_frame(1) [OF 2 [unfolded UserByEmail_def]] granted(3) by simp
    show ?thesis
    proof (cases "bd_readable (rq_body r) \<and> (\<exists>u. x = Inr u)")
      case True
      then obtain u where u: "x = Inr u" by blast
      then have "check (applyRole i (u_id u) ?role cr) (\<lambda>_. writeJSON 201 (MemberBody
          \<lparr>mr_user = u_id u, mr_email = u_email u, mr_name = u_name u, mr_role = ?role\<rparr>)) w2 = (resp, w')"
        using granted(5) True 2 by (simp add: Let_def attempt_def)
      then have "no_escalation (u_id (rq_user r)) (tabs w2) (tabs w')"
        by (rule granted_applyRole) (use granted(2) t in simp_all)
      then show ?thesis using t by simp
    next
      case False
      then have "w' = w1 \<or> w' = w2" using granted(5) 2
        by (auto simp: Let_def attempt_def writeError_def writeJSON_def ret_def split: if_splits sum.splits)
      then show ?thesis using t granted(3) by (auto simp: no_escalation_refl)
    qed
  qed (simp add: no_escalation_refl)
qed

lemma set_no_escalation:
  assumes run: "handleSetMemberRole r w = (resp, w')"
  shows "no_escalation (u_id (rq_user r)) (tabs w) (tabs w')"
  using run unfolding handleSetMemberRole_def
proof (cases rule: member_params.check_cases)
  case (granted p w1)
  obtain i u where p: "p = (i, u)" by fastforce
  from granted(5) [unfolded p, simplified] show ?thesis
  proof (cases rule: org_role.check_cases)
    case (granted cr w2)
    note t = \<open>tabs w1 = tabs w\<close> \<open>tabs w2 = tabs w1\<close>
    show ?thesis
    proof (cases "bd_readable (rq_body r) \<and> rbac_IsValid (bd_role (rq_body r))")
      case True
      then have "check (applyRole i u (bd_role (rq_body r)) cr) (\<lambda>_. ret (204, NoBody)) w2 = (resp, w')"
        using granted(5) by simp
      then have "no_escalation (u_id (rq_user r)) (tabs w2) (tabs w')"
        by (rule granted_applyRole) (use granted(2) t in \<open>simp_all add: ret_def\<close>)
      then show ?thesis using t by simp
    next
      case False
      then have "w' = w2" using granted(5)
        by (auto simp: writeError_def writeJSON_def ret_def split: if_splits)
      then show ?thesis using t by (simp add: no_escalation_refl)
    qed
  qed (use \<open>tabs w1 = tabs w\<close> in \<open>simp add: no_escalation_refl\<close>)
qed (simp add: no_escalation_refl)

named_theorems escal \<open>actions in which nobody gains privileges in the name of a non-owner\<close>

lemma esc_exec:
  assumes "\<And>n t a t'. f n t = Inr (a, t') \<Longrightarrow> org_members t' = org_members t \<and> seqs t SOrgs \<le> seqs t' SOrgs"
  shows "keeps tabs (no_escalation c) (pg_exec f)"
  using assms by (intro esc.keeps_exec) (auto intro: no_escalation_same)

lemma remove_handler_no_escalation [escal]: "keeps tabs (no_escalation c) (handleRemoveMember r)"
proof -
  have "keeps tabs (no_escalation c) (RemoveOrgMember i u)" for i u
    unfolding RemoveOrgMember_def
    by (rule esc.keeps_exec) (use remove_no_escalation in auto)
  then show ?thesis
    unfolding handleRemoveMember_def check_def memberParams_def requireOrgRole_def reject_def
      guardLastOwner_def writeError_def writeJSON_def RoleInOrg_def CountOrgOwners_def
    by (intro esc.keeps_db_rules)
qed

text \<open>C16.
  Whoever sends a request to the member endpoints, and whatever database calls fail, nobody
  becomes an admin or owner of an existing org unless the sender is one of its owners.\<close>

theorem members_no_escalation:
  "no_escalation (u_id (rq_user r)) (tabs w) (tabs (snd (handleAddMember r w))) \<and>
   no_escalation (u_id (rq_user r)) (tabs w) (tabs (snd (handleSetMemberRole r w))) \<and>
   no_escalation (u_id (rq_user r)) (tabs w) (tabs (snd (handleRemoveMember r w)))"
proof (intro conjI)
  show "no_escalation (u_id (rq_user r)) (tabs w) (tabs (snd (handleAddMember r w)))"
    by (rule add_no_escalation [OF prod.collapse [symmetric]])
  show "no_escalation (u_id (rq_user r)) (tabs w) (tabs (snd (handleSetMemberRole r w)))"
    by (rule set_no_escalation [OF prod.collapse [symmetric]])
  show "no_escalation (u_id (rq_user r)) (tabs w) (tabs (snd (handleRemoveMember r w)))"
    by (rule keepsD [OF remove_handler_no_escalation prod.collapse [symmetric]])
qed

end
