(* ===== verification/Api_Accounts.thy ===== *)
theory Api_Accounts
  imports Api_Members
begin

text \<open>
  Package \<open>auth\<close> (\<open>internal/auth/auth.go\<close>) and the handlers of \<open>auth_handlers.go\<close>,
  \<open>token_handlers.go\<close> and \<open>audit_handlers.go\<close>: registration, login, logout, personal access
  tokens, the middleware that turns a bearer token into a user, and the audit log.

  The cryptography is outside the program: the record \<open>crypto\<close> has bcrypt's hash and comparison and
  the SHA-256 and HMAC digests as functions. Random bytes are part of the request (\<open>rq_random\<close>), as is
  the clock of the API process (\<open>rq_now\<close>).
\<close>

record crypto =
  bcrypt_hash :: "string \<Rightarrow> string option"
  bcrypt_ok :: "string \<Rightarrow> string \<Rightarrow> bool"
  sha256_sum :: "string \<Rightarrow> string"
  hmac_sum :: "string \<Rightarrow> string \<Rightarrow> string"

section \<open>Tokens\<close>

definition APITokenPrefix :: string where "APITokenPrefix = ''uran_pat_''"

definition NewAPIToken :: "string option \<Rightarrow> string option" where
  "NewAPIToken random = map_option (\<lambda>b. APITokenPrefix @ hex_encode b) random"

definition NewToken :: "string option \<Rightarrow> string option" where
  "NewToken random = map_option hex_encode random"

definition HashAPIToken :: "crypto \<Rightarrow> string \<Rightarrow> string" where
  "HashAPIToken cr token = hex_encode (sha256_sum cr token)"

definition bearerToken :: "request \<Rightarrow> string" where
  "bearerToken r = (case cut_prefix (rq_authorization r) ''Bearer '' of
      Some after \<Rightarrow> trim_space after | None \<Rightarrow> '''')"

definition resolve :: "crypto \<Rightarrow> string \<Rightarrow> ('z, user) sop" where
  "resolve cr token =
     (if has_prefix token APITokenPrefix
      then attempt (UserByAPIToken (HashAPIToken cr token))
        (\<lambda>e. ret (Inl e))
        (\<lambda>u. bnd (TouchAPIToken (HashAPIToken cr token)) (\<lambda>_. ret (Inr u)))
      else UserBySession token)"

text \<open>The request the wrapped handler sees carries the user in its context.\<close>

definition Middleware :: "crypto \<Rightarrow> (request \<Rightarrow> 'z handler) \<Rightarrow> request \<Rightarrow> 'z handler" where
  "Middleware cr next r =
     (let token = bearerToken r in
      if token = '''' then writeError 401 ''unauthorized''
      else attempt (resolve cr token) (\<lambda>_. writeError 401 ''unauthorized'')
        (\<lambda>u. next (r\<lparr>rq_user := u\<rparr>)))"

section \<open>Registration, login, logout\<close>

definition user_view_of :: "user \<Rightarrow> user_view" where
  "user_view_of u = \<lparr>uv_id = u_id u, uv_email = u_email u, uv_name = u_name u, uv_created = u_created u\<rparr>"

definition issueSession :: "int \<Rightarrow> request \<Rightarrow> user \<Rightarrow> 'z handler" where
  "issueSession ttl r u = (case NewToken (rq_random r) of
      None \<Rightarrow> writeError 500 ''could not create session''
    | Some token \<Rightarrow> attempt (CreateSession token (u_id u) (rq_now r + ttl))
        (\<lambda>_. writeError 500 ''could not persist session'')
        (\<lambda>_. writeJSON 201 (AuthBody token (user_view_of u))))"

definition handleRegister :: "crypto \<Rightarrow> int \<Rightarrow> request \<Rightarrow> 'z handler" where
  "handleRegister cr ttl r =
     (let b = rq_body r; email = trim_space (to_lower (bd_email b)) in
      if \<not> bd_readable b then writeError 400 ''invalid body''
      else if email = '''' \<or> length (bd_password b) < 8
      then writeError 400 ''email required and password must be at least 8 chars''
      else case bcrypt_hash cr (bd_password b) of
          None \<Rightarrow> writeError 500 ''could not hash password''
        | Some hash \<Rightarrow> attempt (CreateUser email hash (bd_name b))
            (\<lambda>_. writeError 409 ''email already registered'')
            (\<lambda>u. issueSession ttl r u))"

definition handleLogin :: "crypto \<Rightarrow> int \<Rightarrow> request \<Rightarrow> 'z handler" where
  "handleLogin cr ttl r =
     (let b = rq_body r; email = trim_space (to_lower (bd_email b)) in
      if \<not> bd_readable b then writeError 400 ''invalid body''
      else attempt (UserByEmail email) (\<lambda>_. writeError 401 ''invalid credentials'')
        (\<lambda>u. if \<not> bcrypt_ok cr (u_hash u) (bd_password b)
          then writeError 401 ''invalid credentials'' else issueSession ttl r u))"

definition handleLogout :: "request \<Rightarrow> 'z handler" where
  "handleLogout r =
     (let token = trim_prefix (rq_authorization r) ''Bearer '' in
      if token \<noteq> '''' then bnd (DeleteSession (trim_space token)) (\<lambda>_. ret (204, NoBody))
      else ret (204, NoBody))"

definition handleMe :: "request \<Rightarrow> 'z handler" where
  "handleMe r = writeJSON 200 (UserBody (user_view_of (rq_user r)))"

section \<open>Personal access tokens\<close>

definition handleCreateToken :: "crypto \<Rightarrow> request \<Rightarrow> 'z handler" where
  "handleCreateToken cr r =
     (if \<not> named r then writeError 400 ''name required''
      else case NewAPIToken (rq_random r) of
          None \<Rightarrow> writeError 500 ''could not generate token''
        | Some token \<Rightarrow>
            attempt (CreateAPIToken (u_id (rq_user r)) (bd_name (rq_body r)) (HashAPIToken cr token)
                (take (length APITokenPrefix + 8) token))
              (\<lambda>_. writeError 500 ''could not create token'')
              (\<lambda>t. writeJSON 201 (TokenBody t token)))"

definition handleListTokens :: "request \<Rightarrow> 'z handler" where
  "handleListTokens r = attempt (ListAPITokens (u_id (rq_user r)))
     (\<lambda>_. writeError 500 ''could not list tokens'') (\<lambda>ts. writeJSON 200 (TokensBody ts))"

definition handleDeleteToken :: "request \<Rightarrow> 'z handler" where
  "handleDeleteToken r = (case pathInt r ''tokenID'' of
      None \<Rightarrow> writeError 400 ''invalid token id''
    | Some i \<Rightarrow> attempt (DeleteAPIToken (u_id (rq_user r)) i)
        (\<lambda>_. writeError 500 ''could not delete token'')
        (\<lambda>deleted. if \<not> deleted then writeError 404 ''token not found'' else ret (204, NoBody)))"

section \<open>The audit log\<close>

definition auditDefaultLimit :: int where "auditDefaultLimit = 20"
definition auditMaxLimit :: int where "auditMaxLimit = 100"

definition positive_param :: "string \<Rightarrow> int \<Rightarrow> int" where
  "positive_param s dflt = (case parse_int s of Some v \<Rightarrow> if v > 0 then v else dflt | None \<Rightarrow> dflt)"

definition audit_limit :: "request \<Rightarrow> int" where
  "audit_limit r =
     (let limit = positive_param (rq_query r ''limit'') auditDefaultLimit
      in if limit > auditMaxLimit then auditMaxLimit else limit)"

definition audit_offset :: "request \<Rightarrow> int" where
  "audit_offset r = positive_param (rq_query r ''offset'') 0"

definition handleListAudit :: "request \<Rightarrow> 'z handler" where
  "handleListAudit r =
     (let q = \<lparr>aq_search = rq_query r ''q'', aq_method = rq_query r ''method'',
        aq_limit = audit_limit r, aq_offset = audit_offset r\<rparr> in
      attempt (ListAudit (u_id (rq_user r)) q) (\<lambda>_. writeError 500 ''could not list audit log'')
        (\<lambda>(entries, total). writeJSON 200 (AuditBody entries total (aq_limit q) (aq_offset q))))"

text \<open>
  The insert runs detached after the response; it is modelled right after the handler, the
  status being that of the response.
\<close>

definition auditMiddleware :: "(request \<Rightarrow> 'z handler) \<Rightarrow> request \<Rightarrow> 'z handler" where
  "auditMiddleware next r = bnd (next r) (\<lambda>resp.
     if \<not> isMutation (rq_method r) then ret resp
     else bnd (InsertAudit (u_id (rq_user r)) (u_email (rq_user r)) (rq_method r) (rq_path r) (fst resp))
       (\<lambda>_. ret resp))"

lemmas account_handlers =
  handleRegister_def handleLogin_def handleLogout_def handleMe_def handleCreateToken_def
  handleListTokens_def handleDeleteToken_def handleListAudit_def issueSession_def

section \<open>The database relation\<close>

lemma account_handlers_evolve [evolves]:
  "keeps tabs db_evolves (handleRegister cr ttl r)" "keeps tabs db_evolves (handleLogin cr ttl r)"
  "keeps tabs db_evolves (handleLogout r)" "keeps tabs db_evolves (handleMe r)"
  "keeps tabs db_evolves (handleCreateToken cr r)" "keeps tabs db_evolves (handleListTokens r)"
  "keeps tabs db_evolves (handleDeleteToken r)" "keeps tabs db_evolves (handleListAudit r)"
  unfolding account_handlers Let_def by (intro evo_rules evolves)+

lemma middleware_evolves [evolves]:
  assumes "\<And>r. keeps tabs db_evolves (h r)"
  shows "keeps tabs db_evolves (Middleware cr h r)" "keeps tabs db_evolves (auditMiddleware h r)"
  unfolding Middleware_def resolve_def auditMiddleware_def Let_def
  by (intro evo_rules evolves assms)+

section \<open>Tokens as they travel\<close>

lemma hex_no_space: "is_hex c \<Longrightarrow> \<not> is_space c"
  by (auto simp: is_hex_def is_space_def)

lemma trim_hex: "\<forall>c \<in> set s. is_hex c \<Longrightarrow> trim_space s = s"
  unfolding trim_space_def by (rule trim_if_id) (metis hex_no_space hd_in_set last_in_set)

lemma trim_hex_encode [simp]: "trim_space (hex_encode b) = hex_encode b"
  by (rule trim_hex, rule hex_encode_chars)

lemma trim_pat [simp]: "trim_space (APITokenPrefix @ hex_encode b) = APITokenPrefix @ hex_encode b"
  unfolding trim_space_def
proof (rule trim_if_id, intro disjI2 conjI)
  show "\<not> is_space (hd (APITokenPrefix @ hex_encode b))"
    by (simp add: APITokenPrefix_def is_space_def)
  show "\<not> is_space (last (APITokenPrefix @ hex_encode b))"
  proof (cases "hex_encode b = []")
    case False
    then show ?thesis using hex_encode_chars hex_no_space by (metis last_appendR last_in_set)
  qed (simp add: APITokenPrefix_def is_space_def)
qed

text \<open>A session token is never taken for an API token.\<close>

lemma session_not_pat [simp]: "\<not> has_prefix (hex_encode b) APITokenPrefix"
proof
  assume "has_prefix (hex_encode b) APITokenPrefix"
  then have "CHR ''u'' \<in> set (hex_encode b)"
    by (auto simp: has_prefix_iff APITokenPrefix_def)
  then have "is_hex (CHR ''u'')" using hex_encode_chars by blast
  then show False by (simp add: is_hex_def)
qed

lemma bearer_of: "rq_authorization r = ''Bearer '' @ tok \<Longrightarrow> bearerToken r = trim_space tok"
  by (simp add: bearerToken_def del: append.simps)

lemma or_not_found_simps [simp]:
  "or_not_found None = Inl ErrNotFound" "or_not_found (Some a) = Inr a"
  by (simp_all add: or_not_found_def)

lemma Middleware_session_calm:
  assumes "faults w = []" "bearerToken r = tok" "tok \<noteq> ''''" "\<not> has_prefix tok APITokenPrefix"
  shows "Middleware cr h r w = (case session_user tok (now w) (tabs w) of
      None \<Rightarrow> ((401, ErrorBody ''unauthorized''), w) | Some u \<Rightarrow> h (r\<lparr>rq_user := u\<rparr>) w)"
  using assms by (simp add: Middleware_def resolve_def UserBySession_def act_run writeError_def
      writeJSON_def split: option.split)

lemma find_user: "schema_ok t \<Longrightarrow> u \<in> set (users t) \<Longrightarrow> find (\<lambda>x. u_id x = u_id u) (users t) = Some u"
  using keyed_find [of u_id "seqs t SUsers" "users t" u] by (simp add: schema_defs)

text \<open>The session a login that succeeds leaves in the database.\<close>

lemma login_issues_session:
  assumes login: "handleLogin cr ttl r w = ((201, AuthBody tok uv), w')"
    and calm: "faults w = []" and ok: "schema_ok (tabs w)"
    and random: "rq_random r = Some bytes" and clock: "now w < rq_now r + ttl"
  shows "\<exists>u \<in> set (users (tabs w)). u_email u = trim_space (to_lower (bd_email (rq_body r))) \<and> uv = user_view_of u \<and>
    bcrypt_ok cr (u_hash u) (bd_password (rq_body r)) \<and> tok = hex_encode bytes \<and>
    session_user tok (now w) (tabs w') = Some u \<and> w' = w\<lparr>tabs := tabs w'\<rparr>"
proof -
  let ?email = "trim_space (to_lower (bd_email (rq_body r)))"
  let ?x = "rq_now r + ttl"
  obtain u where u: "find (\<lambda>u. u_email u = ?email) (users (tabs w)) = Some u"
      "bcrypt_ok cr (u_hash u) (bd_password (rq_body r))"
      "issueSession ttl r u w = ((201, AuthBody tok uv), w')"
    using login calm
    by (auto simp: handleLogin_def Let_def UserByEmail_def sql_one_def act_run writeError_def
        writeJSON_def split: if_splits option.splits)
  obtain t' where t': "ins_session (hex_encode bytes) (u_id u) ?x (now w) (tabs w) = Inr ((), t')"
      "w' = w\<lparr>tabs := t'\<rparr>" and tok: "tok = hex_encode bytes" "uv = user_view_of u"
    using u(3) calm random
    by (auto simp: issueSession_def NewToken_def CreateSession_def act_run writeError_def
        writeJSON_def split: sum.splits)
  have fresh: "\<forall>s \<in> set (sessions (tabs w)). s_token s \<noteq> tok"
    and rows: "sessions t' = sessions (tabs w) @ [\<lparr>s_token = tok, s_user = u_id u, s_expires = ?x\<rparr>]"
      "users t' = users (tabs w)"
    using t'(1) tok by (auto simp: ins_session_def split: if_splits)
  have uin: "u \<in> set (users (tabs w))" "u_email u = ?email" using find_Some_in [OF u(1)] by auto
  have "find (\<lambda>s. s_token s = tok \<and> s_expires s > now w) (sessions t') =
      Some \<lparr>s_token = tok, s_user = u_id u, s_expires = ?x\<rparr>"
    unfolding rows by (rule find_append_new) (use fresh clock in auto)
  then have "session_user tok (now w) t' = Some u"
    using find_user [OF ok uin(1)] by (simp add: session_user_def rows)
  then show ?thesis using u(2) uin tok t'(2) by auto
qed

text \<open>A login that succeeds returns a token with which, until it expires, the middleware lets any
  request through in the name of the user whose password was checked.\<close>

theorem login_token_works:
  assumes login: "handleLogin cr ttl r w = ((201, AuthBody tok uv), w')"
    and calm: "faults w = []" and ok: "schema_ok (tabs w)"
    and random: "rq_random r = Some bytes" "bytes \<noteq> []" and clock: "now w < rq_now r + ttl"
  shows "\<exists>u. u_email u = trim_space (to_lower (bd_email (rq_body r))) \<and> uv = user_view_of u \<and>
    bcrypt_ok cr (u_hash u) (bd_password (rq_body r)) \<and>
    (\<forall>h r'. rq_authorization r' = ''Bearer '' @ tok \<longrightarrow>
       Middleware cr h r' w' = h (r'\<lparr>rq_user := u\<rparr>) w')"
proof -
  obtain u where u: "u_email u = trim_space (to_lower (bd_email (rq_body r)))" "uv = user_view_of u"
      "bcrypt_ok cr (u_hash u) (bd_password (rq_body r))" "tok = hex_encode bytes"
      "session_user tok (now w) (tabs w') = Some u" and w': "w' = w\<lparr>tabs := tabs w'\<rparr>"
    using login_issues_session [OF login calm ok random(1) clock] by blast
  have "tok \<noteq> ''''" using u(4) random(2) by (cases bytes) (auto simp: Let_def)
  moreover have "faults w' = []" "now w' = now w" by (subst w', simp add: calm)+
  ultimately have "Middleware cr h r' w' = h (r'\<lparr>rq_user := u\<rparr>) w'"
    if "rq_authorization r' = ''Bearer '' @ tok" for h r'
    using bearer_of [OF that] u(4,5) by (subst Middleware_session_calm) auto
  then show ?thesis using u(1-3) by blast
qed

lemma logout_trim:
  assumes "bearerToken r = tok" "tok \<noteq> ''''"
  shows "trim_space (trim_prefix (rq_authorization r) ''Bearer '') = tok"
    "trim_prefix (rq_authorization r) ''Bearer '' \<noteq> ''''"
proof -
  obtain rest where a: "rq_authorization r = ''Bearer '' @ rest" "tok = trim_space rest"
    using assms by (auto simp: bearerToken_def cut_prefix_Some split: option.splits)
  show "trim_space (trim_prefix (rq_authorization r) ''Bearer '') = tok"
    using a by (simp only: trim_prefix_append)
  show "trim_prefix (rq_authorization r) ''Bearer '' \<noteq> ''''"
    using a assms(2) by (auto simp only: trim_prefix_append trim_space_Nil)
qed

text \<open>After a logout whose delete reaches the database, the session token it was sent with is refused
  on every later request.\<close>

theorem logout_revokes:
  assumes "bearerToken r = tok" "tok \<noteq> ''''" "\<not> has_prefix tok APITokenPrefix" "faults w = []"
  shows "\<exists>w'. handleLogout r w = ((204, NoBody), w') \<and>
    (\<forall>cr h r'. bearerToken r' = tok \<longrightarrow> Middleware cr h r' w' = ((401, ErrorBody ''unauthorized''), w'))"
proof -
  let ?t = "(tabs w)\<lparr>sessions := filter (\<lambda>s. s_token s \<noteq> tok) (sessions (tabs w))\<rparr>"
  have out: "handleLogout r w = ((204, NoBody), w\<lparr>tabs := ?t\<rparr>)"
    using assms(4) logout_trim [OF assms(1,2)]
    by (simp add: handleLogout_def Let_def DeleteSession_def act_run)
  have "session_user tok n ?t = None" for n
  proof -
    have "find (\<lambda>s. s_token s = tok \<and> s_expires s > n) (sessions ?t) = None"
      by (auto simp: find_None_all)
    then show ?thesis by (simp add: session_user_def)
  qed
  then show ?thesis using out assms by (auto simp: Middleware_session_calm)
qed

text \<open>A crypto with transparent functions, for the examples.\<close>

definition demo_crypto :: crypto where
  "demo_crypto = \<lparr>bcrypt_hash = (\<lambda>p. Some (''$'' @ p)), bcrypt_ok = (\<lambda>h p. h = p),
     sha256_sum = (\<lambda>s. s), hmac_sum = (\<lambda>k m. k @ m)\<rparr>"

definition demo_login :: request where
  "demo_login = demo_request ''POST'' []
     (empty_body\<lparr>bd_email := '' Ann@acme.io'', bd_password := ''h1''\<rparr>)\<lparr>rq_random := Some ''xyz''\<rparr>"

lemma demo_pg_calm [simp]: "faults demo_pg = []" "tabs demo_pg = demo_tables" "now demo_pg = 0"
  by (simp_all add: demo_pg_def start_pg_def)

theorem login_token_works_witness:
  "\<exists>tok uv w' u. handleLogin demo_crypto 3600 demo_login demo_pg = ((201, AuthBody tok uv), w') \<and>
     u_email u = ''ann@acme.io'' \<and> uv = user_view_of u \<and>
     Middleware demo_crypto (\<lambda>r. handleMe r)
       (demo_login\<lparr>rq_authorization := ''Bearer '' @ tok\<rparr>) w' = ((200, UserBody uv), w')"
proof -
  obtain resp w' where run: "handleLogin demo_crypto 3600 demo_login demo_pg = (resp, w')" by fastforce
  have "(case fst (handleLogin demo_crypto 3600 demo_login demo_pg) of
      (st, AuthBody tok uv) \<Rightarrow> st = 201 | _ \<Rightarrow> False)" by code_simp
  then obtain tok uv where resp: "resp = (201, AuthBody tok uv)"
    using run by (auto split: prod.splits payload.splits)
  have email: "trim_space (to_lower (bd_email (rq_body demo_login))) = ''ann@acme.io''" by code_simp
  obtain u where u: "u_email u = ''ann@acme.io''" "uv = user_view_of u"
    and mw: "\<forall>h r'. rq_authorization r' = ''Bearer '' @ tok \<longrightarrow>
       Middleware demo_crypto h r' w' = h (r'\<lparr>rq_user := u\<rparr>) w'"
    using login_token_works [OF run [unfolded resp], of "''xyz''"] demo_tables_ok email
    by (auto simp: demo_login_def demo_request_def)
  have "Middleware demo_crypto (\<lambda>r. handleMe r)
       (demo_login\<lparr>rq_authorization := ''Bearer '' @ tok\<rparr>) w' = ((200, UserBody uv), w')"
    using mw u(2) by (simp add: handleMe_def writeJSON_def ret_def)
  then show ?thesis using run resp u by blast
qed

theorem logout_revokes_witness:
  "\<exists>w'. handleLogout (demo_login\<lparr>rq_authorization := ''Bearer abc''\<rparr>) demo_pg = ((204, NoBody), w') \<and>
    Middleware demo_crypto handleMe (demo_login\<lparr>rq_authorization := ''Bearer abc''\<rparr>) w' =
      ((401, ErrorBody ''unauthorized''), w')"
proof -
  let ?r = "demo_login\<lparr>rq_authorization := ''Bearer abc''\<rparr>"
  have tok: "bearerToken ?r = ''abc''" by code_simp
  have "\<not> has_prefix ''abc'' APITokenPrefix" by code_simp
  then show ?thesis using logout_revokes [OF tok _ _ demo_pg_calm(1)] tok by auto
qed

section \<open>Personal access tokens and the audit log\<close>

lemma Middleware_pat_calm:
  assumes "faults w = []" "bearerToken r = tok" "has_prefix tok APITokenPrefix"
  shows "Middleware cr h r w = (case token_user (HashAPIToken cr tok) (tabs w) of
      None \<Rightarrow> ((401, ErrorBody ''unauthorized''), w)
    | Some u \<Rightarrow> h (r\<lparr>rq_user := u\<rparr>) (w\<lparr>tabs :=
        upd_token (HashAPIToken cr tok) (\<lambda>k. k\<lparr>t_last_used := Some (now w)\<rparr>) (tabs w)\<rparr>))"
proof -
  have "tok \<noteq> ''''" using assms(3) by (auto simp: has_prefix_iff APITokenPrefix_def)
  then show ?thesis
    using assms by (simp add: Middleware_def resolve_def UserByAPIToken_def TouchAPIToken_def
        act_run writeError_def writeJSON_def split: option.split)
qed



lemma positive_param_bounds: "0 \<le> d \<Longrightarrow> 0 \<le> positive_param s d"
  by (auto simp: positive_param_def split: option.split)

lemma audit_limit_bounds: "1 \<le> audit_limit r" "audit_limit r \<le> 100"
  by (auto simp: audit_limit_def positive_param_def auditDefaultLimit_def auditMaxLimit_def Let_def
      split: option.split)

lemma sort_key_desc:
  fixes key :: "'r \<Rightarrow> int"
  assumes "distinct (map key xs)"
  shows "sorted_wrt (\<lambda>a b. key a > key b) (rev (sort_key key xs))"
proof -
  have "distinct (map key (sort_key key xs))"
    using assms by (metis distinct_map distinct_sort set_sort)
  moreover have "sorted (map key (sort_key key xs))" by simp
  ultimately have "sorted_wrt (<) (map key (sort_key key xs))"
    by (simp add: strict_sorted_iff)
  then show ?thesis by (simp add: sorted_wrt_rev sorted_wrt_map)
qed



end
