(* ===== verification/Api_Settings.thy ===== *)
theory Api_Settings
  imports Api_Accounts
begin

text \<open>
  \<open>internal/api/settings_handlers.go\<close>, \<open>env_handlers.go\<close>, \<open>domain_handlers.go\<close>,
  \<open>registry_handlers.go\<close>, \<open>usage_handlers.go\<close>, \<open>github_handlers.go\<close>, \<open>observability_handlers.go\<close> and the
  GitHub client \<open>internal/git/oauth.go\<close>. GitHub and the cluster are outside: the records \<open>github\<close>
  and \<open>reader\<close> give their answers as functions, \<open>None\<close> being a transport or decoding failure.
\<close>

section \<open>Re-applying settings\<close>

definition applyServiceChange :: "int \<Rightarrow> ('z pg_scheme, unit) act" where
  "applyServiceChange serviceID = attempt (LatestImagedDeploy serviceID) (\<lambda>_. ret ())
     (\<lambda>last. attempt (CreateRollbackDeploy serviceID (d_image last) (d_commit last) (d_id last))
       (\<lambda>_. ret ())
       (\<lambda>nd. bnd (Notify DeploymentChannel (itoa (d_id nd))) (\<lambda>_. ret ())))"

definition apply_and_204 :: "int \<Rightarrow> 'z handler" where
  "apply_and_204 serviceID = bnd (applyServiceChange serviceID) (\<lambda>_. ret (204, NoBody))"

text \<open>The normalised scaling request, or the error.\<close>

definition scale_request :: "body \<Rightarrow> service \<Rightarrow> string + (int \<times> string \<times> int \<times> int)" where
  "scale_request b svc =
     (let sz = (if bd_instance_size b = '''' then sv_size svc else bd_instance_size b);
          replicas = (if bd_replicas b < 1 then 1 else bd_replicas b);
          mx = bd_max_replicas b;
          mn = (if mx > 0 \<and> bd_min_replicas b < 1 then 1 else bd_min_replicas b) in
      if \<not> instance_IsValid sz then Inl ''invalid instance_size (small|medium|large|xlarge|2xlarge)''
      else if mx > 0 \<and> mx < mn then Inl ''max_replicas must be >= min_replicas''
      else Inr (replicas, sz, mn, mx))"

definition handleScale :: "request \<Rightarrow> 'z handler" where
  "handleScale r = check (requireServiceAccess r) (\<lambda>svc.
     if \<not> bd_readable (rq_body r) then writeError 400 ''invalid body''
     else case scale_request (rq_body r) svc of
         Inl m \<Rightarrow> writeError 400 m
       | Inr (replicas, sz, mn, mx) \<Rightarrow>
           attempt (SetServiceScaling (sv_id svc) replicas sz mn mx)
             (\<lambda>_. writeError 500 ''could not update scaling'')
             (\<lambda>_. apply_and_204 (sv_id svc)))"

definition handleSetHealth :: "request \<Rightarrow> 'z handler" where
  "handleSetHealth r = check (requireServiceAccess r) (\<lambda>svc.
     if \<not> bd_readable (rq_body r) then writeError 400 ''invalid body''
     else attempt (SetServiceHealth (sv_id svc) (bd_path (rq_body r)))
       (\<lambda>_. writeError 500 ''could not update health check'')
       (\<lambda>_. apply_and_204 (sv_id svc)))"

definition handleAttachDisk :: "request \<Rightarrow> 'z handler" where
  "handleAttachDisk r = check (requireServiceAccess r) (\<lambda>svc.
     if \<not> bd_readable (rq_body r) \<or> bd_size (rq_body r) = '''' \<or> bd_path (rq_body r) = ''''
     then writeError 400 ''size and path required''
     else attempt (SetServiceDisk (sv_id svc) (bd_size (rq_body r)) (bd_path (rq_body r)))
       (\<lambda>_. writeError 500 ''could not attach disk'')
       (\<lambda>_. apply_and_204 (sv_id svc)))"

definition handleDetachDisk :: "request \<Rightarrow> 'z handler" where
  "handleDetachDisk r = check (requireServiceAccess r) (\<lambda>svc.
     attempt (SetServiceDisk (sv_id svc) '''' '''')
       (\<lambda>_. writeError 500 ''could not detach disk'')
       (\<lambda>_. apply_and_204 (sv_id svc)))"

definition setSuspended :: "request \<Rightarrow> bool \<Rightarrow> 'z handler" where
  "setSuspended r suspended = check (requireServiceAccess r) (\<lambda>svc.
     attempt (SetServiceSuspended (sv_id svc) suspended)
       (\<lambda>_. writeError 500 ''could not update service'')
       (\<lambda>_. apply_and_204 (sv_id svc)))"

definition handleSuspend :: "request \<Rightarrow> 'z handler" where
  "handleSuspend r = setSuspended r True"

definition handleResume :: "request \<Rightarrow> 'z handler" where
  "handleResume r = setSuspended r False"

section \<open>Environment variables and domains\<close>

definition handleSetEnv :: "request \<Rightarrow> 'z handler" where
  "handleSetEnv r = check (requireServiceAccess r) (\<lambda>svc.
     let b = rq_body r in
     if \<not> bd_readable b \<or> trim_space (bd_key b) = '''' then writeError 400 ''key required''
     else attempt (SetEnvVar (sv_id svc) (bd_key b) (bd_value b) (bd_secret b) (bd_build_time b))
       (\<lambda>_. writeError 500 ''could not set env var'')
       (\<lambda>_. ret (204, NoBody)))"

definition handleListEnv :: "request \<Rightarrow> 'z handler" where
  "handleListEnv r = check (requireServiceAccess r) (\<lambda>svc.
     attempt (ListEnvVars (sv_id svc)) (\<lambda>_. writeError 500 ''could not list env vars'')
       (\<lambda>es. writeJSON 200 (EnvBody es)))"

definition handleDeleteEnv :: "request \<Rightarrow> 'z handler" where
  "handleDeleteEnv r = check (requireServiceAccess r) (\<lambda>svc.
     attempt (DeleteEnvVar (sv_id svc) (rq_param r ''key''))
       (\<lambda>_. writeError 500 ''could not delete env var'')
       (\<lambda>deleted. if \<not> deleted then writeError 404 ''env var not found'' else ret (204, NoBody)))"

definition handleAddDomain :: "request \<Rightarrow> 'z handler" where
  "handleAddDomain r = check (requireServiceAccess r) (\<lambda>svc.
     let domain = to_lower (trim_space (bd_domain (rq_body r))) in
     if \<not> bd_readable (rq_body r) then writeError 400 ''invalid body''
     else if domain = '''' then writeError 400 ''domain required''
     else attempt (AddCustomDomain (sv_id svc) domain)
       (\<lambda>e. if e = ErrDuplicate then writeError 409 ''domain already in use''
         else writeError 500 ''could not add domain'')
       (\<lambda>d. writeJSON 201 (DomainBody d)))"

definition handleListDomains :: "request \<Rightarrow> 'z handler" where
  "handleListDomains r = check (requireServiceAccess r) (\<lambda>svc.
     attempt (ListCustomDomains (sv_id svc)) (\<lambda>_. writeError 500 ''could not list domains'')
       (\<lambda>ds. writeJSON 200 (DomainsBody ds)))"

definition handleDeleteDomain :: "request \<Rightarrow> 'z handler" where
  "handleDeleteDomain r = check (requireServiceAccess r) (\<lambda>svc.
     attempt (DeleteCustomDomain (sv_id svc) (to_lower (rq_param r ''domain'')))
       (\<lambda>_. writeError 500 ''could not delete domain'')
       (\<lambda>deleted. if \<not> deleted then writeError 404 ''domain not found'' else ret (204, NoBody)))"

section \<open>Registry credentials\<close>

definition cred_view_of :: "registry_credential \<Rightarrow> cred_view" where
  "cred_view_of c = \<lparr>cv_id = rc_id c, cv_registry = rc_registry c, cv_username = rc_username c\<rparr>"

definition handleAddRegistryCred :: "request \<Rightarrow> 'z handler" where
  "handleAddRegistryCred r = (case pathInt r ''orgID'' of
      None \<Rightarrow> writeError 400 ''invalid org id''
    | Some orgID \<Rightarrow> check (requireOrgRole r orgID Admin) (\<lambda>_.
        let b = rq_body r in
        if \<not> bd_readable b \<or> trim_space (bd_registry b) = '''' \<or> bd_username b = '''' \<or> bd_password b = ''''
        then writeError 400 ''registry, username, password required''
        else attempt (AddRegistryCredential orgID (bd_registry b) (bd_username b) (bd_password b))
          (\<lambda>_. writeError 500 ''could not save credential'')
          (\<lambda>c. writeJSON 201 (CredBody (cred_view_of c)))))"

definition handleListRegistryCreds :: "request \<Rightarrow> 'z handler" where
  "handleListRegistryCreds r = (case pathInt r ''orgID'' of
      None \<Rightarrow> writeError 400 ''invalid org id''
    | Some orgID \<Rightarrow> check (requireOrgRole r orgID Admin) (\<lambda>_.
        attempt (ListRegistryCredentials orgID) (\<lambda>_. writeError 500 ''could not list credentials'')
          (\<lambda>cs. writeJSON 200 (CredsBody (map cred_view_of cs)))))"

definition handleDeleteRegistryCred :: "request \<Rightarrow> 'z handler" where
  "handleDeleteRegistryCred r = (case pathInt r ''orgID'' of
      None \<Rightarrow> writeError 400 ''invalid org id''
    | Some orgID \<Rightarrow> check (requireOrgRole r orgID Admin) (\<lambda>_.
        case pathInt r ''credID'' of
          None \<Rightarrow> writeError 400 ''invalid credential id''
        | Some i \<Rightarrow> attempt (DeleteRegistryCredential orgID i)
            (\<lambda>_. writeError 500 ''could not delete credential'')
            (\<lambda>deleted. if \<not> deleted then writeError 404 ''credential not found''
              else ret (204, NoBody))))"

section \<open>Usage\<close>

definition usageSampleLimit :: int where "usageSampleLimit = 200"
definition usageWindowSeconds :: int where "usageWindowSeconds = 60"

text \<open>\<open>int64\<close> addition wraps, division truncates towards zero.\<close>

definition wrap64 :: "int \<Rightarrow> int" where
  "wrap64 x = (x + 2 ^ 63) mod 2 ^ 64 - 2 ^ 63"

definition go_div :: "int \<Rightarrow> int \<Rightarrow> int" where
  "go_div a b = sgn a * sgn b * (\<bar>a\<bar> div \<bar>b\<bar>)"

definition total_memory :: "usage_sample list \<Rightarrow> int" where
  "total_memory us = foldl (\<lambda>acc u. wrap64 (acc + us_mem u)) 0 us"

definition avg_memory_mb :: "usage_sample list \<Rightarrow> int" where
  "avg_memory_mb us =
     (if length us > 0 then go_div (go_div (total_memory us) (int (length us))) (1024 * 1024) else 0)"

text \<open>The field of the response in core seconds is a \<open>float64\<close>; here it is the exact milli-core seconds.\<close>

definition cpu_milli_seconds :: "usage_sample list \<Rightarrow> int" where
  "cpu_milli_seconds us = foldl (\<lambda>acc u. acc + us_cpu u * usageWindowSeconds) 0 us"

definition handleServiceUsage :: "request \<Rightarrow> 'z handler" where
  "handleServiceUsage r = check (requireServiceAccess r) (\<lambda>svc.
     attempt (ListUsageSamples (sv_id svc) usageSampleLimit)
       (\<lambda>_. writeError 500 ''could not load usage'')
       (\<lambda>us. writeJSON 200 (UsageBody us (int (length us)) (int (length us) * usageWindowSeconds)
          (cpu_milli_seconds us) (avg_memory_mb us))))"

section \<open>GitHub\<close>

record github =
  oauth_post :: "string \<Rightarrow> string \<Rightarrow> string \<Rightarrow> (string \<times> string) option"
  api_user :: "string \<Rightarrow> (int \<times> string option) option"
  api_repos :: "string \<Rightarrow> int \<Rightarrow> (int \<times> repo list option) option"

definition ExchangeCode :: "github \<Rightarrow> string \<Rightarrow> string \<Rightarrow> string \<Rightarrow> string option" where
  "ExchangeCode gh clientID clientSecret code = (case oauth_post gh clientID clientSecret code of
      None \<Rightarrow> None
    | Some (token, _) \<Rightarrow> if token = '''' then None else Some token)"

definition ghGet :: "(int \<times> 'a option) option \<Rightarrow> 'a option" where
  "ghGet resp = (case resp of
      None \<Rightarrow> None
    | Some (status, decoded) \<Rightarrow> if status div 100 \<noteq> 2 then None else decoded)"

definition AccountLogin :: "github \<Rightarrow> string \<Rightarrow> string option" where
  "AccountLogin gh token = ghGet (api_user gh token)"

fun list_pages :: "github \<Rightarrow> string \<Rightarrow> int list \<Rightarrow> repo list \<Rightarrow> repo list option" where
  "list_pages gh token [] out = Some out"
| "list_pages gh token (page # pages) out = (case ghGet (api_repos gh token page) of
      None \<Rightarrow> None
    | Some batch \<Rightarrow>
        if length batch < 100 then Some (out @ batch)
        else list_pages gh token pages (out @ batch))"

definition ListRepos :: "github \<Rightarrow> string \<Rightarrow> repo list option" where
  "ListRepos gh token = list_pages gh token [1, 2, 3] []"

definition githubEnabled :: "string \<Rightarrow> string \<Rightarrow> bool" where
  "githubEnabled clientID clientSecret \<longleftrightarrow> clientID \<noteq> '''' \<and> clientSecret \<noteq> ''''"

definition handleGithubStatus :: "string \<Rightarrow> string \<Rightarrow> request \<Rightarrow> 'z handler" where
  "handleGithubStatus clientID clientSecret r = (case pathInt r ''orgID'' of
      None \<Rightarrow> writeError 400 ''invalid org id''
    | Some orgID \<Rightarrow> check (authorizeOrg r orgID) (\<lambda>_.
        let enabled = githubEnabled clientID clientSecret;
            url = (if enabled then Some (''https://github.com/login/oauth/authorize?client_id='' @
              clientID @ ''&scope=repo&state='' @ itoa orgID) else None) in
        attempt (GithubConnection orgID) (\<lambda>_. writeError 500 ''could not read connection'')
          (\<lambda>conn. writeJSON 200 (GithubBody enabled url (map_option gc_account conn)))))"

definition handleGithubConnect :: "github \<Rightarrow> string \<Rightarrow> string \<Rightarrow> request \<Rightarrow> 'z handler" where
  "handleGithubConnect gh clientID clientSecret r = (case pathInt r ''orgID'' of
      None \<Rightarrow> writeError 400 ''invalid org id''
    | Some orgID \<Rightarrow> check (authorizeOrg r orgID) (\<lambda>_.
        if \<not> githubEnabled clientID clientSecret then writeError 400 ''GitHub is not configured''
        else if \<not> bd_readable (rq_body r) \<or> bd_code (rq_body r) = '''' then writeError 400 ''missing code''
        else case ExchangeCode gh clientID clientSecret (bd_code (rq_body r)) of
            None \<Rightarrow> writeError 502 ''GitHub authorization failed''
          | Some token \<Rightarrow> (case AccountLogin gh token of
              None \<Rightarrow> writeError 502 ''could not read GitHub account''
            | Some login \<Rightarrow> attempt (SetGithubConnection orgID token login)
                (\<lambda>_. writeError 500 ''could not save connection'')
                (\<lambda>_. writeJSON 200 (GithubConnectedBody login)))))"

definition handleGithubRepos :: "github \<Rightarrow> request \<Rightarrow> 'z handler" where
  "handleGithubRepos gh r = (case pathInt r ''orgID'' of
      None \<Rightarrow> writeError 400 ''invalid org id''
    | Some orgID \<Rightarrow> check (authorizeOrg r orgID) (\<lambda>_.
        attempt (GithubConnection orgID) (\<lambda>_. writeError 500 ''could not read connection'')
          (\<lambda>conn. case conn of
              None \<Rightarrow> writeError 400 ''GitHub is not connected''
            | Some c \<Rightarrow> (case ListRepos gh (gc_token c) of
                None \<Rightarrow> writeError 502 ''could not list repositories''
              | Some repos \<Rightarrow> writeJSON 200 (ReposBody repos)))))"

definition handleGithubDisconnect :: "request \<Rightarrow> 'z handler" where
  "handleGithubDisconnect r = (case pathInt r ''orgID'' of
      None \<Rightarrow> writeError 400 ''invalid org id''
    | Some orgID \<Rightarrow> check (authorizeOrg r orgID) (\<lambda>_.
        attempt (DeleteGithubConnection orgID) (\<lambda>_. writeError 500 ''could not disconnect'')
          (\<lambda>_. ret (204, NoBody))))"

section \<open>Runtime logs and metrics\<close>

text \<open>A log stream is its text, or \<open>None\<close> when there are no pods; a metrics failure is \<open>None\<close>.\<close>

record reader =
  stream_logs :: "string \<Rightarrow> string \<Rightarrow> string option"
  pod_metrics :: "string \<Rightarrow> string \<Rightarrow> pod_metric list option"
  list_backups :: "string \<Rightarrow> string \<Rightarrow> backup_info list option"

definition serviceSelector :: "string \<Rightarrow> string" where
  "serviceSelector slug = ''app.kubernetes.io/name='' @ slug"

definition handleRuntimeLogs :: "reader \<Rightarrow> request \<Rightarrow> 'z handler" where
  "handleRuntimeLogs rd r = check (requireServiceWithOrg r) (\<lambda>(svc, orgID).
     ret (200, StreamBody (case stream_logs rd (NamespaceForOrg orgID) (serviceSelector (sv_slug svc)) of
         None \<Rightarrow> ''no running pods for this service\<newline>'' | Some s \<Rightarrow> s)))"

definition handleMetrics :: "reader \<Rightarrow> request \<Rightarrow> 'z handler" where
  "handleMetrics rd r = check (requireServiceWithOrg r) (\<lambda>(svc, orgID).
     case pod_metrics rd (NamespaceForOrg orgID) (serviceSelector (sv_slug svc)) of
       None \<Rightarrow> writeError 503 ''metrics unavailable''
     | Some ms \<Rightarrow> writeJSON 200 (MetricsBody ms))"

lemmas setting_handlers =
  handleScale_def handleSetHealth_def handleAttachDisk_def handleDetachDisk_def handleSuspend_def
  handleResume_def setSuspended_def handleSetEnv_def handleListEnv_def handleDeleteEnv_def
  handleAddDomain_def handleListDomains_def handleDeleteDomain_def handleAddRegistryCred_def
  handleListRegistryCreds_def handleDeleteRegistryCred_def handleServiceUsage_def
  handleGithubStatus_def handleGithubConnect_def handleGithubRepos_def handleGithubDisconnect_def
  handleRuntimeLogs_def handleMetrics_def

section \<open>The database relation\<close>

lemma apply_change_evolves [evolves]:
  "keeps tabs db_evolves (applyServiceChange i)" "keeps tabs db_evolves (apply_and_204 i)"
  unfolding applyServiceChange_def apply_and_204_def by (intro evo_rules evolves)+

lemma setting_handlers_evolve [evolves]:
  "keeps tabs db_evolves (handleScale r)" "keeps tabs db_evolves (handleSetHealth r)"
  "keeps tabs db_evolves (handleAttachDisk r)" "keeps tabs db_evolves (handleDetachDisk r)"
  "keeps tabs db_evolves (handleSuspend r)" "keeps tabs db_evolves (handleResume r)"
  "keeps tabs db_evolves (handleSetEnv r)" "keeps tabs db_evolves (handleListEnv r)"
  "keeps tabs db_evolves (handleDeleteEnv r)" "keeps tabs db_evolves (handleAddDomain r)"
  "keeps tabs db_evolves (handleListDomains r)" "keeps tabs db_evolves (handleDeleteDomain r)"
  "keeps tabs db_evolves (handleAddRegistryCred r)"
  "keeps tabs db_evolves (handleListRegistryCreds r)"
  "keeps tabs db_evolves (handleDeleteRegistryCred r)"
  "keeps tabs db_evolves (handleServiceUsage r)"
  "keeps tabs db_evolves (handleGithubStatus ci cs r)"
  "keeps tabs db_evolves (handleGithubConnect gh ci cs r)"
  "keeps tabs db_evolves (handleGithubRepos gh r)" "keeps tabs db_evolves (handleGithubDisconnect r)"
  "keeps tabs db_evolves (handleRuntimeLogs rd r)" "keeps tabs db_evolves (handleMetrics rd r)"
  unfolding setting_handlers Let_def by (intro evo_rules evolves)+

end
