(* ===== verification/Api_Databases.thy ===== *)
theory Api_Databases
  imports Api_Settings
begin

text \<open>
  \<open>internal/api/database_handlers.go\<close> and \<open>backup_handlers.go\<close>: managed databases. The lemmas show
  what a create or scale request is normalised to, and that connection URIs are handed out only
  by the connection endpoint and only when the database is ready.
\<close>

definition database_view_of :: "database \<Rightarrow> database_view" where
  "database_view_of d = \<lparr>dv_id = db_id d, dv_project = db_project d, dv_name = db_name d,
     dv_slug = db_slug d, dv_engine = db_engine d, dv_status = db_status d, dv_tier = db_tier d,
     dv_instances = db_instances d, dv_min = db_min d, dv_max = db_max d, dv_size = db_size d,
     dv_storage = db_storage d, dv_pooling = db_pooling d, dv_backups = db_backups d\<rparr>"

definition Postgres :: string where "Postgres = ''postgres''"
definition Redis :: string where "Redis = ''redis''"
definition Standard :: string where "Standard = ''standard''"
definition Autoscale :: string where "Autoscale = ''autoscale''"

lemma engine_distinct [simp]:
  "Postgres \<noteq> Redis" "Redis \<noteq> Postgres" "Standard \<noteq> Autoscale" "Autoscale \<noteq> Standard"
  by (simp_all add: Postgres_def Redis_def Standard_def Autoscale_def)

definition normalizeSizeStorage :: "string \<Rightarrow> string \<Rightarrow> string + (string \<times> string)" where
  "normalizeSizeStorage sz storage =
     (let sz' = (if sz = '''' then Small else sz) in
      if \<not> instance_IsValid sz' then Inl ''invalid size (small|medium|large|xlarge|2xlarge)''
      else Inr (sz', if storage = '''' then ''1Gi'' else storage))"

text \<open>The checks of the create request, and the row it asks for.\<close>

record database_plan =
  dp_engine :: string
  dp_tier :: string
  dp_instances :: int
  dp_min :: int
  dp_max :: int
  dp_size :: string
  dp_storage :: string
  dp_pooling :: bool
  dp_backups :: bool

definition plan_instances :: "body \<Rightarrow> string \<Rightarrow> string \<Rightarrow> string + (int \<times> int \<times> int)" where
  "plan_instances b engine tier =
     (if tier = Autoscale then
        let mn = (if bd_min_instances b < 1 then 1 else bd_min_instances b); mx = bd_max_instances b in
        if mx < mn then Inl ''max_instances must be >= min_instances'' else Inr (mn, mn, mx)
      else
        let n = (if bd_instances b < 1 then 1 else bd_instances b) in
        if engine = Redis \<and> n \<noteq> 1 then Inl ''redis supports a single instance'' else Inr (n, n, n))"

definition plan_database :: "body \<Rightarrow> string + database_plan" where
  "plan_database b =
     (let engine = (if bd_engine b = '''' then Postgres else bd_engine b);
          tier = (if bd_tier b = '''' then Standard else bd_tier b) in
      if engine \<noteq> Postgres \<and> engine \<noteq> Redis then Inl ''unsupported engine (postgres|redis)''
      else if tier \<noteq> Standard \<and> tier \<noteq> Autoscale then Inl ''tier must be standard or autoscale''
      else if tier = Autoscale \<and> engine \<noteq> Postgres then Inl ''autoscale tier is postgres-only''
      else case normalizeSizeStorage (bd_size b) (bd_storage b) of
          Inl m \<Rightarrow> Inl m
        | Inr (sz, storage) \<Rightarrow> (case plan_instances b engine tier of
            Inl m \<Rightarrow> Inl m
          | Inr (n, mn, mx) \<Rightarrow> Inr \<lparr>dp_engine = engine, dp_tier = tier, dp_instances = n, dp_min = mn,
              dp_max = mx, dp_size = sz, dp_storage = storage,
              dp_pooling = bd_pooling b \<and> engine = Postgres,
              dp_backups = bd_backups b \<and> engine = Postgres\<rparr>))"

definition handleCreateDatabase :: "request \<Rightarrow> 'z handler" where
  "handleCreateDatabase r = check (requireProjectAccess r) (\<lambda>projectID.
     if \<not> named r then writeError 400 ''name required''
     else case plan_database (rq_body r) of
         Inl m \<Rightarrow> writeError 400 m
       | Inr p \<Rightarrow>
           attempt (CreateDatabase projectID (bd_name (rq_body r)) (slugify (bd_name (rq_body r)))
               (dp_engine p) (dp_tier p) (dp_instances p) (dp_min p) (dp_max p) (dp_size p)
               (dp_storage p) (dp_pooling p) (dp_backups p))
             (\<lambda>_. writeError 409 ''could not create database (slug may be taken)'')
             (\<lambda>db. bnd (Notify DatabaseChannel (itoa (db_id db)))
               (\<lambda>_. writeJSON 201 (DatabaseBody (database_view_of db)))))"

definition handleListDatabases :: "request \<Rightarrow> 'z handler" where
  "handleListDatabases r = check (requireProjectAccess r) (\<lambda>projectID.
     attempt (ListDatabases projectID) (\<lambda>_. writeError 500 ''could not list databases'')
       (\<lambda>ds. writeJSON 200 (DatabasesBody (map database_view_of ds))))"

definition handleGetDatabase :: "request \<Rightarrow> 'z handler" where
  "handleGetDatabase r = check (requireDatabaseAccess r) (\<lambda>(db, _).
     writeJSON 200 (DatabaseBody (database_view_of db)))"

definition handleDatabaseConnection :: "request \<Rightarrow> 'z handler" where
  "handleDatabaseConnection r = check (requireDatabaseAccess r) (\<lambda>(db, _).
     if db_status db \<noteq> DBStatusReady \<or> db_uri db = '''' then writeError 409 ''database not ready''
     else writeJSON 200 (ConnectionBody ([(''uri'', db_uri db)] @
       (if db_read_uri db \<noteq> '''' then [(''read_uri'', db_read_uri db)] else []) @
       (if db_pooled_uri db \<noteq> '''' then [(''pooled_uri'', db_pooled_uri db)] else []))))"

definition handleScaleDatabase :: "request \<Rightarrow> 'z handler" where
  "handleScaleDatabase r = check (requireDatabaseAccess r) (\<lambda>(db, _).
     let b = rq_body r;
         sz = (if bd_size b = '''' then db_size db else bd_size b);
         storage = (if bd_storage b = '''' then db_storage db else bd_storage b);
         wanted = (if bd_instances b = 0 then db_instances db else bd_instances b);
         instances = (if wanted < 1 then 1 else wanted) in
     if \<not> bd_readable b then writeError 400 ''invalid body''
     else case normalizeSizeStorage sz storage of
         Inl m \<Rightarrow> writeError 400 m
       | Inr (sz', storage') \<Rightarrow>
           if db_engine db = Redis \<and> instances \<noteq> 1
           then writeError 400 ''redis supports a single instance''
           else attempt (SetDatabaseScaling (db_id db) instances sz' storage')
             (\<lambda>_. writeError 500 ''could not scale database'')
             (\<lambda>_. bnd (Notify DatabaseChannel (itoa (db_id db))) (\<lambda>_. ret (204, NoBody))))"

definition handleDeleteDatabase :: "request \<Rightarrow> 'z handler" where
  "handleDeleteDatabase r = check (requireDatabaseAccess r) (\<lambda>(db, orgID).
     bnd (Notify DatabaseTeardownChannel (database_teardown (NamespaceForOrg orgID) db))
       (\<lambda>_. attempt (DeleteDatabase (db_id db)) (\<lambda>_. writeError 500 ''could not delete database'')
         (\<lambda>_. ret (204, NoBody))))"

definition handleTriggerBackup :: "request \<Rightarrow> 'z handler" where
  "handleTriggerBackup r = check (requireDatabaseAccess r) (\<lambda>(db, _).
     if \<not> db_backups db then writeError 409 ''backups are not enabled for this database''
     else attempt (Notify DatabaseBackupChannel (itoa (db_id db)))
       (\<lambda>_. writeError 500 ''could not request backup'')
       (\<lambda>_. ret (202, NoBody)))"

definition handleListBackups :: "reader \<Rightarrow> request \<Rightarrow> 'z handler" where
  "handleListBackups rd r = check (requireDatabaseAccess r) (\<lambda>(db, orgID).
     case list_backups rd (NamespaceForOrg orgID) (DatabaseCluster (db_slug db)) of
       None \<Rightarrow> writeError 500 ''could not list backups''
     | Some bs \<Rightarrow> writeJSON 200 (BackupsBody bs))"

lemmas database_handlers =
  handleCreateDatabase_def handleListDatabases_def handleGetDatabase_def
  handleDatabaseConnection_def handleScaleDatabase_def handleDeleteDatabase_def
  handleTriggerBackup_def handleListBackups_def

lemma database_handlers_evolve [evolves]:
  "keeps tabs db_evolves (handleCreateDatabase r)" "keeps tabs db_evolves (handleListDatabases r)"
  "keeps tabs db_evolves (handleGetDatabase r)" "keeps tabs db_evolves (handleDatabaseConnection r)"
  "keeps tabs db_evolves (handleScaleDatabase r)" "keeps tabs db_evolves (handleDeleteDatabase r)"
  "keeps tabs db_evolves (handleTriggerBackup r)" "keeps tabs db_evolves (handleListBackups rd r)"
  unfolding database_handlers Let_def by (intro evo_rules evolves)+

section \<open>What a plan may look like\<close>

definition plan_ok :: "database_plan \<Rightarrow> bool" where
  "plan_ok p \<longleftrightarrow> dp_engine p \<in> {Postgres, Redis} \<and> dp_tier p \<in> {Standard, Autoscale} \<and>
     1 \<le> dp_min p \<and> dp_min p \<le> dp_instances p \<and> dp_instances p \<le> dp_max p \<and>
     instance_IsValid (dp_size p) \<and> dp_storage p \<noteq> '''' \<and>
     (dp_engine p = Redis \<longrightarrow> dp_tier p = Standard \<and> dp_instances p = 1 \<and> dp_max p = 1 \<and>
        \<not> dp_pooling p \<and> \<not> dp_backups p)"

lemma normalize_ok:
  "normalizeSizeStorage sz sto = Inr (sz', sto') \<Longrightarrow> instance_IsValid sz' \<and> sto' \<noteq> ''''"
  by (auto simp: normalizeSizeStorage_def Let_def split: if_splits)

lemma plan_instances_ok:
  assumes "plan_instances b engine tier = Inr (n, mn, mx)"
  shows "1 \<le> mn \<and> mn \<le> n \<and> n \<le> mx \<and> (tier \<noteq> Autoscale \<and> engine = Redis \<longrightarrow> n = 1 \<and> mx = 1)"
  using assms by (auto simp: plan_instances_def Let_def split: if_splits)

lemma plan_database_ok: "plan_database b = Inr p \<Longrightarrow> plan_ok p"
  using plan_instances_ok [of b] normalize_ok [of "bd_size b" "bd_storage b"]
  by (auto simp: plan_database_def plan_ok_def Let_def split: if_splits sum.splits prod.splits)

end
