(* ===== verification/Api_Deploys.thy ===== *)
theory Api_Deploys
  imports Api_Databases
begin

text \<open>
  \<open>internal/api/deploy_handlers.go\<close>, the rollback of \<open>env_handlers.go\<close>, \<open>webhook_handlers.go\<close>,
  \<open>logstream_handlers.go\<close> and the webhook half of package \<open>git\<close> (\<open>internal/git/webhook.go\<close>).
  Decoding the JSON of a webhook body is the field pair of the record \<open>hooks\<close>.
\<close>

section \<open>GitHub events\<close>

record push_event =
  pe_ref :: string
  pe_after :: string
  pe_html_url :: string
  pe_clone_url :: string

record pull_request_event =
  pr_action :: string
  pr_number :: int
  pr_sha :: string
  pr_html_url :: string
  pr_clone_url :: string

record hooks =
  ParsePush :: "string \<Rightarrow> push_event option"
  ParsePullRequest :: "string \<Rightarrow> pull_request_event option"

definition Branch :: "push_event \<Rightarrow> string" where
  "Branch p = (case cut_prefix (pe_ref p) ''refs/heads/'' of Some after \<Rightarrow> after | None \<Rightarrow> '''')"

definition VerifySignature :: "crypto \<Rightarrow> string \<Rightarrow> string \<Rightarrow> string \<Rightarrow> bool" where
  "VerifySignature cr secret body sigHeader =
     (if \<not> has_prefix sigHeader ''sha256='' then False
      else let want = trim_prefix sigHeader ''sha256='';
               got = hex_encode (hmac_sum cr secret body)
        in got = want)"

definition ShouldDeploy :: "pull_request_event \<Rightarrow> bool" where
  "ShouldDeploy p \<longleftrightarrow> pr_action p \<in> {''opened'', ''synchronize'', ''reopened''}"

definition ShouldTeardown :: "pull_request_event \<Rightarrow> bool" where
  "ShouldTeardown p \<longleftrightarrow> pr_action p = ''closed''"

section \<open>Creating deploys\<close>

definition enqueueDeploy :: "int \<Rightarrow> string \<Rightarrow> ('z, deploy) sop" where
  "enqueueDeploy serviceID commitSHA = throwing (CreateDeploy serviceID commitSHA)
     (\<lambda>d. bnd (Notify DeployChannel (itoa (d_id d))) (\<lambda>_. ret (Inr d)))"

definition enqueuePreview :: "int \<Rightarrow> string \<Rightarrow> int \<Rightarrow> ('z, deploy) sop" where
  "enqueuePreview serviceID commitSHA prNumber = throwing (CreatePreviewDeploy serviceID commitSHA prNumber)
     (\<lambda>d. bnd (Notify DeployChannel (itoa (d_id d))) (\<lambda>_. ret (Inr d)))"

definition handleCreateDeploy :: "request \<Rightarrow> 'z handler" where
  "handleCreateDeploy r = check (requireServiceAccess r) (\<lambda>svc.
     attempt (enqueueDeploy (sv_id svc) (bd_commit (rq_body r)))
       (\<lambda>_. writeError 500 ''could not create deploy'')
       (\<lambda>d. writeJSON 201 (DeployBody d)))"

definition handleImageDeploy :: "request \<Rightarrow> 'z handler" where
  "handleImageDeploy r = check (requireServiceAccess r) (\<lambda>svc.
     let img = trim_space (bd_image (rq_body r)) in
     if \<not> bd_readable (rq_body r) \<or> img = '''' then writeError 400 ''image required''
     else attempt (CreateImageDeploy (sv_id svc) img)
       (\<lambda>_. writeError 500 ''could not create deploy'')
       (\<lambda>d. bnd (Notify DeploymentChannel (itoa (d_id d))) (\<lambda>_. writeJSON 201 (DeployBody d))))"

definition handleListDeploys :: "request \<Rightarrow> 'z handler" where
  "handleListDeploys r = check (requireServiceAccess r) (\<lambda>svc.
     attempt (ListDeploys (sv_id svc)) (\<lambda>_. writeError 500 ''could not list deploys'')
       (\<lambda>ds. writeJSON 200 (DeploysBody ds)))"

definition handleGetDeploy :: "request \<Rightarrow> 'z handler" where
  "handleGetDeploy r = check (requireDeployAccess r) (\<lambda>d. writeJSON 200 (DeployBody d))"

definition handleRollback :: "request \<Rightarrow> 'z handler" where
  "handleRollback r = check (requireDeployAccess r) (\<lambda>d.
     if d_image d = '''' then writeError 409 ''deploy has no built image to roll back to''
     else attempt (CreateRollbackDeploy (d_service d) (d_image d) (d_commit d) (d_id d))
       (\<lambda>_. writeError 500 ''could not create rollback deploy'')
       (\<lambda>nd. bnd (Notify DeploymentChannel (itoa (d_id nd))) (\<lambda>_. writeJSON 201 (DeployBody nd))))"

section \<open>Webhooks\<close>

text \<open>\<open>seen\<close> and \<open>out\<close> are the map and the slice of the source.\<close>

fun dedupe_matches :: "int list \<Rightarrow> int list \<Rightarrow> service list \<Rightarrow> int list \<times> int list" where
  "dedupe_matches seen out [] = (seen, out)"
| "dedupe_matches seen out (m # ms) =
     (if sv_id m \<in> set seen then dedupe_matches seen out ms
      else dedupe_matches (sv_id m # seen) (out @ [sv_id m]) ms)"

fun dedupe_urls ::
    "(string \<Rightarrow> ('z, service list) sop) \<Rightarrow> int list \<Rightarrow> int list \<Rightarrow> string list \<Rightarrow> ('z, int list) sop" where
  "dedupe_urls lookup seen out [] = ret (Inr out)"
| "dedupe_urls lookup seen out (url # urls) =
     (if url = '''' then dedupe_urls lookup seen out urls
      else throwing (lookup url) (\<lambda>ms. case dedupe_matches seen out ms of (seen', out') \<Rightarrow>
        dedupe_urls lookup seen' out' urls))"

definition dedupeServices :: "(string \<Rightarrow> ('z, service list) sop) \<Rightarrow> string list \<Rightarrow> ('z, int list) sop" where
  "dedupeServices lookup urls = dedupe_urls lookup [] [] urls"

definition matchServices :: "string \<Rightarrow> string \<Rightarrow> string \<Rightarrow> ('z, int list) sop" where
  "matchServices cloneURL htmlURL branch =
     dedupeServices (\<lambda>url. ServicesByRepo url branch) [cloneURL, htmlURL]"

definition matchServicesAnyBranch :: "string \<Rightarrow> string \<Rightarrow> ('z, int list) sop" where
  "matchServicesAnyBranch cloneURL htmlURL = dedupeServices ServicesByRepoURL [cloneURL, htmlURL]"

definition handlePush :: "push_event option \<Rightarrow> 'z handler" where
  "handlePush parsed = (case parsed of
      None \<Rightarrow> writeError 400 ''invalid push payload''
    | Some push \<Rightarrow>
        if Branch push = '''' then writeJSON 200 (IgnoredBody ''non-branch ref'')
        else attempt (matchServices (pe_clone_url push) (pe_html_url push) (Branch push))
          (\<lambda>_. writeError 500 ''could not match services'')
          (\<lambda>svcs. bnd (collect (\<lambda>i. attempt (enqueueDeploy i (pe_after push)) (\<lambda>_. ret None)
               (\<lambda>d. ret (Some \<lparr>br_deploy = d_id d, br_service = i, br_commit = d_commit d\<rparr>))) svcs)
            (\<lambda>briefs. writeJSON 200 (WebhookBody (int (length briefs)) briefs))))"

definition handlePullRequest :: "pull_request_event option \<Rightarrow> 'z handler" where
  "handlePullRequest parsed = (case parsed of
      None \<Rightarrow> writeError 400 ''invalid pull_request payload''
    | Some pr \<Rightarrow>
        if \<not> ShouldDeploy pr \<and> \<not> ShouldTeardown pr
        then writeJSON 200 (IgnoredBody (''pr action '' @ pr_action pr))
        else attempt (matchServicesAnyBranch (pr_clone_url pr) (pr_html_url pr))
          (\<lambda>_. writeError 500 ''could not match services'')
          (\<lambda>svcs. bnd (collect (\<lambda>i.
               if ShouldTeardown pr
               then attempt (Notify TeardownChannel (itoa i @ '':'' @ itoa (pr_number pr)))
                 (\<lambda>_. ret None)
                 (\<lambda>_. ret (Some \<lparr>br_deploy = 0, br_service = i, br_commit = ''''\<rparr>))
               else attempt (enqueuePreview i (pr_sha pr) (pr_number pr)) (\<lambda>_. ret None)
                 (\<lambda>d. ret (Some \<lparr>br_deploy = d_id d, br_service = i, br_commit = d_commit d\<rparr>))) svcs)
            (\<lambda>briefs. writeJSON 200 (WebhookBody (int (length briefs)) briefs))))"

definition maxWebhookBody :: nat where "maxWebhookBody = 5 * 2 ^ 20"

definition handleGitHubWebhook :: "crypto \<Rightarrow> hooks \<Rightarrow> string \<Rightarrow> request \<Rightarrow> 'z handler" where
  "handleGitHubWebhook cr hk secret r = (case rq_raw r of
      None \<Rightarrow> writeError 400 ''could not read body''
    | Some raw \<Rightarrow>
        let body = take maxWebhookBody raw; event = rq_event r in
        if \<not> VerifySignature cr secret body (rq_signature r)
        then writeError 401 ''invalid signature''
        else if event = ''push'' \<or> event = '''' then handlePush (ParsePush hk body)
        else if event = ''pull_request'' then handlePullRequest (ParsePullRequest hk body)
        else writeJSON 200 (IgnoredBody event))"

section \<open>The build log stream\<close>

definition isTerminalBuild :: "string \<Rightarrow> bool" where
  "isTerminalBuild status \<longleftrightarrow> status = BuildSucceeded \<or> status = BuildFailed"

definition writeSSE :: "string \<Rightarrow> string" where
  "writeSSE chunk = concat (map (\<lambda>line. ''data: '' @ line @ ''\<newline>'')
     (split_on CHR 0x0A (trim_right_if (\<lambda>c. c = CHR 0x0A) chunk))) @ ''\<newline>''"

definition writeSSEEvent :: "string \<Rightarrow> string \<Rightarrow> string" where
  "writeSSEEvent event data = ''event: '' @ event @ ''\<newline>data: '' @ data @ ''\<newline>\<newline>''"

text \<open>
  The polling loop over the builds it reads, one per tick; a failed read is \<open>None\<close>, and the list
  ends when the client goes away. The result is the list of chunks and events written.
\<close>

datatype sse = Chunk string | EndEvent string

fun sse_loop :: "nat \<Rightarrow> build option list \<Rightarrow> sse list" where
  "sse_loop sent [] = []"
| "sse_loop sent (None # polls) = []"
| "sse_loop sent (Some b # polls) =
     (let new = length (b_logs b) > sent;
          sent' = (if new then length (b_logs b) else sent) in
      (if new then [Chunk (drop sent (b_logs b))] else []) @
      (if isTerminalBuild (b_status b) then [EndEvent (b_status b)] else sse_loop sent' polls))"

definition sse_text :: "sse list \<Rightarrow> string" where
  "sse_text es = concat (map (\<lambda>e. case e of Chunk c \<Rightarrow> writeSSE c | EndEvent s \<Rightarrow> writeSSEEvent ''end'' s) es)"

text \<open>
  The poll at each tick reads the database as the other processes left it: \<open>others\<close> are their
  effects between the ticks.
\<close>

fun poll_builds :: "int \<Rightarrow> ('z pg_scheme, unit) act list \<Rightarrow> ('z pg_scheme, build option list) act" where
  "poll_builds i [] = ret []"
| "poll_builds i (other # others) = bnd (BuildByDeployID i) (\<lambda>res. case res of
      Inl _ \<Rightarrow> ret [None]
    | Inr b \<Rightarrow> if isTerminalBuild (b_status b) then ret [Some b]
        else bnd other (\<lambda>_. bnd (poll_builds i others) (\<lambda>bs. ret (Some b # bs))))"

definition handleDeployLogs :: "('z pg_scheme, unit) act list \<Rightarrow> request \<Rightarrow> 'z handler" where
  "handleDeployLogs others r = check (requireDeployAccess r) (\<lambda>d.
     bnd (poll_builds (d_id d) others) (\<lambda>polls. ret (200, StreamBody (sse_text (sse_loop 0 polls)))))"

lemmas deploy_handlers =
  handleCreateDeploy_def handleImageDeploy_def handleListDeploys_def handleGetDeploy_def
  handleRollback_def enqueueDeploy_def enqueuePreview_def handlePush_def handlePullRequest_def
  handleGitHubWebhook_def

section \<open>The database relation\<close>

lemma dedupe_evolves [evolves]:
  assumes "\<And>url. keeps tabs db_evolves (lookup url)"
  shows "keeps tabs db_evolves (dedupe_urls lookup seen out urls)"
  using assms
proof (induction urls arbitrary: seen out)
  case (Cons url urls)
  then show ?case by (simp add: evo.keeps_if evo.keeps_throwing evo.keeps_prod)
qed (simp add: evo.keeps_ret)

lemma match_evolves [evolves]:
  "keeps tabs db_evolves (matchServices c h b)" "keeps tabs db_evolves (matchServicesAnyBranch c h)"
  unfolding matchServices_def matchServicesAnyBranch_def dedupeServices_def
  by (intro dedupe_evolves evolves)+

lemma deploy_handlers_evolve [evolves]:
  "keeps tabs db_evolves (handleCreateDeploy r)" "keeps tabs db_evolves (handleImageDeploy r)"
  "keeps tabs db_evolves (handleListDeploys r)" "keeps tabs db_evolves (handleGetDeploy r)"
  "keeps tabs db_evolves (handleRollback r)" "keeps tabs db_evolves (handlePush p)"
  "keeps tabs db_evolves (handlePullRequest q)"
  "keeps tabs db_evolves (handleGitHubWebhook cr hk s r)"
  unfolding deploy_handlers Let_def by (intro evo_rules evolves)+

lemma poll_builds_evolve:
  assumes "\<And>m. m \<in> set others \<Longrightarrow> keeps tabs db_evolves m"
  shows "keeps tabs db_evolves (poll_builds i others)"
  using assms
proof (induction others)
  case (Cons m ms)
  then show ?case unfolding poll_builds.simps by (intro evo_rules evolves) simp_all
qed (simp add: evo.keeps_ret)

end
