(* ===== verification/Api_Router.thy ===== *)
theory Api_Router
  imports Api_Deploys
begin

text \<open>
  \<open>Router\<close> of \<open>internal/api/server.go\<close>: the table of routes in the order of the source, the
  matching of a request against it, and the middlewares around the authenticated group. The
  lemmas lift what was proved of the handlers to every request the server can receive.
\<close>

record 'z server =
  srv_crypto :: crypto
  srv_hooks :: hooks
  srv_github :: github
  srv_reader :: reader
  srv_webhook_secret :: string
  srv_gh_client_id :: string
  srv_gh_client_secret :: string
  srv_base_domain :: string
  srv_ttl :: int
  srv_others :: "('z pg_scheme, unit) act list"

section \<open>The routes\<close>

type_synonym 'z route = "string \<times> string \<times> (request \<Rightarrow> 'z handler)"

definition public_routes :: "'z server \<Rightarrow> 'z route list" where
  "public_routes s =
    [(''GET'', ''/healthz'', \<lambda>_. handleHealth),
     (''POST'', ''/v1/auth/register'', handleRegister (srv_crypto s) (srv_ttl s)),
     (''POST'', ''/v1/auth/login'', handleLogin (srv_crypto s) (srv_ttl s)),
     (''POST'', ''/v1/webhooks/github'',
        handleGitHubWebhook (srv_crypto s) (srv_hooks s) (srv_webhook_secret s))]"

definition account_routes :: "'z server \<Rightarrow> 'z route list" where
  "account_routes s =
    [(''POST'', ''/v1/auth/logout'', handleLogout),
     (''GET'', ''/v1/me'', handleMe),
     (''GET'', ''/v1/audit'', handleListAudit),
     (''GET'', ''/v1/tokens'', handleListTokens),
     (''POST'', ''/v1/tokens'', handleCreateToken (srv_crypto s)),
     (''DELETE'', ''/v1/tokens/{tokenID}'', handleDeleteToken),
     (''GET'', ''/v1/orgs'', handleListOrgs),
     (''POST'', ''/v1/orgs'', handleCreateOrg)]"

definition org_routes :: "'z server \<Rightarrow> 'z route list" where
  "org_routes s =
    [(''PATCH'', ''/v1/orgs/{orgID}'', handleUpdateOrg),
     (''DELETE'', ''/v1/orgs/{orgID}'', handleDeleteOrg),
     (''GET'', ''/v1/orgs/{orgID}/registry-credentials'', handleListRegistryCreds),
     (''POST'', ''/v1/orgs/{orgID}/registry-credentials'', handleAddRegistryCred),
     (''DELETE'', ''/v1/orgs/{orgID}/registry-credentials/{credID}'', handleDeleteRegistryCred),
     (''GET'', ''/v1/orgs/{orgID}/github'',
        handleGithubStatus (srv_gh_client_id s) (srv_gh_client_secret s)),
     (''POST'', ''/v1/orgs/{orgID}/github/connect'',
        handleGithubConnect (srv_github s) (srv_gh_client_id s) (srv_gh_client_secret s)),
     (''GET'', ''/v1/orgs/{orgID}/github/repos'', handleGithubRepos (srv_github s)),
     (''DELETE'', ''/v1/orgs/{orgID}/github'', handleGithubDisconnect),
     (''GET'', ''/v1/orgs/{orgID}/members'', handleListMembers),
     (''POST'', ''/v1/orgs/{orgID}/members'', handleAddMember),
     (''PATCH'', ''/v1/orgs/{orgID}/members/{userID}'', handleSetMemberRole),
     (''DELETE'', ''/v1/orgs/{orgID}/members/{userID}'', handleRemoveMember),
     (''GET'', ''/v1/orgs/{orgID}/projects'', handleListProjects),
     (''POST'', ''/v1/orgs/{orgID}/projects'', handleCreateProject)]"

definition project_routes :: "'z server \<Rightarrow> 'z route list" where
  "project_routes s =
    [(''GET'', ''/v1/projects/{projectID}'', handleGetProject),
     (''PATCH'', ''/v1/projects/{projectID}'', handleUpdateProject),
     (''DELETE'', ''/v1/projects/{projectID}'', handleDeleteProject),
     (''GET'', ''/v1/projects/{projectID}/services'', handleListServices),
     (''POST'', ''/v1/projects/{projectID}/services'', handleCreateService),
     (''GET'', ''/v1/projects/{projectID}/status'', handleProjectStatus),
     (''GET'', ''/v1/projects/{projectID}/databases'', handleListDatabases),
     (''POST'', ''/v1/projects/{projectID}/databases'', handleCreateDatabase)]"

definition service_routes :: "'z server \<Rightarrow> 'z route list" where
  "service_routes s =
    [(''GET'', ''/v1/services/{serviceID}'', handleGetService (srv_base_domain s)),
     (''GET'', ''/v1/services/{serviceID}/deploys'', handleListDeploys),
     (''POST'', ''/v1/services/{serviceID}/deploys'', handleCreateDeploy),
     (''POST'', ''/v1/services/{serviceID}/image-deploys'', handleImageDeploy),
     (''GET'', ''/v1/services/{serviceID}/runtime-logs'', handleRuntimeLogs (srv_reader s)),
     (''GET'', ''/v1/services/{serviceID}/metrics'', handleMetrics (srv_reader s)),
     (''GET'', ''/v1/services/{serviceID}/usage'', handleServiceUsage),
     (''GET'', ''/v1/services/{serviceID}/env'', handleListEnv),
     (''POST'', ''/v1/services/{serviceID}/env'', handleSetEnv),
     (''DELETE'', ''/v1/services/{serviceID}/env/{key}'', handleDeleteEnv),
     (''GET'', ''/v1/services/{serviceID}/domains'', handleListDomains),
     (''POST'', ''/v1/services/{serviceID}/domains'', handleAddDomain),
     (''DELETE'', ''/v1/services/{serviceID}/domains/{domain}'', handleDeleteDomain),
     (''POST'', ''/v1/services/{serviceID}/scale'', handleScale),
     (''POST'', ''/v1/services/{serviceID}/health'', handleSetHealth),
     (''POST'', ''/v1/services/{serviceID}/disk'', handleAttachDisk),
     (''DELETE'', ''/v1/services/{serviceID}/disk'', handleDetachDisk),
     (''POST'', ''/v1/services/{serviceID}/suspend'', handleSuspend),
     (''POST'', ''/v1/services/{serviceID}/resume'', handleResume)]"

definition deploy_routes :: "'z server \<Rightarrow> 'z route list" where
  "deploy_routes s =
    [(''GET'', ''/v1/deploys/{deployID}'', handleGetDeploy),
     (''GET'', ''/v1/deploys/{deployID}/logs'', handleDeployLogs (srv_others s)),
     (''POST'', ''/v1/deploys/{deployID}/rollback'', handleRollback)]"

definition database_routes :: "'z server \<Rightarrow> 'z route list" where
  "database_routes s =
    [(''GET'', ''/v1/databases/{databaseID}'', handleGetDatabase),
     (''GET'', ''/v1/databases/{databaseID}/connection'', handleDatabaseConnection),
     (''POST'', ''/v1/databases/{databaseID}/scale'', handleScaleDatabase),
     (''GET'', ''/v1/databases/{databaseID}/backups'', handleListBackups (srv_reader s)),
     (''POST'', ''/v1/databases/{databaseID}/backups'', handleTriggerBackup),
     (''DELETE'', ''/v1/databases/{databaseID}'', handleDeleteDatabase)]"

definition private_routes :: "'z server \<Rightarrow> 'z route list" where
  "private_routes s = account_routes s @ org_routes s @ project_routes s @ service_routes s @
     deploy_routes s @ database_routes s"

section \<open>Matching and serving\<close>

text \<open>A segment in braces is a parameter, which matches any one segment of the path.\<close>

definition is_param :: "string \<Rightarrow> bool" where
  "is_param seg \<longleftrightarrow> seg \<noteq> '''' \<and> hd seg = CHR ''{''"

fun match_segs :: "string list \<Rightarrow> string list \<Rightarrow> (string \<times> string) list option" where
  "match_segs [] [] = Some []"
| "match_segs (p # ps) (s # ss) =
     (if is_param p then map_option (\<lambda>m. (butlast (tl p), s) # m) (match_segs ps ss)
      else if p = s then match_segs ps ss else None)"
| "match_segs _ _ = None"

definition match_route :: "string \<Rightarrow> string \<Rightarrow> (string \<times> string) list option" where
  "match_route pat path = match_segs (split_on CHR ''/'' pat) (split_on CHR ''/'' path)"

definition with_params :: "request \<Rightarrow> (string \<times> string) list \<Rightarrow> request" where
  "with_params r ps = r\<lparr>rq_param := (\<lambda>k. case map_of ps k of None \<Rightarrow> '''' | Some v \<Rightarrow> v)\<rparr>"

fun find_route :: "'z route list \<Rightarrow> request \<Rightarrow> ((request \<Rightarrow> 'z handler) \<times> request) option" where
  "find_route [] r = None"
| "find_route ((meth, pat, h) # rest) r =
     (case (if rq_method r = meth then match_route pat (rq_path r) else None) of
        Some ps \<Rightarrow> Some (h, with_params r ps)
      | None \<Rightarrow> find_route rest r)"

definition path_known :: "'z route list \<Rightarrow> request \<Rightarrow> bool" where
  "path_known routes r \<longleftrightarrow> list_ex (\<lambda>(_, pat, _). match_route pat (rq_path r) \<noteq> None) routes"

definition serve :: "'z server \<Rightarrow> request \<Rightarrow> 'z handler" where
  "serve s r = (case find_route (public_routes s) r of
      Some (h, r') \<Rightarrow> h r'
    | None \<Rightarrow> (case find_route (private_routes s) r of
        Some (h, r') \<Rightarrow> Middleware (srv_crypto s) (auditMiddleware h) r'
      | None \<Rightarrow> if path_known (public_routes s @ private_routes s) r
          then ret (405, NoBody) else ret (404, NoBody)))"

lemma find_route_in:
  "find_route rs r = Some (h, r') \<Longrightarrow> \<exists>meth pat ps. (meth, pat, h) \<in> set rs \<and> rq_method r = meth \<and>
     match_route pat (rq_path r) = Some ps \<and> r' = with_params r ps"
  by (induction rs r rule: find_route.induct) (auto split: option.splits if_splits)

lemmas route_tables =
  public_routes_def private_routes_def account_routes_def org_routes_def project_routes_def
  service_routes_def deploy_routes_def database_routes_def

section \<open>Every request respects the database relation\<close>

lemma log_route_evolves:
  "(\<And>m. m \<in> set ms \<Longrightarrow> keeps tabs db_evolves m) \<Longrightarrow> keeps tabs db_evolves (handleDeployLogs ms r)"
  unfolding handleDeployLogs_def by (intro evo_rules evolves poll_builds_evolve)

lemma public_evolve: "(meth, pat, h) \<in> set (public_routes s) \<Longrightarrow> keeps tabs db_evolves (h r)"
  unfolding public_routes_def by (auto intro: evolves)

lemma private_evolve:
  assumes "(meth, pat, h) \<in> set (private_routes s)"
    and "\<And>m. m \<in> set (srv_others s) \<Longrightarrow> keeps tabs db_evolves m"
  shows "keeps tabs db_evolves (h r)"
proof -
  have "list_all (\<lambda>(_, _, h). keeps tabs db_evolves (h r)) (private_routes s)"
    unfolding private_routes_def account_routes_def org_routes_def project_routes_def
      service_routes_def deploy_routes_def database_routes_def
    by (simp add: evolves log_route_evolves [OF assms(2)])
  then show ?thesis using assms(1) by (fastforce simp: list_all_iff)
qed

lemma serve_evolves:
  assumes "\<And>m. m \<in> set (srv_others s) \<Longrightarrow> keeps tabs db_evolves m"
  shows "keeps tabs db_evolves (serve s r)"
  unfolding serve_def
proof (cases "find_route (public_routes s) r")
  case None
  show "keeps tabs db_evolves (case find_route (public_routes s) r of
      Some (h, r') \<Rightarrow> h r'
    | None \<Rightarrow> (case find_route (private_routes s) r of
        Some (h, r') \<Rightarrow> Middleware (srv_crypto s) (auditMiddleware h) r'
      | None \<Rightarrow> if path_known (public_routes s @ private_routes s) r
          then ret (405, NoBody) else ret (404, NoBody)))"
  proof (cases "find_route (private_routes s) r")
    case (Some hr)
    obtain h r' where hr: "hr = (h, r')" by fastforce
    have "keeps tabs db_evolves (h x)" for x
      using find_route_in [OF Some [unfolded hr]] private_evolve assms by blast
    then show ?thesis using None Some hr by (simp add: middleware_evolves)
  qed (simp add: None evo.keeps_ret)
next
  case (Some hr)
  obtain h r' where hr: "hr = (h, r')" by fastforce
  show "keeps tabs db_evolves (case find_route (public_routes s) r of
      Some (h, r') \<Rightarrow> h r'
    | None \<Rightarrow> (case find_route (private_routes s) r of
        Some (h, r') \<Rightarrow> Middleware (srv_crypto s) (auditMiddleware h) r'
      | None \<Rightarrow> if path_known (public_routes s @ private_routes s) r
          then ret (405, NoBody) else ret (404, NoBody)))"
    using find_route_in [OF Some [unfolded hr]] public_evolve Some hr by auto
qed

section \<open>Who may reach what\<close>

lemma list_all_Nil: "list_all P [] = True"
  and list_all_Cons: "list_all P (x # xs) = (P x \<and> list_all P xs)"
  by simp_all

text \<open>The org that owns what the first parameter of a request names.\<close>

definition owning_org :: "string \<Rightarrow> request \<Rightarrow> tables \<Rightarrow> int option" where
  "owning_org root r t =
     (if root = ''orgs'' then pathInt r ''orgID''
      else if root = ''projects'' then
        Option.bind (pathInt r ''projectID'') (\<lambda>i. map_option p_org (project_at i t))
      else if root = ''services'' then
        Option.bind (pathInt r ''serviceID'') (\<lambda>i. map_option snd (service_org i t))
      else if root = ''deploys'' then
        Option.bind (pathInt r ''deployID'') (\<lambda>i. Option.bind (deploy_at i t)
          (\<lambda>d. map_option snd (service_org (d_service d) t)))
      else if root = ''databases'' then
        Option.bind (pathInt r ''databaseID'') (\<lambda>i. map_option snd (database_org i t))
      else None)"

definition denied :: "string \<Rightarrow> request \<Rightarrow> tables \<Rightarrow> bool" where
  "denied root r t \<longleftrightarrow> (\<forall>i. owning_org root r t = Some i \<longrightarrow> \<not> may_access r t i)"

text \<open>A handler that refuses whoever is denied, and changes nothing then.\<close>

definition refuses :: "string \<Rightarrow> request \<Rightarrow> 'z handler \<Rightarrow> bool" where
  "refuses root r h \<longleftrightarrow> (\<forall>w. denied root r (tabs w) \<longrightarrow>
     client_error (fst (h w)) \<and> tabs (snd (h w)) = tabs w \<and> bus (snd (h w)) = bus w)"

lemma refuses_check:
  assumes "access_guard g P" "\<And>t a. denied root r t \<Longrightarrow> \<not> P t a"
  shows "refuses root r (check g k)"
  unfolding refuses_def using access_guard.check_refused [OF assms(1)] assms(2)
  by (metis prod.collapse)

lemma refuses_error:
  "400 \<le> st \<Longrightarrow> st \<le> 499 \<Longrightarrow> refuses root r (writeError st m)"
  by (simp add: refuses_def writeError_def writeJSON_def ret_def)

lemma refuses_param:
  assumes "x = None \<Longrightarrow> refuses root r h" "\<And>i. x = Some i \<Longrightarrow> refuses root r (k i)"
  shows "refuses root r (case x of None \<Rightarrow> h | Some i \<Rightarrow> k i)"
  using assms by (cases x) auto

lemma has_role_may_access:
  "member_role u i t = Some role \<Longrightarrow> AtLeast role Admin \<Longrightarrow> CanWrite role"
  by (auto simp: CanWrite_iff)

lemma org_refusals:
  "refuses ''orgs'' r (check (requireOrgMember r) k)"
  "pathInt r ''orgID'' = Some i \<Longrightarrow> refuses ''orgs'' r (check (authorizeOrg r i) k2)"
  "pathInt r ''orgID'' = Some i \<Longrightarrow> refuses ''orgs'' r (check (requireOrgRole r i Admin) k2)"
  "pathInt r ''orgID'' = Some i \<Longrightarrow> refuses ''orgs'' r (check (requireOrgRole r i Owner) k2)"
  by (rule refuses_check [OF org_member.access_guard_axioms]
      refuses_check [OF authorize.access_guard_axioms] refuses_check [OF org_role.access_guard_axioms];
      auto simp: denied_def owning_org_def may_access_def CanWrite_iff)+

lemma resource_refusals:
  "refuses ''projects'' r (check (requireProjectAccess r) k)"
  "refuses ''services'' r (check (requireServiceAccess r) k2)"
  "refuses ''services'' r (check (requireServiceWithOrg r) k3)"
  "refuses ''deploys'' r (check (requireDeployAccess r) k4)"
  "refuses ''databases'' r (check (requireDatabaseAccess r) k5)"
  by (rule refuses_check [OF project_access.access_guard_axioms]
      refuses_check [OF service_access.access_guard_axioms]
      refuses_check [OF service_with_org.access_guard_axioms]
      refuses_check [OF deploy_access.access_guard_axioms]
      refuses_check [OF database_access.access_guard_axioms];
      auto simp: denied_def owning_org_def)+

lemma refuses_attempt:
  fixes m :: "('z pg_scheme, 'e + 'a) act"
  assumes "readonly m" "400 \<le> st" "st \<le> 499"
    and "\<And>a w w'. m w = (Inr a, w') \<Longrightarrow> denied root r (tabs w) \<Longrightarrow>
      client_error (fst (k a w')) \<and> tabs (snd (k a w')) = tabs w' \<and> bus (snd (k a w')) = bus w'"
  shows "refuses root r (attempt m (\<lambda>_. writeError st msg) k)"
  unfolding refuses_def
proof (intro allI impI)
  fix w :: "'z pg_scheme"
  assume d: "denied root r (tabs w)"
  obtain res w1 where 1: "m w = (res, w1)" by fastforce
  have t: "tabs w1 = tabs w" "bus w1 = bus w" using readonlyD [OF assms(1) 1] by simp_all
  show "client_error (fst (attempt m (\<lambda>_. writeError st msg) k w)) \<and>
    tabs (snd (attempt m (\<lambda>_. writeError st msg) k w)) = tabs w \<and>
    bus (snd (attempt m (\<lambda>_. writeError st msg) k w)) = bus w"
    using assms(2,3) assms(4) [of w _ w1] d 1 t
    by (cases res) (simp_all add: attempt_def writeError_def writeJSON_def ret_def)
qed

lemma refuses_project_lookup:
  assumes i: "pathInt r ''projectID'' = Some i"
    and guard: "\<And>p. access_guard (g p) (P p)"
    and grants: "\<And>p t a. P p t a \<Longrightarrow> may_access r t (p_org p)"
  shows "refuses ''projects'' r (attempt (ProjectByID i) (\<lambda>_. writeError 404 ''project not found'')
     (\<lambda>p. check (g p) (k p)))"
proof (rule refuses_attempt)
  fix p and w w' :: "'a pg_scheme"
  assume m: "ProjectByID i w = (Inr p, w')" and d: "denied ''projects'' r (tabs w)"
  have t: "tabs w' = tabs w" using readonlyD [OF lookups_readonly(1) m] by simp
  have "\<not> may_access r (tabs w') (p_org p)"
    using d lookups_found(1) [OF m] i t by (auto simp: denied_def owning_org_def)
  then have "\<not> P p (tabs w') a" for a using grants by blast
  from access_guard.check_refused [OF guard this]
  show "client_error (fst (check (g p) (k p) w')) \<and> tabs (snd (check (g p) (k p) w')) = tabs w' \<and>
      bus (snd (check (g p) (k p) w')) = bus w'"
    by (metis prod.collapse)
qed simp_all

lemma project_lookup_refusals:
  assumes "pathInt r ''projectID'' = Some i"
  shows "refuses ''projects'' r (attempt (ProjectByID i) (\<lambda>_. writeError 404 ''project not found'')
      (\<lambda>p. check (authorizeOrg r (p_org p)) (k p)))"
    "refuses ''projects'' r (attempt (ProjectByID i) (\<lambda>_. writeError 404 ''project not found'')
      (\<lambda>p. check (requireOrgRole r (p_org p) Admin) (k2 p)))"
  by (rule refuses_project_lookup [OF assms authorize.access_guard_axioms]
      refuses_project_lookup [OF assms org_role.access_guard_axioms];
      auto simp: may_access_def CanWrite_iff)+

lemma member_param_refusals:
  "refuses ''orgs'' r (check (memberParams r) (\<lambda>(i, u). check (requireOrgRole r i Admin) (k i u)))"
  unfolding memberParams_def
proof (cases "pathInt r ''orgID''"; cases "pathInt r ''userID''")
  fix i u assume "pathInt r ''orgID'' = Some i" "pathInt r ''userID'' = Some u"
  then show "refuses ''orgs'' r (check (case pathInt r ''orgID'' of None \<Rightarrow> reject 400 ''invalid org id''
      | Some orgID \<Rightarrow> (case pathInt r ''userID'' of None \<Rightarrow> reject 400 ''invalid user id''
        | Some userID \<Rightarrow> ret (Inr (orgID, userID))))
     (\<lambda>(i, u). check (requireOrgRole r i Admin) (k i u)))"
    using org_refusals(3) [of r i "k i u"]
    by (simp add: refuses_def check_def [of "ret _"] attempt_def ret_def)
qed (simp_all add: refuses_def check_def reject_def attempt_def ret_def)

lemmas refusals =
  org_refusals resource_refusals project_lookup_refusals member_param_refusals

lemmas refuse_rules = refuses_param refuses_error refusals

lemma org_routes_refuse: "(meth, pat, h) \<in> set (org_routes s) \<Longrightarrow> refuses ''orgs'' r (h r)"
proof -
  have "list_all (\<lambda>(_, _, h). refuses ''orgs'' r (h r)) (org_routes s)"
    unfolding org_routes_def handleUpdateOrg_def handleDeleteOrg_def handleListRegistryCreds_def
      handleAddRegistryCred_def handleDeleteRegistryCred_def handleGithubStatus_def
      handleGithubConnect_def handleGithubRepos_def handleGithubDisconnect_def
      handleListMembers_def handleAddMember_def handleSetMemberRole_def handleRemoveMember_def
      handleListProjects_def handleCreateProject_def list_all_Nil list_all_Cons prod.case
    by (intro conjI refuse_rules TrueI; simp)
  then show "(meth, pat, h) \<in> set (org_routes s) \<Longrightarrow> refuses ''orgs'' r (h r)"
    by (fastforce simp: list_all_iff)
qed

lemma project_routes_refuse: "(meth, pat, h) \<in> set (project_routes s) \<Longrightarrow> refuses ''projects'' r (h r)"
proof -
  have "list_all (\<lambda>(_, _, h). refuses ''projects'' r (h r)) (project_routes s)"
    unfolding project_routes_def handleGetProject_def handleUpdateProject_def
      handleDeleteProject_def handleListServices_def handleCreateService_def
      handleProjectStatus_def handleListDatabases_def handleCreateDatabase_def
      list_all_Nil list_all_Cons prod.case
    by (intro conjI refuse_rules TrueI; simp)
  then show "(meth, pat, h) \<in> set (project_routes s) \<Longrightarrow> refuses ''projects'' r (h r)"
    by (fastforce simp: list_all_iff)
qed

lemma service_routes_refuse: "(meth, pat, h) \<in> set (service_routes s) \<Longrightarrow> refuses ''services'' r (h r)"
proof -
  have "list_all (\<lambda>(_, _, h). refuses ''services'' r (h r)) (service_routes s)"
    unfolding service_routes_def handleGetService_def handleListDeploys_def
      handleCreateDeploy_def handleImageDeploy_def handleRuntimeLogs_def handleMetrics_def
      handleServiceUsage_def handleListEnv_def handleSetEnv_def handleDeleteEnv_def
      handleListDomains_def handleAddDomain_def handleDeleteDomain_def handleScale_def
      handleSetHealth_def handleAttachDisk_def handleDetachDisk_def handleSuspend_def
      handleResume_def setSuspended_def list_all_Nil list_all_Cons prod.case
    by (intro conjI refuse_rules TrueI)
  then show "(meth, pat, h) \<in> set (service_routes s) \<Longrightarrow> refuses ''services'' r (h r)"
    by (fastforce simp: list_all_iff)
qed

lemma deploy_routes_refuse: "(meth, pat, h) \<in> set (deploy_routes s) \<Longrightarrow> refuses ''deploys'' r (h r)"
proof -
  have "list_all (\<lambda>(_, _, h). refuses ''deploys'' r (h r)) (deploy_routes s)"
    unfolding deploy_routes_def handleGetDeploy_def handleDeployLogs_def handleRollback_def
      list_all_Nil list_all_Cons prod.case
    by (intro conjI refuse_rules TrueI)
  then show "(meth, pat, h) \<in> set (deploy_routes s) \<Longrightarrow> refuses ''deploys'' r (h r)"
    by (fastforce simp: list_all_iff)
qed

lemma database_routes_refuse: "(meth, pat, h) \<in> set (database_routes s) \<Longrightarrow> refuses ''databases'' r (h r)"
proof -
  have "list_all (\<lambda>(_, _, h). refuses ''databases'' r (h r)) (database_routes s)"
    unfolding database_routes_def handleGetDatabase_def handleDatabaseConnection_def
      handleScaleDatabase_def handleListBackups_def handleTriggerBackup_def
      handleDeleteDatabase_def list_all_Nil list_all_Cons prod.case
    by (intro conjI refuse_rules TrueI)
  then show "(meth, pat, h) \<in> set (database_routes s) \<Longrightarrow> refuses ''databases'' r (h r)"
    by (fastforce simp: list_all_iff)
qed

definition scoped_routes :: "string \<Rightarrow> 'z server \<Rightarrow> 'z route list" where
  "scoped_routes root s =
     (if root = ''orgs'' then org_routes s else if root = ''projects'' then project_routes s
      else if root = ''services'' then service_routes s
      else if root = ''deploys'' then deploy_routes s
      else if root = ''databases'' then database_routes s else [])"



section \<open>Without a valid token\<close>

lemma resolve_readonly_error:
  assumes "resolve cr tok w = (Inl e, w')"
  shows "tabs w' = tabs w \<and> bus w' = bus w"
proof (cases "has_prefix tok APITokenPrefix")
  case True
  obtain x w1 where 1: "UserByAPIToken (HashAPIToken cr tok) w = (x, w1)" by fastforce
  have "w' = w1" using assms True 1 by (auto simp: resolve_def act_run split: sum.splits prod.splits)
  then show ?thesis using pg_read_frame [OF 1 [unfolded UserByAPIToken_def]] by simp
next
  case False
  then show ?thesis using assms pg_read_frame [of _ w "Inl e" w']
    unfolding resolve_def UserBySession_def by auto
qed

text \<open>C17.
  A request to a private route whose bearer token is missing or does not resolve to a user is
  answered with 401, and neither the database nor the controller learns of it.\<close>

theorem unauthenticated_refused:
  assumes "find_route (public_routes s) r = None" "find_route (private_routes s) r = Some (h, r')"
    and "bearerToken r = '''' \<or> (\<exists>e. fst (resolve (srv_crypto s) (bearerToken r) w) = Inl e)"
    and "serve s r w = (resp, w')"
  shows "resp = (401, ErrorBody ''unauthorized'') \<and> tabs w' = tabs w \<and> bus w' = bus w"
proof -
  have same: "bearerToken r' = bearerToken r"
    using find_route_in [OF assms(2)] by (auto simp: with_params_def bearerToken_def)
  have run: "Middleware (srv_crypto s) (auditMiddleware h) r' w = (resp, w')"
    using assms(1,2,4) by (simp add: serve_def)
  show ?thesis
  proof (cases "bearerToken r = ''''")
    case True
    then show ?thesis using run same
      by (auto simp: Middleware_def Let_def writeError_def writeJSON_def ret_def)
  next
    case False
    then obtain e w1 where 1: "resolve (srv_crypto s) (bearerToken r) w = (Inl e, w1)"
      using assms(3) by (metis prod.collapse)
    show ?thesis using run same False 1 resolve_readonly_error [OF 1]
      by (auto simp: Middleware_def Let_def attempt_def writeError_def writeJSON_def ret_def)
  qed
qed

definition demo_server :: "unit server" where
  "demo_server = \<lparr>srv_crypto = demo_crypto,
     srv_hooks = \<lparr>ParsePush = (\<lambda>_. None), ParsePullRequest = (\<lambda>_. None)\<rparr>,
     srv_github = \<lparr>oauth_post = (\<lambda>_ _ _. None), api_user = (\<lambda>_. None), api_repos = (\<lambda>_ _. None)\<rparr>,
     srv_reader = \<lparr>stream_logs = (\<lambda>_ _. None), pod_metrics = (\<lambda>_ _. None), list_backups = (\<lambda>_ _. None)\<rparr>,
     srv_webhook_secret = ''s3cret'', srv_gh_client_id = '''', srv_gh_client_secret = '''',
     srv_base_domain = ''uran.app'', srv_ttl = 3600, srv_others = []\<rparr>"

theorem unauthenticated_refused_witness:
  "\<exists>resp w'. serve demo_server ((demo_request ''GET'' [] empty_body)\<lparr>rq_path := ''/v1/me''\<rparr>) demo_pg
     = (resp, w') \<and> resp = (401, ErrorBody ''unauthorized'') \<and> tabs w' = demo_tables"
proof -
  let ?r = "(demo_request ''GET'' [] empty_body)\<lparr>rq_path := ''/v1/me''\<rparr>"
  have "(case find_route (public_routes demo_server) ?r of None \<Rightarrow> True | Some _ \<Rightarrow> False)" by code_simp
  then have 1: "find_route (public_routes demo_server) ?r = None" by (simp split: option.splits)
  have "(case find_route (private_routes demo_server) ?r of None \<Rightarrow> False | Some _ \<Rightarrow> True)" by code_simp
  then obtain h r' where 2: "find_route (private_routes demo_server) ?r = Some (h, r')"
    by (auto split: option.splits)
  have 3: "bearerToken ?r = ''''" by code_simp
  obtain resp w' where run: "serve demo_server ?r demo_pg = (resp, w')" by fastforce
  show ?thesis using unauthenticated_refused [OF 1 2 _ run] 3 run by auto
qed

end
