(* ===== verification/Api_Wire.thy ===== *)
theory Api_Wire
  imports Api_Router Cli_Client
begin

text \<open>
  The wire format of the API: the JSON of its responses, after the field tags of the structs in
  \<open>internal/store\<close>, \<open>internal/api\<close>, \<open>internal/git\<close> and \<open>internal/k8s\<close>, and the struct each handler decodes its
  request body into (\<open>readJSON\<close>). An empty slice that was never appended to is \<open>null\<close>.

  How a time prints (RFC 3339), and how a floating-point number of core seconds does, given as
  milli-core seconds, are parameters.
\<close>

record wire =
  wi_time :: "int \<Rightarrow> string"
  wi_float :: "int \<Rightarrow> string"

section \<open>Responses\<close>

definition slice_json :: "('a \<Rightarrow> json) \<Rightarrow> 'a list \<Rightarrow> json" where
  "slice_json f xs = (if xs = [] then JNull else JArr (map f xs))"

definition when_set :: "string \<Rightarrow> string \<Rightarrow> (string \<times> json) list" where
  "when_set k s = (if s = '''' then [] else [(k, JStr s)])"

definition time_json :: "wire \<Rightarrow> int \<Rightarrow> json" where
  "time_json wi t = JStr (wi_time wi t)"

definition time_option_json :: "wire \<Rightarrow> int option \<Rightarrow> json" where
  "time_option_json wi t = (case t of None \<Rightarrow> JNull | Some t \<Rightarrow> time_json wi t)"

definition user_json :: "wire \<Rightarrow> user_view \<Rightarrow> json" where
  "user_json wi u = JObj [(''id'', JInt (uv_id u)), (''email'', JStr (uv_email u)), (''name'', JStr (uv_name u)),
     (''created_at'', time_json wi (uv_created u))]"

definition org_json :: "wire \<Rightarrow> org \<Rightarrow> json" where
  "org_json wi x = JObj [(''id'', JInt (o_id x)), (''name'', JStr (o_name x)), (''slug'', JStr (o_slug x)),
     (''created_at'', time_json wi (o_created x))]"

definition project_json :: "wire \<Rightarrow> project \<Rightarrow> json" where
  "project_json wi p = JObj [(''id'', JInt (p_id p)), (''org_id'', JInt (p_org p)), (''name'', JStr (p_name p)),
     (''slug'', JStr (p_slug p)), (''created_at'', time_json wi (p_created p))]"

definition service_fields :: "wire \<Rightarrow> service \<Rightarrow> (string \<times> json) list" where
  "service_fields wi s =
     [(''id'', JInt (sv_id s)), (''project_id'', JInt (sv_project s)), (''name'', JStr (sv_name s)),
      (''slug'', JStr (sv_slug s)), (''type'', JStr (sv_type s)), (''repo_url'', JStr (sv_repo s)),
      (''branch'', JStr (sv_branch s))] @ when_set ''schedule'' (sv_schedule s) @
     [(''replicas'', JInt (sv_replicas s)), (''instance_size'', JStr (sv_size s))] @
     when_set ''health_path'' (sv_health s) @
     [(''min_replicas'', JInt (sv_min s)), (''max_replicas'', JInt (sv_max s))] @
     when_set ''disk_size'' (sv_disk_size s) @ when_set ''disk_path'' (sv_disk_path s) @
     [(''suspended'', JBool (sv_suspended s)), (''created_at'', time_json wi (sv_created s))]"

definition detail_json :: "wire \<Rightarrow> service \<Rightarrow> string \<Rightarrow> string \<Rightarrow> json" where
  "detail_json wi s url host = JObj (service_fields wi s @ when_set ''url'' url @ when_set ''internal_host'' host)"

definition status_json :: "service_status \<Rightarrow> json" where
  "status_json s = JObj [(''service_id'', JInt (ss_service s)), (''name'', JStr (ss_name s)),
     (''type'', JStr (ss_type s)), (''suspended'', JBool (ss_suspended s)), (''status'', JStr (ss_status s))]"

definition member_json :: "member_row \<Rightarrow> json" where
  "member_json m = JObj [(''user_id'', JInt (mr_user m)), (''email'', JStr (mr_email m)), (''name'', JStr (mr_name m)),
     (''role'', JStr (mr_role m))]"

definition token_fields :: "wire \<Rightarrow> api_token_meta \<Rightarrow> (string \<times> json) list" where
  "token_fields wi t = [(''id'', JInt (tm_id t)), (''name'', JStr (tm_name t)), (''prefix'', JStr (tm_prefix t)),
     (''created_at'', time_json wi (tm_created t)), (''last_used_at'', time_option_json wi (tm_last_used t))]"

definition audit_json :: "wire \<Rightarrow> audit_entry \<Rightarrow> json" where
  "audit_json wi e = JObj [(''id'', JInt (ae_id e)), (''method'', JStr (ae_method e)), (''path'', JStr (ae_path e)),
     (''status'', JInt (ae_status e)), (''created_at'', time_json wi (ae_created e))]"

definition deploy_json :: "wire \<Rightarrow> deploy \<Rightarrow> json" where
  "deploy_json wi d = JObj ([(''id'', JInt (d_id d)), (''service_id'', JInt (d_service d)), (''status'', JStr (d_status d)),
     (''commit_sha'', JStr (d_commit d)), (''image'', JStr (d_image d)), (''kind'', JStr (d_kind d))] @
     (case d_pr d of None \<Rightarrow> [] | Some n \<Rightarrow> [(''pr_number'', JInt n)]) @
     [(''created_at'', time_json wi (d_created d)), (''updated_at'', time_json wi (d_updated d))])"

definition brief_json :: "deploy_brief \<Rightarrow> json" where
  "brief_json b = JObj [(''deploy_id'', JInt (br_deploy b)), (''service_id'', JInt (br_service b)),
     (''commit_sha'', JStr (br_commit b))]"

definition env_json :: "env_var \<Rightarrow> json" where
  "env_json e = JObj [(''key'', JStr (e_key e)), (''value'', JStr (e_value e)), (''secret'', JBool (e_secret e)),
     (''build_time'', JBool (e_build_time e))]"

definition domain_json :: "custom_domain \<Rightarrow> json" where
  "domain_json d = JObj [(''id'', JInt (cd_id d)), (''service_id'', JInt (cd_service d)), (''domain'', JStr (cd_domain d))]"

definition cred_json :: "cred_view \<Rightarrow> json" where
  "cred_json c = JObj [(''id'', JInt (cv_id c)), (''registry'', JStr (cv_registry c)), (''username'', JStr (cv_username c))]"

definition database_json :: "database_view \<Rightarrow> json" where
  "database_json d = JObj [(''id'', JInt (dv_id d)), (''project_id'', JInt (dv_project d)), (''name'', JStr (dv_name d)),
     (''slug'', JStr (dv_slug d)), (''engine'', JStr (dv_engine d)), (''status'', JStr (dv_status d)),
     (''tier'', JStr (dv_tier d)), (''instances'', JInt (dv_instances d)), (''min_instances'', JInt (dv_min d)),
     (''max_instances'', JInt (dv_max d)), (''size'', JStr (dv_size d)), (''storage'', JStr (dv_storage d)),
     (''pooling'', JBool (dv_pooling d)), (''backups'', JBool (dv_backups d))]"

definition backup_json :: "backup_info \<Rightarrow> json" where
  "backup_json b = JObj ([(''name'', JStr (bi_name b)), (''phase'', JStr (bi_phase b))] @
     when_set ''started_at'' (bi_started b) @ when_set ''stopped_at'' (bi_stopped b))"

definition sample_json :: "wire \<Rightarrow> usage_sample \<Rightarrow> json" where
  "sample_json wi u = JObj [(''cpu_millicores'', JInt (us_cpu u)), (''memory_bytes'', JInt (us_mem u)),
     (''sampled_at'', time_json wi (us_at u))]"

definition metric_json :: "pod_metric \<Rightarrow> json" where
  "metric_json m = JObj [(''pod'', JStr (pm_pod m)), (''cpu_millicores'', JInt (pm_cpu m)),
     (''memory_bytes'', JInt (pm_memory m))]"

definition repo_json :: "repo \<Rightarrow> json" where
  "repo_json r = JObj [(''full_name'', JStr (rp_full_name r)), (''clone_url'', JStr (rp_clone_url r)),
     (''default_branch'', JStr (rp_default_branch r)), (''private'', JBool (rp_private r))]"

text \<open>The body of a response, \<open>None\<close> where it is not JSON.\<close>

fun payload_json :: "wire \<Rightarrow> payload \<Rightarrow> json option" where
  "payload_json wi NoBody = None"
| "payload_json wi (StreamBody s) = None"
| "payload_json wi (ErrorBody msg) = Some (JObj [(''error'', JStr msg)])"
| "payload_json wi HealthBody = Some (JObj [(''status'', JStr ''ok'')])"
| "payload_json wi (IgnoredBody why) = Some (JObj [(''ignored'', JStr why)])"
| "payload_json wi (UserBody u) = Some (user_json wi u)"
| "payload_json wi (AuthBody token u) = Some (JObj [(''token'', JStr token), (''user'', user_json wi u)])"
| "payload_json wi (OrgBody x) = Some (org_json wi x)"
| "payload_json wi (OrgsBody xs) = Some (slice_json (org_json wi) xs)"
| "payload_json wi (ProjectBody p) = Some (project_json wi p)"
| "payload_json wi (ProjectsBody ps) = Some (slice_json (project_json wi) ps)"
| "payload_json wi (ServiceBody s) = Some (JObj (service_fields wi s))"
| "payload_json wi (ServicesBody ss) = Some (slice_json (\<lambda>s. JObj (service_fields wi s)) ss)"
| "payload_json wi (DetailBody s url host) = Some (detail_json wi s url host)"
| "payload_json wi (StatusesBody ss) = Some (slice_json status_json ss)"
| "payload_json wi (MembersBody ms) = Some (slice_json member_json ms)"
| "payload_json wi (MemberBody m) = Some (member_json m)"
| "payload_json wi (TokenBody t token) = Some (JObj (token_fields wi t @ [(''token'', JStr token)]))"
| "payload_json wi (TokensBody ts) = Some (slice_json (\<lambda>t. JObj (token_fields wi t)) ts)"
| "payload_json wi (AuditBody es n lim off) = Some (JObj [(''items'', JArr (map (audit_json wi) es)),
     (''total'', JInt n), (''limit'', JInt lim), (''offset'', JInt off)])"
| "payload_json wi (DeployBody d) = Some (deploy_json wi d)"
| "payload_json wi (DeploysBody ds) = Some (slice_json (deploy_json wi) ds)"
| "payload_json wi (WebhookBody n bs) = Some (JObj [(''matched'', JInt n), (''deploys'', slice_json brief_json bs)])"
| "payload_json wi (EnvBody es) = Some (slice_json env_json es)"
| "payload_json wi (DomainBody d) = Some (domain_json d)"
| "payload_json wi (DomainsBody ds) = Some (slice_json domain_json ds)"
| "payload_json wi (CredBody c) = Some (cred_json c)"
| "payload_json wi (CredsBody cs) = Some (slice_json cred_json cs)"
| "payload_json wi (DatabaseBody d) = Some (database_json d)"
| "payload_json wi (DatabasesBody ds) = Some (slice_json database_json ds)"
| "payload_json wi (ConnectionBody kvs) = Some (JObj (map (\<lambda>p. (fst p, JStr (snd p))) (sort_key fst kvs)))"
| "payload_json wi (BackupsBody bs) = Some (slice_json backup_json bs)"
| "payload_json wi (UsageBody us n window cpu memory) = Some (JObj [(''samples'', slice_json (sample_json wi) us),
     (''sample_count'', JInt n), (''window_seconds'', JInt window), (''cpu_core_seconds'', JNum (wi_float wi cpu)),
     (''avg_memory_mb'', JInt memory)])"
| "payload_json wi (GithubBody enabled url account) = Some (JObj (
     (case account of None \<Rightarrow> [] | Some a \<Rightarrow> [(''account'', JStr a)]) @
     (case url of None \<Rightarrow> [] | Some u \<Rightarrow> [(''authorize_url'', JStr u)]) @
     [(''connected'', JBool (account \<noteq> None)), (''enabled'', JBool enabled)]))"
| "payload_json wi (GithubConnectedBody account) =
     Some (JObj [(''account'', JStr account), (''connected'', JBool True)])"
| "payload_json wi (ReposBody rs) = Some (JArr (map repo_json rs))"
| "payload_json wi (MetricsBody ms) = Some (JArr (map metric_json ms))"

text \<open>What is written: \<open>Encode\<close> ends the value with a newline; the router's own 404 has a text.\<close>

definition response_text :: "wire \<Rightarrow> response \<Rightarrow> string" where
  "response_text wi resp = (case snd resp of
      StreamBody s \<Rightarrow> s
    | NoBody \<Rightarrow> if fst resp = 404 then ''404 page not found'' @ [CHR 0x0A] else ''''
    | p \<Rightarrow> (case payload_json wi p of None \<Rightarrow> '''' | Some j \<Rightarrow> json_text j @ [CHR 0x0A]))"

section \<open>Request bodies\<close>

fun set_int32 :: "int setter" where
  "set_int32 (JNum n) old = (case parse_int n of
     Some i \<Rightarrow> if - (2 ^ 31) \<le> i \<and> i < 2 ^ 31 then Some i else None | None \<Rightarrow> None)"
| "set_int32 JNull old = Some old"
| "set_int32 _ old = None"

definition registerReq :: "(string \<times> body setter) list" where
  "registerReq = [(''email'', into bd_email bd_email_update set_str),
     (''password'', into bd_password bd_password_update set_str), (''name'', into bd_name bd_name_update set_str)]"

definition loginReq :: "(string \<times> body setter) list" where
  "loginReq = [(''email'', into bd_email bd_email_update set_str),
     (''password'', into bd_password bd_password_update set_str)]"

definition nameReq :: "(string \<times> body setter) list" where
  "nameReq = [(''name'', into bd_name bd_name_update set_str)]"

definition createServiceReq :: "(string \<times> body setter) list" where
  "createServiceReq = [(''name'', into bd_name bd_name_update set_str), (''type'', into bd_type bd_type_update set_str),
     (''repo_url'', into bd_repo_url bd_repo_url_update set_str), (''branch'', into bd_branch bd_branch_update set_str),
     (''schedule'', into bd_schedule bd_schedule_update set_str)]"

definition createDatabaseReq :: "(string \<times> body setter) list" where
  "createDatabaseReq = [(''name'', into bd_name bd_name_update set_str), (''engine'', into bd_engine bd_engine_update set_str),
     (''tier'', into bd_tier bd_tier_update set_str), (''instances'', into bd_instances bd_instances_update set_int32),
     (''min_instances'', into bd_min_instances bd_min_instances_update set_int32),
     (''max_instances'', into bd_max_instances bd_max_instances_update set_int32),
     (''size'', into bd_size bd_size_update set_str), (''storage'', into bd_storage bd_storage_update set_str),
     (''pooling'', into bd_pooling bd_pooling_update set_bool), (''backups'', into bd_backups bd_backups_update set_bool)]"

definition scaleDatabaseReq :: "(string \<times> body setter) list" where
  "scaleDatabaseReq = [(''instances'', into bd_instances bd_instances_update set_int32),
     (''size'', into bd_size bd_size_update set_str), (''storage'', into bd_storage bd_storage_update set_str)]"

definition createDeployReq :: "(string \<times> body setter) list" where
  "createDeployReq = [(''commit_sha'', into bd_commit bd_commit_update set_str)]"

definition imageDeployReq :: "(string \<times> body setter) list" where
  "imageDeployReq = [(''image'', into bd_image bd_image_update set_str)]"

definition domainReq :: "(string \<times> body setter) list" where
  "domainReq = [(''domain'', into bd_domain bd_domain_update set_str)]"

definition setEnvReq :: "(string \<times> body setter) list" where
  "setEnvReq = [(''key'', into bd_key bd_key_update set_str), (''value'', into bd_value bd_value_update set_str),
     (''secret'', into bd_secret bd_secret_update set_bool),
     (''build_time'', into bd_build_time bd_build_time_update set_bool)]"

definition codeReq :: "(string \<times> body setter) list" where
  "codeReq = [(''code'', into bd_code bd_code_update set_str)]"

definition addMemberReq :: "(string \<times> body setter) list" where
  "addMemberReq = [(''email'', into bd_email bd_email_update set_str), (''role'', into bd_role bd_role_update set_str)]"

definition setRoleReq :: "(string \<times> body setter) list" where
  "setRoleReq = [(''role'', into bd_role bd_role_update set_str)]"

definition registryCredReq :: "(string \<times> body setter) list" where
  "registryCredReq = [(''registry'', into bd_registry bd_registry_update set_str),
     (''username'', into bd_username bd_username_update set_str),
     (''password'', into bd_password bd_password_update set_str)]"

definition scaleReq :: "(string \<times> body setter) list" where
  "scaleReq = [(''replicas'', into bd_replicas bd_replicas_update set_int32),
     (''instance_size'', into bd_instance_size bd_instance_size_update set_str),
     (''min_replicas'', into bd_min_replicas bd_min_replicas_update set_int32),
     (''max_replicas'', into bd_max_replicas bd_max_replicas_update set_int32)]"

definition healthReq :: "(string \<times> body setter) list" where
  "healthReq = [(''path'', into bd_path bd_path_update set_str)]"

definition diskReq :: "(string \<times> body setter) list" where
  "diskReq = [(''size'', into bd_size bd_size_update set_str), (''path'', into bd_path bd_path_update set_str)]"

text \<open>The struct the handler of a route reads its body into; the other handlers read none.\<close>

definition body_structs :: "((string \<times> string) \<times> (string \<times> body setter) list) list" where
  "body_structs =
    [((''POST'', ''/v1/auth/register''), registerReq), ((''POST'', ''/v1/auth/login''), loginReq),
     ((''POST'', ''/v1/tokens''), nameReq), ((''POST'', ''/v1/orgs''), nameReq),
     ((''PATCH'', ''/v1/orgs/{orgID}''), nameReq),
     ((''POST'', ''/v1/orgs/{orgID}/registry-credentials''), registryCredReq),
     ((''POST'', ''/v1/orgs/{orgID}/github/connect''), codeReq),
     ((''POST'', ''/v1/orgs/{orgID}/members''), addMemberReq),
     ((''PATCH'', ''/v1/orgs/{orgID}/members/{userID}''), setRoleReq),
     ((''POST'', ''/v1/orgs/{orgID}/projects''), nameReq), ((''PATCH'', ''/v1/projects/{projectID}''), nameReq),
     ((''POST'', ''/v1/projects/{projectID}/services''), createServiceReq),
     ((''POST'', ''/v1/projects/{projectID}/databases''), createDatabaseReq),
     ((''POST'', ''/v1/services/{serviceID}/deploys''), createDeployReq),
     ((''POST'', ''/v1/services/{serviceID}/image-deploys''), imageDeployReq),
     ((''POST'', ''/v1/services/{serviceID}/env''), setEnvReq),
     ((''POST'', ''/v1/services/{serviceID}/domains''), domainReq),
     ((''POST'', ''/v1/services/{serviceID}/scale''), scaleReq),
     ((''POST'', ''/v1/services/{serviceID}/health''), healthReq),
     ((''POST'', ''/v1/services/{serviceID}/disk''), diskReq),
     ((''POST'', ''/v1/databases/{databaseID}/scale''), scaleDatabaseReq)]"

definition request_struct :: "string \<Rightarrow> string \<Rightarrow> (string \<times> body setter) list" where
  "request_struct meth pat = (case map_of body_structs (meth, pat) of None \<Rightarrow> [] | Some fs \<Rightarrow> fs)"

text \<open>
  \<open>readJSON\<close> refuses a key that matches no field. What a failed decode has stored by then is not kept
  here: only \<open>handleCreateDeploy\<close> goes on after one, with a body of one field.
\<close>

fun strict_members :: "(string \<times> 'r setter) list \<Rightarrow> (string \<times> json) list \<Rightarrow> 'r \<Rightarrow> 'r option" where
  "strict_members fs [] r = Some r"
| "strict_members fs ((k, j) # ms) r = (case field_of fs k of None \<Rightarrow> None
     | Some f \<Rightarrow> (case f j r of None \<Rightarrow> None | Some r' \<Rightarrow> strict_members fs ms r'))"

fun strict_struct :: "(string \<times> 'r setter) list \<Rightarrow> 'r setter" where
  "strict_struct fs (JObj ms) r = strict_members fs ms r"
| "strict_struct fs JNull r = Some r"
| "strict_struct fs _ r = None"

definition readJSON :: "(string \<times> body setter) list \<Rightarrow> string \<Rightarrow> body" where
  "readJSON fs s = (case Option.bind (decode_json s) (\<lambda>j. strict_struct fs j empty_body) of
     None \<Rightarrow> empty_body\<lparr>bd_readable := False\<rparr> | Some b \<Rightarrow> b)"

section \<open>The server behind the network\<close>

text \<open>The routes again, without their handlers: method, pattern and its segments.\<close>

definition api_table :: "(string \<times> string \<times> string list) list" where
  "api_table =
    [(''GET'', ''/healthz'', ['''', ''healthz'']),
     (''POST'', ''/v1/auth/register'', ['''', ''v1'', ''auth'', ''register'']),
     (''POST'', ''/v1/auth/login'', ['''', ''v1'', ''auth'', ''login'']),
     (''POST'', ''/v1/webhooks/github'', ['''', ''v1'', ''webhooks'', ''github'']),
     (''POST'', ''/v1/auth/logout'', ['''', ''v1'', ''auth'', ''logout'']),
     (''GET'', ''/v1/me'', ['''', ''v1'', ''me'']),
     (''GET'', ''/v1/audit'', ['''', ''v1'', ''audit'']),
     (''GET'', ''/v1/tokens'', ['''', ''v1'', ''tokens'']),
     (''POST'', ''/v1/tokens'', ['''', ''v1'', ''tokens'']),
     (''DELETE'', ''/v1/tokens/{tokenID}'', ['''', ''v1'', ''tokens'', ''{tokenID}'']),
     (''GET'', ''/v1/orgs'', ['''', ''v1'', ''orgs'']),
     (''POST'', ''/v1/orgs'', ['''', ''v1'', ''orgs'']),
     (''PATCH'', ''/v1/orgs/{orgID}'', ['''', ''v1'', ''orgs'', ''{orgID}'']),
     (''DELETE'', ''/v1/orgs/{orgID}'', ['''', ''v1'', ''orgs'', ''{orgID}'']),
     (''GET'', ''/v1/orgs/{orgID}/registry-credentials'', ['''', ''v1'', ''orgs'', ''{orgID}'', ''registry-credentials'']),
     (''POST'', ''/v1/orgs/{orgID}/registry-credentials'', ['''', ''v1'', ''orgs'', ''{orgID}'', ''registry-credentials'']),
     (''DELETE'', ''/v1/orgs/{orgID}/registry-credentials/{credID}'', ['''', ''v1'', ''orgs'', ''{orgID}'', ''registry-credentials'', ''{credID}'']),
     (''GET'', ''/v1/orgs/{orgID}/github'', ['''', ''v1'', ''orgs'', ''{orgID}'', ''github'']),
     (''POST'', ''/v1/orgs/{orgID}/github/connect'', ['''', ''v1'', ''orgs'', ''{orgID}'', ''github'', ''connect'']),
     (''GET'', ''/v1/orgs/{orgID}/github/repos'', ['''', ''v1'', ''orgs'', ''{orgID}'', ''github'', ''repos'']),
     (''DELETE'', ''/v1/orgs/{orgID}/github'', ['''', ''v1'', ''orgs'', ''{orgID}'', ''github'']),
     (''GET'', ''/v1/orgs/{orgID}/members'', ['''', ''v1'', ''orgs'', ''{orgID}'', ''members'']),
     (''POST'', ''/v1/orgs/{orgID}/members'', ['''', ''v1'', ''orgs'', ''{orgID}'', ''members'']),
     (''PATCH'', ''/v1/orgs/{orgID}/members/{userID}'', ['''', ''v1'', ''orgs'', ''{orgID}'', ''members'', ''{userID}'']),
     (''DELETE'', ''/v1/orgs/{orgID}/members/{userID}'', ['''', ''v1'', ''orgs'', ''{orgID}'', ''members'', ''{userID}'']),
     (''GET'', ''/v1/orgs/{orgID}/projects'', ['''', ''v1'', ''orgs'', ''{orgID}'', ''projects'']),
     (''POST'', ''/v1/orgs/{orgID}/projects'', ['''', ''v1'', ''orgs'', ''{orgID}'', ''projects'']),
     (''GET'', ''/v1/projects/{projectID}'', ['''', ''v1'', ''projects'', ''{projectID}'']),
     (''PATCH'', ''/v1/projects/{projectID}'', ['''', ''v1'', ''projects'', ''{projectID}'']),
     (''DELETE'', ''/v1/projects/{projectID}'', ['''', ''v1'', ''projects'', ''{projectID}'']),
     (''GET'', ''/v1/projects/{projectID}/services'', ['''', ''v1'', ''projects'', ''{projectID}'', ''services'']),
     (''POST'', ''/v1/projects/{projectID}/services'', ['''', ''v1'', ''projects'', ''{projectID}'', ''services'']),
     (''GET'', ''/v1/projects/{projectID}/status'', ['''', ''v1'', ''projects'', ''{projectID}'', ''status'']),
     (''GET'', ''/v1/projects/{projectID}/databases'', ['''', ''v1'', ''projects'', ''{projectID}'', ''databases'']),
     (''POST'', ''/v1/projects/{projectID}/databases'', ['''', ''v1'', ''projects'', ''{projectID}'', ''databases'']),
     (''GET'', ''/v1/services/{serviceID}'', ['''', ''v1'', ''services'', ''{serviceID}'']),
     (''GET'', ''/v1/services/{serviceID}/deploys'', ['''', ''v1'', ''services'', ''{serviceID}'', ''deploys'']),
     (''POST'', ''/v1/services/{serviceID}/deploys'', ['''', ''v1'', ''services'', ''{serviceID}'', ''deploys'']),
     (''POST'', ''/v1/services/{serviceID}/image-deploys'', ['''', ''v1'', ''services'', ''{serviceID}'', ''image-deploys'']),
     (''GET'', ''/v1/services/{serviceID}/runtime-logs'', ['''', ''v1'', ''services'', ''{serviceID}'', ''runtime-logs'']),
     (''GET'', ''/v1/services/{serviceID}/metrics'', ['''', ''v1'', ''services'', ''{serviceID}'', ''metrics'']),
     (''GET'', ''/v1/services/{serviceID}/usage'', ['''', ''v1'', ''services'', ''{serviceID}'', ''usage'']),
     (''GET'', ''/v1/services/{serviceID}/env'', ['''', ''v1'', ''services'', ''{serviceID}'', ''env'']),
     (''POST'', ''/v1/services/{serviceID}/env'', ['''', ''v1'', ''services'', ''{serviceID}'', ''env'']),
     (''DELETE'', ''/v1/services/{serviceID}/env/{key}'', ['''', ''v1'', ''services'', ''{serviceID}'', ''env'', ''{key}'']),
     (''GET'', ''/v1/services/{serviceID}/domains'', ['''', ''v1'', ''services'', ''{serviceID}'', ''domains'']),
     (''POST'', ''/v1/services/{serviceID}/domains'', ['''', ''v1'', ''services'', ''{serviceID}'', ''domains'']),
     (''DELETE'', ''/v1/services/{serviceID}/domains/{domain}'', ['''', ''v1'', ''services'', ''{serviceID}'', ''domains'', ''{domain}'']),
     (''POST'', ''/v1/services/{serviceID}/scale'', ['''', ''v1'', ''services'', ''{serviceID}'', ''scale'']),
     (''POST'', ''/v1/services/{serviceID}/health'', ['''', ''v1'', ''services'', ''{serviceID}'', ''health'']),
     (''POST'', ''/v1/services/{serviceID}/disk'', ['''', ''v1'', ''services'', ''{serviceID}'', ''disk'']),
     (''DELETE'', ''/v1/services/{serviceID}/disk'', ['''', ''v1'', ''services'', ''{serviceID}'', ''disk'']),
     (''POST'', ''/v1/services/{serviceID}/suspend'', ['''', ''v1'', ''services'', ''{serviceID}'', ''suspend'']),
     (''POST'', ''/v1/services/{serviceID}/resume'', ['''', ''v1'', ''services'', ''{serviceID}'', ''resume'']),
     (''GET'', ''/v1/deploys/{deployID}'', ['''', ''v1'', ''deploys'', ''{deployID}'']),
     (''GET'', ''/v1/deploys/{deployID}/logs'', ['''', ''v1'', ''deploys'', ''{deployID}'', ''logs'']),
     (''POST'', ''/v1/deploys/{deployID}/rollback'', ['''', ''v1'', ''deploys'', ''{deployID}'', ''rollback'']),
     (''GET'', ''/v1/databases/{databaseID}'', ['''', ''v1'', ''databases'', ''{databaseID}'']),
     (''GET'', ''/v1/databases/{databaseID}/connection'', ['''', ''v1'', ''databases'', ''{databaseID}'', ''connection'']),
     (''POST'', ''/v1/databases/{databaseID}/scale'', ['''', ''v1'', ''databases'', ''{databaseID}'', ''scale'']),
     (''GET'', ''/v1/databases/{databaseID}/backups'', ['''', ''v1'', ''databases'', ''{databaseID}'', ''backups'']),
     (''POST'', ''/v1/databases/{databaseID}/backups'', ['''', ''v1'', ''databases'', ''{databaseID}'', ''backups'']),
     (''DELETE'', ''/v1/databases/{databaseID}'', ['''', ''v1'', ''databases'', ''{databaseID}''])]"

lemma api_table_segments: "list_all (\<lambda>(_, pat, segs). segs = split_on CHR ''/'' pat) api_table"
  by code_simp

lemma api_table_routes:
  "map (\<lambda>(meth, pat, _). (meth, pat)) (public_routes s @ private_routes s) = map (\<lambda>(meth, pat, _). (meth, pat)) api_table"
  by (simp add: route_tables api_table_def)

definition pattern_for :: "string \<Rightarrow> string \<Rightarrow> string option" where
  "pattern_for meth path = map_option (\<lambda>(_, pat, _). pat)
     (find (\<lambda>(m, _, segs). m = meth \<and> match_segs segs (split_on CHR ''/'' path) \<noteq> None) api_table)"

text \<open>
  A request off the wire. \<open>path\<close> is the path the router matches; \<open>random\<close> is what the random source would
  yield; the webhook's headers are not sent by the clients modelled here.
\<close>

definition wire_request :: "string option \<Rightarrow> int \<Rightarrow> http_request \<Rightarrow> string \<Rightarrow> request" where
  "wire_request random t rq path =
     \<lparr>rq_method = hq_method rq, rq_param = (\<lambda>_. ''''), rq_query = (\<lambda>_. ''''), rq_path = path,
      rq_authorization = hq_authorization rq, rq_event = '''', rq_signature = '''', rq_raw = hq_body rq,
      rq_user = \<lparr>u_id = 0, u_email = '''', u_hash = '''', u_name = '''', u_created = 0\<rparr>,
      rq_body = readJSON (case pattern_for (hq_method rq) path of None \<Rightarrow> [] | Some pat \<Rightarrow> request_struct (hq_method rq) pat)
        (case hq_body rq of None \<Rightarrow> '''' | Some s \<Rightarrow> s),
      rq_random = random, rq_now = t\<rparr>"

text \<open>
  The API as a network for the clients: \<open>target\<close> is the path a URL of the API denotes (its host resolved,
  query and fragment cut off, the rest unescaped), \<open>None\<close> for any other URL.
\<close>

definition api_net ::
    "(string \<Rightarrow> string option) \<Rightarrow> wire \<Rightarrow> string option \<Rightarrow> 'z server \<Rightarrow>
       http_request \<Rightarrow> 'z pg_scheme \<Rightarrow> (string + http_response) \<times> 'z pg_scheme" where
  "api_net target wi random s rq w = (case target (hq_url rq) of
      None \<Rightarrow> (Inl ''no such host'', w)
    | Some path \<Rightarrow> (case serve s (wire_request random (now w) rq path) w of (resp, w') \<Rightarrow>
        (Inr \<lparr>hs_status = fst resp, hs_body = response_text wi resp, hs_broken = None\<rparr>, w')))"

end
