(* ===== verification/Cli_Api.thy ===== *)
theory Cli_Api
  imports Cli_Props Api_Wire
begin

text \<open>
  The client and the API together: every call of the client has a route, its body is read by the struct
  of that route's handler; what the client makes of the API's answers.
\<close>

section \<open>Every call has a handler that reads it\<close>

fun small_ints :: "json \<Rightarrow> bool" where
  "small_ints (JNum n) = (set_int32 (JNum n) 0 \<noteq> None)"
| "small_ints (JArr js) = list_all small_ints js"
| "small_ints (JObj ms) = list_all (\<lambda>m. small_ints (snd m)) ms"
| "small_ints _ = True"

definition accepts :: "(string \<times> body setter) list \<Rightarrow> json option \<Rightarrow> bool" where
  "accepts fs body = (case body of None \<Rightarrow> fs = [] | Some j \<Rightarrow> strict_struct fs j empty_body \<noteq> None)"

definition understood :: "string \<Rightarrow> string \<Rightarrow> json option \<Rightarrow> bool" where
  "understood meth path body \<longleftrightarrow>
     (\<exists>pat. pattern_for meth path = Some pat \<and> accepts (request_struct meth pat) body)"

lemma itoa_no_slash: "CHR ''/'' \<notin> set (itoa i)"
  using itoa_chars [of "CHR ''/''" i] by (auto simp: is_digit_code)

lemma split_itoa:
  "split_on CHR ''/'' (itoa i) = [itoa i]"
  "split_on CHR ''/'' (itoa i @ CHR ''/'' # r) = itoa i # split_on CHR ''/'' r"
  using itoa_no_slash by (simp_all add: split_on_none split_on_append)

lemma length_split_on: "length (split_on c s) = Suc (length (filter (\<lambda>x. x = c) s))"
proof (induction s)
  case (Cons x s)
  then show ?case using split_on_nonempty [of c s] by (cases "split_on c s") auto
qed simp

lemma split_single: "length (split_on c s) \<le> 1 \<Longrightarrow> split_on c s = [s]"
  unfolding length_split_on by (rule split_on_none) (auto simp: filter_empty_conv)

lemmas path_defs = org_path_def database_path_def deploy_path_def service_path_def

lemma set_int32_other: "set_int32 (JNum n) 0 \<noteq> None \<Longrightarrow> \<exists>i. set_int32 (JNum n) old = Some i"
  by (auto split: option.splits)

text \<open>A member is accepted whatever was stored before it.\<close>

definition fits :: "(string \<times> body setter) list \<Rightarrow> string \<times> json \<Rightarrow> bool" where
  "fits fs m \<longleftrightarrow> (case field_of fs (fst m) of None \<Rightarrow> False | Some f \<Rightarrow> \<forall>r. f (snd m) r \<noteq> None)"

lemma strict_members_fit: "list_all (fits fs) ms \<Longrightarrow> strict_members fs ms r \<noteq> None"
  by (induction ms arbitrary: r) (auto simp: fits_def split: option.splits)

lemma accepts_obj: "list_all (fits fs) ms \<Longrightarrow> accepts fs (Some (JObj ms))"
  by (simp add: accepts_def strict_members_fit)

lemma into_fits:
  "\<exists>y. into g u set_str (JStr s) r = Some y" "\<exists>y. into g1 u1 set_bool (JBool b) r = Some y"
  "\<exists>y. set_int32 (JNum n) 0 = Some y \<Longrightarrow> \<exists>y. into g2 u2 set_int32 (JNum n) r = Some y"
  using set_int32_other [of n] by (auto simp: into_def simp del: set_int32.simps)

lemma understoodI:
  "pattern_for meth path = Some pat \<Longrightarrow> accepts (request_struct meth pat) body \<Longrightarrow> understood meth path body"
  by (auto simp: understood_def)

named_theorems call_patterns \<open>the route of each call\<close>

text \<open>Only the routes of the right method and root can match.\<close>

definition subtable :: "string \<Rightarrow> string \<Rightarrow> (string \<times> string list) list" where
  "subtable meth root = map (\<lambda>(_, pat, segs). (pat, drop 3 segs))
     (filter (\<lambda>(m, _, segs). m = meth \<and> take 3 segs = [[], ''v1'', root]) api_table)"

lemma subtables:
  "subtable ''POST'' ''auth'' = [(''/v1/auth/register'', [''register'']),
     (''/v1/auth/login'', [''login'']),
     (''/v1/auth/logout'', [''logout''])]"
  "subtable ''GET'' ''me'' = [(''/v1/me'', [])]"
  "subtable ''GET'' ''audit'' = [(''/v1/audit'', [])]"
  "subtable ''GET'' ''tokens'' = [(''/v1/tokens'', [])]"
  "subtable ''POST'' ''tokens'' = [(''/v1/tokens'', [])]"
  "subtable ''DELETE'' ''tokens'' = [(''/v1/tokens/{tokenID}'', [''{tokenID}''])]"
  "subtable ''GET'' ''orgs'' = [(''/v1/orgs'', []),
     (''/v1/orgs/{orgID}/registry-credentials'', [''{orgID}'', ''registry-credentials'']),
     (''/v1/orgs/{orgID}/github'', [''{orgID}'', ''github'']),
     (''/v1/orgs/{orgID}/github/repos'', [''{orgID}'', ''github'', ''repos'']),
     (''/v1/orgs/{orgID}/members'', [''{orgID}'', ''members'']),
     (''/v1/orgs/{orgID}/projects'', [''{orgID}'', ''projects''])]"
  "subtable ''POST'' ''orgs'' = [(''/v1/orgs'', []),
     (''/v1/orgs/{orgID}/registry-credentials'', [''{orgID}'', ''registry-credentials'']),
     (''/v1/orgs/{orgID}/github/connect'', [''{orgID}'', ''github'', ''connect'']),
     (''/v1/orgs/{orgID}/members'', [''{orgID}'', ''members'']),
     (''/v1/orgs/{orgID}/projects'', [''{orgID}'', ''projects''])]"
  "subtable ''PATCH'' ''orgs'' = [(''/v1/orgs/{orgID}'', [''{orgID}'']),
     (''/v1/orgs/{orgID}/members/{userID}'', [''{orgID}'', ''members'', ''{userID}''])]"
  "subtable ''DELETE'' ''orgs'' = [(''/v1/orgs/{orgID}'', [''{orgID}'']),
     (''/v1/orgs/{orgID}/registry-credentials/{credID}'', [''{orgID}'', ''registry-credentials'', ''{credID}'']),
     (''/v1/orgs/{orgID}/github'', [''{orgID}'', ''github'']),
     (''/v1/orgs/{orgID}/members/{userID}'', [''{orgID}'', ''members'', ''{userID}''])]"
  "subtable ''GET'' ''projects'' = [(''/v1/projects/{projectID}'', [''{projectID}'']),
     (''/v1/projects/{projectID}/services'', [''{projectID}'', ''services'']),
     (''/v1/projects/{projectID}/status'', [''{projectID}'', ''status'']),
     (''/v1/projects/{projectID}/databases'', [''{projectID}'', ''databases''])]"
  "subtable ''POST'' ''projects'' = [(''/v1/projects/{projectID}/services'', [''{projectID}'', ''services'']),
     (''/v1/projects/{projectID}/databases'', [''{projectID}'', ''databases''])]"
  "subtable ''GET'' ''services'' = [(''/v1/services/{serviceID}'', [''{serviceID}'']),
     (''/v1/services/{serviceID}/deploys'', [''{serviceID}'', ''deploys'']),
     (''/v1/services/{serviceID}/runtime-logs'', [''{serviceID}'', ''runtime-logs'']),
     (''/v1/services/{serviceID}/metrics'', [''{serviceID}'', ''metrics'']),
     (''/v1/services/{serviceID}/usage'', [''{serviceID}'', ''usage'']),
     (''/v1/services/{serviceID}/env'', [''{serviceID}'', ''env'']),
     (''/v1/services/{serviceID}/domains'', [''{serviceID}'', ''domains''])]"
  "subtable ''POST'' ''services'' = [(''/v1/services/{serviceID}/deploys'', [''{serviceID}'', ''deploys'']),
     (''/v1/services/{serviceID}/image-deploys'', [''{serviceID}'', ''image-deploys'']),
     (''/v1/services/{serviceID}/env'', [''{serviceID}'', ''env'']),
     (''/v1/services/{serviceID}/domains'', [''{serviceID}'', ''domains'']),
     (''/v1/services/{serviceID}/scale'', [''{serviceID}'', ''scale'']),
     (''/v1/services/{serviceID}/health'', [''{serviceID}'', ''health'']),
     (''/v1/services/{serviceID}/disk'', [''{serviceID}'', ''disk'']),
     (''/v1/services/{serviceID}/suspend'', [''{serviceID}'', ''suspend'']),
     (''/v1/services/{serviceID}/resume'', [''{serviceID}'', ''resume''])]"
  "subtable ''DELETE'' ''services'' = [(''/v1/services/{serviceID}/env/{key}'', [''{serviceID}'', ''env'', ''{key}'']),
     (''/v1/services/{serviceID}/domains/{domain}'', [''{serviceID}'', ''domains'', ''{domain}'']),
     (''/v1/services/{serviceID}/disk'', [''{serviceID}'', ''disk''])]"
  "subtable ''GET'' ''deploys'' = [(''/v1/deploys/{deployID}'', [''{deployID}'']),
     (''/v1/deploys/{deployID}/logs'', [''{deployID}'', ''logs''])]"
  "subtable ''POST'' ''deploys'' = [(''/v1/deploys/{deployID}/rollback'', [''{deployID}'', ''rollback''])]"
  "subtable ''GET'' ''databases'' = [(''/v1/databases/{databaseID}'', [''{databaseID}'']),
     (''/v1/databases/{databaseID}/connection'', [''{databaseID}'', ''connection'']),
     (''/v1/databases/{databaseID}/backups'', [''{databaseID}'', ''backups''])]"
  "subtable ''POST'' ''databases'' = [(''/v1/databases/{databaseID}/scale'', [''{databaseID}'', ''scale'']),
     (''/v1/databases/{databaseID}/backups'', [''{databaseID}'', ''backups''])]"
  "subtable ''DELETE'' ''databases'' = [(''/v1/databases/{databaseID}'', [''{databaseID}''])]"
  by code_simp+

lemma match_segs_root:
  assumes "list_all (\<lambda>x. \<not> is_param x) (take 3 segs)"
  shows "match_segs segs ([] # v # root # rest) \<noteq> None \<longleftrightarrow>
     take 3 segs = [[], v, root] \<and> match_segs (drop 3 segs) rest \<noteq> None"
  using assms by (cases segs; cases "tl segs"; cases "tl (tl segs)") auto

lemma find_filter: "(\<And>x. x \<in> set xs \<Longrightarrow> P x \<longleftrightarrow> Q x \<and> R x) \<Longrightarrow> find P xs = find R (filter Q xs)"
  by (induction xs) auto

lemma find_map: "find P (map f xs) = map_option f (find (P \<circ> f) xs)"
  by (induction xs) auto

lemma pattern_for_root:
  assumes "split_on CHR ''/'' path = [] # ''v1'' # root # rest"
  shows "pattern_for meth path = map_option fst (find (\<lambda>(_, segs). match_segs segs rest \<noteq> None) (subtable meth root))"
proof -
  have fixed: "list_all (\<lambda>(_, _, segs). list_all (\<lambda>x. \<not> is_param x) (take 3 segs)) api_table"
    by code_simp
  have "find (\<lambda>(m, _, segs). m = meth \<and> match_segs segs (split_on CHR ''/'' path) \<noteq> None) api_table =
      find (\<lambda>(_, _, segs). match_segs (drop 3 segs) rest \<noteq> None)
        (filter (\<lambda>(m, _, segs). m = meth \<and> take 3 segs = [[], ''v1'', root]) api_table)"
    unfolding assms
  proof (rule find_filter)
    fix x assume x: "x \<in> set api_table"
    obtain m pat segs where "x = (m, pat, segs)" by (cases x)
    moreover have "list_all (\<lambda>x. \<not> is_param x) (take 3 segs)"
      using fixed x calculation by (auto simp: list_all_iff)
    ultimately show "(case x of (m, _, segs) \<Rightarrow> m = meth \<and> match_segs segs ([] # ''v1'' # root # rest) \<noteq> None) \<longleftrightarrow>
        (case x of (m, _, segs) \<Rightarrow> m = meth \<and> take 3 segs = [[], ''v1'', root]) \<and>
        (case x of (_, _, segs) \<Rightarrow> match_segs (drop 3 segs) rest \<noteq> None)"
      using match_segs_root [of segs "''v1''" root rest] by (simp del: match_segs.simps)
  qed
  then show ?thesis
    by (simp add: pattern_for_def subtable_def find_map option.map_comp comp_def case_prod_unfold)
qed

lemma split_literal:
  "split_on CHR ''/'' (CHR ''/'' # x) = [] # split_on CHR ''/'' x"
  by simp

lemma account_patterns [call_patterns]:
  "pattern_for ''POST'' ''/v1/auth/login'' = Some ''/v1/auth/login''"
  "pattern_for ''POST'' ''/v1/tokens'' = Some ''/v1/tokens''"
  "pattern_for ''GET'' ''/v1/tokens'' = Some ''/v1/tokens''"
  "pattern_for ''DELETE'' (''/v1/tokens/'' @ itoa i) = Some ''/v1/tokens/{tokenID}''"
  "pattern_for ''GET'' ''/v1/me'' = Some ''/v1/me''"
  "pattern_for ''GET'' ''/v1/audit'' = Some ''/v1/audit''"
  by (simp_all add: pattern_for_root subtables is_param_def split_itoa)

lemma org_patterns [call_patterns]:
  "pattern_for ''GET'' (org_path i ''/registry-credentials'') = Some ''/v1/orgs/{orgID}/registry-credentials''"
  "pattern_for ''POST'' (org_path i ''/registry-credentials'') = Some ''/v1/orgs/{orgID}/registry-credentials''"
  "pattern_for ''DELETE'' (org_path i (''/registry-credentials/'' @ itoa j)) =
     Some ''/v1/orgs/{orgID}/registry-credentials/{credID}''"
  "pattern_for ''GET'' (org_path i ''/members'') = Some ''/v1/orgs/{orgID}/members''"
  "pattern_for ''POST'' (org_path i ''/members'') = Some ''/v1/orgs/{orgID}/members''"
  "pattern_for ''PATCH'' (org_path i (''/members/'' @ itoa j)) = Some ''/v1/orgs/{orgID}/members/{userID}''"
  "pattern_for ''DELETE'' (org_path i (''/members/'' @ itoa j)) = Some ''/v1/orgs/{orgID}/members/{userID}''"
  by (simp_all add: pattern_for_root subtables is_param_def split_itoa path_defs)

lemma project_patterns [call_patterns]:
  "pattern_for ''POST'' (''/v1/projects/'' @ itoa i @ ''/databases'') = Some ''/v1/projects/{projectID}/databases''"
  "pattern_for ''GET'' (''/v1/projects/'' @ itoa i @ ''/databases'') = Some ''/v1/projects/{projectID}/databases''"
  "pattern_for ''GET'' (''/v1/projects/'' @ itoa i @ ''/status'') = Some ''/v1/projects/{projectID}/status''"
  by (simp_all add: pattern_for_root subtables is_param_def split_itoa path_defs)

lemma database_patterns [call_patterns]:
  "pattern_for ''POST'' (database_path i ''/scale'') = Some ''/v1/databases/{databaseID}/scale''"
  "pattern_for ''GET'' (database_path i ''/connection'') = Some ''/v1/databases/{databaseID}/connection''"
  "pattern_for ''POST'' (database_path i ''/backups'') = Some ''/v1/databases/{databaseID}/backups''"
  "pattern_for ''GET'' (database_path i ''/backups'') = Some ''/v1/databases/{databaseID}/backups''"
  "pattern_for ''DELETE'' (database_path i '''') = Some ''/v1/databases/{databaseID}''"
  by (simp_all add: pattern_for_root subtables is_param_def split_itoa path_defs)

lemma deploy_patterns [call_patterns]:
  "pattern_for ''GET'' (deploy_path i '''') = Some ''/v1/deploys/{deployID}''"
  "pattern_for ''POST'' (deploy_path i ''/rollback'') = Some ''/v1/deploys/{deployID}/rollback''"
  "pattern_for ''GET'' (deploy_path i ''/logs'') = Some ''/v1/deploys/{deployID}/logs''"
  by (simp_all add: pattern_for_root subtables is_param_def split_itoa path_defs)

lemma service_patterns [call_patterns]:
  "pattern_for ''POST'' (service_path i ''/image-deploys'') = Some ''/v1/services/{serviceID}/image-deploys''"
  "pattern_for ''POST'' (service_path i ''/deploys'') = Some ''/v1/services/{serviceID}/deploys''"
  "pattern_for ''GET'' (service_path i ''/runtime-logs'') = Some ''/v1/services/{serviceID}/runtime-logs''"
  "pattern_for ''GET'' (service_path i ''/domains'') = Some ''/v1/services/{serviceID}/domains''"
  "pattern_for ''POST'' (service_path i ''/domains'') = Some ''/v1/services/{serviceID}/domains''"
  "pattern_for ''GET'' (service_path i ''/metrics'') = Some ''/v1/services/{serviceID}/metrics''"
  "pattern_for ''GET'' (service_path i '''') = Some ''/v1/services/{serviceID}''"
  "pattern_for ''GET'' (service_path i ''/usage'') = Some ''/v1/services/{serviceID}/usage''"
  by (simp_all add: pattern_for_root subtables is_param_def split_itoa path_defs)

lemma settings_patterns [call_patterns]:
  "pattern_for ''POST'' (service_path i ''/scale'') = Some ''/v1/services/{serviceID}/scale''"
  "pattern_for ''POST'' (service_path i (''/'' @ ''suspend'')) = Some ''/v1/services/{serviceID}/suspend''"
  "pattern_for ''POST'' (service_path i (''/'' @ ''resume'')) = Some ''/v1/services/{serviceID}/resume''"
  "pattern_for ''POST'' (service_path i ''/health'') = Some ''/v1/services/{serviceID}/health''"
  "pattern_for ''POST'' (service_path i ''/disk'') = Some ''/v1/services/{serviceID}/disk''"
  "pattern_for ''DELETE'' (service_path i ''/disk'') = Some ''/v1/services/{serviceID}/disk''"
  "pattern_for ''GET'' (service_path i ''/env'') = Some ''/v1/services/{serviceID}/env''"
  "pattern_for ''POST'' (service_path i ''/env'') = Some ''/v1/services/{serviceID}/env''"
  by (simp_all add: pattern_for_root subtables is_param_def split_itoa path_defs)

lemma segment_patterns [call_patterns]:
  "length (split_on CHR ''/'' (service_path i (''/domains/'' @ d))) \<le> 6 \<Longrightarrow>
     pattern_for ''DELETE'' (service_path i (''/domains/'' @ d)) = Some ''/v1/services/{serviceID}/domains/{domain}''"
  "length (split_on CHR ''/'' (service_path i (''/env/'' @ d))) \<le> 6 \<Longrightarrow>
     pattern_for ''DELETE'' (service_path i (''/env/'' @ d)) = Some ''/v1/services/{serviceID}/env/{key}''"
proof -
  assume "length (split_on CHR ''/'' (service_path i (''/domains/'' @ d))) \<le> 6"
  then have "split_on CHR ''/'' d = [d]"
    by (intro split_single) (simp add: split_itoa path_defs)
  then show "pattern_for ''DELETE'' (service_path i (''/domains/'' @ d)) = Some ''/v1/services/{serviceID}/domains/{domain}''"
    by (simp add: pattern_for_root subtables is_param_def split_itoa path_defs)
next
  assume "length (split_on CHR ''/'' (service_path i (''/env/'' @ d))) \<le> 6"
  then have "split_on CHR ''/'' d = [d]"
    by (intro split_single) (simp add: split_itoa path_defs)
  then show "pattern_for ''DELETE'' (service_path i (''/env/'' @ d)) = Some ''/v1/services/{serviceID}/env/{key}''"
    by (simp add: pattern_for_root subtables is_param_def split_itoa path_defs)
qed

lemmas request_structs =
  registerReq_def loginReq_def nameReq_def createServiceReq_def createDatabaseReq_def scaleDatabaseReq_def
  createDeployReq_def imageDeployReq_def domainReq_def setEnvReq_def codeReq_def addMemberReq_def setRoleReq_def
  registryCredReq_def scaleReq_def healthReq_def diskReq_def

lemma accepts_none: "accepts [] None"
  by (simp add: accepts_def)

lemma cli_call_understood:
  assumes "cli_call meth path body" "length (split_on CHR ''/'' path) \<le> 6" "\<forall>j. body = Some j \<longrightarrow> small_ints j"
  shows "understood meth path body"
  using assms
proof (induction rule: cli_call.induct)
qed (rule understoodI, (erule segment_patterns | rule call_patterns),
      simp add: request_struct_def body_structs_def accepts_none accepts_obj fits_def field_of_def
        request_structs into_fits del: set_int32.simps)+

text \<open>A body that fits is read from its text without an error.\<close>

lemma field_of_in: "field_of fs k = Some f \<Longrightarrow> \<exists>k'. (k', f) \<in> set fs"
  by (auto simp: field_of_def dest: map_of_SomeD find_Some_in split: option.splits)

lemma strict_members_readable:
  "strict_members fs ms r = Some r' \<Longrightarrow>
     (\<And>k f j r r'. (k, f) \<in> set fs \<Longrightarrow> f j r = Some r' \<Longrightarrow> bd_readable r' = bd_readable r) \<Longrightarrow>
     bd_readable r' = bd_readable r"
proof (induction fs ms r rule: strict_members.induct)
  case (2 fs k j ms r)
  then obtain f r1 where f: "field_of fs k = Some f" "f j r = Some r1" "strict_members fs ms r1 = Some r'"
    by (auto split: option.splits)
  then have "bd_readable r' = bd_readable r1" using 2 by blast
  moreover have "bd_readable r1 = bd_readable r" using field_of_in [OF f(1)] f(2) 2(3) by blast
  ultimately show ?case by simp
qed auto

definition keeps_readable :: "body setter \<Rightarrow> bool" where
  "keeps_readable f \<longleftrightarrow> (\<forall>j r r'. f j r = Some r' \<longrightarrow> bd_readable r' = bd_readable r)"

lemma into_keeps_readable:
  "(\<And>v r. bd_readable (upd (\<lambda>_. v) r) = bd_readable r) \<Longrightarrow> keeps_readable (into get upd f)"
  by (auto simp: keeps_readable_def into_def)

lemma structs_readable: "(k, f) \<in> set (request_struct meth pat) \<Longrightarrow> f j r = Some r' \<Longrightarrow> bd_readable r' = bd_readable r"
proof -
  have "list_all (\<lambda>m. list_all (\<lambda>x. keeps_readable (snd x)) (snd m)) body_structs"
    by (simp add: body_structs_def request_structs into_keeps_readable)
  moreover assume f: "(k, f) \<in> set (request_struct meth pat)" "f j r = Some r'"
  then obtain fs where "((meth, pat), fs) \<in> set body_structs" "(k, f) \<in> set fs"
    using map_of_SomeD [of body_structs "(meth, pat)"]
    by (cases "map_of body_structs (meth, pat)") (auto simp: request_struct_def)
  ultimately have "keeps_readable f" by (fastforce simp: list_all_iff)
  then show ?thesis using f(2) by (auto simp: keeps_readable_def)
qed

definition sendable :: "json \<Rightarrow> bool" where
  "sendable j \<longleftrightarrow> json_ok j \<and> small_ints j \<and> json_depth j \<le> 10000"

lemma accepted_body_readable:
  assumes "accepts (request_struct meth pat) (Some j)" "sendable j"
  shows "bd_readable (readJSON (request_struct meth pat) (json_text j))"
proof -
  obtain b where b: "strict_struct (request_struct meth pat) j empty_body = Some b"
    using assms(1) by (auto simp: accepts_def)
  have "decode_json (json_text j) = Some j"
    using decode_json_text [of j "[]"] assms(2) by (simp add: sendable_def)
  moreover have "bd_readable b"
    using b strict_members_readable [OF _ structs_readable]
    by (cases j) (auto simp: empty_body_def)
  ultimately show ?thesis using b by (simp add: readJSON_def)
qed

text \<open>Only a domain or a key can bring a slash into a path.\<close>

lemma call_segments: "cli_call meth path body \<Longrightarrow> meth \<noteq> ''DELETE'' \<Longrightarrow> length (split_on CHR ''/'' path) \<le> 6"
  by (induction rule: cli_call.induct) (simp_all add: split_itoa path_defs)



end
