(* ===== verification/Deploy_Requests.thy ===== *)
theory Deploy_Requests
  imports Api_Deploys Go_Json
begin

text \<open>
  What makes deploys. The JSON half of \<open>internal/git/webhook.go\<close>: the two event structs decoded with
  \<open>encoding/json\<close>, so that the record \<open>hooks\<close> has its concrete value \<open>git_hooks\<close>. Then what a push
  delivery and a settings change do to the deploys of a database whose calls do not fail.
\<close>

section \<open>Parsing webhook bodies\<close>

definition no_push_event :: push_event where
  "no_push_event = \<lparr>pe_ref = '''', pe_after = '''', pe_html_url = '''', pe_clone_url = ''''\<rparr>"

definition no_pull_request_event :: pull_request_event where
  "no_pull_request_event = \<lparr>pr_action = '''', pr_number = 0, pr_sha = '''', pr_html_url = '''', pr_clone_url = ''''\<rparr>"

text \<open>\<open>full_name\<close> goes to the log only, but a body where it is no string is refused.\<close>

definition ignored :: "'a setter \<Rightarrow> 'a \<Rightarrow> 'r setter" where
  "ignored f zero j r = map_option (\<lambda>_. r) (f j zero)"

definition set_push_event :: "push_event setter" where
  "set_push_event = set_struct
     [(''ref'', into pe_ref pe_ref_update set_str),
      (''after'', into pe_after pe_after_update set_str),
      (''repository'', set_struct
         [(''full_name'', ignored set_str ''''),
          (''html_url'', into pe_html_url pe_html_url_update set_str),
          (''clone_url'', into pe_clone_url pe_clone_url_update set_str)])]"

definition set_pull_request_event :: "pull_request_event setter" where
  "set_pull_request_event = set_struct
     [(''action'', into pr_action pr_action_update set_str),
      (''number'', into pr_number pr_number_update set_int),
      (''pull_request'', set_struct [(''head'', set_struct [(''sha'', into pr_sha pr_sha_update set_str)])]),
      (''repository'', set_struct
         [(''full_name'', ignored set_str ''''),
          (''html_url'', into pr_html_url pr_html_url_update set_str),
          (''clone_url'', into pr_clone_url pr_clone_url_update set_str)])]"

definition parse_push_body :: "string \<Rightarrow> push_event option" where
  "parse_push_body body = Option.bind (unmarshal_json body) (\<lambda>j. set_push_event j no_push_event)"

definition parse_pull_request_body :: "string \<Rightarrow> pull_request_event option" where
  "parse_pull_request_body body =
     Option.bind (unmarshal_json body) (\<lambda>j. set_pull_request_event j no_pull_request_event)"

definition git_hooks :: hooks where
  "git_hooks = \<lparr>ParsePush = parse_push_body, ParsePullRequest = parse_pull_request_body\<rparr>"

section \<open>New rows\<close>

text \<open>The row an insertion makes, and the table operations of the two ways a deploy is created.\<close>

definition new_deploy :: "int \<Rightarrow> string \<Rightarrow> string \<Rightarrow> string \<Rightarrow> string \<Rightarrow> int option \<Rightarrow> int \<Rightarrow> tables \<Rightarrow> deploy" where
  "new_deploy sid status commit img kind pr n t =
     \<lparr>d_id = seqs t SDeploys, d_service = sid, d_status = status, d_commit = commit, d_image = img,
      d_kind = kind, d_pr = pr, d_created = n, d_updated = n\<rparr>"

definition created :: "deploy \<Rightarrow> string \<Rightarrow> 'z pg_scheme \<Rightarrow> 'z pg_scheme \<Rightarrow> bool" where
  "created d channel w w' \<longleftrightarrow> deploys (tabs w') = deploys (tabs w) @ [d] \<and>
     services (tabs w') = services (tabs w) \<and> bus w' = bus w @ [(channel, itoa (d_id d))] \<and>
     faults w' = [] \<and> now w' = now w"

definition has_service :: "int \<Rightarrow> tables \<Rightarrow> bool" where
  "has_service i t \<longleftrightarrow> (\<exists>s \<in> set (services t). sv_id s = i)"

lemma has_service_iff: "has_service i t \<longleftrightarrow> i \<in> set (map sv_id (services t))"
  by (auto simp: has_service_def)

lemma ins_deploy_row:
  "has_service sid t \<Longrightarrow> ins_deploy sid status commit img kind pr n t =
     Inr (new_deploy sid status commit img kind pr n t,
       nextval SDeploys t\<lparr>deploys := deploys t @ [new_deploy sid status commit img kind pr n t]\<rparr>)"
  by (simp add: ins_deploy_def new_deploy_def has_service_def Let_def)

lemma ins_build_row:
  "d \<in> set (deploys t) \<Longrightarrow> \<exists>t'. ins_build (d_id d) status logs st en n t = Inr ((), t') \<and>
     deploys t' = deploys t \<and> services t' = services t"
  by (auto simp: ins_build_def Let_def nextval_def)

lemma buildable_calm:
  fixes w :: "'z pg_scheme"
  assumes "faults w = []" "has_service i (tabs w)"
  shows "\<exists>t'. createBuildableDeploy i c kind pr w =
     (Inr (new_deploy i StatusQueued c '''' kind pr (now w) (tabs w)), w\<lparr>tabs := t'\<rparr>) \<and>
     deploys t' = deploys (tabs w) @ [new_deploy i StatusQueued c '''' kind pr (now w) (tabs w)] \<and>
     services t' = services (tabs w)"
proof -
  let ?d = "new_deploy i StatusQueued c '''' kind pr (now w) (tabs w)"
  let ?t = "nextval SDeploys (tabs w)\<lparr>deploys := deploys (tabs w) @ [?d]\<rparr>"
  have "\<exists>t'. ins_build (d_id ?d) BuildQueued '''' None None (now w) ?t = Inr ((), t') \<and>
      deploys t' = deploys ?t \<and> services t' = services ?t"
    by (rule ins_build_row) simp
  then show ?thesis
    using assms by (auto simp: createBuildableDeploy_def pg_tx_def act_run ins_deploy_row nextval_def)
qed

lemma imaged_calm:
  fixes w :: "'z pg_scheme"
  assumes "faults w = []" "has_service i (tabs w)"
  shows "\<exists>t'. createImagedDeploy i img c l w =
     (Inr (new_deploy i StatusDeploying c img KindProduction None (now w) (tabs w)), w\<lparr>tabs := t'\<rparr>) \<and>
     deploys t' = deploys (tabs w) @ [new_deploy i StatusDeploying c img KindProduction None (now w) (tabs w)] \<and>
     services t' = services (tabs w)"
proof -
  let ?d = "new_deploy i StatusDeploying c img KindProduction None (now w) (tabs w)"
  let ?t = "nextval SDeploys (tabs w)\<lparr>deploys := deploys (tabs w) @ [?d]\<rparr>"
  have "\<exists>t'. ins_build (d_id ?d) BuildSucceeded l (Some (now w)) (Some (now w)) (now w) ?t = Inr ((), t') \<and>
      deploys t' = deploys ?t \<and> services t' = services ?t"
    by (rule ins_build_row) simp
  then show ?thesis
    using assms by (auto simp: createImagedDeploy_def pg_tx_def act_run ins_deploy_row nextval_def)
qed

lemma Notify_calm: "faults w = [] \<Longrightarrow> Notify c p w = (Inr (), w\<lparr>bus := bus w @ [(c, p)]\<rparr>)"
  by (simp add: Notify_def)

lemma enqueueDeploy_calm:
  fixes w :: "'z pg_scheme"
  assumes "faults w = []" "has_service i (tabs w)"
  shows "\<exists>w'. enqueueDeploy i c w = (Inr (new_deploy i StatusQueued c '''' KindProduction None (now w) (tabs w)), w') \<and>
     created (new_deploy i StatusQueued c '''' KindProduction None (now w) (tabs w)) DeployChannel w w'"
  using buildable_calm [OF assms, of c KindProduction None] assms(1)
  by (auto simp: enqueueDeploy_def CreateDeploy_def act_run Notify_calm created_def)

section \<open>A push\<close>

lemma dedupe_matches_spec:
  assumes "dedupe_matches seen out ms = (seen', out')" "set out = set seen" "distinct out"
  shows "set out' = set seen \<union> sv_id ` set ms \<and> set seen' = set out' \<and> distinct out'"
  using assms
proof (induction seen out ms rule: dedupe_matches.induct)
  case (2 seen out m ms)
  show ?case
  proof (cases "sv_id m \<in> set seen")
    case True
    with 2 show ?thesis by auto
  next
    case False
    with 2 show ?thesis by force
  qed
qed auto

lemma dedupe_urls_calm:
  fixes w :: "'z pg_scheme"
  assumes "faults w = []" "set out = set seen" "distinct out"
    and "\<And>url. lookup url w = (Inr (found url), w)"
  shows "\<exists>ids. dedupe_urls lookup seen out urls w = (Inr ids, w) \<and> distinct ids \<and>
     set ids = set seen \<union> (\<Union>url \<in> {u \<in> set urls. u \<noteq> ''''}. sv_id ` set (found url))"
  using assms
proof (induction urls arbitrary: seen out)
  case (Cons url urls)
  show ?case
  proof (cases "url = ''''")
    case True
    have "{u \<in> set (url # urls). u \<noteq> ''''} = {u \<in> set urls. u \<noteq> ''''}" using True by auto
    then show ?thesis using Cons.IH [OF Cons.prems] True by simp
  next
    case False
    obtain seen' out' where d: "dedupe_matches seen out (found url) = (seen', out')" by fastforce
    have s: "set out' = set seen'" "distinct out'" "set seen' = set seen \<union> sv_id ` set (found url)"
      using dedupe_matches_spec [OF d Cons.prems(2,3)] by auto
    obtain ids where ids: "dedupe_urls lookup seen' out' urls w = (Inr ids, w)" "distinct ids"
        "set ids = set seen' \<union> (\<Union>url \<in> {u \<in> set urls. u \<noteq> ''''}. sv_id ` set (found url))"
      using Cons.IH [OF Cons.prems(1) s(1,2) Cons.prems(4)] by auto
    then show ?thesis using False d s(3) Cons.prems(4) by (auto simp: act_run)
  qed
qed (auto simp: act_run)

definition brief_of :: "deploy \<Rightarrow> deploy_brief" where
  "brief_of d = \<lparr>br_deploy = d_id d, br_service = d_service d, br_commit = d_commit d\<rparr>"

definition queued_of :: "string \<Rightarrow> deploy \<Rightarrow> bool" where
  "queued_of c d \<longleftrightarrow> d_status d = StatusQueued \<and> d_kind d = KindProduction \<and> d_commit d = c \<and> d_image d = ''''"

definition enqueued :: "string \<Rightarrow> int list \<Rightarrow> deploy list \<Rightarrow> 'z pg_scheme \<Rightarrow> 'z pg_scheme \<Rightarrow> bool" where
  "enqueued c ids ds w w' \<longleftrightarrow> map d_service ds = ids \<and> list_all (queued_of c) ds \<and>
     deploys (tabs w') = deploys (tabs w) @ ds \<and> services (tabs w') = services (tabs w) \<and>
     bus w' = bus w @ map (\<lambda>d. (DeployChannel, itoa (d_id d))) ds \<and> faults w' = []"

abbreviation enqueue_one :: "string \<Rightarrow> int \<Rightarrow> ('z pg_scheme, deploy_brief option) act" where
  "enqueue_one c \<equiv> \<lambda>i. attempt (enqueueDeploy i c) (\<lambda>_. ret None)
     (\<lambda>d. ret (Some \<lparr>br_deploy = d_id d, br_service = i, br_commit = d_commit d\<rparr>))"

lemma collect_enqueued:
  fixes w :: "'z pg_scheme"
  assumes "faults w = []" "\<And>i. i \<in> set ids \<Longrightarrow> has_service i (tabs w)"
  shows "\<exists>ds w'. collect (enqueue_one c) ids w = (map brief_of ds, w') \<and> enqueued c ids ds w w'"
  using assms
proof (induction ids arbitrary: w)
  case Nil
  then show ?case by (auto simp: act_run enqueued_def)
next
  case (Cons i ids)
  let ?d = "new_deploy i StatusQueued c '''' KindProduction None (now w) (tabs w)"
  obtain w1 where w1: "enqueueDeploy i c w = (Inr ?d, w1)" "created ?d DeployChannel w w1"
    using enqueueDeploy_calm [of w i c] Cons.prems by auto
  have "faults w1 = []" "\<And>j. j \<in> set ids \<Longrightarrow> has_service j (tabs w1)"
    using w1(2) Cons.prems(2) by (auto simp: created_def has_service_def)
  from Cons.IH [OF this] obtain ds w' where rest:
      "collect (enqueue_one c) ids w1 = (map brief_of ds, w')" "enqueued c ids ds w1 w'" by blast
  have "enqueued c (i # ids) (?d # ds) w w'"
    using rest(2) w1(2) by (simp add: enqueued_def created_def queued_of_def new_deploy_def)
  moreover have one: "enqueue_one c i w = (Some (brief_of ?d), w1)"
    using w1(1) by (simp add: attempt_def ret_def brief_of_def new_deploy_def)
  have "collect (enqueue_one c) (i # ids) w = (map brief_of (?d # ds), w')"
    unfolding collect.simps bnd_def one prod.case rest(1) by (simp add: ret_def)
  ultimately show ?case by blast
qed

text \<open>The services of a branch of a repository, known under either of its URLs.\<close>

definition builds_from :: "push_event \<Rightarrow> service \<Rightarrow> bool" where
  "builds_from p s \<longleftrightarrow> sv_branch s = Branch p \<and>
     (\<exists>url \<in> {pe_clone_url p, pe_html_url p}. url \<noteq> '''' \<and> repo_key (sv_repo s) = repo_key url)"

lemma matchServices_calm:
  fixes w :: "'z pg_scheme"
  assumes "faults w = []"
  shows "\<exists>ids. matchServices (pe_clone_url p) (pe_html_url p) (Branch p) w = (Inr ids, w) \<and> distinct ids \<and>
     set ids = sv_id ` {s \<in> set (services (tabs w)). builds_from p s}"
proof -
  let ?found = "\<lambda>url. filter (\<lambda>s. sv_branch s = Branch p \<and> repo_key (sv_repo s) = repo_key url) (services (tabs w))"
  have "ServicesByRepo url (Branch p) w = (Inr (?found url), w)" for url
    using assms by (simp add: ServicesByRepo_def)
  then have "\<exists>ids. matchServices (pe_clone_url p) (pe_html_url p) (Branch p) w = (Inr ids, w) \<and> distinct ids \<and>
     set ids = set [] \<union> (\<Union>url \<in> {u \<in> set [pe_clone_url p, pe_html_url p]. u \<noteq> ''''}. sv_id ` set (?found url))"
    unfolding matchServices_def dedupeServices_def by (intro dedupe_urls_calm assms) auto
  moreover have "set [] \<union> (\<Union>url \<in> {u \<in> set [pe_clone_url p, pe_html_url p]. u \<noteq> ''''}. sv_id ` set (?found url)) =
     sv_id ` {s \<in> set (services (tabs w)). builds_from p s}"
    by (auto simp: builds_from_def)
  ultimately show ?thesis by simp
qed


section \<open>A settings change\<close>

text \<open>The handlers that write settings of a service and re-apply them.\<close>

definition settings_handlers :: "(request \<Rightarrow> 'z handler) list" where
  "settings_handlers = [handleScale, handleSetHealth, handleAttachDisk, handleDetachDisk, handleSuspend, handleResume]"

definition latest_imaged :: "int \<Rightarrow> tables \<Rightarrow> deploy \<Rightarrow> bool" where
  "latest_imaged i t p \<longleftrightarrow> p \<in> set (deploys t) \<and> d_service p = i \<and> d_image p \<noteq> '''' \<and>
     (\<forall>q \<in> set (deploys t). d_service q = i \<and> d_image q \<noteq> '''' \<longrightarrow> d_id q \<le> d_id p)"

lemma latest_by_order:
  assumes "rev (sql_order key rows) = p # ps"
  shows "p \<in> set rows" "\<And>q. q \<in> set rows \<Longrightarrow> key q \<le> key p"
proof -
  have s: "sort_key key rows = rev ps @ [p]" using assms by (simp add: sql_order_def rev_swap)
  then have "set rows = set (rev ps @ [p])" using set_sort [of key rows] by metis
  moreover have "sorted (map key (rev ps @ [p]))" using sorted_sort_key [of key rows] s by simp
  ultimately show "p \<in> set rows" "\<And>q. q \<in> set rows \<Longrightarrow> key q \<le> key p"
    by (auto simp: sorted_append)
qed

lemma LatestImagedDeploy_calm:
  assumes "faults w = []"
  shows "(\<exists>p. LatestImagedDeploy i w = (Inr p, w) \<and> latest_imaged i (tabs w) p) \<or>
     (LatestImagedDeploy i w = (Inl ErrNotFound, w) \<and> (\<forall>p. \<not> latest_imaged i (tabs w) p))"
proof -
  let ?rows = "filter (\<lambda>d. d_service d = i \<and> d_image d \<noteq> '''') (deploys (tabs w))"
  show ?thesis
  proof (cases "rev (sql_order d_id ?rows)")
    case Nil
    then have "sort_key d_id ?rows = []" by (simp add: sql_order_def)
    then have "set ?rows = {}" using set_sort [of d_id ?rows] by simp
    then show ?thesis using Nil assms by (auto simp: LatestImagedDeploy_def latest_imaged_def)
  next
    case (Cons p ps)
    from latest_by_order [OF this] have "latest_imaged i (tabs w) p" by (auto simp: latest_imaged_def)
    then show ?thesis using Cons assms by (auto simp: LatestImagedDeploy_def)
  qed
qed

text \<open>The deploy a settings change makes of the newest deploy with an image.\<close>

definition redeploys :: "deploy \<Rightarrow> deploy \<Rightarrow> bool" where
  "redeploys p d \<longleftrightarrow> d_service d = d_service p \<and> d_image d = d_image p \<and> d_commit d = d_commit p \<and>
     d_status d = StatusDeploying \<and> d_kind d = KindProduction"

definition reapplied :: "int \<Rightarrow> 'z pg_scheme \<Rightarrow> 'z pg_scheme \<Rightarrow> bool" where
  "reapplied i w w' \<longleftrightarrow>
     (deploys (tabs w') = deploys (tabs w) \<and> bus w' = bus w \<and> (\<forall>p. \<not> latest_imaged i (tabs w) p)) \<or>
     (\<exists>p d. latest_imaged i (tabs w) p \<and> redeploys p d \<and> deploys (tabs w') = deploys (tabs w) @ [d] \<and>
        bus w' = bus w @ [(DeploymentChannel, itoa (d_id d))])"

lemma applyServiceChange_calm:
  fixes w :: "'z pg_scheme"
  assumes "faults w = []" "has_service i (tabs w)"
  shows "reapplied i w (snd (applyServiceChange i w))"
  using LatestImagedDeploy_calm [OF assms(1), of i]
proof (elim disjE exE conjE)
  fix p assume p: "LatestImagedDeploy i w = (Inr p, w)" "latest_imaged i (tabs w) p"
  let ?d = "new_deploy i StatusDeploying (d_commit p) (d_image p) KindProduction None (now w) (tabs w)"
  obtain t' where "CreateRollbackDeploy i (d_image p) (d_commit p) (d_id p) w = (Inr ?d, w\<lparr>tabs := t'\<rparr>)"
      "deploys t' = deploys (tabs w) @ [?d]"
    using imaged_calm [OF assms] unfolding CreateRollbackDeploy_def by blast
  moreover have "redeploys p ?d" using p(2) by (simp add: redeploys_def new_deploy_def latest_imaged_def)
  ultimately show ?thesis
    using p assms(1) by (auto simp: applyServiceChange_def act_run Notify_calm reapplied_def)
qed (auto simp: applyServiceChange_def act_run reapplied_def)

lemma requireServiceAccess_calm:
  assumes "requireServiceAccess r w = (Inr svc, w')" "faults w = []"
  shows "w' = w" "pathInt r ''serviceID'' = Some (sv_id svc)" "has_service (sv_id svc) (tabs w)"
  using assms
  by (auto simp: requireServiceAccess_def authorizeOrg_def ServiceByID_def RoleInOrg_def act_run reject_def
      has_service_def service_org_def dest!: find_Some_in split: option.splits sum.splits if_splits)

lemma attempt_exec_204:
  fixes w :: "'z pg_scheme"
  assumes "attempt (pg_exec (\<lambda>_ t. Inr ((), f t))) (\<lambda>_. writeError 500 m) (\<lambda>_. k) w = ((204, NoBody), w')"
    and "faults w = []"
  shows "k (w\<lparr>tabs := f (tabs w)\<rparr>) = ((204, NoBody), w')"
  using assms by (simp add: attempt_def)

text \<open>Every settings handler that succeeds changed one service and then re-applied its settings.\<close>

definition applies_to :: "request \<Rightarrow> 'z handler \<Rightarrow> bool" where
  "applies_to r h \<longleftrightarrow> (\<forall>w w'. faults w = [] \<and> h w = ((204, NoBody), w') \<longrightarrow>
     (\<exists>svc f. requireServiceAccess r w = (Inr svc, w) \<and> (\<forall>s. sv_id (f s) = sv_id s) \<and>
        apply_and_204 (sv_id svc) (w\<lparr>tabs := upd_service (sv_id svc) f (tabs w)\<rparr>) = ((204, NoBody), w')))"

definition writes_and_applies :: "service \<Rightarrow> 'z handler \<Rightarrow> bool" where
  "writes_and_applies svc k \<longleftrightarrow> (\<forall>w w'. faults w = [] \<and> k w = ((204, NoBody), w') \<longrightarrow>
     (\<exists>f. (\<forall>s. sv_id (f s) = sv_id s) \<and>
        apply_and_204 (sv_id svc) (w\<lparr>tabs := upd_service (sv_id svc) f (tabs w)\<rparr>) = ((204, NoBody), w')))"

lemma writing_error: "writes_and_applies svc (writeError 400 m)"
  by (simp add: writes_and_applies_def writeError_def writeJSON_def ret_def)

lemma writing_if: "writes_and_applies svc k \<Longrightarrow> writes_and_applies svc l \<Longrightarrow> writes_and_applies svc (if b then k else l)"
  by simp

lemma writing_scale:
  "(\<And>a b c d. writes_and_applies svc (k a b c d)) \<Longrightarrow>
     writes_and_applies svc (case x of Inl m \<Rightarrow> writeError 400 m | Inr (a, b, c, d) \<Rightarrow> k a b c d)"
  using writing_error by (auto split: sum.splits prod.splits)

lemma writing_exec:
  fixes svc :: service
  assumes "\<And>s. sv_id (f s) = sv_id s"
  shows "writes_and_applies svc (attempt (pg_exec (\<lambda>_ t. Inr ((), upd_service (sv_id svc) f t)))
     (\<lambda>_. writeError 500 m) (\<lambda>_. apply_and_204 (sv_id svc)))"
  unfolding writes_and_applies_def
  using attempt_exec_204 [of "\<lambda>t. upd_service (sv_id svc) f t"] assms by blast

lemma applies_to_checked:
  assumes "\<And>svc. writes_and_applies svc (k svc)"
  shows "applies_to r (check (requireServiceAccess r) k)"
  unfolding applies_to_def
proof (intro allI impI, elim conjE)
  fix w w' :: "'a pg_scheme"
  assume calm: "faults w = []" and run: "check (requireServiceAccess r) k w = ((204, NoBody), w')"
  obtain x w1 where g: "requireServiceAccess r w = (x, w1)" by fastforce
  show "\<exists>svc f. requireServiceAccess r w = (Inr svc, w) \<and> (\<forall>s. sv_id (f s) = sv_id s) \<and>
        apply_and_204 (sv_id svc) (w\<lparr>tabs := upd_service (sv_id svc) f (tabs w)\<rparr>) = ((204, NoBody), w')"
  proof (cases x)
    case (Inl resp)
    have "client_error resp" using service_access.guard_denies [of r w resp w1] g Inl by simp
    then show ?thesis using run g Inl by (auto simp: check_def attempt_def ret_def client_error_def)
  next
    case (Inr svc)
    then have g': "requireServiceAccess r w = (Inr svc, w)" using requireServiceAccess_calm(1) [of r w svc w1] g calm by simp
    then have "k svc w = ((204, NoBody), w')" using run by (simp add: check_def attempt_def)
    then show ?thesis using assms [of svc] g' calm unfolding writes_and_applies_def by blast
  qed
qed

lemmas settings_defs = handleScale_def handleSetHealth_def handleAttachDisk_def handleDetachDisk_def
  handleSuspend_def handleResume_def setSuspended_def SetServiceScaling_def SetServiceHealth_def
  SetServiceDisk_def SetServiceSuspended_def

lemma settings_handlers_apply:
  "applies_to r (handleScale r)" "applies_to r (handleSetHealth r)" "applies_to r (handleAttachDisk r)"
  "applies_to r (handleDetachDisk r)" "applies_to r (handleSuspend r)" "applies_to r (handleResume r)"
  unfolding settings_defs
  by (rule applies_to_checked, (rule writing_error writing_if writing_scale writing_exec)+, simp)+

text \<open>C20.
  A settings change that succeeds re-deploys, without a build, the image and commit of the newest deploy
  of the service that has an image, as one new production deploy announced to the controller, or nothing
  where no deploy has one. The newest such deploy may be the preview of a pull request or a rollout that
  failed: its image then becomes the production image.\<close>

theorem settings_change_redeploys:
  fixes w :: "'z pg_scheme"
  assumes "h \<in> set settings_handlers" "h r w = ((204, NoBody), w')" "faults w = []"
  shows "\<exists>i. pathInt r ''serviceID'' = Some i \<and> has_service i (tabs w) \<and> reapplied i w w'"
proof -
  have "applies_to r (h r)"
    using assms(1) settings_handlers_apply [of r] unfolding settings_handlers_def by auto
  then obtain svc f where g: "requireServiceAccess r w = (Inr svc, w)" "\<And>s. sv_id (f s) = sv_id s"
      and run: "apply_and_204 (sv_id svc) (w\<lparr>tabs := upd_service (sv_id svc) f (tabs w)\<rparr>) = ((204, NoBody), w')"
    using assms(2,3) unfolding applies_to_def by blast
  let ?w = "w\<lparr>tabs := upd_service (sv_id svc) f (tabs w)\<rparr>"
  note acc = requireServiceAccess_calm [OF g(1) assms(3)]
  have same: "deploys (tabs ?w) = deploys (tabs w)" "has_service (sv_id svc) (tabs ?w)"
    using acc(3) by (simp_all add: upd_service_def has_service_iff map_key_update g(2) del: set_map)
  have "reapplied (sv_id svc) ?w (snd (applyServiceChange (sv_id svc) ?w))"
    using applyServiceChange_calm [of ?w "sv_id svc"] same(2) assms(3) by simp
  then have "reapplied (sv_id svc) w (snd (applyServiceChange (sv_id svc) ?w))"
    using same(1) by (simp add: reapplied_def latest_imaged_def)
  moreover have "snd (applyServiceChange (sv_id svc) ?w) = w'"
    using run by (auto simp: apply_and_204_def bnd_def ret_def split: prod.splits)
  ultimately show ?thesis using acc by auto
qed

section \<open>Examples\<close>

text \<open>A push to the branch the demo service is built from, signed with the secret.\<close>

definition demo_event :: json where
  "demo_event = JObj [(''ref'', JStr ''refs/heads/main''), (''after'', JStr ''c0ffee''),
     (''repository'', JObj [(''full_name'', JStr ''acme/site''), (''html_url'', JStr (sv_repo demo_service)),
        (''clone_url'', JStr (sv_repo demo_service @ ''.git''))])]"

definition demo_delivery :: string where
  "demo_delivery = json_text demo_event"

definition demo_push :: request where
  "demo_push = (demo_request ''POST'' [] empty_body)\<lparr>rq_raw := Some demo_delivery, rq_event := ''push'',
     rq_signature := ''sha256='' @ hex_encode (hmac_sum demo_crypto ''key'' demo_delivery)\<rparr>"

definition demo_pushed :: push_event where
  "demo_pushed = \<lparr>pe_ref = ''refs/heads/main'', pe_after = ''c0ffee'', pe_html_url = sv_repo demo_service,
     pe_clone_url = sv_repo demo_service @ ''.git''\<rparr>"

lemma demo_push_read:
  "rq_raw demo_push = Some demo_delivery" "rq_event demo_push = ''push''"
  "take maxWebhookBody demo_delivery = demo_delivery" "ParsePush git_hooks demo_delivery = Some demo_pushed"
  "VerifySignature demo_crypto ''key'' demo_delivery (rq_signature demo_push)"
proof -
  show "rq_raw demo_push = Some demo_delivery" "rq_event demo_push = ''push''"
    by (simp_all add: demo_push_def)
  have "int (length demo_delivery) < 300" by code_simp
  then show "take maxWebhookBody demo_delivery = demo_delivery" by (simp add: maxWebhookBody_def)
  have "json_ok demo_event" "json_depth demo_event \<le> 10000" by code_simp+
  then have "unmarshal_json demo_delivery = Some demo_event"
    unfolding demo_delivery_def by (rule unmarshal_json_text)
  moreover have "set_push_event demo_event no_push_event = Some demo_pushed" by code_simp
  ultimately show "ParsePush git_hooks demo_delivery = Some demo_pushed"
    by (simp add: git_hooks_def parse_push_body_def)
  have "rq_signature demo_push = ''sha256='' @ hex_encode (hmac_sum demo_crypto ''key'' demo_delivery)"
    by (simp add: demo_push_def)
  then show "VerifySignature demo_crypto ''key'' demo_delivery (rq_signature demo_push)"
    using has_prefix_append [of "''sha256=''"] trim_prefix_append [of "''sha256=''"]
    by (simp only: VerifySignature_def Let_def not_True_eq_False if_False)
qed


text \<open>The production deploy 1 is live when the preview of pull request 7 has been built as deploy 2.\<close>

definition preview_pg :: pg where
  "preview_pg = demo_pg\<lparr>tabs := demo_tables\<lparr>deploys :=
     [demo_deploy\<lparr>d_image := ''reg/web:1'', d_status := StatusLive\<rparr>,
      demo_deploy\<lparr>d_id := 2, d_image := ''reg/web:2'', d_commit := ''pr7'', d_kind := KindPreview, d_pr := Some 7,
        d_status := StatusLive\<rparr>]\<rparr>\<rparr>"

theorem settings_change_redeploys_witness:
  "\<exists>d w'. handleSuspend (demo_request ''POST'' [(''serviceID'', ''1'')] empty_body) preview_pg = ((204, NoBody), w') \<and>
     deploys (tabs w') = deploys (tabs preview_pg) @ [d] \<and> d_kind d = KindProduction \<and>
     d_image d = ''reg/web:2'' \<and> d_commit d = ''pr7''"
proof -
  let ?r = "demo_request ''POST'' [(''serviceID'', ''1'')] empty_body"
  have "fst (handleSuspend ?r preview_pg) = (204, NoBody)" by code_simp
  then obtain w' where run: "handleSuspend ?r preview_pg = ((204, NoBody), w')" by (metis prod.collapse)
  have "pathInt ?r ''serviceID'' = Some 1" by code_simp
  moreover have "faults preview_pg = []" by (simp add: preview_pg_def)
  ultimately have re: "reapplied 1 preview_pg w'"
    using settings_change_redeploys [of handleSuspend ?r preview_pg w'] run by (auto simp: settings_handlers_def)
  let ?p = "demo_deploy\<lparr>d_id := 2, d_image := ''reg/web:2'', d_commit := ''pr7'', d_kind := KindPreview, d_pr := Some 7,
        d_status := StatusLive\<rparr>"
  have "latest_imaged 1 (tabs preview_pg) p \<longleftrightarrow> p = ?p" for p
    by (auto simp: latest_imaged_def preview_pg_def demo_deploy_def)
  then show ?thesis using run re by (auto simp: reapplied_def redeploys_def)
qed

end
