(* ===== verification/Cli_Runs.thy ===== *)
theory Cli_Runs
  imports Cli_Api Deploy_Requests
begin

text \<open>
  Runs of the client against the API: \<open>tt_net\<close> is \<open>api_net\<close> and the world behind the network is the database
  of the API.
\<close>

section \<open>One request of the client\<close>

lemma serve_private:
  assumes "find_route (public_routes s) r = None" "find_route (private_routes s) r = Some (h, r')"
    and "bearerToken r' = tok" "tok \<noteq> ''''" "resolve (srv_crypto s) tok w = (Inr u, w1)"
  shows "serve s r w = auditMiddleware h (r'\<lparr>rq_user := u\<rparr>) w1"
  using assms by (simp add: serve_def Middleware_def attempt_def)

lemma find_create_deploy:
  assumes "rq_method r = ''POST''" "rq_path r = service_path i ''/deploys''"
  shows "find_route (public_routes s) r = None"
    "find_route (private_routes s) r = Some (handleCreateDeploy, with_params r [(''serviceID'', itoa i)])"
  by (simp_all add: assms route_tables match_route_def path_defs is_param_def split_itoa)

lemma find_audit:
  assumes "rq_method r = ''GET''" "rq_path r = ''/v1/audit''"
  shows "find_route (public_routes s) r = None"
    "find_route (private_routes s) r = Some (handleListAudit, with_params r [])"
  by (simp_all add: assms route_tables match_route_def is_param_def)

text \<open>The API answers the client's \<open>GET /v1/audit\<close> with an error or with an object.\<close>

definition object_or_error :: "response \<Rightarrow> bool" where
  "object_or_error resp \<longleftrightarrow> fst resp \<ge> 300 \<or> (\<exists>es n l off. resp = (200, AuditBody es n l off))"

lemma audit_answer:
  assumes "rq_method r = ''GET''" "rq_path r = ''/v1/audit''" "serve s r w = (resp, w')"
  shows "object_or_error resp"
  using assms(3) find_audit [of r s, OF assms(1,2)]
  by (auto simp: serve_def Middleware_def Let_def attempt_def auditMiddleware_def bnd_def handleListAudit_def
      writeError_def writeJSON_def ret_def object_or_error_def split: prod.splits sum.splits if_splits)

lemma decode_object:
  assumes "decode_json (CHR ''{'' # x) = Some j"
  shows "\<exists>ms. j = JObj ms"
proof -
  have "parse_value (Suc n) (CHR ''{'' # x) = Some (j', r) \<Longrightarrow> \<exists>ms. j' = JObj ms" for n j' r
    by (auto simp: skip_space_id structural_chars structural_chars(13) [THEN not_sym] Let_def split: if_splits)
  then show ?thesis using assms by (auto simp: decode_json_def parse_first_def split: option.splits prod.splits if_splits)
qed

lemma audit_object_text: "\<exists>x. response_text wi (200, AuditBody es n l off) = CHR ''{'' # x"
  by (simp add: response_text_def)

lemma audit_list_refused: "set_list zero f (JObj ms) old = None"
  by simp

text \<open>What a call of the client makes of the API's answer.\<close>

definition api_answer :: "wire \<Rightarrow> response \<Rightarrow> http_response" where
  "api_answer wi resp = \<lparr>hs_status = fst resp, hs_body = response_text wi resp, hs_broken = None\<rparr>"

definition understood_as :: "string \<Rightarrow> string \<Rightarrow> 'a setter option \<Rightarrow> 'a \<Rightarrow> wire \<Rightarrow> response \<Rightarrow> cli_error + 'a" where
  "understood_as meth path out zero wi resp =
     (if fst resp < 200 \<or> fst resp \<ge> 300 then Inl (Message (meth @ '' '' @ path @ '': '' @ serverError (api_answer wi resp)))
      else case out of None \<Rightarrow> Inr zero
        | Some put \<Rightarrow> if fst resp \<noteq> 204 then
            (case Option.bind (decode_json (response_text wi resp)) (\<lambda>j. put j zero) of
               None \<Rightarrow> Inl (BadJson '''') | Some v \<Rightarrow> Inr v)
          else Inr zero)"

lemma client_do_api:
  fixes w :: "'z pg_scheme terminal"
  assumes "tt_net w = api_net target wi random s" "target (cl_apiURL c @ path) = Some p"
    and "serve s (wire_request random (now (tt_world w)) (client_request c meth path body) p) (tt_world w) = (resp, y)"
  shows "client_do c meth path body out zero w = (understood_as meth path out zero wi resp,
     w\<lparr>tt_sent := tt_sent w @ [client_request c meth path body], tt_world := y\<rparr>)"
proof -
  have "hq_url (client_request c meth path body) = cl_apiURL c @ path" by (simp add: client_request_def)
  then have "send (client_request c meth path body) w = (Inr (api_answer wi resp),
      w\<lparr>tt_sent := tt_sent w @ [client_request c meth path body], tt_world := y\<rparr>)"
    using assms by (simp add: send_def api_net_def api_answer_def)
  then show ?thesis
    by (simp add: client_do_def throwing_def attempt_def ret_def failing_def understood_as_def api_answer_def
        act_if act_option split: option.split)
qed

lemma cli_main_command:
  assumes "map_of commands name = Some cmd"
  shows "cli_main (prog # name # args) w = attempt (cmd args)
     (\<lambda>e. case e of Exit n \<Rightarrow> ret n | _ \<Rightarrow> bnd (complain (ErrorLine e)) (\<lambda>_. ret 1)) (\<lambda>_. ret 0) w"
  using assms by (simp add: cli_main_def)

lemma authed_frame:
  assumes "authed w = (x, w1)"
  shows "tt_out w1 = tt_out w" "tt_net w1 = tt_net w" "tt_world w1 = tt_world w" "tt_sent w1 = tt_sent w"
  using offlineD [OF offline_session(3) assms] keepsD [OF mute_session(3) [unfolded mute_def] assms] by auto

text \<open>
  \<open>uran audit\<close> never succeeds against the API, whoever is logged in and whatever the log holds: the API
  answers with a page object where the client decodes a list. The command prints nothing and exits with 1.\<close>

theorem audit_command_fails:
  fixes w :: "'z pg_scheme terminal"
  assumes net: "tt_net w = api_net target wi random s"
    and session: "authed w = (Inr c, w1)" "target (cl_apiURL c @ ''/v1/audit'') = Some ''/v1/audit''"
  shows "\<exists>w'. cli_main [''uran'', ''audit''] w = (1, w') \<and> tt_out w' = tt_out w"
proof -
  let ?rq = "wire_request random (now (tt_world w1)) (client_request c ''GET'' ''/v1/audit'' None) ''/v1/audit''"
  obtain resp y where sv: "serve s ?rq (tt_world w1) = (resp, y)" by fastforce
  have "object_or_error resp"
    by (rule audit_answer [OF _ _ sv]) (simp_all add: wire_request_def client_request_def)
  then have "\<exists>e. (\<forall>n. e \<noteq> Exit n) \<and> understood_as ''GET'' ''/v1/audit'' (Some (set_list no_auditEntry set_auditEntry)) [] wi resp = Inl e"
    unfolding object_or_error_def
  proof (elim disjE exE)
    fix es n l off assume resp: "resp = (200, AuditBody es n l off)"
    then obtain x where "response_text wi resp = CHR ''{'' # x" using audit_object_text by blast
    then have "Option.bind (decode_json (response_text wi resp)) (\<lambda>j. set_list no_auditEntry set_auditEntry j []) = None"
      using decode_object [of x] by (cases "decode_json (response_text wi resp)") auto
    then show ?thesis using resp by (simp add: understood_as_def)
  qed (simp add: understood_as_def)
  then obtain e where e: "understood_as ''GET'' ''/v1/audit'' (Some (set_list no_auditEntry set_auditEntry)) [] wi resp = Inl e"
    and ex: "\<And>n. e \<noteq> Exit n" by blast
  let ?w2 = "w1\<lparr>tt_sent := tt_sent w1 @ [client_request c ''GET'' ''/v1/audit'' None], tt_world := y\<rparr>"
  have net1: "tt_net w1 = api_net target wi random s" using net authed_frame(2) [OF session(1)] by simp
  have "client_do c ''GET'' ''/v1/audit'' None (Some (set_list no_auditEntry set_auditEntry)) [] w1 = (Inl e, ?w2)"
    by (simp only: client_do_api [OF net1, where c = c and path = "''/v1/audit''", OF session(2) sv] e)
  then have "cmdAudit [] w = (Inl e, ?w2)"
    using session(1) by (simp add: cmdAudit_def throwing_def attempt_def ret_def)
  then have "cli_main [''uran'', ''audit''] w =
      (case e of Exit n \<Rightarrow> ret n | _ \<Rightarrow> bnd (complain (ErrorLine e)) (\<lambda>_. ret 1)) ?w2"
    by (subst cli_main_command [of "''audit''" cmdAudit]) (simp_all add: commands_def attempt_def)
  then show ?thesis using ex authed_frame(1) [OF session(1)]
    by (cases e) (auto simp: bnd_def complain_def ret_def)
qed

section \<open>Creating a deploy\<close>

lemma number_itoa: "number_rest (itoa i) = Some []"
proof -
  have nat: "Option.bind (Option.bind (whole_rest (dec_nat n)) fraction_rest) exponent_rest = Some []" for n
  proof (cases "n = 0")
    case True
    have "dec_nat 0 = ''0''" by code_simp
    then show ?thesis using True by (simp add: whole_rest_def fraction_rest_def exponent_rest_def)
  next
    case False
    have "list_all is_digit (dec_nat n)" using dec_nat_digits [of n] by (auto simp: list_all_iff)
    then have "digits_rest (dec_nat n) = Some []"
      by (cases "dec_nat n") (auto simp: digits_rest_def list_all_iff)
    then show ?thesis using dec_nat_head [OF False]
      by (simp add: whole_rest_def fraction_rest_def exponent_rest_def)
  qed
  have "sign_rest (itoa i) = dec_nat (nat \<bar>i\<bar>)" by (simp add: itoa_def sign_rest_def hd_dec_nat)
  then show ?thesis using nat by (simp add: number_rest_def)
qed

text \<open>A token lookup moves nothing but the time a token was last used.\<close>

lemma resolve_calm:
  assumes "resolve cr tok y = (Inr u, y1)" "faults y = []"
  shows "\<exists>at. y1 = y\<lparr>tabs := (tabs y)\<lparr>api_tokens := at\<rparr>\<rparr>"
proof -
  have same: "y = y\<lparr>tabs := (tabs y)\<lparr>api_tokens := api_tokens (tabs y)\<rparr>\<rparr>" by simp
  show ?thesis
  proof (cases "has_prefix tok APITokenPrefix")
    case True
    then show ?thesis using assms
      by (auto simp: resolve_def UserByAPIToken_def TouchAPIToken_def act_run upd_token_def or_not_found_def
          split: option.splits)
  next
    case False
    then have "y1 = y" using assms by (auto simp: resolve_def UserBySession_def or_not_found_def split: option.splits)
    then show ?thesis using same by metis
  qed
qed

text \<open>The user may change the service with the given number.\<close>

definition may_change :: "int \<Rightarrow> int \<Rightarrow> tables \<Rightarrow> bool" where
  "may_change user i t \<longleftrightarrow> (case service_org i t of None \<Rightarrow> False
     | Some (_, orgID) \<Rightarrow> (case member_role user orgID t of None \<Rightarrow> False | Some role \<Rightarrow> CanWrite role))"

lemma may_change_tokens: "may_change user i (t\<lparr>api_tokens := at\<rparr>) = may_change user i t"
  by (simp add: may_change_def service_org_def member_role_def cong: option.case_cong)

lemma requireServiceAccess_granted:
  assumes "faults w = []" "pathInt r ''serviceID'' = Some i" "may_change (u_id (rq_user r)) i (tabs w)"
  shows "\<exists>svc. requireServiceAccess r w = (Inr svc, w) \<and> sv_id svc = i"
proof -
  obtain svc orgID role where so: "service_org i (tabs w) = Some (svc, orgID)"
      "member_role (u_id (rq_user r)) orgID (tabs w) = Some role" "CanWrite role"
    using assms(3) by (auto simp: may_change_def split: option.splits)
  have "sv_id svc = i" using so(1) by (auto simp: service_org_def dest!: find_Some_in split: option.splits)
  then show ?thesis using assms(1,2) so
    by (simp add: requireServiceAccess_def authorizeOrg_def ServiceByID_def RoleInOrg_def act_run)
qed

lemma handleCreateDeploy_calm:
  assumes "faults w = []" "pathInt r ''serviceID'' = Some i" "may_change (u_id (rq_user r)) i (tabs w)"
  shows "\<exists>w'. handleCreateDeploy r w = ((201, DeployBody
       (new_deploy i StatusQueued (bd_commit (rq_body r)) '''' KindProduction None (now w) (tabs w))), w') \<and>
     created (new_deploy i StatusQueued (bd_commit (rq_body r)) '''' KindProduction None (now w) (tabs w)) DeployChannel w w'"
proof -
  obtain svc where svc: "requireServiceAccess r w = (Inr svc, w)" "sv_id svc = i"
    using requireServiceAccess_granted [OF assms] by blast
  have "has_service i (tabs w)" using requireServiceAccess_calm(3) [OF svc(1) assms(1)] svc(2) by simp
  from enqueueDeploy_calm [OF assms(1) this, of "bd_commit (rq_body r)"] show ?thesis
    using svc by (auto simp: handleCreateDeploy_def check_def attempt_def writeJSON_def ret_def)
qed

lemma audited_calm:
  assumes "h r w = (resp, w1)" "faults w1 = []"
  shows "\<exists>w'. auditMiddleware h r w = (resp, w') \<and> deploys (tabs w') = deploys (tabs w1) \<and>
     services (tabs w') = services (tabs w1) \<and> bus w' = bus w1 \<and> faults w' = [] \<and> now w' = now w1"
  using assms
  by (cases "isMutation (rq_method r)")
    (auto simp: auditMiddleware_def InsertAudit_def act_run ins_audit_def Let_def nextval_def split: sum.splits)

lemma deploy_json_ok:
  assumes "utf8 (d_status d)" "utf8 (d_commit d)" "utf8 (d_image d)" "utf8 (d_kind d)" "\<And>t. utf8 (wi_time wi t)"
  shows "json_ok (deploy_json wi d)"
proof -
  have keys: "list_all utf8 [''id'', ''service_id'', ''status'', ''commit_sha'', ''image'', ''kind'', ''pr_number'',
      ''created_at'', ''updated_at'']"
    by code_simp
  show ?thesis using keys assms by (auto simp: deploy_json_def number_itoa time_json_def split: option.splits)
qed

lemma deploy_json_depth: "json_depth (deploy_json wi d) \<le> 10000"
  by (simp add: deploy_json_def time_json_def split: option.split)

lemma status_utf8: "utf8 StatusQueued" "utf8 KindProduction" "utf8 ''''"
  by code_simp+

lemma field_of_known: "map_of fs k = Some f \<Longrightarrow> field_of fs k = Some f"
  by (simp add: field_of_def)

lemma field_of_unknown: "fold_key k \<notin> set (map fold_key (map fst fs)) \<Longrightarrow> field_of fs k = None"
  by (force simp: field_of_def find_None_iff map_of_eq_None_iff split: option.split)

lemma deploy_json_read:
  assumes "int64 (d_id d)" "int64 (d_service d)"
  shows "set_deployView (deploy_json wi d) no_deployView = Some \<lparr>vw_id = d_id d, vw_serviceID = d_service d,
     vw_status = d_status d, vw_commitSHA = d_commit d, vw_image = d_image d\<rparr>"
proof -
  have names: "fold_key ''id'' = ''id''" "fold_key ''service_id'' = ''service_id''" "fold_key ''status'' = ''status''"
    "fold_key ''commit_sha'' = ''commit_sha''" "fold_key ''image'' = ''image''" "fold_key ''kind'' = ''kind''"
    "fold_key ''pr_number'' = ''pr_number''" "fold_key ''created_at'' = ''created_at''"
    "fold_key ''updated_at'' = ''updated_at''"
    by code_simp+
  show ?thesis using assms
    by (cases "d_pr d")
      (simp_all add: set_deployView_def deploy_json_def no_deployView_def field_of_known field_of_unknown names into_def parse_int_itoa time_json_def)
qed

lemma commit_body:
  assumes "utf8 sha"
  shows "bd_commit (readJSON createDeployReq (json_text (JObj [(''commit_sha'', JStr sha)]))) = sha"
proof -
  have "utf8 ''commit_sha''" by code_simp
  then have "decode_json (json_text (JObj [(''commit_sha'', JStr sha)]) @ []) = Some (JObj [(''commit_sha'', JStr sha)])"
    using assms by (intro decode_json_text) (simp_all add: ends_number_def)
  then show ?thesis by (simp add: readJSON_def createDeployReq_def field_of_def into_def)
qed

lemma deploy_path_split:
  "request_struct ''POST'' ''/v1/services/{serviceID}/deploys'' = createDeployReq"
  by (simp add: request_struct_def body_structs_def)

text \<open>The request \<open>uran deploy\<close> sends, as the router of the API gets it.\<close>

lemma served_deploy:
  fixes y :: "'z pg_scheme"
  assumes calm: "faults y = []" and token: "trim_space (cl_token c) \<noteq> ''''"
    and user: "resolve (srv_crypto s) (trim_space (cl_token c)) y = (Inr u, y1)" "may_change (u_id u) i (tabs y)"
    and fits: "int64 i" "utf8 sha"
  shows "\<exists>y'. serve s (wire_request random (now y)
       (client_request c ''POST'' (service_path i ''/deploys'') (JMap [(''commit_sha'', sha)])) (service_path i ''/deploys'')) y =
       ((201, DeployBody (new_deploy i StatusQueued sha '''' KindProduction None (now y) (tabs y))), y') \<and>
     created (new_deploy i StatusQueued sha '''' KindProduction None (now y) (tabs y)) DeployChannel y y'"
proof -
  let ?p = "service_path i ''/deploys''"
  let ?c = "client_request c ''POST'' ?p (JMap [(''commit_sha'', sha)])"
  let ?r = "wire_request random (now y) ?c ?p"
  let ?r' = "with_params ?r [(''serviceID'', itoa i)]"
  let ?d = "new_deploy i StatusQueued sha '''' KindProduction None (now y) (tabs y)"
  have r: "rq_method ?r = ''POST''" "rq_path ?r = ?p"
    by (simp_all add: wire_request_def client_request_def)
  have body: "bd_commit (rq_body ?r) = sha"
    using commit_body [OF fits(2)] call_patterns
    by (simp add: wire_request_def client_request_def deploy_path_split)
  have "cl_token c \<noteq> ''''" using token by (auto simp: trim_space_def trim_if_def trim_right_if_def)
  then have bearer: "bearerToken ?r' = trim_space (cl_token c)"
    by (intro bearer_of) (simp add: with_params_def wire_request_def client_request_def)
  obtain at where y1: "y1 = y\<lparr>tabs := (tabs y)\<lparr>api_tokens := at\<rparr>\<rparr>"
    using resolve_calm [OF user(1) calm] by blast
  let ?q = "?r'\<lparr>rq_user := u\<rparr>"
  have q: "pathInt ?q ''serviceID'' = Some i" "bd_commit (rq_body ?q) = sha" "rq_user ?q = u"
    using fits(1) body by (simp_all add: pathInt_def with_params_def parse_int_itoa)
  have "may_change (u_id u) i (tabs y1)"
    using user(2) by (simp add: y1 may_change_tokens)
  then obtain y2 where h: "handleCreateDeploy ?q y1 = ((201, DeployBody (new_deploy i StatusQueued sha '''' KindProduction None (now y1) (tabs y1))), y2)"
      "created (new_deploy i StatusQueued sha '''' KindProduction None (now y1) (tabs y1)) DeployChannel y1 y2"
    using handleCreateDeploy_calm [of y1 ?q i] q calm by (auto simp: y1)
  have "new_deploy i StatusQueued sha '''' KindProduction None (now y1) (tabs y1) = ?d"
    by (simp add: new_deploy_def y1)
  note h = h [unfolded this]
  have "faults y2 = []" using h(2) by (simp add: created_def)
  from audited_calm [where h = handleCreateDeploy, OF h(1) this] obtain y' where
    "auditMiddleware handleCreateDeploy ?q y1 = ((201, DeployBody ?d), y')" "deploys (tabs y') = deploys (tabs y2)"
    "services (tabs y') = services (tabs y2)" "bus y' = bus y2" "faults y' = []" "now y' = now y2" by blast
  moreover have "serve s ?r y = auditMiddleware handleCreateDeploy ?q y1"
    using serve_private [OF find_create_deploy(1) [OF r] find_create_deploy(2) [OF r] bearer token user(1)] .
  ultimately show ?thesis using h(2) by (auto simp: created_def y1)
qed

text \<open>C12.
  \<open>uran deploy --service N --commit SHA\<close>, run by a logged-in user who may change the service against an
  API whose database fails no call, exits with 0, leaves exactly one new deploy: queued, of the service and
  the commit; announces it to the builders, and prints its number.\<close>

theorem deploy_command_queues:
  fixes w :: "'z pg_scheme terminal"
  assumes net: "tt_net w = api_net target wi random s"
    and session: "authed w = (Inr c, w1)" "trim_space (cl_token c) \<noteq> ''''"
    and url: "target (cl_apiURL c @ service_path i ''/deploys'') = Some (service_path i ''/deploys'')"
    and user: "resolve (srv_crypto s) (trim_space (cl_token c)) (tt_world w) = (Inr u, y1)"
      "may_change (u_id u) i (tabs (tt_world w))"
    and args: "flag_parse [(''service'', VInt 0), (''commit'', VStr ''''), (''image'', VStr '''')] args = Inr (fs, rest)"
      "int_flag fs ''service'' = i" "str_flag fs ''commit'' = sha" "str_flag fs ''image'' = ''''" "i \<noteq> 0"
    and calm: "faults (tt_world w) = []"
    and fits: "int64 i" "int64 (seqs (tabs (tt_world w)) SDeploys)" "utf8 sha" "\<And>t. utf8 (wi_time wi t)"
  shows "\<exists>d w'. cli_main (''uran'' # ''deploy'' # args) w = (0, w') \<and> d_service d = i \<and> queued_of sha d \<and>
     created d DeployChannel (tt_world w) (tt_world w') \<and>
     tt_out w' = tt_out w @ ''queued deploy '' @ itoa (d_id d) @ '' for service '' @ itoa i @ newline @
       ''stream logs: uran logs --deploy '' @ itoa (d_id d) @ newline"
proof -
  let ?p = "service_path i ''/deploys''"
  let ?b = "JMap [(''commit_sha'', sha)]"
  let ?d = "new_deploy i StatusQueued sha '''' KindProduction None (now (tt_world w)) (tabs (tt_world w))"
  let ?v = "\<lparr>vw_id = d_id ?d, vw_serviceID = d_service ?d, vw_status = d_status ?d, vw_commitSHA = d_commit ?d,
     vw_image = d_image ?d\<rparr>"
  note same = authed_frame [OF session(1)]
  obtain y' where sv: "serve s (wire_request random (now (tt_world w)) (client_request c ''POST'' ?p ?b) ?p) (tt_world w) =
      ((201, DeployBody ?d), y')" "created ?d DeployChannel (tt_world w) y'"
    using served_deploy [OF calm session(2) user fits(1,3)] by blast
  have ok: "json_ok (deploy_json wi ?d)"
    by (rule deploy_json_ok) (use fits(3,4) in \<open>simp_all add: new_deploy_def status_utf8\<close>)
  have "decode_json (response_text wi (201, DeployBody ?d)) = Some (deploy_json wi ?d)"
    using decode_json_text [OF ok, of "[CHR 0x0A]"] deploy_json_depth
    by (simp add: response_text_def ends_number_def is_digit_code)
  moreover have "set_deployView (deploy_json wi ?d) no_deployView = Some ?v"
    using deploy_json_read fits(1,2) by (simp add: new_deploy_def)
  ultimately have understood: "understood_as ''POST'' ?p (Some set_deployView) no_deployView wi (201, DeployBody ?d) = Inr ?v"
    by (simp add: understood_as_def)
  have net1: "tt_net w1 = api_net target wi random s" using net same(2) by simp
  let ?w2 = "w1\<lparr>tt_sent := tt_sent w1 @ [client_request c ''POST'' ?p ?b], tt_world := y'\<rparr>"
  have sv1: "serve s (wire_request random (now (tt_world w1)) (client_request c ''POST'' ?p ?b) ?p) (tt_world w1) =
      ((201, DeployBody ?d), y')" using sv(1) same(3) by simp
  have call: "client_do c ''POST'' ?p ?b (Some set_deployView) no_deployView w1 = (Inr ?v, ?w2)"
    by (simp only: client_do_api [OF net1, where c = c and path = ?p, OF url sv1] understood)
  let ?w3 = "?w2\<lparr>tt_out := tt_out w @ ''queued deploy '' @ itoa (d_id ?d) @ '' for service '' @ itoa i @ newline @
       ''stream logs: uran logs --deploy '' @ itoa (d_id ?d) @ newline\<rparr>"
  have "cmdDeploy args w = (Inr (), ?w3)"
    using args session(1) call same(1)
    by (simp add: cmdDeploy_def parsed_def throwing_def attempt_def println_def print_def new_deploy_def)
  then have "cli_main (''uran'' # ''deploy'' # args) w = (0, ?w3)"
    by (subst cli_main_command [of "''deploy''" cmdDeploy]) (simp_all add: commands_def attempt_def ret_def)
  then show ?thesis using sv(2) by (intro exI [of _ ?d] exI [of _ ?w3]) (simp add: new_deploy_def queued_of_def)
qed

section \<open>Logging in\<close>

definition session_path :: "string \<Rightarrow> string" where
  "session_path dir = credentialsDir dir @ ''/credentials.json''"

lemma saveCredentials_calm:
  assumes "tt_disk w = []" "tt_config w = Inr dir"
  shows "saveCredentials c w = (Inr (), put_file (session_path dir) (credentials_text c) 384
     (if map_of (tt_dirs w) (file_dir (session_path dir)) = None
      then w\<lparr>tt_dirs := (file_dir (session_path dir), 448) # tt_dirs w\<rparr> else w))"
  using assms
  by (simp add: saveCredentials_def credentialsPath_def session_path_def os_MkdirAll_def os_WriteFile_def
      next_disk_def throwing_def attempt_def bnd_def ret_def)

lemma saveCredentials_no_dir: "tt_config w = Inl m \<Longrightarrow> saveCredentials c w = (Inl (Message m), w)"
  by (simp add: saveCredentials_def credentialsPath_def throwing_def attempt_def ret_def)

lemma loadCredentials_calm:
  assumes "tt_disk w = []" "tt_config w = Inr dir" "map_of (tt_files w) (session_path dir) = Some (credentials_text c, m)"
    and "utf8 (cr_api_url c)" "utf8 (cr_token c)"
  shows "loadCredentials w = (Inr c, w)"
proof -
  have "set_credentials (JObj [(''api_url'', JStr (cr_api_url c)), (''token'', JStr (cr_token c))]) no_credentials = Some c"
    by (simp add: set_credentials_def no_credentials_def field_of_known into_def)
  then show ?thesis
    using assms(1-3) credentials_text_parsed [OF assms(4,5)]
    by (simp add: loadCredentials_def credentialsPath_def session_path_def os_ReadFile_def next_disk_def
        throwing_def attempt_def bnd_def ret_def)
qed

lemma saved_session:
  assumes "saveCredentials c w = (Inr (), w1)" "tt_disk w = []" "utf8 (cr_api_url c)" "utf8 (cr_token c)"
  shows "loadCredentials (w1\<lparr>tt_out := out\<rparr>) = (Inr c, w1\<lparr>tt_out := out\<rparr>)" "tt_world w1 = tt_world w"
proof -
  obtain dir where dir: "tt_config w = Inr dir"
    using assms(1) by (cases "tt_config w") (auto simp: saveCredentials_def credentialsPath_def throwing_def attempt_def ret_def)
  have w1: "w1 = put_file (session_path dir) (credentials_text c) 384
     (if map_of (tt_dirs w) (file_dir (session_path dir)) = None
      then w\<lparr>tt_dirs := (file_dir (session_path dir), 448) # tt_dirs w\<rparr> else w)"
    using saveCredentials_calm [OF assms(2) dir, of c] assms(1) by simp
  show "loadCredentials (w1\<lparr>tt_out := out\<rparr>) = (Inr c, w1\<lparr>tt_out := out\<rparr>)"
    by (rule loadCredentials_calm [where dir = dir]) (simp_all add: w1 put_file_def dir assms)
  show "tt_world w1 = tt_world w" by (simp add: w1 put_file_def)
qed

lemma find_login:
  assumes "rq_method r = ''POST''" "rq_path r = ''/v1/auth/login''"
  shows "find_route (public_routes s) r = Some (handleLogin (srv_crypto s) (srv_ttl s), with_params r [])"
  by (simp add: assms route_tables match_route_def is_param_def)

text \<open>What the login handler can answer.\<close>

lemma login_answer:
  assumes "handleLogin cr ttl r w = (resp, w')"
  shows "fst resp \<ge> 300 \<or> (\<exists>tok uv. resp = (201, AuthBody tok uv))"
  using assms
  by (auto simp: handleLogin_def issueSession_def Let_def attempt_def writeError_def writeJSON_def ret_def
      split: prod.splits sum.splits option.splits if_splits)

lemma credentials_body:
  assumes "utf8 e" "utf8 p"
  shows "bd_email (readJSON loginReq (json_text (JObj [(''email'', JStr e), (''password'', JStr p)]))) = e"
    "bd_password (readJSON loginReq (json_text (JObj [(''email'', JStr e), (''password'', JStr p)]))) = p"
proof -
  let ?j = "JObj [(''email'', JStr e), (''password'', JStr p)]"
  have "utf8 ''email''" "utf8 ''password''" by code_simp+
  then have "decode_json (json_text ?j @ []) = Some ?j"
    using assms by (intro decode_json_text) (simp_all add: ends_number_def)
  then show "bd_email (readJSON loginReq (json_text ?j)) = e" "bd_password (readJSON loginReq (json_text ?j)) = p"
    by (simp_all add: readJSON_def loginReq_def field_of_known into_def)
qed

lemma token_read:
  assumes "utf8 tok" "utf8 (uv_email uv)" "utf8 (uv_name uv)" "\<And>t. utf8 (wi_time wi t)"
  shows "Option.bind (decode_json (response_text wi (201, AuthBody tok uv))) (\<lambda>j. set_token j '''') = Some tok"
proof -
  let ?j = "JObj [(''token'', JStr tok), (''user'', user_json wi uv)]"
  have keys: "list_all utf8 [''token'', ''user'', ''id'', ''email'', ''name'', ''created_at'']" by code_simp
  have "json_ok ?j" "json_depth ?j \<le> 10000"
    using keys assms by (simp_all add: user_json_def number_itoa time_json_def)
  then have "decode_json (json_text ?j @ [CHR 0x0A]) = Some ?j"
    by (rule decode_json_text) (simp add: ends_number_def is_digit_code)
  moreover have "fold_key ''user'' = ''user''" "fold_key ''token'' = ''token''" by code_simp+
  ultimately show ?thesis
    by (simp add: response_text_def set_token_def field_of_known field_of_unknown)
qed

lemma utf8_ascii: "(\<And>c. c \<in> set x \<Longrightarrow> byte c < 0x80) \<Longrightarrow> utf8 x"
proof (induction x)
  case (Cons c x)
  then have "rune_len (c # x) = 1" by (intro rune_len_ascii) simp
  then show ?case using Cons by (subst utf8.simps) simp
qed (subst utf8.simps, simp)

lemma utf8_hex: "utf8 (hex_encode b)"
  using hex_encode_chars [of b] by (intro utf8_ascii) (fastforce simp: is_hex_def byte_def Let_def)

lemma resolve_session:
  assumes "faults w = []" "session_user (hex_encode b) (now w) (tabs w) = Some u"
  shows "resolve cr (hex_encode b) w = (Inr u, w)"
  using assms by (simp add: resolve_def UserBySession_def)

text \<open>The login request of the client at the API, when it is granted.\<close>

lemma served_login:
  fixes y :: "'z pg_scheme"
  assumes sv: "serve s (wire_request (Some bytes) (now y)
       (client_request c ''POST'' ''/v1/auth/login'' (JMap [(''email'', e), (''password'', p)])) ''/v1/auth/login'') y = (resp, y')"
    and granted: "fst resp < 300"
    and calm: "faults y = []" "schema_ok (tabs y)" "0 < srv_ttl s" "utf8 e" "utf8 p"
  shows "\<exists>u uv. u \<in> set (users (tabs y)) \<and> u_email u = trim_space (to_lower e) \<and> bcrypt_ok (srv_crypto s) (u_hash u) p \<and>
     resp = (201, AuthBody (hex_encode bytes) uv) \<and> uv = user_view_of u \<and>
     resolve (srv_crypto s) (hex_encode bytes) y' = (Inr u, y')"
proof -
  let ?c = "client_request c ''POST'' ''/v1/auth/login'' (JMap [(''email'', e), (''password'', p)])"
  let ?r = "wire_request (Some bytes) (now y) ?c ''/v1/auth/login''"
  have r: "rq_method ?r = ''POST''" "rq_path ?r = ''/v1/auth/login''"
    by (simp_all add: wire_request_def client_request_def)
  let ?q = "with_params ?r []"
  have run: "handleLogin (srv_crypto s) (srv_ttl s) ?q y = (resp, y')"
    using sv unfolding serve_def find_login [OF r] by simp
  have q: "bd_email (rq_body ?q) = e" "bd_password (rq_body ?q) = p" "rq_random ?q = Some bytes" "rq_now ?q = now y"
    using credentials_body [OF calm(4,5)] call_patterns
    by (simp_all add: with_params_def wire_request_def client_request_def request_struct_def body_structs_def)
  obtain tok uv where resp: "resp = (201, AuthBody tok uv)"
    using login_answer [OF run] granted by auto
  obtain u where u: "u \<in> set (users (tabs y))" "u_email u = trim_space (to_lower e)" "uv = user_view_of u"
      "bcrypt_ok (srv_crypto s) (u_hash u) p" "tok = hex_encode bytes" "session_user tok (now y) (tabs y') = Some u"
      "y' = y\<lparr>tabs := tabs y'\<rparr>"
    using login_issues_session [OF run [unfolded resp] calm(1,2) q(3)] calm(3) q by auto
  have "faults y' = []" "now y' = now y" by (subst u(7), simp add: calm(1))+
  then have "resolve (srv_crypto s) (hex_encode bytes) y' = (Inr u, y')"
    using u(5,6) by (intro resolve_session) simp_all
  then show ?thesis using u resp by blast
qed

text \<open>C19.
  When \<open>uran login --api URL --email E --password P\<close> exits with 0, the API knows a user of that address
  whose password is \<open>P\<close>, the saved session is for that URL, and its token is accepted by the API as this
  user's: whatever command comes next runs in the user's name.\<close>

theorem login_command_authenticates:
  fixes w :: "'z pg_scheme terminal"
  assumes run: "cli_main (''uran'' # ''login'' # args) w = (0, w')"
    and net: "tt_net w = api_net target wi (Some bytes) s"
    and url: "target (trim_right_if (\<lambda>x. x = CHR ''/'') a @ ''/v1/auth/login'') = Some ''/v1/auth/login''"
    and args: "flag_parse [(''api'', VStr ''''), (''email'', VStr ''''), (''password'', VStr ''''), (''token'', VStr '''')] args = Inr (fs, rest)"
      "str_flag fs ''api'' = a" "str_flag fs ''email'' = e" "str_flag fs ''password'' = p" "str_flag fs ''token'' = ''''"
    and db: "faults (tt_world w) = []" "schema_ok (tabs (tt_world w))" "0 < srv_ttl s"
    and chars: "utf8 a" "utf8 e" "utf8 p" "\<And>t. utf8 (wi_time wi t)"
      "\<forall>u \<in> set (users (tabs (tt_world w))). utf8 (u_email u) \<and> utf8 (u_name u)"
    and disk: "tt_disk w = []"
  shows "\<exists>u c. u \<in> set (users (tabs (tt_world w))) \<and> u_email u = trim_space (to_lower e) \<and>
     bcrypt_ok (srv_crypto s) (u_hash u) p \<and> authed w' = (Inr c, w') \<and>
     cl_apiURL c = trim_right_if (\<lambda>x. x = CHR ''/'') a \<and>
     resolve (srv_crypto s) (cl_token c) (tt_world w') = (Inr u, tt_world w')"
proof -
  let ?c = "newClient \<lparr>cr_api_url = a, cr_token = ''''\<rparr>"
  let ?b = "JMap [(''email'', e), (''password'', p)]"
  let ?path = "''/v1/auth/login''"
  let ?saved = "\<lparr>cr_api_url = a, cr_token = hex_encode bytes\<rparr>"
  have url': "target (cl_apiURL ?c @ ?path) = Some ?path" using url by (simp add: newClient_def)
  obtain resp y where sv: "serve s (wire_request (Some bytes) (now (tt_world w)) (client_request ?c ''POST'' ?path ?b) ?path)
      (tt_world w) = (resp, y)" by fastforce
  let ?out = "understood_as ''POST'' ?path (Some set_token) '''' wi resp"
  let ?w1 = "w\<lparr>tt_sent := tt_sent w @ [client_request ?c ''POST'' ?path ?b], tt_world := y\<rparr>"
  have call: "client_do ?c ''POST'' ?path ?b (Some set_token) '''' w = (?out, ?w1)"
    by (rule client_do_api [OF net, where c = ?c and path = ?path, OF url' sv])
  have main: "attempt (cmdLogin args) (\<lambda>e. case e of Exit n \<Rightarrow> ret n | _ \<Rightarrow> bnd (complain (ErrorLine e)) (\<lambda>_. ret 1)) (\<lambda>_. ret 0) w = (0, w')"
    using run by (subst (asm) cli_main_command [of "''login''" cmdLogin]) (simp_all add: commands_def)
  have filled: "a \<noteq> ''''" "e \<noteq> ''''" "p \<noteq> ''''"
    using main args by (auto simp: cmdLogin_def parsed_def failing_def attempt_def ret_def bnd_def complain_def split: if_splits)
  have "\<exists>tok. ?out = Inr tok"
  proof (rule ccontr)
    assume "\<nexists>tok. ?out = Inr tok"
    then obtain err where err: "?out = Inl err" by (cases ?out) auto
    then have "cmdLogin args w = (Inl err, ?w1)"
      using args filled call by (simp add: cmdLogin_def parsed_def throwing_def attempt_def ret_def)
    moreover have "err \<noteq> Exit n" for n
      using err by (auto simp: understood_as_def split: if_splits option.splits)
    ultimately show False using main
      by (cases err) (auto simp: attempt_def bnd_def complain_def ret_def)
  qed
  then obtain tok where tok: "?out = Inr tok" by blast
  then have "fst resp < 300" by (auto simp: understood_as_def split: if_splits)
  then obtain u uv where u: "u \<in> set (users (tabs (tt_world w)))" "u_email u = trim_space (to_lower e)"
      "bcrypt_ok (srv_crypto s) (u_hash u) p" "resp = (201, AuthBody (hex_encode bytes) uv)" "uv = user_view_of u"
      "resolve (srv_crypto s) (hex_encode bytes) y = (Inr u, y)"
    using served_login [OF sv _ db chars(2,3)] by blast
  have "utf8 (uv_email uv)" "utf8 (uv_name uv)" using u(1,5) chars(5) by (simp_all add: user_view_of_def)
  from token_read [OF utf8_hex this chars(4), of bytes] have "tok = hex_encode bytes"
    using tok u(4) by (simp add: understood_as_def)
  then have login: "cmdLogin args w = throwing (saveCredentials ?saved) (\<lambda>_. println (''logged in to '' @ a)) ?w1"
    using args filled call tok by (simp add: cmdLogin_def parsed_def throwing_def attempt_def ret_def)
  obtain x w2 where save: "saveCredentials ?saved ?w1 = (x, w2)" by fastforce
  have x: "x = Inr ()"
  proof (cases "tt_config ?w1")
    case (Inl m)
    have "cmdLogin args w = (Inl (Message m), ?w1)"
      unfolding login throwing_def attempt_def saveCredentials_no_dir [OF Inl] by (simp add: ret_def)
    then show ?thesis using main by (simp add: attempt_def bnd_def complain_def ret_def)
  next
    case (Inr dir)
    then show ?thesis using save saveCredentials_calm [of ?w1 dir ?saved] disk by simp
  qed
  have w': "w' = w2\<lparr>tt_out := tt_out w2 @ ''logged in to '' @ a @ newline\<rparr>"
    using main login save x by (simp add: attempt_def throwing_def println_def print_def ret_def)
  have d1: "tt_disk ?w1 = []" using disk by simp
  note saved = saved_session [OF save [unfolded x] d1]
  have "authed w' = (Inr (newClient ?saved), w')"
    using saved(1) chars(1) utf8_hex by (simp add: w' authed_def throwing_def attempt_def ret_def)
  moreover have "tt_world w' = y" using saved(2) chars(1) utf8_hex by (simp add: w')
  ultimately show ?thesis using u(1-3,6)
    by (intro exI [of _ u] exI [of _ "newClient ?saved"]) (simp add: newClient_def)
qed

section \<open>Examples\<close>

text \<open>Ann is logged in to the API at \<open>https://uran.dev\<close>.\<close>

definition demo_target :: "string \<Rightarrow> string option" where
  "demo_target url = (if has_prefix url ''https://uran.dev'' then Some (drop 16 url) else None)"

definition demo_wire :: wire where
  "demo_wire = \<lparr>wi_time = (\<lambda>_. ''2026-01-01T00:00:00Z''), wi_float = (\<lambda>_. ''0'')\<rparr>"

definition session_pg :: pg where
  "session_pg = demo_pg\<lparr>tabs := demo_tables\<lparr>sessions := [\<lparr>s_token = ''t0k'', s_user = 1, s_expires = 1000\<rparr>]\<rparr>\<rparr>"

definition api_terminal :: "pg terminal" where
  "api_terminal = \<lparr>tt_out = '''', tt_err = [], tt_config = Inr ''/home/ann/.config'',
     tt_files = [(''/home/ann/.config/uran/credentials.json'', credentials_text demo_credentials, 384)],
     tt_dirs = [], tt_disk = [], tt_floats = \<lparr>fl_show = Some, fl_tenth = Some\<rparr>,
     tt_sent = [], tt_net = api_net demo_target demo_wire None demo_server, tt_world = session_pg\<rparr>"

definition ann_client :: client where
  "ann_client = \<lparr>cl_apiURL = ''https://uran.dev'', cl_token = ''t0k''\<rparr>"

lemma api_terminal_parts [simp]:
  "tt_net api_terminal = api_net demo_target demo_wire None demo_server" "tt_world api_terminal = session_pg"
  "tt_out api_terminal = ''''"
  by (simp_all add: api_terminal_def)

lemma ann_session: "\<exists>w1. authed api_terminal = (Inr ann_client, w1)"
proof -
  have "fst (authed api_terminal) = Inr ann_client" by code_simp
  then show ?thesis by (metis prod.collapse)
qed

theorem audit_command_fails_witness:
  "\<exists>w'. cli_main [''uran'', ''audit''] api_terminal = (1, w') \<and> tt_out w' = ''''"
proof -
  have "demo_target (cl_apiURL ann_client @ ''/v1/audit'') = Some ''/v1/audit''" by code_simp
  then show ?thesis using audit_command_fails [of api_terminal] ann_session by fastforce
qed

theorem deploy_command_queues_witness:
  "\<exists>d w'. cli_main [''uran'', ''deploy'', ''--service'', ''1'', ''--commit'', ''c0ffee''] api_terminal = (0, w') \<and>
     queued_of ''c0ffee'' d \<and> deploys (tabs (tt_world w')) = deploys demo_tables @ [d] \<and>
     bus (tt_world w') = [(DeployChannel, itoa (d_id d))]"
proof -
  let ?args = "[''--service'', ''1'', ''--commit'', ''c0ffee'']"
  let ?fs = "[(''service'', VInt 1), (''commit'', VStr ''c0ffee''), (''image'', VStr '''')]"
  let ?u = "hd (users demo_tables)"
  obtain w1 where session: "authed api_terminal = (Inr ann_client, w1)" using ann_session by blast
  have url: "demo_target (cl_apiURL ann_client @ service_path 1 ''/deploys'') = Some (service_path 1 ''/deploys'')"
    by code_simp
  have "fst (resolve demo_crypto (trim_space (cl_token ann_client)) session_pg) = Inr ?u" by code_simp
  then obtain y1 where user: "resolve demo_crypto (trim_space (cl_token ann_client)) session_pg = (Inr ?u, y1)"
    by (metis prod.collapse)
  have may: "may_change (u_id ?u) 1 (tabs session_pg)" by code_simp
  have args: "flag_parse [(''service'', VInt 0), (''commit'', VStr ''''), (''image'', VStr '''')] ?args = Inr (?fs, [])"
    "int_flag ?fs ''service'' = 1" "str_flag ?fs ''commit'' = ''c0ffee''" "str_flag ?fs ''image'' = ''''"
    by code_simp+
  have rest: "trim_space (cl_token ann_client) \<noteq> ''''" "int64 1" "int64 (seqs (tabs session_pg) SDeploys)"
    "utf8 ''c0ffee''" "utf8 ''2026-01-01T00:00:00Z''"
    by code_simp+
  have calm: "faults session_pg = []" "deploys (tabs session_pg) = deploys demo_tables" "bus session_pg = []"
    by (simp_all add: session_pg_def demo_pg_def start_pg_def)
  have crypto: "srv_crypto demo_server = demo_crypto" by (simp add: demo_server_def)
  from deploy_command_queues [of api_terminal demo_target demo_wire None demo_server ann_client w1 1 ?u y1 ?args ?fs "[]" "''c0ffee''"]
  show ?thesis using session url user may args rest calm crypto
    by (auto simp: created_def demo_wire_def)
qed

definition login_terminal :: "pg terminal" where
  "login_terminal = api_terminal\<lparr>tt_net := api_net demo_target demo_wire (Some ''xyz'') demo_server, tt_files := [],
     tt_world := demo_pg\<rparr>"

theorem login_command_authenticates_witness:
  "\<exists>w' c u. cli_main [''uran'', ''login'', ''--api'', ''https://uran.dev/'', ''--email'', ''Ann@acme.io'',
       ''--password'', ''h1''] login_terminal = (0, w') \<and> authed w' = (Inr c, w') \<and> cl_apiURL c = ''https://uran.dev'' \<and>
     u_email u = ''ann@acme.io'' \<and> resolve demo_crypto (cl_token c) (tt_world w') = (Inr u, tt_world w')"
proof -
  let ?args = "[''--api'', ''https://uran.dev/'', ''--email'', ''Ann@acme.io'', ''--password'', ''h1'']"
  let ?fs = "[(''api'', VStr ''https://uran.dev/''), (''email'', VStr ''Ann@acme.io''), (''password'', VStr ''h1''),
     (''token'', VStr '''')]"
  have "fst (cli_main (''uran'' # ''login'' # ?args) login_terminal) = 0" by code_simp
  then obtain w' where run: "cli_main (''uran'' # ''login'' # ?args) login_terminal = (0, w')" by (metis prod.collapse)
  have net: "tt_net login_terminal = api_net demo_target demo_wire (Some ''xyz'') demo_server"
    by (simp add: login_terminal_def)
  have url: "demo_target (trim_right_if (\<lambda>x. x = CHR ''/'') ''https://uran.dev/'' @ ''/v1/auth/login'') = Some ''/v1/auth/login''"
    by code_simp
  have args: "flag_parse [(''api'', VStr ''''), (''email'', VStr ''''), (''password'', VStr ''''), (''token'', VStr '''')] ?args =
      Inr (?fs, [])"
    "str_flag ?fs ''api'' = ''https://uran.dev/''" "str_flag ?fs ''email'' = ''Ann@acme.io''"
    "str_flag ?fs ''password'' = ''h1''" "str_flag ?fs ''token'' = ''''"
    by code_simp+
  have db: "faults (tt_world login_terminal) = []" "schema_ok (tabs (tt_world login_terminal))" "0 < srv_ttl demo_server"
    "tt_disk login_terminal = []"
    by (simp_all add: login_terminal_def demo_tables_ok demo_server_def api_terminal_def)
  have chars: "utf8 ''https://uran.dev/''" "utf8 ''Ann@acme.io''" "utf8 ''h1''" "utf8 ''2026-01-01T00:00:00Z''"
    "list_all (\<lambda>u. utf8 (u_email u) \<and> utf8 (u_name u)) (users demo_tables)"
    by code_simp+
  have names: "utf8 (wi_time demo_wire t)"
    "\<forall>u \<in> set (users (tabs (tt_world login_terminal))). utf8 (u_email u) \<and> utf8 (u_name u)" for t
    using chars(4,5) by (simp_all add: demo_wire_def login_terminal_def list_all_iff)
  have rest: "trim_right_if (\<lambda>x. x = CHR ''/'') ''https://uran.dev/'' = ''https://uran.dev''"
    "trim_space (to_lower ''Ann@acme.io'') = ''ann@acme.io''"
    by code_simp+
  have crypto: "srv_crypto demo_server = demo_crypto" by (simp add: demo_server_def)
  from login_command_authenticates [OF run net url args db(1,2,3) chars(1-3) names db(4)] show ?thesis
    using run unfolding rest crypto by blast
qed

end
