(* ===== verification/K8s_Cluster.thy ===== *)
theory K8s_Cluster
  imports Api_Settings
begin

text \<open>
  The cluster as package \<open>k8s\<close> sees it (\<open>internal/k8s/client.go\<close> and the object types of the other
  files): a table of objects by kind, namespace and name, reached through server-side apply, create
  and delete calls.

  The world is the controller's: the database connection extended with the cluster.
  \<open>cl_errors\<close> lists, for the calls to come, whether the API server refuses each and with what
  message; an exhausted list means no refusal. \<open>cl_waits\<close> lists, for the waits to come, what the
  polls of each answer until its deadline. \<open>cl_foreign\<close> holds the secrets other controllers write.

  An applied object is the configuration this controller owns; the status and the fields owned by
  others come in through the polls. Two rules of the API server are part of the model: an object
  in a namespace that does not exist is refused as not found, and deleting a namespace deletes
  what is in it.
\<close>

section \<open>Objects\<close>

datatype kind =
    KNamespace | KSecret | KDeployment | KCronJob | KService | KAutoscaler | KClaim | KQuota
  | KLimits | KNetPolicy | KCertificate | KIngressRoute | KCluster | KPooler | KBackup
  | KScheduledBackup

type_synonym okey = "kind \<times> string \<times> string"

abbreviation key_namespace :: "okey \<Rightarrow> string" where
  "key_namespace k \<equiv> fst (snd k)"

type_synonym labels = "(string \<times> string) list"

datatype probe = HTTPGet string int | TCPSocket int

record container =
  ct_name :: string
  ct_image :: string
  ct_args :: "string list"
  ct_ports :: "int list"
  ct_resources :: resources
  ct_env :: "(string \<times> string) list"
  ct_env_from :: "string list"
  ct_ready :: "probe option"
  ct_live :: "probe option"
  ct_mounts :: "(string \<times> string) list"

record pod_spec =
  pod_container :: container
  pod_volumes :: "(string \<times> string) list"
  pod_pull_secrets :: "string list"
  pod_restart :: string

record deployment =
  dep_labels :: labels
  dep_selector :: labels
  dep_template :: labels
  dep_pod :: pod_spec
  dep_replicas :: "int option"
  dep_rolling :: "(int \<times> int) option"

text \<open>An entry of a pull secret: registry, user name, password and the encoded pair.\<close>

type_synonym docker_auths = "(string \<times> string \<times> string \<times> string) list"

datatype secret_data = TextData "(string \<times> string) list" | DockerConfig docker_auths

datatype peer = PodsHere | PodsOf string

record barman =
  bm_destination :: string
  bm_endpoint :: string
  bm_access_key :: "string \<times> string"
  bm_secret_key :: "string \<times> string"
  bm_wal :: string
  bm_data :: string
  bm_retention :: string

datatype obj =
    NamespaceObj labels
  | SecretObj labels secret_data
  | DeploymentObj deployment
  | CronJobObj labels string labels pod_spec
  | ServiceObj labels labels string int int
  | AutoscalerObj labels string int int int
  | ClaimObj labels string
  | QuotaObj "(string \<times> string) list"
  | LimitsObj "(string \<times> string) list" "(string \<times> string) list"
  | NetPolicyObj "peer list"
  | CertificateObj string "string list" string
  | IngressRouteObj "string list" string string int "string option"
  | ClusterObj int string resources "barman option"
  | PoolerObj string int string string
  | BackupObj string
  | ScheduledBackupObj string string string

section \<open>The reconciler and its world\<close>

record backup_config =
  bc_endpoint :: string
  bc_bucket :: string
  bc_access_key :: string
  bc_secret_key :: string

text \<open>
  \<open>rc_quantity\<close> is the quantity parser of the Kubernetes library: the value in thousandths, or
  \<open>None\<close> where \<open>resource.MustParse\<close> panics.
\<close>

record reconciler =
  rc_domain :: string
  rc_issuer :: string
  rc_backup :: backup_config
  rc_quantity :: "string \<Rightarrow> int option"

text \<open>What one poll of a wait sees: a failed call, a deployment, or a database cluster.\<close>

record deployment_view =
  dw_replicas :: "int option"
  dw_generation :: int
  dw_observed :: int
  dw_updated :: int
  dw_available :: int

datatype poll = PollFailed | PollDeployment deployment_view | PollCluster int

record cluster = pg +
  cl_objects :: "okey \<Rightarrow> obj option"
  cl_errors :: "string option list"
  cl_waits :: "poll list list"
  cl_foreign :: "string \<times> string \<Rightarrow> (string \<times> string) list option"

type_synonym 'y cworld = "'y cluster_scheme"

datatype kerror = KApi string | KNotFound | KExists | KPanic string

type_synonym ('y, 'a) kop = "('y cworld, kerror + 'a) act"

text \<open>\<open>fmt.Errorf("...: %w", err)\<close>; a panic passes through.\<close>

fun wrapf :: "string \<Rightarrow> kerror \<Rightarrow> kerror" where
  "wrapf msg (KApi e) = KApi (msg @ '': '' @ e)"
| "wrapf msg KNotFound = KApi (msg @ '': not found'')"
| "wrapf msg KExists = KApi (msg @ '': already exists'')"
| "wrapf msg (KPanic e) = KPanic e"

definition map_err :: "('e \<Rightarrow> 'f) \<Rightarrow> ('w, 'e + 'a) act \<Rightarrow> ('w, 'f + 'a) act" where
  "map_err f m = attempt m (\<lambda>e. ret (Inl (f e))) (\<lambda>a. ret (Inr a))"

section \<open>Calls of the API server\<close>

definition next_error :: "'y cworld \<Rightarrow> string option \<times> 'y cworld" where
  "next_error w = (case cl_errors w of [] \<Rightarrow> (None, w) | e # es \<Rightarrow> (e, w\<lparr>cl_errors := es\<rparr>))"

definition has_namespace :: "'y cworld \<Rightarrow> okey \<Rightarrow> bool" where
  "has_namespace w k \<longleftrightarrow> fst k = KNamespace \<or> cl_objects w (KNamespace, '''', key_namespace k) \<noteq> None"

definition kube_apply :: "okey \<Rightarrow> obj \<Rightarrow> ('y, unit) kop" where
  "kube_apply k x w = (case next_error w of
      (Some e, w') \<Rightarrow> (Inl (KApi e), w')
    | (None, w') \<Rightarrow> if has_namespace w' k
        then (Inr (), w'\<lparr>cl_objects := (cl_objects w')(k \<mapsto> x)\<rparr>) else (Inl KNotFound, w'))"

definition kube_create :: "okey \<Rightarrow> obj \<Rightarrow> ('y, unit) kop" where
  "kube_create k x w = (case next_error w of
      (Some e, w') \<Rightarrow> (Inl (KApi e), w')
    | (None, w') \<Rightarrow> if \<not> has_namespace w' k then (Inl KNotFound, w')
        else if cl_objects w' k \<noteq> None then (Inl KExists, w')
        else (Inr (), w'\<lparr>cl_objects := (cl_objects w')(k \<mapsto> x)\<rparr>))"

text \<open>The objects left when the object at \<open>k\<close> is deleted.\<close>

definition without :: "okey \<Rightarrow> (okey \<Rightarrow> obj option) \<Rightarrow> okey \<Rightarrow> obj option" where
  "without k s = (if fst k = KNamespace
     then (\<lambda>j. if j = k \<or> (fst j \<noteq> KNamespace \<and> key_namespace j = snd (snd k)) then None else s j)
     else s(k := None))"

definition kube_delete :: "okey \<Rightarrow> ('y, unit) kop" where
  "kube_delete k w = (case next_error w of
      (Some e, w') \<Rightarrow> (Inl (KApi e), w')
    | (None, w') \<Rightarrow> if cl_objects w' k = None then (Inl KNotFound, w')
        else (Inr (), w'\<lparr>cl_objects := without k (cl_objects w')\<rparr>))"

definition ignoreNotFound :: "('y, unit) kop \<Rightarrow> ('y, unit) kop" where
  "ignoreNotFound m = attempt m (\<lambda>e. if e = KNotFound then ret (Inr ()) else ret (Inl e)) (\<lambda>_. ret (Inr ()))"

text \<open>A call whose error is wrapped, and a delete that ignores absent objects.\<close>

definition apply_obj :: "string \<Rightarrow> okey \<Rightarrow> obj \<Rightarrow> ('y, unit) kop" where
  "apply_obj msg k x = map_err (wrapf msg) (kube_apply k x)"

definition delete_obj :: "string \<Rightarrow> okey \<Rightarrow> ('y, unit) kop" where
  "delete_obj msg k = map_err (wrapf msg) (ignoreNotFound (kube_delete k))"

text \<open>\<open>resource.MustParse\<close> of every quantity an object is built from, before the call that uses it.\<close>

definition must_parse :: "reconciler \<Rightarrow> string list \<Rightarrow> ('y, 'a) kop \<Rightarrow> ('y, 'a) kop" where
  "must_parse rc qs m = (if list_all (\<lambda>q. rc_quantity rc q \<noteq> None) qs then m
     else ret (Inl (KPanic ''cannot parse quantity'')))"

text \<open>The polls of one wait, to its deadline.\<close>

definition kube_wait :: "('y cworld, poll list) act" where
  "kube_wait w = (case cl_waits w of [] \<Rightarrow> ([], w) | ps # pss \<Rightarrow> (ps, w\<lparr>cl_waits := pss\<rparr>))"

end
