(* ===== verification/Desired_State.thy ===== *)
theory Desired_State
  imports K8s_Cluster
begin

text \<open>
  What it means for a reconciliation to reach a desired state. A desired state is a partial table:
  for the keys it speaks about, the object that should be there, or that none should.
  \<^item> \<open>override s D\<close> is the state \<open>s\<close> with everything \<open>D\<close> says carried out;
  \<^item> \<open>toward D s t\<close> says that each object of \<open>t\<close> is as in \<open>s\<close> or as \<open>D\<close> wants it: the relation between
    the states before and after a reconciliation that may have failed half way;
  \<^item> \<open>writes get m f\<close> says that \<open>m\<close>, if it succeeds, turns the objects \<open>s\<close> into \<open>f s\<close>.

  The locale \<open>object_store\<close> is the interface the reconcilers need of the cluster: objects can be put
  and deleted one at a time. It is interpreted by the API server's calls.
\<close>

type_synonym ('k, 'o) desired = "'k \<Rightarrow> 'o option option"

definition override :: "('k \<Rightarrow> 'o option) \<Rightarrow> ('k, 'o) desired \<Rightarrow> 'k \<Rightarrow> 'o option" where
  "override s D k = (case D k of None \<Rightarrow> s k | Some x \<Rightarrow> x)"

definition toward :: "('k, 'o) desired \<Rightarrow> ('k \<Rightarrow> 'o option) \<Rightarrow> ('k \<Rightarrow> 'o option) \<Rightarrow> bool" where
  "toward D s t \<longleftrightarrow> (\<forall>k. t k = s k \<or> D k = Some (t k))"

definition writes :: "('w \<Rightarrow> 's) \<Rightarrow> ('w, 'e + 'a) act \<Rightarrow> ('s \<Rightarrow> 's) \<Rightarrow> bool" where
  "writes get m f \<longleftrightarrow> (\<forall>w a w'. m w = (Inr a, w') \<longrightarrow> get w' = f (get w))"

lemma toward_refl [simp]: "toward D s s"
  by (simp add: toward_def)

lemma toward_trans: "toward D s t \<Longrightarrow> toward D t u \<Longrightarrow> toward D s u"
  unfolding toward_def by metis

lemma toward_put: "D k = Some x \<Longrightarrow> toward D s (s(k := x))"
  by (simp add: toward_def)

lemma toward_outside: "toward D s t \<Longrightarrow> D k = None \<Longrightarrow> t k = s k"
  unfolding toward_def by (metis option.distinct(1))

lemma override_toward: "toward D s (override s D)"
  by (auto simp: toward_def override_def split: option.split)

lemma override_idem: "override (override s D) D = override s D"
  by (auto simp: override_def fun_eq_iff split: option.split)

lemma override_put: "D k = None \<Longrightarrow> override (s(k := x)) D = override s (D(k := Some x))"
  by (auto simp: override_def fun_eq_iff split: option.split)

lemma override_after_toward: "toward D s t \<Longrightarrow> override t D = override s D"
  unfolding toward_def override_def fun_eq_iff by (auto split: option.split)

interpretation kube_evo: evolution cl_objects "toward D"
  by unfold_locales (rule toward_refl, rule toward_trans)

lemmas toward_rules = kube_evo.keeps_rules

section \<open>Success\<close>

lemma writesD: "writes get m f \<Longrightarrow> m w = (Inr a, w') \<Longrightarrow> get w' = f (get w)"
  by (simp add: writes_def)

lemma writes_ret: "writes get (ret (Inr a)) (\<lambda>s. s)"
  by (simp add: writes_def ret_def)

lemma writes_fail: "writes get (ret (Inl e)) f"
  by (simp add: writes_def ret_def)

lemma writes_throwing:
  assumes "writes get m f" "\<And>a. writes get (k a) g"
  shows "writes get (throwing m k) (\<lambda>s. g (f s))"
  using assms unfolding writes_def throwing_def attempt_def ret_def
  by (auto split: prod.splits sum.splits)

lemma writes_if:
  assumes "b \<Longrightarrow> writes get m f" "\<not> b \<Longrightarrow> writes get n g"
  shows "writes get (if b then m else n) (\<lambda>s. if b then f s else g s)"
  using assms by simp

lemma writes_map_err: "writes get m f \<Longrightarrow> writes get (map_err h m) f"
  unfolding writes_def map_err_def attempt_def ret_def by (auto split: prod.splits sum.splits)

lemma writes_must_parse: "writes get m f \<Longrightarrow> writes get (must_parse rc qs m) f"
  by (simp add: must_parse_def writes_fail)

lemma toward_map_err: "keeps cl_objects (toward D) m \<Longrightarrow> keeps cl_objects (toward D) (map_err h m)"
  unfolding map_err_def by (intro toward_rules)

lemma toward_must_parse:
  "keeps cl_objects (toward D) m \<Longrightarrow> keeps cl_objects (toward D) (must_parse rc qs m)"
  unfolding must_parse_def by (intro toward_rules)

section \<open>The interface\<close>

locale object_store =
  fixes put :: "'m \<Rightarrow> 'k \<Rightarrow> 'o \<Rightarrow> ('w, 'e + unit) act" and del :: "'m \<Rightarrow> 'k \<Rightarrow> ('w, 'e + unit) act"
    and get :: "'w \<Rightarrow> 'k \<Rightarrow> 'o option" and single :: "'k \<Rightarrow> bool"
  assumes put_ok: "put m k x w = (Inr (), w') \<Longrightarrow> get w' = (get w)(k \<mapsto> x)"
    and put_failed: "put m k x w = (Inl e, w') \<Longrightarrow> get w' = get w"
    and del_ok: "single k \<Longrightarrow> del m k w = (Inr (), w') \<Longrightarrow> get w' = (get w)(k := None)"
    and del_failed: "del m k w = (Inl e, w') \<Longrightarrow> get w' = get w"
begin

lemma put_writes: "writes get (put m k x) (\<lambda>s. s(k \<mapsto> x))"
  using put_ok unfolding writes_def by (metis (full_types) old.unit.exhaust)

lemma del_writes: "single k \<Longrightarrow> writes get (del m k) (\<lambda>s. s(k := None))"
  using del_ok unfolding writes_def by (metis (full_types) old.unit.exhaust)

lemma put_toward: "D k = Some (Some x) \<Longrightarrow> keeps get (toward D) (put m k x)"
  unfolding keeps_def
proof
  fix w assume D: "D k = Some (Some x)"
  obtain r w' where r: "put m k x w = (r, w')" by fastforce
  show "toward D (get w) (get (snd (put m k x w)))"
  proof (cases r)
    case (Inl e) then show ?thesis using put_failed r by simp
  next
    case (Inr u) then show ?thesis using put_ok [of m k x w w'] r D by (simp add: toward_put)
  qed
qed

lemma del_toward: "single k \<Longrightarrow> D k = Some None \<Longrightarrow> keeps get (toward D) (del m k)"
  unfolding keeps_def
proof
  fix w assume D: "single k" "D k = Some None"
  obtain r w' where r: "del m k w = (r, w')" by fastforce
  show "toward D (get w) (get (snd (del m k w)))"
  proof (cases r)
    case (Inl e) then show ?thesis using del_failed r by simp
  next
    case (Inr u) then show ?thesis using del_ok [of k m w w'] r D by (simp add: toward_put)
  qed
qed

text \<open>
  A plan lists what to put and what to delete, in order. Carrying it out is the reference the
  reconcilers are compared with.
\<close>

fun reach :: "('m \<times> 'k \<times> 'o option) list \<Rightarrow> ('w, 'e + unit) act" where
  "reach [] = ret (Inr ())"
| "reach ((m, k, Some x) # ps) = throwing (put m k x) (\<lambda>_. reach ps)"
| "reach ((m, k, None) # ps) = throwing (del m k) (\<lambda>_. reach ps)"

lemma reach_writes:
  assumes "\<forall>(k, x) \<in> set (map snd ps). x = None \<longrightarrow> single k" "distinct (map fst (map snd ps))"
  shows "writes get (reach ps) (\<lambda>s. override s (map_of (map snd ps)))"
  using assms
proof (induction ps rule: reach.induct)
  case 1
  then show ?case by (simp add: writes_ret override_def)
next
  case (2 m k x ps)
  then have "writes get (reach ps) (\<lambda>s. override s (map_of (map snd ps)))" by simp
  from writes_throwing [OF put_writes this]
  have "writes get (reach ((m, k, Some x) # ps)) (\<lambda>s. override (s(k \<mapsto> x)) (map_of (map snd ps)))"
    by simp
  moreover have "override (s(k \<mapsto> x)) (map_of (map snd ps)) = override s (map_of (map snd ((m, k, Some x) # ps)))" for s
    using 2(3) by (simp add: override_put map_of_eq_None_iff image_image comp_def)
  ultimately show ?case by (simp add: fun_upd_def)
next
  case (3 m k ps)
  then have "writes get (reach ps) (\<lambda>s. override s (map_of (map snd ps)))" "single k" by simp_all
  from writes_throwing [OF del_writes [OF this(2)] this(1)]
  have "writes get (reach ((m, k, None) # ps)) (\<lambda>s. override (s(k := None)) (map_of (map snd ps)))"
    by simp
  moreover have "override (s(k := None)) (map_of (map snd ps)) = override s (map_of (map snd ((m, k, None) # ps)))" for s
    using 3(3) by (simp add: override_put map_of_eq_None_iff image_image comp_def)
  ultimately show ?case by (simp add: fun_upd_def)
qed

lemma reach_toward:
  assumes "\<And>k x. (k, x) \<in> set (map snd ps) \<Longrightarrow> D k = Some x \<and> (x = None \<longrightarrow> single k)"
    and "evolution (toward D)"
  shows "keeps get (toward D) (reach ps)"
  using assms(1)
proof (induction ps rule: reach.induct)
  case 1
  then show ?case using assms(2) by (simp add: evolution.keeps_ret)
next
  case (2 m k x ps)
  have "D k = Some (Some x)" using 2(2) [of k "Some x"] by simp
  then show ?case using 2 by (auto intro!: evolution.keeps_throwing [OF assms(2)] put_toward)
next
  case (3 m k ps)
  have "D k = Some None" "single k" using 3(2) [of k None] by simp_all
  then show ?case using 3 by (auto intro!: evolution.keeps_throwing [OF assms(2)] del_toward)
qed

end

text \<open>The calls of the API server provide the interface, for everything but namespaces.\<close>

definition plain_key :: "okey \<Rightarrow> bool" where
  "plain_key k \<longleftrightarrow> fst k \<noteq> KNamespace"

lemma next_error_frame: "next_error w = (e, w') \<Longrightarrow> cl_objects w' = cl_objects w"
  by (auto simp: next_error_def split: list.splits)

lemma kube_delete_cases:
  assumes "kube_delete k w = (r, w')"
  shows "r = Inr () \<and> cl_objects w k \<noteq> None \<and> cl_objects w' = without k (cl_objects w) \<or>
    r = Inl KNotFound \<and> cl_objects w k = None \<and> cl_objects w' = cl_objects w \<or>
    (\<exists>e. r = Inl (KApi e)) \<and> cl_objects w' = cl_objects w"
proof -
  obtain e w1 where "next_error w = (e, w1)" by fastforce
  then show ?thesis using assms next_error_frame [of w e w1]
    by (cases e) (auto simp: kube_delete_def split: if_splits)
qed

lemma delete_obj_cases:
  assumes "delete_obj m k w = (r, w')"
  shows "r = Inr () \<and> (cl_objects w' = without k (cl_objects w) \<or> cl_objects w k = None \<and> cl_objects w' = cl_objects w) \<or>
    (\<exists>e. r = Inl e) \<and> cl_objects w' = cl_objects w"
proof -
  obtain r1 w1 where 1: "kube_delete k w = (r1, w1)" by fastforce
  then show ?thesis using assms kube_delete_cases [OF 1]
    by (auto simp: delete_obj_def ignoreNotFound_def map_err_def attempt_def ret_def)
qed

lemma apply_obj_cases:
  assumes "apply_obj m k x w = (r, w')"
  shows "r = Inr () \<and> cl_objects w' = (cl_objects w)(k \<mapsto> x) \<or>
    (\<exists>e. r = Inl e) \<and> cl_objects w' = cl_objects w"
proof -
  obtain e w1 where 1: "next_error w = (e, w1)" by fastforce
  then show ?thesis using assms next_error_frame [OF 1]
    by (cases e) (auto simp: apply_obj_def map_err_def attempt_def ret_def kube_apply_def split: if_splits)
qed

interpretation kube: object_store apply_obj delete_obj cl_objects plain_key
proof
  fix m k x and w w' :: "'y cworld" and e
  show "cl_objects w' = (cl_objects w)(k \<mapsto> x)" if "apply_obj m k x w = (Inr (), w')"
    using apply_obj_cases [OF that] by simp
  show "cl_objects w' = cl_objects w" if "apply_obj m k x w = (Inl e, w')"
    using apply_obj_cases [OF that] by simp
  show "cl_objects w' = (cl_objects w)(k := None)" if "plain_key k" "delete_obj m k w = (Inr (), w')"
    using delete_obj_cases [OF that(2)] that(1) by (auto simp: without_def plain_key_def fun_upd_idem)
  show "cl_objects w' = cl_objects w" if "delete_obj m k w = (Inl e, w')"
    using delete_obj_cases [OF that] by simp
qed

end
