(* ===== verification/K8s_Workload.thy ===== *)
theory K8s_Workload
  imports Desired_State Base64 "HOL-Library.AList"
begin

text \<open>
  The workload half of package \<open>k8s\<close>: \<open>reconcile.go\<close>, \<open>policies.go\<close>, \<open>pullsecret.go\<close>, \<open>cronjob.go\<close>,
  \<open>hpa.go\<close> and \<open>volume.go\<close>. One action per method, in the order of the source's calls.

  The second half states what \<open>Apply\<close> and \<open>Delete\<close> are for. \<open>workload_plan\<close> lists the objects a
  service should have; with readable quantities, \<open>Apply\<close> is the carrying out of that plan followed
  by the wait for the rollout.
\<close>

section \<open>The specification of a workload\<close>

record registry_cred =
  rg_registry :: string
  rg_username :: string
  rg_password :: string

record service_spec =
  sp_namespace :: string
  sp_name :: string
  sp_type :: string
  sp_image :: string
  sp_port :: int
  sp_schedule :: string
  sp_env :: "(string \<times> string) list"
  sp_domains :: "string list"
  sp_replicas :: int
  sp_size :: string
  sp_health :: string
  sp_min :: int
  sp_max :: int
  sp_disk_size :: string
  sp_disk_path :: string
  sp_pull :: "registry_cred list"
  sp_suspended :: bool

definition hasDisk :: "service_spec \<Rightarrow> bool" where
  "hasDisk s = (sp_disk_size s \<noteq> '''' \<and> sp_disk_path s \<noteq> '''')"

definition autoscaled :: "service_spec \<Rightarrow> bool" where
  "autoscaled s = (sp_max s > 0 \<and> \<not> hasDisk s \<and> \<not> sp_suspended s)"

definition envSecretName :: "string \<Rightarrow> string" where
  "envSecretName name = name @ ''-env''"

definition tlsSecretName :: "string \<Rightarrow> string" where
  "tlsSecretName name = name @ ''-tls''"

definition pvcName :: "string \<Rightarrow> string" where
  "pvcName name = name @ ''-data''"

definition httpRouteName :: "string \<Rightarrow> string" where
  "httpRouteName name = name @ ''-http''"

definition fieldManager :: string where "fieldManager = ''uran-controller''"
definition pullSecretName :: string where "pullSecretName = ''uran-pull''"
definition diskVolumeName :: string where "diskVolumeName = ''data''"

definition selectorLabels :: "string \<Rightarrow> labels" where
  "selectorLabels name =
     [(''app.kubernetes.io/name'', name), (''app.kubernetes.io/managed-by'', fieldManager)]"

definition Host :: "reconciler \<Rightarrow> service_spec \<Rightarrow> string" where
  "Host rc spec = sp_name spec @ ''.'' @ rc_domain rc"

definition hosts :: "reconciler \<Rightarrow> service_spec \<Rightarrow> string list" where
  "hosts rc spec = Host rc spec # sp_domains spec"

definition hostMatch :: "string list \<Rightarrow> string" where
  "hostMatch hs = join '' || '' (map (\<lambda>h. ''Host(`'' @ h @ ''`)'') hs)"

section \<open>The namespace\<close>

definition ns_key :: "string \<Rightarrow> okey" where
  "ns_key ns = (KNamespace, '''', ns)"

definition ensureNamespace :: "string \<Rightarrow> ('y, unit) kop" where
  "ensureNamespace ns = apply_obj (''apply namespace '' @ ns) (ns_key ns)
     (NamespaceObj [(''app.kubernetes.io/managed-by'', fieldManager)])"

definition quota_hard :: "(string \<times> string) list" where
  "quota_hard = [(''pods'', ''20''), (''requests.cpu'', ''4''), (''requests.memory'', ''8Gi''),
     (''limits.cpu'', ''8''), (''limits.memory'', ''16Gi'')]"

definition applyResourceQuota :: "reconciler \<Rightarrow> string \<Rightarrow> ('y, unit) kop" where
  "applyResourceQuota rc ns = must_parse rc (map snd quota_hard)
     (apply_obj (''apply resourcequota '' @ ns) (KQuota, ns, ''uran-quota'') (QuotaObj quota_hard))"

definition limit_default :: "(string \<times> string) list" where
  "limit_default = [(''cpu'', ''500m''), (''memory'', ''256Mi'')]"

definition limit_request :: "(string \<times> string) list" where
  "limit_request = [(''cpu'', ''50m''), (''memory'', ''64Mi'')]"

definition applyLimitRange :: "reconciler \<Rightarrow> string \<Rightarrow> ('y, unit) kop" where
  "applyLimitRange rc ns = must_parse rc (map snd (limit_default @ limit_request))
     (apply_obj (''apply limitrange '' @ ns) (KLimits, ns, ''uran-limits'')
       (LimitsObj limit_default limit_request))"

definition isolation_peers :: "peer list" where
  "isolation_peers = [PodsHere, PodsOf ''kube-system'', PodsOf ''cnpg-system'']"

definition applyNetworkPolicy :: "string \<Rightarrow> ('y, unit) kop" where
  "applyNetworkPolicy ns = apply_obj (''apply networkpolicy '' @ ns) (KNetPolicy, ns, ''uran-isolation'')
     (NetPolicyObj isolation_peers)"

definition applyNamespacePolicies :: "reconciler \<Rightarrow> string \<Rightarrow> ('y, unit) kop" where
  "applyNamespacePolicies rc ns = throwing (applyResourceQuota rc ns)
     (\<lambda>_. throwing (applyLimitRange rc ns) (\<lambda>_. applyNetworkPolicy ns))"

definition resource_quantities :: "resources \<Rightarrow> string list" where
  "resource_quantities r = [CPURequest r, MemRequest r, CPULimit r, MemLimit r]"

section \<open>Pull secrets\<close>

definition dockerConfigJSON :: "registry_cred list \<Rightarrow> docker_auths" where
  "dockerConfigJSON creds = foldl (\<lambda>auths c. AList.update (rg_registry c)
     (rg_username c, rg_password c, base64 (rg_username c @ '':'' @ rg_password c)) auths) [] creds"

definition reconcilePullSecret :: "string \<Rightarrow> registry_cred list \<Rightarrow> ('y, unit) kop" where
  "reconcilePullSecret ns creds =
     (if creds = [] then delete_obj ''delete pull secret'' (KSecret, ns, pullSecretName)
      else apply_obj ''apply pull secret'' (KSecret, ns, pullSecretName)
        (SecretObj [] (DockerConfig (dockerConfigJSON creds))))"

section \<open>Workload objects\<close>

definition applyEnvSecret :: "service_spec \<Rightarrow> ('y, unit) kop" where
  "applyEnvSecret spec = apply_obj (''apply env secret '' @ sp_name spec)
     (KSecret, sp_namespace spec, envSecretName (sp_name spec))
     (SecretObj (selectorLabels (sp_name spec)) (TextData (sp_env spec)))"

definition healthProbe :: "service_spec \<Rightarrow> probe" where
  "healthProbe spec = (if sp_health spec \<noteq> '''' then HTTPGet (sp_health spec) (sp_port spec)
     else TCPSocket (sp_port spec))"

definition app_container :: "service_spec \<Rightarrow> container" where
  "app_container spec = \<lparr>ct_name = ''app'', ct_image = sp_image spec, ct_args = [],
     ct_ports = [sp_port spec], ct_resources = instance_Get (sp_size spec),
     ct_env = [(''PORT'', itoa (sp_port spec))], ct_env_from = [envSecretName (sp_name spec)],
     ct_ready = (if IsRoutable (sp_type spec) then Some (healthProbe spec) else None),
     ct_live = (if IsRoutable (sp_type spec) then Some (healthProbe spec) else None),
     ct_mounts = (if hasDisk spec then [(diskVolumeName, sp_disk_path spec)] else [])\<rparr>"

definition pull_secrets :: "service_spec \<Rightarrow> string list" where
  "pull_secrets spec = (if sp_pull spec \<noteq> [] then [pullSecretName] else [])"

definition app_pod :: "service_spec \<Rightarrow> pod_spec" where
  "app_pod spec = \<lparr>pod_container = app_container spec,
     pod_volumes = (if hasDisk spec then [(diskVolumeName, pvcName (sp_name spec))] else []),
     pod_pull_secrets = pull_secrets spec, pod_restart = ''''\<rparr>"

text \<open>The \<open>switch\<close> over replicas and rollout strategy.\<close>

definition app_deployment :: "service_spec \<Rightarrow> deployment" where
  "app_deployment spec = \<lparr>dep_labels = selectorLabels (sp_name spec),
     dep_selector = selectorLabels (sp_name spec), dep_template = selectorLabels (sp_name spec),
     dep_pod = app_pod spec,
     dep_replicas = (if sp_suspended spec then Some 0 else if hasDisk spec then Some 1
       else if \<not> autoscaled spec then Some (sp_replicas spec) else None),
     dep_rolling = (if \<not> sp_suspended spec \<and> hasDisk spec then Some (0, 1) else None)\<rparr>"

definition applyDeployment :: "reconciler \<Rightarrow> service_spec \<Rightarrow> ('y, unit) kop" where
  "applyDeployment rc spec = must_parse rc (resource_quantities (instance_Get (sp_size spec)))
     (apply_obj (''apply deployment '' @ sp_name spec) (KDeployment, sp_namespace spec, sp_name spec)
       (DeploymentObj (app_deployment spec)))"

definition cron_pod :: "service_spec \<Rightarrow> pod_spec" where
  "cron_pod spec = \<lparr>pod_container = \<lparr>ct_name = ''app'', ct_image = sp_image spec, ct_args = [],
       ct_ports = [], ct_resources = instance_Get (sp_size spec), ct_env = [],
       ct_env_from = [envSecretName (sp_name spec)], ct_ready = None, ct_live = None, ct_mounts = []\<rparr>,
     pod_volumes = [], pod_pull_secrets = pull_secrets spec, pod_restart = ''OnFailure''\<rparr>"

definition applyCronJob :: "reconciler \<Rightarrow> service_spec \<Rightarrow> ('y, unit) kop" where
  "applyCronJob rc spec = must_parse rc (resource_quantities (instance_Get (sp_size spec)))
     (apply_obj (''apply cronjob '' @ sp_name spec) (KCronJob, sp_namespace spec, sp_name spec)
       (CronJobObj (selectorLabels (sp_name spec)) (sp_schedule spec) (selectorLabels (sp_name spec))
         (cron_pod spec)))"

definition hpaCPUTarget :: int where "hpaCPUTarget = 70"

definition deleteAutoscaler :: "string \<Rightarrow> string \<Rightarrow> ('y, unit) kop" where
  "deleteAutoscaler ns name = delete_obj (''delete hpa '' @ name) (KAutoscaler, ns, name)"

definition reconcileAutoscaler :: "service_spec \<Rightarrow> ('y, unit) kop" where
  "reconcileAutoscaler spec =
     (if \<not> autoscaled spec then deleteAutoscaler (sp_namespace spec) (sp_name spec)
      else apply_obj (''apply hpa '' @ sp_name spec) (KAutoscaler, sp_namespace spec, sp_name spec)
        (AutoscalerObj (selectorLabels (sp_name spec)) (sp_name spec) (sp_min spec) (sp_max spec)
          hpaCPUTarget))"

definition deletePVC :: "string \<Rightarrow> string \<Rightarrow> ('y, unit) kop" where
  "deletePVC ns name = delete_obj (''delete pvc '' @ name) (KClaim, ns, name)"

definition reconcileDisk :: "reconciler \<Rightarrow> service_spec \<Rightarrow> ('y, unit) kop" where
  "reconcileDisk rc spec =
     (if \<not> hasDisk spec then deletePVC (sp_namespace spec) (pvcName (sp_name spec))
      else must_parse rc [sp_disk_size spec]
        (apply_obj (''apply pvc '' @ sp_name spec) (KClaim, sp_namespace spec, pvcName (sp_name spec))
          (ClaimObj (selectorLabels (sp_name spec)) (sp_disk_size spec))))"

definition applyService :: "service_spec \<Rightarrow> ('y, unit) kop" where
  "applyService spec = apply_obj (''apply service '' @ sp_name spec)
     (KService, sp_namespace spec, sp_name spec)
     (ServiceObj (selectorLabels (sp_name spec)) (selectorLabels (sp_name spec)) ''http'' 80 (sp_port spec))"

definition applyCertificate :: "reconciler \<Rightarrow> service_spec \<Rightarrow> ('y, unit) kop" where
  "applyCertificate rc spec = apply_obj (''apply certificate '' @ sp_name spec)
     (KCertificate, sp_namespace spec, sp_name spec)
     (CertificateObj (tlsSecretName (sp_name spec)) (hosts rc spec) (rc_issuer rc))"

definition ingressRouteObject :: "string \<Rightarrow> string \<Rightarrow> string list \<Rightarrow> string \<Rightarrow> obj" where
  "ingressRouteObject service match entryPoints tlsSecret =
     IngressRouteObj entryPoints match service 80 (if tlsSecret \<noteq> '''' then Some tlsSecret else None)"

definition applyIngressRoute :: "reconciler \<Rightarrow> service_spec \<Rightarrow> ('y, unit) kop" where
  "applyIngressRoute rc spec = (let match = hostMatch (hosts rc spec) in
     throwing (apply_obj (''apply https ingressroute '' @ sp_name spec)
         (KIngressRoute, sp_namespace spec, sp_name spec)
         (ingressRouteObject (sp_name spec) match [''websecure''] (tlsSecretName (sp_name spec))))
       (\<lambda>_. apply_obj (''apply http ingressroute '' @ sp_name spec)
         (KIngressRoute, sp_namespace spec, httpRouteName (sp_name spec))
         (ingressRouteObject (sp_name spec) match [''web''] '''')))"

section \<open>Rollouts\<close>

definition rolloutComplete :: "deployment_view \<Rightarrow> bool" where
  "rolloutComplete d = (let desired = (case dw_replicas d of None \<Rightarrow> 1 | Some n \<Rightarrow> n) in
     dw_generation d = dw_observed d \<and> dw_updated d = desired \<and> dw_available d = desired)"

text \<open>The polling loop: the list of answers ends where the deadline falls.\<close>

fun rollout_polls :: "poll list \<Rightarrow> bool" where
  "rollout_polls [] = False"
| "rollout_polls (PollDeployment d # ps) = (rolloutComplete d \<or> rollout_polls ps)"
| "rollout_polls (_ # ps) = rollout_polls ps"

definition waitForRollout :: "string \<Rightarrow> string \<Rightarrow> ('y, unit) kop" where
  "waitForRollout ns name = bnd kube_wait (\<lambda>ps. ret (if rollout_polls ps then Inr ()
     else Inl (KApi (''rollout of '' @ ns @ ''/'' @ name @ '' did not complete''))))"

section \<open>Apply and Delete\<close>

definition Apply :: "reconciler \<Rightarrow> service_spec \<Rightarrow> ('y, unit) kop" where
  "Apply rc spec =
     throwing (ensureNamespace (sp_namespace spec)) (\<lambda>_.
     throwing (applyNamespacePolicies rc (sp_namespace spec)) (\<lambda>_.
     throwing (reconcilePullSecret (sp_namespace spec) (sp_pull spec)) (\<lambda>_.
     throwing (applyEnvSecret spec) (\<lambda>_.
     if sp_type spec = Cron then applyCronJob rc spec
     else throwing (reconcileDisk rc spec) (\<lambda>_.
       throwing (applyDeployment rc spec) (\<lambda>_.
       throwing (reconcileAutoscaler spec) (\<lambda>_.
       throwing (if IsRoutable (sp_type spec)
         then throwing (applyCertificate rc spec) (\<lambda>_. throwing (applyService spec)
           (\<lambda>_. applyIngressRoute rc spec))
         else ret (Inr ()))
       (\<lambda>_. waitForRollout (sp_namespace spec) (sp_name spec)))))))))"

definition Delete :: "string \<Rightarrow> string \<Rightarrow> ('y, unit) kop" where
  "Delete ns name =
     throwing (delete_obj (''delete deployment '' @ name) (KDeployment, ns, name)) (\<lambda>_.
     throwing (delete_obj (''delete cronjob '' @ name) (KCronJob, ns, name)) (\<lambda>_.
     throwing (deleteAutoscaler ns name) (\<lambda>_.
     throwing (deletePVC ns (pvcName name)) (\<lambda>_.
     throwing (delete_obj (''delete service '' @ name) (KService, ns, name)) (\<lambda>_.
     throwing (delete_obj (''delete env secret '' @ name) (KSecret, ns, envSecretName name)) (\<lambda>_.
     throwing (delete_obj (''delete ingressroute '' @ name) (KIngressRoute, ns, name)) (\<lambda>_.
     throwing (delete_obj (''delete http ingressroute '' @ name) (KIngressRoute, ns, httpRouteName name)) (\<lambda>_.
     throwing (delete_obj (''delete certificate '' @ name) (KCertificate, ns, name)) (\<lambda>_.
     delete_obj (''delete tls secret '' @ name) (KSecret, ns, tlsSecretName name))))))))))"

definition DeleteNamespace :: "string \<Rightarrow> ('y, unit) kop" where
  "DeleteNamespace ns = ignoreNotFound (kube_delete (ns_key ns))"

end
