(* ===== verification/Workload_Desired.thy ===== *)
theory Workload_Desired
  imports K8s_Workload
begin

text \<open>
  What \<open>Apply\<close> and \<open>Delete\<close> of \<open>internal/k8s/reconcile.go\<close> are for. \<open>workload_plan\<close> lists the objects a
  service should have; with readable quantities, \<open>Apply\<close> is the carrying out of that plan followed
  by the wait for the rollout, so a successful \<open>Apply\<close> reaches the desired state and a failed one
  only moves toward it. \<open>Delete\<close> carries out the plan that wants nothing.
\<close>

section \<open>Sequencing\<close>

lemma throwing_ret_left [simp]: "throwing (ret (Inr a)) k = k a"
  by (rule ext) (simp add: throwing_def attempt_def ret_def)

lemma throwing_unit [simp]: "throwing m (\<lambda>_. ret (Inr ())) = (m :: ('w, 'e + unit) act)"
  by (rule ext) (simp add: throwing_def attempt_def ret_def split: prod.split sum.split)

lemma throwing_if: "throwing (if b then m else n) k = (if b then throwing m k else throwing n k)"
  by simp

lemma if_distrib_app: "(if b then f else g) w = (if b then f w else g w)"
  by simp

section \<open>Plans\<close>

type_synonym plan = "(string \<times> okey \<times> obj option) list"

definition namespace_plan :: "string \<Rightarrow> plan" where
  "namespace_plan ns =
     [(''apply namespace '' @ ns, ns_key ns, Some (NamespaceObj [(''app.kubernetes.io/managed-by'', fieldManager)])),
      (''apply resourcequota '' @ ns, (KQuota, ns, ''uran-quota''), Some (QuotaObj quota_hard)),
      (''apply limitrange '' @ ns, (KLimits, ns, ''uran-limits''), Some (LimitsObj limit_default limit_request)),
      (''apply networkpolicy '' @ ns, (KNetPolicy, ns, ''uran-isolation''), Some (NetPolicyObj isolation_peers))]"

definition pull_plan :: "string \<Rightarrow> registry_cred list \<Rightarrow> plan" where
  "pull_plan ns creds =
     [if creds = [] then (''delete pull secret'', (KSecret, ns, pullSecretName), None)
      else (''apply pull secret'', (KSecret, ns, pullSecretName),
        Some (SecretObj [] (DockerConfig (dockerConfigJSON creds))))]"

definition route_plan :: "reconciler \<Rightarrow> service_spec \<Rightarrow> plan" where
  "route_plan rc spec = (let n = sp_name spec; ns = sp_namespace spec; match = hostMatch (hosts rc spec) in
     [(''apply certificate '' @ n, (KCertificate, ns, n),
         Some (CertificateObj (tlsSecretName n) (hosts rc spec) (rc_issuer rc))),
      (''apply service '' @ n, (KService, ns, n),
         Some (ServiceObj (selectorLabels n) (selectorLabels n) ''http'' 80 (sp_port spec))),
      (''apply https ingressroute '' @ n, (KIngressRoute, ns, n),
         Some (IngressRouteObj [''websecure''] match n 80 (Some (tlsSecretName n)))),
      (''apply http ingressroute '' @ n, (KIngressRoute, ns, httpRouteName n),
         Some (IngressRouteObj [''web''] match n 80 None))])"

definition disk_plan :: "service_spec \<Rightarrow> plan" where
  "disk_plan spec = (let n = pvcName (sp_name spec); ns = sp_namespace spec in
     [if hasDisk spec then (''apply pvc '' @ sp_name spec, (KClaim, ns, n),
         Some (ClaimObj (selectorLabels (sp_name spec)) (sp_disk_size spec)))
      else (''delete pvc '' @ n, (KClaim, ns, n), None)])"

definition scaling_plan :: "service_spec \<Rightarrow> plan" where
  "scaling_plan spec = (let n = sp_name spec; ns = sp_namespace spec in
     [if autoscaled spec then (''apply hpa '' @ n, (KAutoscaler, ns, n),
         Some (AutoscalerObj (selectorLabels n) n (sp_min spec) (sp_max spec) hpaCPUTarget))
      else (''delete hpa '' @ n, (KAutoscaler, ns, n), None)])"

definition workload_plan :: "reconciler \<Rightarrow> service_spec \<Rightarrow> plan" where
  "workload_plan rc spec = (let n = sp_name spec; ns = sp_namespace spec in
     namespace_plan ns @ pull_plan ns (sp_pull spec) @
     [(''apply env secret '' @ n, (KSecret, ns, envSecretName n),
         Some (SecretObj (selectorLabels n) (TextData (sp_env spec))))] @
     (if sp_type spec = Cron
      then [(''apply cronjob '' @ n, (KCronJob, ns, n),
         Some (CronJobObj (selectorLabels n) (sp_schedule spec) (selectorLabels n) (cron_pod spec)))]
      else disk_plan spec @
        [(''apply deployment '' @ n, (KDeployment, ns, n), Some (DeploymentObj (app_deployment spec)))] @
        scaling_plan spec @ (if IsRoutable (sp_type spec) then route_plan rc spec else [])))"

definition delete_plan :: "string \<Rightarrow> string \<Rightarrow> plan" where
  "delete_plan ns n =
     [(''delete deployment '' @ n, (KDeployment, ns, n), None),
      (''delete cronjob '' @ n, (KCronJob, ns, n), None),
      (''delete hpa '' @ n, (KAutoscaler, ns, n), None),
      (''delete pvc '' @ pvcName n, (KClaim, ns, pvcName n), None),
      (''delete service '' @ n, (KService, ns, n), None),
      (''delete env secret '' @ n, (KSecret, ns, envSecretName n), None),
      (''delete ingressroute '' @ n, (KIngressRoute, ns, n), None),
      (''delete http ingressroute '' @ n, (KIngressRoute, ns, httpRouteName n), None),
      (''delete certificate '' @ n, (KCertificate, ns, n), None),
      (''delete tls secret '' @ n, (KSecret, ns, tlsSecretName n), None)]"

definition plan_desired :: "plan \<Rightarrow> (okey, obj) desired" where
  "plan_desired ps = map_of (map snd ps)"

lemmas plan_defs = namespace_plan_def pull_plan_def route_plan_def disk_plan_def scaling_plan_def
  workload_plan_def delete_plan_def

text \<open>Every quantity \<open>Apply\<close> parses is readable.\<close>

definition readable :: "reconciler \<Rightarrow> string list \<Rightarrow> bool" where
  "readable rc qs \<longleftrightarrow> list_all (\<lambda>q. rc_quantity rc q \<noteq> None) qs"

definition namespace_quantities :: "string list" where
  "namespace_quantities = map snd quota_hard @ map snd (limit_default @ limit_request)"

definition spec_quantities :: "service_spec \<Rightarrow> string list" where
  "spec_quantities spec = namespace_quantities @ resource_quantities (instance_Get (sp_size spec)) @
     (if sp_type spec \<noteq> Cron \<and> hasDisk spec then [sp_disk_size spec] else [])"

lemma must_parse_readable: "readable rc qs \<Longrightarrow> must_parse rc qs m = m"
  by (simp add: must_parse_def readable_def)

lemma readable_append [simp]: "readable rc (ps @ qs) \<longleftrightarrow> readable rc ps \<and> readable rc qs"
  by (simp add: readable_def)

section \<open>Names\<close>

lemma secret_names [simp]:
  "envSecretName n \<noteq> pullSecretName" "tlsSecretName n \<noteq> pullSecretName"
  "envSecretName m \<noteq> tlsSecretName n" "pullSecretName \<noteq> envSecretName n"
  "pullSecretName \<noteq> tlsSecretName n" "tlsSecretName n \<noteq> envSecretName m"
  by (auto simp: envSecretName_def tlsSecretName_def pullSecretName_def dest!: arg_cong [of _ _ last])

lemma name_inject [simp]:
  "envSecretName m = envSecretName n \<longleftrightarrow> m = n" "tlsSecretName m = tlsSecretName n \<longleftrightarrow> m = n"
  "pvcName m = pvcName n \<longleftrightarrow> m = n" "httpRouteName m = httpRouteName n \<longleftrightarrow> m = n"
  by (simp_all add: envSecretName_def tlsSecretName_def pvcName_def httpRouteName_def)

lemma route_names [simp]: "httpRouteName n \<noteq> n" "n \<noteq> httpRouteName n"
  by (auto simp: httpRouteName_def)

text \<open>The keys of a plan and their values, without the messages.\<close>

lemma plan_snd:
  "map snd (namespace_plan ns) = [(ns_key ns, Some (NamespaceObj [(''app.kubernetes.io/managed-by'', fieldManager)])),
     ((KQuota, ns, ''uran-quota''), Some (QuotaObj quota_hard)),
     ((KLimits, ns, ''uran-limits''), Some (LimitsObj limit_default limit_request)),
     ((KNetPolicy, ns, ''uran-isolation''), Some (NetPolicyObj isolation_peers))]"
  "map snd (pull_plan ns creds) = [((KSecret, ns, pullSecretName),
     if creds = [] then None else Some (SecretObj [] (DockerConfig (dockerConfigJSON creds))))]"
  "map snd (disk_plan spec) = [((KClaim, sp_namespace spec, pvcName (sp_name spec)),
     if hasDisk spec then Some (ClaimObj (selectorLabels (sp_name spec)) (sp_disk_size spec)) else None)]"
  "map snd (scaling_plan spec) = [((KAutoscaler, sp_namespace spec, sp_name spec),
     if autoscaled spec then Some (AutoscalerObj (selectorLabels (sp_name spec)) (sp_name spec) (sp_min spec)
       (sp_max spec) hpaCPUTarget) else None)]"
  "map snd (route_plan rc spec) =
     [((KCertificate, sp_namespace spec, sp_name spec),
         Some (CertificateObj (tlsSecretName (sp_name spec)) (hosts rc spec) (rc_issuer rc))),
      ((KService, sp_namespace spec, sp_name spec),
         Some (ServiceObj (selectorLabels (sp_name spec)) (selectorLabels (sp_name spec)) ''http'' 80 (sp_port spec))),
      ((KIngressRoute, sp_namespace spec, sp_name spec),
         Some (IngressRouteObj [''websecure''] (hostMatch (hosts rc spec)) (sp_name spec) 80 (Some (tlsSecretName (sp_name spec))))),
      ((KIngressRoute, sp_namespace spec, httpRouteName (sp_name spec)),
         Some (IngressRouteObj [''web''] (hostMatch (hosts rc spec)) (sp_name spec) 80 None))]"
  by (simp_all add: namespace_plan_def pull_plan_def disk_plan_def scaling_plan_def route_plan_def Let_def)

lemma workload_plan_snd:
  "map snd (workload_plan rc spec) = map snd (namespace_plan (sp_namespace spec)) @
     map snd (pull_plan (sp_namespace spec) (sp_pull spec)) @
     ((KSecret, sp_namespace spec, envSecretName (sp_name spec)),
       Some (SecretObj (selectorLabels (sp_name spec)) (TextData (sp_env spec)))) #
     (if sp_type spec = Cron
      then [((KCronJob, sp_namespace spec, sp_name spec), Some (CronJobObj (selectorLabels (sp_name spec))
         (sp_schedule spec) (selectorLabels (sp_name spec)) (cron_pod spec)))]
      else map snd (disk_plan spec) @
        ((KDeployment, sp_namespace spec, sp_name spec), Some (DeploymentObj (app_deployment spec))) #
        map snd (scaling_plan spec) @ (if IsRoutable (sp_type spec) then map snd (route_plan rc spec) else []))"
  by (simp add: workload_plan_def Let_def)

lemma delete_plan_snd:
  "map snd (delete_plan ns n) = map (\<lambda>k. (k, None))
     [(KDeployment, ns, n), (KCronJob, ns, n), (KAutoscaler, ns, n), (KClaim, ns, pvcName n),
      (KService, ns, n), (KSecret, ns, envSecretName n), (KIngressRoute, ns, n),
      (KIngressRoute, ns, httpRouteName n), (KCertificate, ns, n), (KSecret, ns, tlsSecretName n)]"
  by (simp add: delete_plan_def)

lemma workload_plan_distinct: "distinct (map fst (map snd (workload_plan rc spec)))"
  unfolding workload_plan_snd plan_snd
  by (cases "sp_type spec = Cron"; cases "IsRoutable (sp_type spec)") (simp_all add: ns_key_def)

lemma workload_plan_keys:
  "(k, x) \<in> set (map snd (workload_plan rc spec)) \<Longrightarrow>
     k = ns_key (sp_namespace spec) \<or> plain_key k \<and> key_namespace k = sp_namespace spec"
  unfolding workload_plan_snd plan_snd by (auto simp: plain_key_def split: if_splits)

lemma delete_plan_distinct: "distinct (map fst (map snd (delete_plan ns n)))"
  unfolding delete_plan_snd by simp

lemma delete_plan_keys: "(k, x) \<in> set (map snd (delete_plan ns n)) \<Longrightarrow> plain_key k \<and> x = None"
  unfolding delete_plan_snd by (auto simp: plain_key_def)

section \<open>Apply and Delete carry out their plans\<close>

lemma throwing_reach_Cons [simp]:
  "throwing (kube.reach ((m, k, Some x) # ps)) h = throwing (apply_obj m k x) (\<lambda>_. throwing (kube.reach ps) h)"
  "throwing (kube.reach ((m, k, None) # ps)) h = throwing (delete_obj m k) (\<lambda>_. throwing (kube.reach ps) h)"
  "throwing (kube.reach []) h = h ()"
  by (simp_all add: throwing_assoc)

lemma ensureNamespace_policies:
  assumes "readable rc namespace_quantities"
  shows "throwing (ensureNamespace ns) (\<lambda>_. throwing (applyNamespacePolicies rc ns) h) =
    throwing (kube.reach (namespace_plan ns)) h"
  using assms
  by (simp add: namespace_plan_def ensureNamespace_def applyNamespacePolicies_def applyResourceQuota_def
      applyLimitRange_def applyNetworkPolicy_def must_parse_readable namespace_quantities_def throwing_assoc)

lemma reach_parts:
  "throwing (reconcilePullSecret ns creds) h = throwing (kube.reach (pull_plan ns creds)) h"
  "throwing (applyEnvSecret spec) h = throwing (kube.reach [(''apply env secret '' @ sp_name spec,
     (KSecret, sp_namespace spec, envSecretName (sp_name spec)),
     Some (SecretObj (selectorLabels (sp_name spec)) (TextData (sp_env spec))))]) h"
  "throwing (reconcileAutoscaler spec) h = throwing (kube.reach (scaling_plan spec)) h"
  "readable rc (if hasDisk spec then [sp_disk_size spec] else []) \<Longrightarrow>
     throwing (reconcileDisk rc spec) h = throwing (kube.reach (disk_plan spec)) h"
  "readable rc (resource_quantities (instance_Get (sp_size spec))) \<Longrightarrow>
     throwing (applyDeployment rc spec) h = throwing (kube.reach [(''apply deployment '' @ sp_name spec,
       (KDeployment, sp_namespace spec, sp_name spec), Some (DeploymentObj (app_deployment spec)))]) h"
  "throwing (applyCertificate rc spec) (\<lambda>_. throwing (applyService spec) (\<lambda>_. throwing (applyIngressRoute rc spec) h)) =
     throwing (kube.reach (route_plan rc spec)) h"
  by (simp_all add: reconcilePullSecret_def pull_plan_def applyEnvSecret_def reconcileAutoscaler_def
      deleteAutoscaler_def scaling_plan_def reconcileDisk_def deletePVC_def disk_plan_def
      must_parse_readable applyDeployment_def route_plan_def applyCertificate_def applyService_def
      applyIngressRoute_def ingressRouteObject_def throwing_assoc Let_def tlsSecretName_def
      del: append.simps split del: if_split split: if_splits)

context object_store
begin

lemma reach_append: "throwing (reach (ps @ qs)) h = throwing (reach ps) (\<lambda>_. throwing (reach qs) h)"
  by (induction ps rule: reach.induct) (simp_all add: throwing_assoc)

lemma reach_append_unit: "reach (ps @ qs) = throwing (reach ps) (\<lambda>_. reach qs)"
  using reach_append [of ps qs "\<lambda>_. ret (Inr ())"] by simp

end

definition rollout_wait :: "service_spec \<Rightarrow> ('y, unit) kop" where
  "rollout_wait spec = (if sp_type spec = Cron then ret (Inr ())
     else waitForRollout (sp_namespace spec) (sp_name spec))"

lemma Apply_reach:
  assumes "readable rc (spec_quantities spec)"
  shows "Apply rc spec = throwing (kube.reach (workload_plan rc spec)) (\<lambda>_. rollout_wait spec)"
proof -
  have r: "readable rc namespace_quantities" "readable rc (resource_quantities (instance_Get (sp_size spec)))"
    "sp_type spec \<noteq> Cron \<Longrightarrow> readable rc (if hasDisk spec then [sp_disk_size spec] else [])"
    using assms by (auto simp: spec_quantities_def readable_def split: if_splits)
  show ?thesis
  proof (cases "sp_type spec = Cron")
    case True
    then show ?thesis
      by (simp add: Apply_def workload_plan_def Let_def kube.reach_append rollout_wait_def reach_parts
          ensureNamespace_policies [OF r(1)] applyCronJob_def must_parse_readable [OF r(2)]
          kube.reach_append_unit
          del: append.simps)
  next
    case False
    then show ?thesis
      by (simp add: Apply_def workload_plan_def Let_def kube.reach_append rollout_wait_def
          reach_parts(1-3,6) reach_parts(4) [OF r(3)] reach_parts(5) [OF r(2)] throwing_assoc
          ensureNamespace_policies [OF r(1)] del: append.simps)
  qed
qed

lemma Delete_reach: "Delete ns name = kube.reach (delete_plan ns name)"
  by (simp add: Delete_def delete_plan_def deleteAutoscaler_def deletePVC_def)

section \<open>What a reconciliation reaches\<close>

definition desired :: "reconciler \<Rightarrow> service_spec \<Rightarrow> (okey, obj) desired" where
  "desired rc spec = plan_desired (workload_plan rc spec)"

lemma kube_wait_frame: "kube_wait w = (ps, w') \<Longrightarrow> cl_objects w' = cl_objects w"
  by (auto simp: kube_wait_def split: list.splits)

lemma rollout_wait_writes: "writes cl_objects (rollout_wait spec) (\<lambda>s. s)"
  using kube_wait_frame unfolding writes_def rollout_wait_def waitForRollout_def bnd_def ret_def
  by (auto split: prod.splits if_splits)

lemma Apply_writes:
  assumes "readable rc (spec_quantities spec)"
  shows "writes cl_objects (Apply rc spec) (\<lambda>s. override s (desired rc spec))"
proof -
  have "writes cl_objects (kube.reach (workload_plan rc spec)) (\<lambda>s. override s (map_of (map snd (workload_plan rc spec))))"
  proof (rule kube.reach_writes [OF _ workload_plan_distinct])
    show "\<forall>(k, x) \<in> set (map snd (workload_plan rc spec)). x = None \<longrightarrow> plain_key k"
      unfolding workload_plan_snd plan_snd by (auto simp: plain_key_def)
  qed
  from writes_throwing [OF this rollout_wait_writes] show ?thesis
    by (simp add: Apply_reach [OF assms] desired_def plan_desired_def)
qed

text \<open>Where a quantity is not readable, \<open>Apply\<close> cannot succeed.\<close>

definition fails :: "('w, 'e + 'a) act \<Rightarrow> bool" where
  "fails m \<longleftrightarrow> (\<forall>w a w'. m w \<noteq> (Inr a, w'))"

lemma fails_throwing:
  "fails m \<Longrightarrow> fails (throwing m k)" "(\<And>a. fails (k a)) \<Longrightarrow> fails (throwing m k)"
  unfolding fails_def throwing_def attempt_def ret_def by (auto split: prod.splits sum.splits)

lemma fails_must_parse: "\<not> readable rc qs \<Longrightarrow> fails (must_parse rc qs m)"
  by (simp add: fails_def must_parse_def readable_def ret_def)

lemma Apply_unreadable:
  assumes "\<not> readable rc (spec_quantities spec)"
  shows "fails (Apply rc spec)"
proof -
  let ?sz = "resource_quantities (instance_Get (sp_size spec))"
  consider "\<not> readable rc (map snd quota_hard)" | "\<not> readable rc (map snd (limit_default @ limit_request))"
    | "\<not> readable rc ?sz" | "sp_type spec \<noteq> Cron" "hasDisk spec" "\<not> readable rc [sp_disk_size spec]"
    using assms by (auto simp: spec_quantities_def namespace_quantities_def readable_def split: if_splits)
  then show ?thesis
  proof cases
    case 1
    then have "fails (applyResourceQuota rc ns :: ('a, unit) kop)" for ns
      unfolding applyResourceQuota_def by (rule fails_must_parse)
    then show ?thesis unfolding Apply_def applyNamespacePolicies_def by (intro fails_throwing(2) fails_throwing(1))
  next
    case 2
    then have "fails (applyLimitRange rc ns :: ('a, unit) kop)" for ns
      unfolding applyLimitRange_def by (rule fails_must_parse)
    then have "fails (applyNamespacePolicies rc ns :: ('a, unit) kop)" for ns
      unfolding applyNamespacePolicies_def by (intro fails_throwing(2) fails_throwing(1))
    then show ?thesis unfolding Apply_def by (intro fails_throwing(2) fails_throwing(1))
  next
    case 3
    then have "fails (applyCronJob rc spec :: ('a, unit) kop)" "fails (applyDeployment rc spec :: ('a, unit) kop)"
      unfolding applyCronJob_def applyDeployment_def by (rule fails_must_parse)+
    then show ?thesis unfolding Apply_def
      by (cases "sp_type spec = Cron")
        (simp_all add: fails_throwing(1) [THEN fails_throwing(2)] fails_throwing)
  next
    case 4
    then have "fails (reconcileDisk rc spec :: ('a, unit) kop)"
      unfolding reconcileDisk_def by (auto intro: fails_must_parse)
    then show ?thesis using 4(1) unfolding Apply_def by (simp add: fails_throwing)
  qed
qed

lemma Apply_desired: "writes cl_objects (Apply rc spec) (\<lambda>s. override s (desired rc spec))"
  using Apply_writes Apply_unreadable unfolding writes_def fails_def by metis

lemma Delete_writes:
  "writes cl_objects (Delete ns name) (\<lambda>s. override s (plan_desired (delete_plan ns name)))"
  unfolding Delete_reach plan_desired_def
proof (rule kube.reach_writes [OF _ delete_plan_distinct])
  show "\<forall>(k, x) \<in> set (map snd (delete_plan ns name)). x = None \<longrightarrow> plain_key k"
    unfolding delete_plan_snd by (auto simp: plain_key_def)
qed

text \<open>Whatever happens, objects only move toward the desired state.\<close>

lemma desired_entry: "(k, x) \<in> set (map snd (workload_plan rc spec)) \<Longrightarrow> desired rc spec k = Some x"
  unfolding desired_def plan_desired_def by (rule map_of_is_SomeI [OF workload_plan_distinct])

lemma desired_member:
  assumes "desired rc spec k = Some x"
  shows "(k, x) \<in> set (map snd (workload_plan rc spec))"
  using assms unfolding desired_def plan_desired_def by (rule map_of_SomeD)

lemma wait_toward: "keeps cl_objects (toward D) (waitForRollout ns name)"
  unfolding keeps_def waitForRollout_def bnd_def ret_def
  by (auto split: prod.splits dest!: kube_wait_frame)

lemma toward_if:
  "(b \<Longrightarrow> keeps get R m) \<Longrightarrow> (\<not> b \<Longrightarrow> keeps get R n) \<Longrightarrow> keeps get R (if b then m else n)"
  by simp

lemmas toward_steps = toward_if toward_must_parse kube_evo.keeps_throwing kube_evo.keeps_ret
  kube.put_toward kube.del_toward wait_toward desired_entry

lemma Apply_toward: "keeps cl_objects (toward (desired rc spec)) (Apply rc spec)"
  unfolding Apply_def ensureNamespace_def applyNamespacePolicies_def applyResourceQuota_def
    applyLimitRange_def applyNetworkPolicy_def reconcilePullSecret_def applyEnvSecret_def
    applyCronJob_def reconcileDisk_def deletePVC_def applyDeployment_def reconcileAutoscaler_def
    deleteAutoscaler_def applyCertificate_def applyService_def applyIngressRoute_def
    ingressRouteObject_def Let_def
  by (intro toward_steps; simp add: workload_plan_snd plan_snd plain_key_def tlsSecretName_def)

lemma Delete_toward:
  "keeps cl_objects (toward (plan_desired (delete_plan ns name))) (Delete ns name)"
  unfolding Delete_reach plan_desired_def
proof (rule kube.reach_toward)
  fix k x assume "(k, x) \<in> set (map snd (delete_plan ns name))"
  then show "map_of (map snd (delete_plan ns name)) k = Some x \<and> (x = None \<longrightarrow> plain_key k)"
    using map_of_is_SomeI [OF delete_plan_distinct] delete_plan_keys by blast
qed (rule kube_evo.evolution_axioms)

end
