(* ===== verification/Workload_Props.thy ===== *)
theory Workload_Props
  imports Workload_Desired
begin

text \<open>
  The properties of the workload reconciler (\<open>internal/k8s/reconcile.go\<close> and the files it calls):
  convergence, confinement to a namespace, teardown, the meaning of the isolation policy, of the
  route rules and of the pull secret.
\<close>

section \<open>Convergence\<close>

text \<open>C14.
  A successful \<open>Apply\<close> leaves the cluster as it was, but for the service's objects, which are as the
  specification wants them; a failed one has changed only objects toward that state. So however
  often and wherever \<open>Apply\<close> fails, a later success ends where one clean run would have.\<close>

theorem Apply_converges:
  "(case Apply rc spec w of (r, w1) \<Rightarrow>
      toward (desired rc spec) (cl_objects w) (cl_objects w1) \<and>
      (isl r \<or> cl_objects w1 = override (cl_objects w) (desired rc spec)) \<and>
      (case Apply rc spec (w1\<lparr>cl_errors := es, cl_waits := ps\<rparr>) of (r2, w2) \<Rightarrow>
        isl r2 \<or> cl_objects w2 = override (cl_objects w) (desired rc spec)))"
proof -
  obtain r w1 where 1: "Apply rc spec w = (r, w1)" by fastforce
  obtain r2 w2 where 2: "Apply rc spec (w1\<lparr>cl_errors := es, cl_waits := ps\<rparr>) = (r2, w2)" by fastforce
  have t: "toward (desired rc spec) (cl_objects w) (cl_objects w1)" by (rule keepsD [OF Apply_toward 1])
  have "isl r \<or> cl_objects w1 = override (cl_objects w) (desired rc spec)"
    using writesD [OF Apply_desired] 1 by (cases r) auto
  moreover have "isl r2 \<or> cl_objects w2 = override (cl_objects w) (desired rc spec)"
  proof (cases r2)
    case (Inr u)
    then show ?thesis using writesD [OF Apply_desired 2 [unfolded Inr]] override_after_toward [OF t]
      by simp
  qed simp
  ultimately show ?thesis using 1 2 t by simp
qed

section \<open>Confinement\<close>

text \<open>The objects of a workload and of its namespace, by their keys.\<close>

definition workload_keys :: "string \<Rightarrow> string \<Rightarrow> okey list" where
  "workload_keys ns n =
     [(KDeployment, ns, n), (KCronJob, ns, n), (KAutoscaler, ns, n), (KClaim, ns, pvcName n),
      (KService, ns, n), (KSecret, ns, envSecretName n), (KIngressRoute, ns, n),
      (KIngressRoute, ns, httpRouteName n), (KCertificate, ns, n), (KSecret, ns, tlsSecretName n)]"

definition shared_keys :: "string \<Rightarrow> okey list" where
  "shared_keys ns = [ns_key ns, (KQuota, ns, ''uran-quota''), (KLimits, ns, ''uran-limits''),
     (KNetPolicy, ns, ''uran-isolation''), (KSecret, ns, pullSecretName)]"

lemma desired_keys:
  "desired rc spec k \<noteq> None \<Longrightarrow>
     k \<in> set (workload_keys (sp_namespace spec) (sp_name spec)) \<union> set (shared_keys (sp_namespace spec))"
proof -
  assume "desired rc spec k \<noteq> None"
  then obtain x where "(k, x) \<in> set (map snd (workload_plan rc spec))" using desired_member by blast
  then show ?thesis unfolding workload_plan_snd plan_snd workload_keys_def shared_keys_def
    by (auto split: if_splits)
qed

lemma plan_desired_delete:
  "plan_desired (delete_plan ns n) k = (if k \<in> set (workload_keys ns n) then Some None else None)"
proof (cases "k \<in> set (workload_keys ns n)")
  case True
  then have "(k, None) \<in> set (map snd (delete_plan ns n))"
    unfolding delete_plan_snd workload_keys_def by auto
  then show ?thesis using True unfolding plan_desired_def
    by (simp add: map_of_is_SomeI [OF delete_plan_distinct])
next
  case False
  then have "k \<notin> fst ` set (map snd (delete_plan ns n))"
    unfolding delete_plan_snd workload_keys_def by auto
  then show ?thesis using False unfolding plan_desired_def by (simp add: map_of_eq_None_iff)
qed

text \<open>C29.
  Reconciling or deleting a workload never changes an object of another namespace: whatever fails,
  the objects outside the workload's own and its namespace's policies are as they were.\<close>

theorem workload_confined:
  "\<forall>k. (k \<in> set (workload_keys (sp_namespace spec) (sp_name spec)) \<union> set (shared_keys (sp_namespace spec)) \<or>
      cl_objects (snd (Apply rc spec w)) k = cl_objects w k) \<and>
    (k \<in> set (workload_keys ns name) \<or> cl_objects (snd (Delete ns name v)) k = cl_objects v k)"
  using toward_outside [OF keepsD [OF Apply_toward prod.collapse [symmetric]]]
    toward_outside [OF keepsD [OF Delete_toward prod.collapse [symmetric]]]
    desired_keys plan_desired_delete
  by metis

text \<open>Two workloads share an object exactly when they are the same workload, or live in one namespace
  and the name of one is the other's with \<open>-http\<close> appended: the plain-HTTP route of a service called
  \<open>web\<close> is the object \<open>web-http\<close>, which is also the HTTPS route of a service of that name.\<close>

theorem workloads_overlap:
  "set (workload_keys ns m) \<inter> set (workload_keys ns' n) \<noteq> {} \<longleftrightarrow>
     ns = ns' \<and> (m = n \<or> m = n @ ''-http'' \<or> n = m @ ''-http'')"
proof -
  have "set (workload_keys ns m) \<inter> set (workload_keys ns' n) \<noteq> {} \<longleftrightarrow>
     ns = ns' \<and> (m = n \<or> m = httpRouteName n \<or> n = httpRouteName m)"
    unfolding workload_keys_def by (simp add: Int_insert_left) blast
  then show ?thesis by (simp add: httpRouteName_def)
qed

section \<open>Teardown\<close>


text \<open>A cluster without objects, whose next rollout completes, and a service with a disk.\<close>

definition demo_reconciler :: reconciler where
  "demo_reconciler = \<lparr>rc_domain = ''uran.local'', rc_issuer = ''letsencrypt'',
     rc_backup = \<lparr>bc_endpoint = '''', bc_bucket = '''', bc_access_key = '''', bc_secret_key = ''''\<rparr>,
     rc_quantity = (\<lambda>q. if q = '''' \<or> q = ''lots'' then None else Some 50)\<rparr>"

definition demo_spec :: service_spec where
  "demo_spec = \<lparr>sp_namespace = ''uran-org-1'', sp_name = ''web'', sp_type = ''web'', sp_image = ''reg/svc-1:1'',
     sp_port = 80, sp_schedule = '''', sp_env = [(''A'', ''1'')], sp_domains = [''acme.io''],
     sp_replicas = 1, sp_size = ''small'', sp_health = '''', sp_min = 0, sp_max = 0,
     sp_disk_size = ''1Gi'', sp_disk_path = ''/data'', sp_pull = [], sp_suspended = False\<rparr>"

definition demo_cluster :: cluster where
  "demo_cluster = \<lparr>tabs = demo_tables, bus = [], faults = [], now = 7, cl_objects = (\<lambda>_. None),
     cl_errors = [], cl_waits = [[PollFailed, PollDeployment \<lparr>dw_replicas = Some 1, dw_generation = 2,
       dw_observed = 2, dw_updated = 1, dw_available = 1\<rparr>]], cl_foreign = (\<lambda>_. None)\<rparr>"


section \<open>Who owns the replica count\<close>

text \<open>The number of pods of a service has exactly one owner. Of the objects wanted for a service that
  is not a cron job: the deployment leaves the count open exactly when there is an autoscaler; a
  suspended service has no pods and no autoscaler; a service with a disk has one pod at most, rolled
  without a second one beside it.\<close>

theorem replicas_have_one_owner:
  assumes "sp_type spec \<noteq> Cron"
  shows "\<exists>d a. desired rc spec (KDeployment, sp_namespace spec, sp_name spec) = Some (Some (DeploymentObj d)) \<and>
    desired rc spec (KAutoscaler, sp_namespace spec, sp_name spec) = Some a \<and>
    (dep_replicas d = None \<longleftrightarrow> a \<noteq> None) \<and>
    (sp_suspended spec \<longrightarrow> dep_replicas d = Some 0 \<and> a = None) \<and>
    (hasDisk spec \<longrightarrow> dep_replicas d \<in> {Some 0, Some 1} \<and> a = None \<and>
      (sp_suspended spec \<or> dep_rolling d = Some (0, 1)))"
proof -
  let ?a = "if autoscaled spec then Some (AutoscalerObj (selectorLabels (sp_name spec)) (sp_name spec)
     (sp_min spec) (sp_max spec) hpaCPUTarget) else None"
  have "desired rc spec (KDeployment, sp_namespace spec, sp_name spec) =
      Some (Some (DeploymentObj (app_deployment spec)))"
    "desired rc spec (KAutoscaler, sp_namespace spec, sp_name spec) = Some ?a"
    using assms by (auto intro!: desired_entry simp: workload_plan_snd plan_snd)
  then show ?thesis
    by (intro exI [of _ "app_deployment spec"] exI [of _ ?a]) (auto simp: app_deployment_def autoscaled_def)
qed

theorem replicas_have_one_owner_witness:
  "\<exists>d a. desired demo_reconciler demo_spec (KDeployment, ''uran-org-1'', ''web'') = Some (Some (DeploymentObj d)) \<and>
    desired demo_reconciler demo_spec (KAutoscaler, ''uran-org-1'', ''web'') = Some a \<and>
    dep_replicas d = Some 1 \<and> a = None"
proof -
  have t: "sp_type demo_spec \<noteq> Cron" "hasDisk demo_spec" "\<not> sp_suspended demo_spec"
    "sp_namespace demo_spec = ''uran-org-1''" "sp_name demo_spec = ''web''"
    by (simp_all add: demo_spec_def Cron_def hasDisk_def)
  have d: "desired demo_reconciler demo_spec (KDeployment, ''uran-org-1'', ''web'') =
      Some (Some (DeploymentObj (app_deployment demo_spec)))"
    using desired_entry [of "(KDeployment, ''uran-org-1'', ''web'')"] t
    by (simp add: workload_plan_snd plan_snd)
  have "dep_replicas (app_deployment demo_spec) = Some 1"
    using t by (simp add: app_deployment_def)
  then show ?thesis using replicas_have_one_owner [OF t(1), of demo_reconciler] t d by auto
qed

section \<open>Network isolation\<close>

text \<open>
  Ingress policies as Kubernetes documents them: a namespace without policies is open; otherwise
  traffic enters if some peer of some policy admits its source namespace. (The policies here select
  all pods of their namespace.)
\<close>

fun admits :: "peer \<Rightarrow> string \<Rightarrow> string \<Rightarrow> bool" where
  "admits PodsHere target source = (source = target)"
| "admits (PodsOf ns) target source = (source = ns)"

definition ingress_allowed :: "(okey \<Rightarrow> obj option) \<Rightarrow> string \<Rightarrow> string \<Rightarrow> bool" where
  "ingress_allowed objs target source \<longleftrightarrow> (\<forall>n. objs (KNetPolicy, target, n) = None) \<or>
     (\<exists>n ps. objs (KNetPolicy, target, n) = Some (NetPolicyObj ps) \<and> (\<exists>p \<in> set ps. admits p target source))"

text \<open>C28.
  Once a service of an org has been reconciled, the pods of its namespace are reachable from that
  namespace, from the ingress controller's and from the database operator's, and from nowhere else:
  in particular not from the namespace of any other org.\<close>

theorem tenant_network_isolation:
  assumes "Apply rc spec w = (Inr (), w')" and "sp_namespace spec = NamespaceForOrg a"
    and "\<And>n. n \<noteq> ''uran-isolation'' \<Longrightarrow> cl_objects w (KNetPolicy, NamespaceForOrg a, n) = None"
  shows "(ingress_allowed (cl_objects w') (NamespaceForOrg a) source \<longleftrightarrow>
      source \<in> {NamespaceForOrg a, ''kube-system'', ''cnpg-system''}) \<and>
    (a = b \<or> \<not> ingress_allowed (cl_objects w') (NamespaceForOrg a) (NamespaceForOrg b))"
proof -
  have o: "cl_objects w' = override (cl_objects w) (desired rc spec)"
    by (rule writesD [OF Apply_desired assms(1)])
  have "desired rc spec (KNetPolicy, NamespaceForOrg a, ''uran-isolation'') = Some (Some (NetPolicyObj isolation_peers))"
    using assms(2) by (intro desired_entry) (simp add: workload_plan_snd plan_snd)
  then have p: "cl_objects w' (KNetPolicy, NamespaceForOrg a, ''uran-isolation'') = Some (NetPolicyObj isolation_peers)"
    by (simp add: o override_def)
  have q: "cl_objects w' (KNetPolicy, NamespaceForOrg a, n) = None" if "n \<noteq> ''uran-isolation''" for n
  proof -
    have "desired rc spec (KNetPolicy, NamespaceForOrg a, n) = None"
      using desired_keys [of rc spec "(KNetPolicy, NamespaceForOrg a, n)"] that
      by (cases "desired rc spec (KNetPolicy, NamespaceForOrg a, n)")
        (simp_all add: workload_keys_def shared_keys_def ns_key_def)
    then show ?thesis using assms(3) [OF that] by (simp add: o override_def)
  qed
  have r: "ingress_allowed (cl_objects w') (NamespaceForOrg a) s \<longleftrightarrow>
      (\<exists>p \<in> set isolation_peers. admits p (NamespaceForOrg a) s)" for s
    unfolding ingress_allowed_def using p q by (metis obj.inject(10) option.discI option.sel)
  show ?thesis by (auto simp: r isolation_peers_def)
qed

theorem tenant_network_isolation_witness:
  "\<exists>w1. Apply demo_reconciler demo_spec demo_cluster = (Inr (), w1) \<and>
     ingress_allowed (cl_objects w1) (NamespaceForOrg 1) ''kube-system'' \<and>
     \<not> ingress_allowed (cl_objects w1) (NamespaceForOrg 1) (NamespaceForOrg 2)"
proof -
  let ?A = "Apply demo_reconciler demo_spec demo_cluster"
  have "fst ?A = Inr ()" by code_simp
  then have run: "?A = (Inr (), snd ?A)" by (simp add: prod_eq_iff)
  have "NamespaceForOrg 1 = ''uran-org-1''" by code_simp
  then have n: "sp_namespace demo_spec = NamespaceForOrg 1" by (simp add: demo_spec_def)
  have "\<And>n. n \<noteq> ''uran-isolation'' \<Longrightarrow> cl_objects demo_cluster (KNetPolicy, NamespaceForOrg 1, n) = None"
    by (simp add: demo_cluster_def)
  note iso = tenant_network_isolation [OF run n this]
  have "ingress_allowed (cl_objects (snd ?A)) (NamespaceForOrg 1) ''kube-system''" using iso by simp
  moreover have "\<not> ingress_allowed (cl_objects (snd ?A)) (NamespaceForOrg 1) (NamespaceForOrg 2)"
    using iso [where b = 2] by simp
  ultimately show ?thesis using run by blast
qed

section \<open>Route rules\<close>

text \<open>
  The reading of a rule that is a disjunction of hosts: the text between the quotes of each
  \<open>Host(`...`)\<close>.
\<close>

lemma cut_shorter: "cut c s = Some (a, b) \<Longrightarrow> length b < length s"
  by (induction s arbitrary: a) (auto split: if_splits option.splits)

lemma cut_prefix_shorter: "cut_prefix s p = Some r \<Longrightarrow> length r \<le> length s"
  by (auto simp: cut_prefix_def split: if_splits)

function read_rule :: "string \<Rightarrow> string list option" where
  "read_rule s = (case cut_prefix s ''Host(`'' of None \<Rightarrow> None
     | Some r \<Rightarrow> (case cut (CHR ''`'') r of None \<Rightarrow> None
       | Some (h, t) \<Rightarrow> if t = '')'' then Some [h]
         else (case cut_prefix t '') || '' of None \<Rightarrow> None
           | Some u \<Rightarrow> map_option (Cons h) (read_rule u))))"
  by pat_completeness auto
termination
proof (relation "measure length")
  fix s r h t u p
  assume "cut_prefix s ''Host(`'' = Some r" "cut (CHR ''`'') r = Some p" "(h, t) = p" "cut_prefix t '') || '' = Some u"
  then show "(u, s) \<in> measure length"
    using cut_prefix_shorter [of s] cut_prefix_shorter [of t] cut_shorter [of _ r h t] by fastforce
qed simp

declare read_rule.simps [simp del]

lemma join_Cons: "hs \<noteq> [] \<Longrightarrow> join sep (h # hs) = h @ sep @ join sep hs"
  by (cases hs) simp_all

lemma hostMatch_simps:
  "hostMatch [h] = ''Host(`'' @ h @ ''`)''"
  "hs \<noteq> [] \<Longrightarrow> hostMatch (h # hs) = ''Host(`'' @ h @ ''`) || '' @ hostMatch hs"
  by (simp_all add: hostMatch_def join_Cons)

text \<open>
  A route rule says what it is meant to say, if the hosts hold no back quote: it is read back as
  exactly the list of hosts it was built from.\<close>

theorem hostMatch_roundtrip:
  assumes "hs \<noteq> []" "\<And>h. h \<in> set hs \<Longrightarrow> CHR ''`'' \<notin> set h"
  shows "read_rule (hostMatch hs) = Some hs"
  using assms
proof (induction hs)
  case (Cons h hs)
  have c: "cut (CHR ''`'') (h @ CHR ''`'' # r) = Some (h, r)" for r
    using Cons.prems(2) by (intro cut_append) simp
  show ?case
  proof (cases "hs = []")
    case True
    then show ?thesis using c [of "'')''"]
      by (subst read_rule.simps) (simp add: hostMatch_simps cut_prefix_append [of "''Host(`''", simplified])
  next
    case False
    then show ?thesis using Cons c [of "'') || '' @ hostMatch hs"]
      by (subst read_rule.simps) (simp add: hostMatch_simps cut_prefix_append [of "'') || ''", simplified]
          cut_prefix_append [of "''Host(`''", simplified])
  qed
qed simp

theorem hostMatch_roundtrip_witness:
  "read_rule (hostMatch [''web.uran.local'', ''acme.io'']) = Some [''web.uran.local'', ''acme.io'']"
  by (rule hostMatch_roundtrip) auto

text \<open>Nothing quotes the hosts, so a custom domain with back quotes is not read as a host: it can add any
  other condition to the rule, such as one that matches every request to the cluster.\<close>

theorem hostMatch_injection:
  "hostMatch [h, ''x`) || PathPrefix(`/''] = hostMatch [h, ''x''] @ '' || PathPrefix(`/`)''"
  by (simp add: hostMatch_def)

section \<open>Pull secrets\<close>

lemma find_append:
  "find P (xs @ ys) = (case find P xs of Some x \<Rightarrow> Some x | None \<Rightarrow> find P ys)"
  by (induction xs) auto

lemma dockerConfig_map:
  "map_of (foldl (\<lambda>auths c. AList.update (rg_registry c) (f c) auths) auths creds) reg =
     (case find (\<lambda>c. rg_registry c = reg) (rev creds) of Some c \<Rightarrow> Some (f c) | None \<Rightarrow> map_of auths reg)"
proof (induction creds arbitrary: auths)
  case (Cons c creds)
  then show ?case
    by (cases "find (\<lambda>c. rg_registry c = reg) (rev creds)")
      (auto simp: find_append update_conv)
qed simp

text \<open>
  The pull secret of a namespace holds, for every registry, the credential added last, and its
  \<open>auth\<close> field is decoded by a base64 reader to the user name and password joined by a colon; a
  registry without a credential has no entry.\<close>

theorem pull_secret_roundtrip:
  "case find (\<lambda>c. rg_registry c = reg) (rev creds) of
     None \<Rightarrow> map_of (dockerConfigJSON creds) reg = None
   | Some c \<Rightarrow> (\<exists>auth. map_of (dockerConfigJSON creds) reg = Some (rg_username c, rg_password c, auth) \<and>
       unbase64 auth = Some (rg_username c @ '':'' @ rg_password c))"
  unfolding dockerConfigJSON_def dockerConfig_map by (simp split: option.split)

section \<open>Defects of the workload reconciler\<close>

text \<open>Calls that go on, and calls that panic, while the API server accepts everything.\<close>

definition calm :: "string \<Rightarrow> 'y cworld \<Rightarrow> bool" where
  "calm ns w \<longleftrightarrow> cl_errors w = [] \<and> cl_objects w (ns_key ns) \<noteq> None"

definition goes_on :: "string \<Rightarrow> ('y, unit) kop \<Rightarrow> bool" where
  "goes_on ns m \<longleftrightarrow> (\<forall>w. calm ns w \<longrightarrow> (\<exists>w'. m w = (Inr (), w') \<and> calm ns w'))"

definition panics :: "string \<Rightarrow> ('y, unit) kop \<Rightarrow> bool" where
  "panics ns m \<longleftrightarrow> (\<forall>w. calm ns w \<longrightarrow> (\<exists>msg. fst (m w) = Inl (KPanic msg)))"

lemma calm_apply:
  assumes "cl_errors w = []" "fst k = KNamespace \<or> cl_objects w (ns_key (key_namespace k)) \<noteq> None"
  shows "\<exists>w'. apply_obj m k x w = (Inr (), w') \<and> cl_errors w' = [] \<and> cl_objects w' = (cl_objects w)(k \<mapsto> x)"
  using assms by (auto simp: apply_obj_def map_err_def attempt_def ret_def kube_apply_def next_error_def
      has_namespace_def ns_key_def)

lemma goes_on_apply: "key_namespace k = ns \<Longrightarrow> goes_on ns (apply_obj m k x)"
  unfolding goes_on_def calm_def using calm_apply [of _ k m x] by fastforce

lemma goes_on_delete: "plain_key k \<Longrightarrow> goes_on ns (delete_obj m k)"
  by (auto simp: goes_on_def calm_def delete_obj_def ignoreNotFound_def map_err_def attempt_def ret_def
      kube_delete_def next_error_def without_def plain_key_def ns_key_def)

lemma goes_on_throwing: "goes_on ns m \<Longrightarrow> goes_on ns (k ()) \<Longrightarrow> goes_on ns (throwing m k)"
  unfolding goes_on_def throwing_def attempt_def by fastforce

lemma panics_after: "goes_on ns m \<Longrightarrow> panics ns (k ()) \<Longrightarrow> panics ns (throwing m k)"
  unfolding panics_def goes_on_def throwing_def attempt_def by fastforce

lemma panics_first:
  fixes m :: "('y, unit) kop"
  assumes "panics ns m"
  shows "panics ns (throwing m k)"
  unfolding panics_def
proof (intro allI impI)
  fix w :: "'y cworld" assume "calm ns w"
  then obtain msg w' where "m w = (Inl (KPanic msg), w')"
    using assms unfolding panics_def by (metis prod.collapse)
  then show "\<exists>msg. fst (throwing m k w) = Inl (KPanic msg)"
    by (simp add: throwing_def attempt_def ret_def)
qed

lemma goes_on_parse: "readable rc qs \<Longrightarrow> goes_on ns m \<Longrightarrow> goes_on ns (must_parse rc qs m)"
  by (simp add: must_parse_readable)

text \<open>
  The disk size of a service reaches \<open>resource.MustParse\<close> unchecked: with a size the quantity parser
  does not read, and no API error, reconciling a service that is not a cron job panics.\<close>

theorem unreadable_disk_panics:
  fixes w :: "'y cworld"
  assumes "sp_type spec \<noteq> Cron" "hasDisk spec" "rc_quantity rc (sp_disk_size spec) = None"
    and "readable rc namespace_quantities" "cl_errors w = []"
  shows "\<exists>msg. fst (Apply rc spec w) = Inl (KPanic msg)"
proof -
  let ?ns = "sp_namespace spec"
  have q: "readable rc (map snd quota_hard)" "readable rc (map snd (limit_default @ limit_request))"
    using assms(4) by (simp_all add: namespace_quantities_def)
  obtain w1 where 1: "ensureNamespace ?ns w = (Inr (), w1)" "calm ?ns w1"
    using calm_apply [of w "ns_key ?ns"] assms(5) by (fastforce simp: ensureNamespace_def calm_def ns_key_def)
  have "goes_on ?ns (applyNamespacePolicies rc ?ns :: ('y, unit) kop)"
    "goes_on ?ns (reconcilePullSecret ?ns (sp_pull spec) :: ('y, unit) kop)"
    "goes_on ?ns (applyEnvSecret spec :: ('y, unit) kop)"
    unfolding applyNamespacePolicies_def applyResourceQuota_def applyLimitRange_def applyNetworkPolicy_def
      reconcilePullSecret_def applyEnvSecret_def
    by (auto intro!: goes_on_throwing goes_on_apply goes_on_delete goes_on_parse [OF q(1)] goes_on_parse [OF q(2)]
        simp: plain_key_def simp del: append.simps map_append)
  moreover have "panics ?ns (reconcileDisk rc spec :: ('y, unit) kop)"
    using assms(2,3) by (simp add: panics_def reconcileDisk_def must_parse_def ret_def)
  ultimately have "panics ?ns (throwing (applyNamespacePolicies rc ?ns) (\<lambda>_.
      throwing (reconcilePullSecret ?ns (sp_pull spec)) (\<lambda>_. throwing (applyEnvSecret spec) (\<lambda>_.
      throwing (reconcileDisk rc spec) k))))" for k :: "unit \<Rightarrow> ('y, unit) kop"
    by (simp add: panics_after panics_first)
  then show ?thesis using 1 assms(1) unfolding Apply_def panics_def
    by (simp add: throwing_def [of "ensureNamespace ?ns"] attempt_def)
qed

theorem unreadable_disk_panics_witness:
  "\<exists>msg. fst (Apply demo_reconciler (demo_spec\<lparr>sp_disk_size := ''lots''\<rparr>) demo_cluster) = Inl (KPanic msg)"
  by (rule unreadable_disk_panics)
    (simp_all add: demo_spec_def Cron_def hasDisk_def demo_reconciler_def demo_cluster_def readable_def
      namespace_quantities_def quota_hard_def limit_default_def limit_request_def)

text \<open>The variables of a service live in a secret the pods read when they start, and nothing in the
  deployment depends on them: reconciling a service again after a change of its variables leaves
  the deployment as it was, so that no pod is replaced and none sees the new values.\<close>

theorem env_change_keeps_pods:
  assumes "Apply rc spec w = (Inr (), w1)" and "Apply rc (spec\<lparr>sp_env := env\<rparr>) w1 = (Inr (), w2)"
  shows "cl_objects w2 (KDeployment, sp_namespace spec, sp_name spec) =
    cl_objects w1 (KDeployment, sp_namespace spec, sp_name spec)"
proof -
  have d: "app_deployment (spec\<lparr>sp_env := env\<rparr>) = app_deployment spec"
    by (simp add: app_deployment_def app_pod_def app_container_def hasDisk_def autoscaled_def
        healthProbe_def pull_secrets_def)
  have e: "desired rc (s :: service_spec) (KDeployment, sp_namespace s, sp_name s) =
      (if sp_type s = Cron then None else Some (Some (DeploymentObj (app_deployment s))))" for s
  proof (cases "sp_type s = Cron")
    case True
    have "desired rc s (KDeployment, sp_namespace s, sp_name s) \<noteq> Some x" for x
      using desired_member [of rc s "(KDeployment, sp_namespace s, sp_name s)" x] True
      by (auto simp: workload_plan_snd plan_snd ns_key_def)
    then show ?thesis using True by auto
  qed (auto intro!: desired_entry simp: workload_plan_snd plan_snd)
  show ?thesis
    using writesD [OF Apply_desired assms(1)] writesD [OF Apply_desired assms(2)]
      e [of spec] e [of "spec\<lparr>sp_env := env\<rparr>"] d by (auto simp: override_def)
qed

theorem env_change_keeps_pods_witness:
  "\<exists>w w1 w2. Apply demo_reconciler demo_spec (w :: cluster) = (Inr (), w1) \<and>
     Apply demo_reconciler (demo_spec\<lparr>sp_env := [(''A'', ''2'')]\<rparr>) w1 = (Inr (), w2) \<and>
     cl_objects w1 (KSecret, ''uran-org-1'', ''web-env'') \<noteq> cl_objects w2 (KSecret, ''uran-org-1'', ''web-env'') \<and>
     cl_objects w2 (KDeployment, ''uran-org-1'', ''web'') = cl_objects w1 (KDeployment, ''uran-org-1'', ''web'')"
proof -
  let ?w = "demo_cluster\<lparr>cl_waits := cl_waits demo_cluster @ cl_waits demo_cluster\<rparr>"
  let ?A = "Apply demo_reconciler demo_spec ?w"
  let ?B = "Apply demo_reconciler (demo_spec\<lparr>sp_env := [(''A'', ''2'')]\<rparr>) (snd ?A)"
  let ?k = "(KSecret, ''uran-org-1'', ''web-env'')"
  have "fst ?A = Inr () \<and> fst ?B = Inr () \<and> cl_objects (snd ?A) ?k \<noteq> cl_objects (snd ?B) ?k" by code_simp
  then have run: "?A = (Inr (), snd ?A)" "?B = (Inr (), snd ?B)" "cl_objects (snd ?A) ?k \<noteq> cl_objects (snd ?B) ?k"
    by (simp_all add: prod_eq_iff)
  have n: "sp_namespace demo_spec = ''uran-org-1''" "sp_name demo_spec = ''web''"
    by (simp_all add: demo_spec_def)
  show ?thesis using env_change_keeps_pods [OF run(1) run(2), unfolded n] run by blast
qed

end
