(* ===== verification/K8s_Data.thy ===== *)
theory K8s_Data
  imports Workload_Desired
begin

text \<open>
  The data half of package \<open>k8s\<close>: managed Postgres (\<open>database.go\<close>), its backups (\<open>backup.go\<close>) and Redis
  (\<open>redis.go\<close>). One action per method. The lemmas at the end say what provisioning and deleting leave
  in the cluster.
\<close>

section \<open>Backups\<close>

definition backupCredsName :: "string \<Rightarrow> string" where
  "backupCredsName cluster = cluster @ ''-backup-creds''"

definition BackupsEnabled :: "reconciler \<Rightarrow> bool" where
  "BackupsEnabled rc = (bc_bucket (rc_backup rc) \<noteq> '''')"

definition barmanObjectStore :: "reconciler \<Rightarrow> string \<Rightarrow> barman" where
  "barmanObjectStore rc cluster =
     \<lparr>bm_destination = ''s3://'' @ bc_bucket (rc_backup rc) @ ''/'' @ cluster,
      bm_endpoint = bc_endpoint (rc_backup rc),
      bm_access_key = (backupCredsName cluster, ''ACCESS_KEY_ID''),
      bm_secret_key = (backupCredsName cluster, ''ACCESS_SECRET_KEY''),
      bm_wal = ''gzip'', bm_data = ''gzip'', bm_retention = ''7d''\<rparr>"

definition backup_creds :: "reconciler \<Rightarrow> obj" where
  "backup_creds rc = SecretObj [] (TextData [(''ACCESS_KEY_ID'', bc_access_key (rc_backup rc)),
     (''ACCESS_SECRET_KEY'', bc_secret_key (rc_backup rc))])"

definition applyBackupCreds :: "reconciler \<Rightarrow> string \<Rightarrow> string \<Rightarrow> ('y, unit) kop" where
  "applyBackupCreds rc ns cluster = apply_obj (''apply backup creds '' @ cluster)
     (KSecret, ns, backupCredsName cluster) (backup_creds rc)"

definition scheduled_name :: "string \<Rightarrow> string" where
  "scheduled_name cluster = cluster @ ''-daily''"

definition applyScheduledBackup :: "string \<Rightarrow> string \<Rightarrow> ('y, unit) kop" where
  "applyScheduledBackup ns cluster = apply_obj (''apply scheduled backup '' @ cluster)
     (KScheduledBackup, ns, scheduled_name cluster) (ScheduledBackupObj ''0 0 2 * * *'' ''self'' cluster)"

definition TriggerBackup :: "string \<Rightarrow> string \<Rightarrow> string \<Rightarrow> ('y, unit) kop" where
  "TriggerBackup ns cluster name = map_err (wrapf (''create backup '' @ name))
     (kube_create (KBackup, ns, name) (BackupObj cluster))"

section \<open>Postgres\<close>

record postgres_spec =
  ps_instances :: int
  ps_size :: string
  ps_storage :: string
  ps_backups :: bool

definition backed_up :: "reconciler \<Rightarrow> postgres_spec \<Rightarrow> bool" where
  "backed_up rc spec = (ps_backups spec \<and> BackupsEnabled rc)"

definition cluster_object :: "reconciler \<Rightarrow> string \<Rightarrow> postgres_spec \<Rightarrow> obj" where
  "cluster_object rc name spec = ClusterObj (ps_instances spec) (ps_storage spec)
     (instance_Get (ps_size spec))
     (if backed_up rc spec then Some (barmanObjectStore rc name) else None)"

definition ProvisionPostgres :: "reconciler \<Rightarrow> string \<Rightarrow> string \<Rightarrow> postgres_spec \<Rightarrow> ('y, unit) kop" where
  "ProvisionPostgres rc ns name spec =
     throwing (ensureNamespace ns) (\<lambda>_.
     throwing (applyNamespacePolicies rc ns) (\<lambda>_.
     throwing (if backed_up rc spec then applyBackupCreds rc ns name else ret (Inr ())) (\<lambda>_.
     throwing (apply_obj (''apply postgres cluster '' @ name) (KCluster, ns, name)
       (cluster_object rc name spec)) (\<lambda>_.
     if backed_up rc spec then applyScheduledBackup ns name else ret (Inr ())))))"

definition PostgresReadURI :: "string \<Rightarrow> string \<Rightarrow> string" where
  "PostgresReadURI rwURI name = replace_first (name @ ''-rw'') (name @ ''-ro'') rwURI"

definition poolerName :: "string \<Rightarrow> string" where
  "poolerName cluster = cluster @ ''-pool''"

definition PostgresPooledURI :: "string \<Rightarrow> string \<Rightarrow> string" where
  "PostgresPooledURI rwURI cluster = replace_first (cluster @ ''-rw'') (poolerName cluster) rwURI"

definition ReconcilePgBouncer :: "string \<Rightarrow> string \<Rightarrow> bool \<Rightarrow> ('y, unit) kop" where
  "ReconcilePgBouncer ns cluster enabled = (let name = poolerName cluster in
     if \<not> enabled then delete_obj (''delete pooler '' @ name) (KPooler, ns, name)
     else apply_obj (''apply pooler '' @ name) (KPooler, ns, name)
       (PoolerObj cluster 1 ''rw'' ''transaction''))"

fun ready_polls :: "poll list \<Rightarrow> bool" where
  "ready_polls [] = False"
| "ready_polls (PollCluster n # ps) = (n \<ge> 1 \<or> ready_polls ps)"
| "ready_polls (_ # ps) = ready_polls ps"

lemma ready_polls_iff: "ready_polls ps \<longleftrightarrow> (\<exists>n \<ge> 1. PollCluster n \<in> set ps)"
  by (induction ps rule: ready_polls.induct) auto

definition WaitPostgresReady :: "string \<Rightarrow> string \<Rightarrow> ('y, unit) kop" where
  "WaitPostgresReady ns name = bnd kube_wait (\<lambda>ps. ret (if ready_polls ps then Inr ()
     else Inl (KApi (''postgres cluster '' @ ns @ ''/'' @ name @ '' not ready''))))"

definition PostgresConnectionURI :: "string \<Rightarrow> string \<Rightarrow> ('y, string) kop" where
  "PostgresConnectionURI ns name w = (case next_error w of
      (Some e, w') \<Rightarrow> (Inl (wrapf (''read cluster secret '' @ name @ ''-app'') (KApi e)), w')
    | (None, w') \<Rightarrow> (case cl_foreign w' (ns, name @ ''-app'') of
          None \<Rightarrow> (Inl (wrapf (''read cluster secret '' @ name @ ''-app'') KNotFound), w')
        | Some d \<Rightarrow> (case map_of d ''uri'' of
              None \<Rightarrow> (Inl (KApi (''cluster secret '' @ name @ ''-app has no uri'')), w')
            | Some uri \<Rightarrow> (Inr uri, w'))))"

definition DeletePostgres :: "string \<Rightarrow> string \<Rightarrow> ('y, unit) kop" where
  "DeletePostgres ns name =
     throwing (delete_obj (''delete pooler '' @ name) (KPooler, ns, poolerName name))
       (\<lambda>_. delete_obj (''delete postgres cluster '' @ name) (KCluster, ns, name))"

section \<open>Redis\<close>

definition redisImage :: string where "redisImage = ''redis:7-alpine''"
definition redisPort :: int where "redisPort = 6379"

definition redis_claim :: "string \<Rightarrow> string \<Rightarrow> obj" where
  "redis_claim name storage = ClaimObj (selectorLabels name) storage"

definition redis_deployment :: "string \<Rightarrow> deployment" where
  "redis_deployment name = \<lparr>dep_labels = selectorLabels name, dep_selector = selectorLabels name,
     dep_template = selectorLabels name,
     dep_pod = \<lparr>pod_container = \<lparr>ct_name = ''redis'', ct_image = redisImage,
         ct_args = [''--appendonly'', ''yes''], ct_ports = [redisPort],
         ct_resources = instance_Get Small, ct_env = [], ct_env_from = [], ct_ready = None,
         ct_live = None, ct_mounts = [(diskVolumeName, ''/data'')]\<rparr>,
       pod_volumes = [(diskVolumeName, pvcName name)], pod_pull_secrets = [], pod_restart = ''''\<rparr>,
     dep_replicas = Some 1, dep_rolling = Some (0, 1)\<rparr>"

definition redis_service :: "string \<Rightarrow> obj" where
  "redis_service name = ServiceObj (selectorLabels name) (selectorLabels name) '''' redisPort redisPort"

definition ProvisionRedis :: "reconciler \<Rightarrow> string \<Rightarrow> string \<Rightarrow> string \<Rightarrow> ('y, unit) kop" where
  "ProvisionRedis rc ns name storage =
     throwing (ensureNamespace ns) (\<lambda>_.
     throwing (applyNamespacePolicies rc ns) (\<lambda>_.
     throwing (must_parse rc [storage] (apply_obj (''apply redis pvc '' @ name) (KClaim, ns, pvcName name)
       (redis_claim name storage))) (\<lambda>_.
     throwing (must_parse rc (resource_quantities (instance_Get Small))
       (apply_obj (''apply redis deployment '' @ name) (KDeployment, ns, name)
         (DeploymentObj (redis_deployment name)))) (\<lambda>_.
     apply_obj (''apply redis service '' @ name) (KService, ns, name) (redis_service name)))))"

definition WaitRedisReady :: "string \<Rightarrow> string \<Rightarrow> ('y, unit) kop" where
  "WaitRedisReady ns name = waitForRollout ns name"

definition RedisConnectionURI :: "string \<Rightarrow> string \<Rightarrow> string" where
  "RedisConnectionURI ns name = ''redis://'' @ name @ ''.'' @ ns @ '':'' @ itoa redisPort"

definition DeleteRedis :: "string \<Rightarrow> string \<Rightarrow> ('y, unit) kop" where
  "DeleteRedis ns name =
     throwing (delete_obj (''delete redis deployment '' @ name) (KDeployment, ns, name)) (\<lambda>_.
     throwing (delete_obj (''delete redis service '' @ name) (KService, ns, name)) (\<lambda>_.
     deletePVC ns (pvcName name)))"

section \<open>What provisioning and deleting leave\<close>

definition postgres_plan :: "reconciler \<Rightarrow> string \<Rightarrow> string \<Rightarrow> postgres_spec \<Rightarrow> plan" where
  "postgres_plan rc ns name spec = namespace_plan ns @
     (if backed_up rc spec then [(''apply backup creds '' @ name, (KSecret, ns, backupCredsName name),
        Some (backup_creds rc))] else []) @
     [(''apply postgres cluster '' @ name, (KCluster, ns, name), Some (cluster_object rc name spec))] @
     (if backed_up rc spec then [(''apply scheduled backup '' @ name, (KScheduledBackup, ns, scheduled_name name),
        Some (ScheduledBackupObj ''0 0 2 * * *'' ''self'' name))] else [])"

definition redis_plan :: "string \<Rightarrow> string \<Rightarrow> string \<Rightarrow> plan" where
  "redis_plan ns name storage = namespace_plan ns @
     [(''apply redis pvc '' @ name, (KClaim, ns, pvcName name), Some (redis_claim name storage)),
      (''apply redis deployment '' @ name, (KDeployment, ns, name), Some (DeploymentObj (redis_deployment name))),
      (''apply redis service '' @ name, (KService, ns, name), Some (redis_service name))]"

lemma postgres_plan_snd: "map snd (postgres_plan rc ns name spec) = map snd (namespace_plan ns) @
     (if backed_up rc spec then [((KSecret, ns, backupCredsName name), Some (backup_creds rc))] else []) @
     ((KCluster, ns, name), Some (cluster_object rc name spec)) #
     (if backed_up rc spec then [((KScheduledBackup, ns, scheduled_name name),
        Some (ScheduledBackupObj ''0 0 2 * * *'' ''self'' name))] else [])"
  by (simp add: postgres_plan_def)

lemma postgres_plan_distinct: "distinct (map fst (map snd (postgres_plan rc ns name spec)))"
  unfolding postgres_plan_snd plan_snd by (cases "backed_up rc spec") (simp_all add: ns_key_def)

lemma ProvisionPostgres_reach:
  assumes "readable rc namespace_quantities"
  shows "ProvisionPostgres rc ns name spec = kube.reach (postgres_plan rc ns name spec)"
  by (simp add: ProvisionPostgres_def ensureNamespace_policies [OF assms] postgres_plan_def
      kube.reach_append_unit applyBackupCreds_def applyScheduledBackup_def throwing_assoc
      del: append.simps)

lemma ProvisionPostgres_writes:
  assumes "readable rc namespace_quantities"
  shows "writes cl_objects (ProvisionPostgres rc ns name spec)
    (\<lambda>s. override s (plan_desired (postgres_plan rc ns name spec)))"
  unfolding ProvisionPostgres_reach [OF assms] plan_desired_def
proof (rule kube.reach_writes [OF _ postgres_plan_distinct])
  show "\<forall>(k, x) \<in> set (map snd (postgres_plan rc ns name spec)). x = None \<longrightarrow> plain_key k"
    unfolding postgres_plan_snd plan_snd by auto
qed

lemma fails_writes: "fails m \<Longrightarrow> writes get m f"
  by (simp add: fails_def writes_def)

lemma policies_fail:
  assumes "\<not> readable rc namespace_quantities"
  shows "fails (applyNamespacePolicies rc ns)"
proof -
  consider "\<not> readable rc (map snd quota_hard)" | "\<not> readable rc (map snd (limit_default @ limit_request))"
    using assms by (auto simp: namespace_quantities_def)
  then show ?thesis unfolding applyNamespacePolicies_def applyResourceQuota_def applyLimitRange_def
    by cases (simp_all add: fails_throwing fails_must_parse del: map_append)
qed

lemma ProvisionPostgres_desired:
  "writes cl_objects (ProvisionPostgres rc ns name spec)
    (\<lambda>s. override s (plan_desired (postgres_plan rc ns name spec)))"
proof (cases "readable rc namespace_quantities")
  case False
  then show ?thesis unfolding ProvisionPostgres_def
    by (rule fails_writes [OF fails_throwing(2) [OF fails_throwing(1) [OF policies_fail]]])
qed (rule ProvisionPostgres_writes)

lemma ProvisionPostgres_toward:
  "keeps cl_objects (toward (plan_desired (postgres_plan rc ns name spec))) (ProvisionPostgres rc ns name spec)"
  unfolding ProvisionPostgres_def ensureNamespace_def applyNamespacePolicies_def applyResourceQuota_def
    applyLimitRange_def applyNetworkPolicy_def applyBackupCreds_def applyScheduledBackup_def plan_desired_def
  by (intro toward_steps map_of_is_SomeI [OF postgres_plan_distinct]; simp add: postgres_plan_snd plan_snd)

lemma DeletePostgres_writes:
  "writes cl_objects (DeletePostgres ns name) (\<lambda>s. s((KPooler, ns, poolerName name) := None, (KCluster, ns, name) := None))"
  unfolding DeletePostgres_def
  by (rule writes_throwing [OF kube.del_writes kube.del_writes]) (simp_all add: plain_key_def)

lemma redis_plan_snd: "map snd (redis_plan ns name storage) = map snd (namespace_plan ns) @
     [((KClaim, ns, pvcName name), Some (redis_claim name storage)),
      ((KDeployment, ns, name), Some (DeploymentObj (redis_deployment name))),
      ((KService, ns, name), Some (redis_service name))]"
  by (simp add: redis_plan_def)

lemma redis_plan_distinct: "distinct (map fst (map snd (redis_plan ns name storage)))"
  unfolding redis_plan_snd plan_snd by (simp add: ns_key_def)

lemma ProvisionRedis_reach:
  assumes "readable rc namespace_quantities" "readable rc [storage]"
    "readable rc (resource_quantities (instance_Get Small))"
  shows "ProvisionRedis rc ns name storage = kube.reach (redis_plan ns name storage)"
  by (simp add: ProvisionRedis_def ensureNamespace_policies [OF assms(1)] redis_plan_def kube.reach_append_unit
      must_parse_readable [OF assms(2)] must_parse_readable [OF assms(3)] del: append.simps)

lemma ProvisionRedis_desired:
  "writes cl_objects (ProvisionRedis rc ns name storage)
    (\<lambda>s. override s (plan_desired (redis_plan ns name storage)))"
proof -
  let ?claim = "must_parse rc [storage] (apply_obj (''apply redis pvc '' @ name) (KClaim, ns, pvcName name)
     (redis_claim name storage))"
  let ?dep = "must_parse rc (resource_quantities (instance_Get Small))
     (apply_obj (''apply redis deployment '' @ name) (KDeployment, ns, name) (DeploymentObj (redis_deployment name)))"
  consider "readable rc namespace_quantities" "readable rc [storage]" "readable rc (resource_quantities (instance_Get Small))"
    | "\<not> readable rc namespace_quantities" | "\<not> readable rc [storage]"
    | "\<not> readable rc (resource_quantities (instance_Get Small))" by blast
  then show ?thesis
  proof cases
    case 1
    show ?thesis unfolding ProvisionRedis_reach [OF 1] plan_desired_def
    proof (rule kube.reach_writes [OF _ redis_plan_distinct])
      show "\<forall>(k, x) \<in> set (map snd (redis_plan ns name storage)). x = None \<longrightarrow> plain_key k"
        unfolding redis_plan_snd plan_snd by auto
    qed
  next
    case 2
    then show ?thesis unfolding ProvisionRedis_def
      by (rule fails_writes [OF fails_throwing(2) [OF fails_throwing(1) [OF policies_fail]]])
  next
    case 3
    then have "fails ?claim" by (rule fails_must_parse)
    then show ?thesis unfolding ProvisionRedis_def
      by (rule fails_writes [OF fails_throwing(2) [OF fails_throwing(2) [OF fails_throwing(1)]]])
  next
    case 4
    then have "fails ?dep" by (rule fails_must_parse)
    then show ?thesis unfolding ProvisionRedis_def
      by (rule fails_writes [OF fails_throwing(2) [OF fails_throwing(2) [OF fails_throwing(2) [OF fails_throwing(1)]]]])
  qed
qed

lemma DeleteRedis_writes:
  "writes cl_objects (DeleteRedis ns name)
    (\<lambda>s. s((KDeployment, ns, name) := None, (KService, ns, name) := None, (KClaim, ns, pvcName name) := None))"
  unfolding DeleteRedis_def deletePVC_def
  by (rule writes_throwing [OF kube.del_writes writes_throwing [OF kube.del_writes kube.del_writes]])
    (simp_all add: plain_key_def)

end
