(* ===== verification/Calm_Cluster.thy ===== *)
theory Calm_Cluster
  imports Workload_Props K8s_Data
begin

text \<open>
  Progress of the reconciler: with readable quantities and an API server that refuses nothing, \<open>Apply\<close>
  gets as far as its wait and succeeds exactly if the rollout completes, and \<open>ProvisionPostgres\<close>
  succeeds. The answers of later waits and the secrets of other controllers are not used up.
\<close>

section \<open>Answers to come\<close>

definition answers :: "'y cworld \<Rightarrow> poll list list \<times> (string \<times> string \<Rightarrow> (string \<times> string) list option)" where
  "answers w = (cl_waits w, cl_foreign w)"

interpretation answers: evolution "answers :: 'y cworld \<Rightarrow> _" "(=)"
  by unfold_locales simp_all

lemma next_error_answers: "next_error w = (e, w') \<Longrightarrow> answers w' = answers w"
  by (auto simp: next_error_def answers_def split: list.splits)

lemma answers_update [simp]: "answers (w\<lparr>cl_objects := s\<rparr>) = answers w"
  by (simp add: answers_def)

lemma kube_answers: "keeps answers (=) (kube_apply k x)" "keeps answers (=) (kube_delete k)"
  by (auto simp: keeps_def kube_apply_def kube_delete_def dest!: next_error_answers
      split: prod.split option.split)

lemma object_answers: "keeps answers (=) (apply_obj msg k x)" "keeps answers (=) (delete_obj msg k)"
  unfolding apply_obj_def delete_obj_def map_err_def ignoreNotFound_def
  by (intro answers.keeps_rules kube_answers)+

lemma reach_answers: "keeps answers (=) (kube.reach ps)"
proof (induction ps)
  case (Cons p ps)
  obtain m k x where "p = (m, k, x)" by (cases p) auto
  with Cons show ?case
    by (cases x) (auto intro!: answers.keeps_throwing object_answers)
qed (simp add: answers.keeps_ret)

lemma kube_wait_answers: "answers w' = answers w \<Longrightarrow> fst (kube_wait w') = fst (kube_wait w)"
  by (auto simp: kube_wait_def answers_def split: list.split)

section \<open>Carrying out a plan\<close>

definition within_namespace :: "string \<Rightarrow> plan \<Rightarrow> bool" where
  "within_namespace ns = list_all (\<lambda>(m, k, x). key_namespace k = ns \<and> plain_key k)"

lemma reach_goes_on: "within_namespace ns ps \<Longrightarrow> goes_on ns (kube.reach ps :: ('y, unit) kop)"
proof (induction ps)
  case Nil
  then show ?case by (simp add: goes_on_def ret_def)
next
  case (Cons p ps)
  obtain m k x where "p = (m, k, x)" by (cases p) auto
  with Cons show ?case
    by (cases x) (auto simp: within_namespace_def intro!: goes_on_throwing goes_on_apply goes_on_delete)
qed

lemma plan_runs:
  fixes w :: "'y cworld"
  assumes "cl_errors w = []" "within_namespace ns ps"
  shows "\<exists>w'. kube.reach (namespace_plan ns @ ps) w = (Inr (), w') \<and> calm ns w' \<and> answers w' = answers w"
proof -
  obtain m x qs where n: "namespace_plan ns = (m, ns_key ns, Some x) # qs" "within_namespace ns qs"
    by (simp add: namespace_plan_def within_namespace_def plain_key_def)
  obtain w1 where 1: "apply_obj m (ns_key ns) x w = (Inr (), w1)" "calm ns w1"
    using calm_apply [of w "ns_key ns" m x] assms(1) by (fastforce simp: calm_def ns_key_def)
  moreover have "within_namespace ns (qs @ ps)" using n(2) assms(2) by (simp add: within_namespace_def)
  from reach_goes_on [OF this] obtain w2 where "kube.reach (qs @ ps) w1 = (Inr (), w2)" "calm ns w2"
    using 1(2) unfolding goes_on_def by blast
  ultimately have run: "kube.reach (namespace_plan ns @ ps) w = (Inr (), w2)" "calm ns w2"
    by (simp_all add: n(1) throwing_def attempt_def)
  then show ?thesis using keepsD [OF reach_answers run(1)] by auto
qed

lemma part_plans_within:
  "within_namespace ns (pull_plan ns creds)"
  "ns = sp_namespace spec \<Longrightarrow> within_namespace ns (disk_plan spec)"
  "ns = sp_namespace spec \<Longrightarrow> within_namespace ns (scaling_plan spec)"
  "ns = sp_namespace spec \<Longrightarrow> within_namespace ns (route_plan rc spec)"
  by (simp_all add: within_namespace_def plain_key_def pull_plan_def disk_plan_def scaling_plan_def
      route_plan_def Let_def del: append.simps)

lemma within_namespace_simps:
  "within_namespace ns []" "within_namespace ns (p # ps) \<longleftrightarrow>
     key_namespace (fst (snd p)) = ns \<and> plain_key (fst (snd p)) \<and> within_namespace ns ps"
  "within_namespace ns (ps @ qs) \<longleftrightarrow> within_namespace ns ps \<and> within_namespace ns qs"
  by (auto simp: within_namespace_def)

lemma Apply_progress:
  assumes "cl_errors w = []" "readable rc (spec_quantities spec)"
    and "sp_type spec = Cron \<or> rollout_polls (fst (kube_wait w))"
  shows "\<exists>w'. Apply rc spec w = (Inr (), w')"
proof -
  obtain ps where ps: "workload_plan rc spec = namespace_plan (sp_namespace spec) @ ps"
      "within_namespace (sp_namespace spec) ps"
    by (simp add: workload_plan_def Let_def within_namespace_simps part_plans_within plain_key_def
        del: append.simps)
  obtain w1 where 1: "kube.reach (workload_plan rc spec) w = (Inr (), w1)" "answers w1 = answers w"
    using plan_runs [OF assms(1) ps(2)] by (auto simp: ps(1))
  show ?thesis
  proof (cases "sp_type spec = Cron")
    case True
    then show ?thesis using 1 by (simp add: Apply_reach [OF assms(2)] rollout_wait_def)
  next
    case False
    then have "rollout_polls (fst (kube_wait w1))" using assms(3) kube_wait_answers [OF 1(2)] by simp
    then show ?thesis using 1 False
      by (simp add: Apply_reach [OF assms(2)] rollout_wait_def waitForRollout_def throwing_def attempt_def
          bnd_def ret_def case_prod_beta)
  qed
qed

lemma ProvisionPostgres_progress:
  assumes "cl_errors w = []" "readable rc namespace_quantities"
  shows "\<exists>w'. ProvisionPostgres rc ns name spec w = (Inr (), w') \<and> calm ns w' \<and> answers w' = answers w"
proof -
  obtain ps where "postgres_plan rc ns name spec = namespace_plan ns @ ps" "within_namespace ns ps"
    by (simp add: postgres_plan_def within_namespace_simps plain_key_def del: append.simps)
  then show ?thesis using plan_runs [OF assms(1)] by (simp add: ProvisionPostgres_reach [OF assms(2)])
qed

end
