(* ===== verification/Data_Props.thy ===== *)
theory Data_Props
  imports Calm_Cluster
begin

text \<open>
  What deleting a managed database undoes (\<open>internal/k8s/redis.go\<close>) and what it leaves behind
  (\<open>database.go\<close>, \<open>backup.go\<close>), and a defect of scheduled jobs (\<open>cronjob.go\<close>).
\<close>

section \<open>Redis\<close>

text \<open>
  Deleting a Redis instance undoes its provisioning: if both succeed, the objects of the instance are
  gone, its volume claim with them, and apart from the namespace's own objects the cluster is as before.\<close>

theorem DeleteRedis_undoes_Provision:
  assumes "ProvisionRedis rc ns name storage w = (Inr (), w1)"
    and "DeleteRedis ns name (w1\<lparr>cl_errors := es\<rparr>) = (Inr (), w2)"
  shows "cl_objects w2 k =
    (if k \<in> {(KDeployment, ns, name), (KService, ns, name), (KClaim, ns, pvcName name)} then None
     else if k \<in> fst ` set (map snd (namespace_plan ns)) then cl_objects w1 k else cl_objects w k)"
proof -
  have 1: "cl_objects w1 = override (cl_objects w) (plan_desired (redis_plan ns name storage))"
    by (rule writesD [OF ProvisionRedis_desired assms(1)])
  have 2: "cl_objects w2 = (cl_objects w1)((KDeployment, ns, name) := None, (KService, ns, name) := None,
      (KClaim, ns, pvcName name) := None)"
    using writesD [OF DeleteRedis_writes assms(2)] by simp
  have "k \<notin> fst ` set (map snd (redis_plan ns name storage)) \<Longrightarrow> cl_objects w1 k = cl_objects w k"
    by (simp add: 1 override_def plan_desired_def map_of_eq_None_iff [THEN iffD2] del: map_map)
  moreover have "fst ` set (map snd (redis_plan ns name storage)) =
      fst ` set (map snd (namespace_plan ns)) \<union> {(KDeployment, ns, name), (KService, ns, name), (KClaim, ns, pvcName name)}"
    unfolding redis_plan_snd by auto
  ultimately show ?thesis unfolding 2 by (simp del: set_map map_map)
qed

theorem DeleteRedis_undoes_Provision_witness:
  "\<exists>w1 w2. ProvisionRedis demo_reconciler ''uran-org-1'' ''db-cache'' ''1Gi'' demo_cluster = (Inr (), w1) \<and>
     cl_objects w1 (KClaim, ''uran-org-1'', ''db-cache-data'') \<noteq> None \<and>
     DeleteRedis ''uran-org-1'' ''db-cache'' (w1\<lparr>cl_errors := []\<rparr>) = (Inr (), w2) \<and>
     cl_objects w2 (KClaim, ''uran-org-1'', ''db-cache-data'') = None"
proof -
  let ?P = "ProvisionRedis demo_reconciler ''uran-org-1'' ''db-cache'' ''1Gi'' demo_cluster"
  let ?D = "DeleteRedis ''uran-org-1'' ''db-cache'' ((snd ?P)\<lparr>cl_errors := []\<rparr>)"
  let ?k = "(KClaim, ''uran-org-1'', ''db-cache-data'')"
  have "fst ?P = Inr () \<and> fst ?D = Inr () \<and> cl_objects (snd ?P) ?k \<noteq> None" by code_simp
  then have run: "?P = (Inr (), snd ?P)" "?D = (Inr (), snd ?D)" "cl_objects (snd ?P) ?k \<noteq> None"
    by (simp_all add: prod_eq_iff)
  have "cl_objects (snd ?D) ?k = None"
    using DeleteRedis_undoes_Provision [OF run(1,2), of ?k] by (simp add: pvcName_def)
  then show ?thesis using run by blast
qed

section \<open>Postgres\<close>

text \<open>Deleting a Postgres cluster leaves its backup objects behind: after a cluster with backups has been
  provisioned and deleted, its daily backup schedule and the secret with the object store's keys are
  still in the namespace.\<close>

theorem DeletePostgres_leaves_backups:
  assumes "ProvisionPostgres rc ns name spec w = (Inr (), w1)" and "ps_backups spec" "BackupsEnabled rc"
    and "DeletePostgres ns name (w1\<lparr>cl_errors := es\<rparr>) = (Inr (), w2)"
  shows "cl_objects w2 (KCluster, ns, name) = None \<and>
    cl_objects w2 (KSecret, ns, backupCredsName name) = Some (backup_creds rc) \<and>
    cl_objects w2 (KScheduledBackup, ns, scheduled_name name) = Some (ScheduledBackupObj ''0 0 2 * * *'' ''self'' name)"
proof -
  have 1: "cl_objects w1 = override (cl_objects w) (plan_desired (postgres_plan rc ns name spec))"
    by (rule writesD [OF ProvisionPostgres_desired assms(1)])
  have b: "backed_up rc spec" using assms(2,3) by (simp add: backed_up_def)
  have "plan_desired (postgres_plan rc ns name spec) (KSecret, ns, backupCredsName name) = Some (Some (backup_creds rc))"
    "plan_desired (postgres_plan rc ns name spec) (KScheduledBackup, ns, scheduled_name name) =
      Some (Some (ScheduledBackupObj ''0 0 2 * * *'' ''self'' name))"
    unfolding plan_desired_def
    by (rule map_of_is_SomeI [OF postgres_plan_distinct], simp add: postgres_plan_snd plan_snd b)+
  then show ?thesis
    using writesD [OF DeletePostgres_writes assms(4)] by (simp add: 1 override_def)
qed

text \<open>A reconciler with an object store, and a Postgres cluster with backups.\<close>

definition demo_store :: reconciler where
  "demo_store = demo_reconciler\<lparr>rc_backup := \<lparr>bc_endpoint = ''http://minio'', bc_bucket = ''backups'',
     bc_access_key = ''a'', bc_secret_key = ''s''\<rparr>\<rparr>"

definition demo_postgres :: postgres_spec where
  "demo_postgres = \<lparr>ps_instances = 1, ps_size = ''small'', ps_storage = ''1Gi'', ps_backups = True\<rparr>"

theorem DeletePostgres_leaves_backups_witness:
  "\<exists>w1 w2. ProvisionPostgres demo_store ''uran-org-1'' ''db-main'' demo_postgres demo_cluster = (Inr (), w1) \<and>
     DeletePostgres ''uran-org-1'' ''db-main'' (w1\<lparr>cl_errors := []\<rparr>) = (Inr (), w2) \<and>
     cl_objects w2 (KCluster, ''uran-org-1'', ''db-main'') = None \<and>
     cl_objects w2 (KSecret, ''uran-org-1'', ''db-main-backup-creds'') \<noteq> None"
proof -
  let ?P = "ProvisionPostgres demo_store ''uran-org-1'' ''db-main'' demo_postgres demo_cluster"
  let ?D = "DeletePostgres ''uran-org-1'' ''db-main'' ((snd ?P)\<lparr>cl_errors := []\<rparr>)"
  have "fst ?P = Inr () \<and> fst ?D = Inr ()" by code_simp
  then have run: "?P = (Inr (), snd ?P)" "?D = (Inr (), snd ?D)" by (simp_all add: prod_eq_iff)
  have "ps_backups demo_postgres" "BackupsEnabled demo_store"
    by (simp_all add: demo_postgres_def demo_store_def BackupsEnabled_def)
  moreover have "backupCredsName ''db-main'' = ''db-main-backup-creds''" by (simp add: backupCredsName_def)
  ultimately have "cl_objects (snd ?D) (KCluster, ''uran-org-1'', ''db-main'') = None"
    "cl_objects (snd ?D) (KSecret, ''uran-org-1'', ''db-main-backup-creds'') \<noteq> None"
    using DeletePostgres_leaves_backups [OF run(1) _ _ run(2)] by simp_all
  then show ?thesis using run by blast
qed

section \<open>Scheduled jobs\<close>

text \<open>Suspending a cron job does nothing: the reconciliation of a cron job does not look at the flag, so
  the schedule of a suspended one stays in the cluster and goes on running.\<close>

theorem suspended_cron_keeps_running:
  assumes "sp_type spec = Cron"
  shows "Apply rc (spec\<lparr>sp_suspended := True\<rparr>) = Apply rc spec \<and>
    desired rc (spec\<lparr>sp_suspended := True\<rparr>) (KCronJob, sp_namespace spec, sp_name spec) =
      Some (Some (CronJobObj (selectorLabels (sp_name spec)) (sp_schedule spec) (selectorLabels (sp_name spec))
        (cron_pod spec)))"
proof
  show "Apply rc (spec\<lparr>sp_suspended := True\<rparr>) = Apply rc spec"
    using assms by (simp add: Apply_def applyEnvSecret_def applyCronJob_def cron_pod_def pull_secrets_def)
  have "cron_pod (spec\<lparr>sp_suspended := True\<rparr>) = cron_pod spec" by (simp add: cron_pod_def pull_secrets_def)
  then show "desired rc (spec\<lparr>sp_suspended := True\<rparr>) (KCronJob, sp_namespace spec, sp_name spec) =
      Some (Some (CronJobObj (selectorLabels (sp_name spec)) (sp_schedule spec) (selectorLabels (sp_name spec))
        (cron_pod spec)))"
    using assms by (intro desired_entry) (simp add: workload_plan_snd plan_snd)
qed

theorem suspended_cron_keeps_running_witness:
  "desired demo_reconciler (demo_spec\<lparr>sp_type := ''cron'', sp_schedule := ''0 3 * * *'', sp_suspended := True\<rparr>)
     (KCronJob, ''uran-org-1'', ''web'') \<noteq> Some None"
proof -
  let ?s = "demo_spec\<lparr>sp_type := ''cron'', sp_schedule := ''0 3 * * *''\<rparr>"
  have "sp_type ?s = Cron" by (simp add: Cron_def)
  from conjunct2 [OF suspended_cron_keeps_running [OF this]] show ?thesis
    by (simp add: demo_spec_def)
qed

end
