(* ===== verification/Migrations.thy ===== *)
theory Migrations
  imports Store_Deploys
begin

text \<open>
  The schema and how it comes about: the scripts of \<open>internal/store/migrations\<close> as data, what Postgres does
  with their three kinds of statement on the catalog of tables and indexes, and \<open>Migrate\<close> of
  \<open>internal/store/store.go\<close>, which \<open>cmd/api\<close> runs at every start.

  A script is one simple query, which Postgres runs in one transaction: a statement that fails takes the whole
  script back. The world is the connection extended with the catalog. The last section ties the migrated catalog to the
  column lists of the store's queries.
\<close>

section \<open>Statements\<close>

datatype sql_type = BigInt | Integer | SqlText | SqlBool | Timestamptz

datatype sql_default = NoDefault | Identity | DText string | DInt int | DBool bool | DNow

record column =
  co_name :: string
  co_type :: sql_type
  co_required :: bool
  co_default :: sql_default

text \<open>Every foreign key of the schema refers to a primary key and cascades.\<close>

datatype table_constraint = PrimaryKey "string list" | UniqueKey "string list" | ForeignKey string string string

type_synonym table_def = "column list \<times> table_constraint list"

datatype ddl =
    CreateTable string "column list" "table_constraint list"
  | AddColumn string column
  | CreateIndex string string "(string \<times> bool) list"

record catalog =
  ca_tables :: "(string \<times> table_def) list"
  ca_indexes :: "(string \<times> string \<times> (string \<times> bool) list) list"

definition empty_catalog :: catalog where
  "empty_catalog = \<lparr>ca_tables = [], ca_indexes = []\<rparr>"

definition relation_names :: "catalog \<Rightarrow> string list" where
  "relation_names c = map fst (ca_tables c) @ map fst (ca_indexes c)"

definition column_names :: "table_def \<Rightarrow> string list" where
  "column_names t = map co_name (fst t)"

text \<open>The columns and tables a constraint of a new table speaks of.\<close>

fun constraint_ok :: "catalog \<Rightarrow> string \<Rightarrow> column list \<Rightarrow> table_constraint \<Rightarrow> bool" where
  "constraint_ok c name cols (PrimaryKey ks) \<longleftrightarrow> set ks \<subseteq> co_name ` set cols"
| "constraint_ok c name cols (UniqueKey ks) \<longleftrightarrow> set ks \<subseteq> co_name ` set cols"
| "constraint_ok c name cols (ForeignKey k parent pk) \<longleftrightarrow> k \<in> co_name ` set cols \<and>
     (case map_of (ca_tables c) parent of None \<Rightarrow> False | Some t \<Rightarrow> PrimaryKey [pk] \<in> set (snd t))"

definition widen :: "string \<Rightarrow> column \<Rightarrow> string \<times> table_def \<Rightarrow> string \<times> table_def" where
  "widen name col e = (fst e, if fst e = name then (fst (snd e) @ [col], snd (snd e)) else snd e)"

text \<open>
  \<open>IF NOT EXISTS\<close> everywhere: what is there already is skipped. \<open>None\<close> is an error; one of them is adding a
  \<open>NOT NULL\<close> column without default to a table that has rows (\<open>occ\<close>).
\<close>

fun ddl_exec :: "(string \<Rightarrow> bool) \<Rightarrow> ddl \<Rightarrow> catalog \<Rightarrow> catalog option" where
  "ddl_exec occ (CreateTable name cols cons) c =
     (if name \<in> set (relation_names c) then Some c
      else if distinct (map co_name cols) \<and> list_all (constraint_ok c name cols) cons
      then Some (c\<lparr>ca_tables := ca_tables c @ [(name, cols, cons)]\<rparr>)
      else None)"
| "ddl_exec occ (AddColumn name col) c =
     (case map_of (ca_tables c) name of
        None \<Rightarrow> None
      | Some t \<Rightarrow> if co_name col \<in> set (column_names t) then Some c
          else if occ name \<and> co_required col \<and> co_default col = NoDefault then None
          else Some (c\<lparr>ca_tables := map (widen name col) (ca_tables c)\<rparr>))"
| "ddl_exec occ (CreateIndex name tab keys) c =
     (case map_of (ca_tables c) tab of
        None \<Rightarrow> None
      | Some t \<Rightarrow> if name \<in> set (relation_names c) then Some c
          else if fst ` set keys \<subseteq> set (column_names t)
          then Some (c\<lparr>ca_indexes := ca_indexes c @ [(name, tab, keys)]\<rparr>)
          else None)"

fun run_script :: "(string \<Rightarrow> bool) \<Rightarrow> ddl list \<Rightarrow> catalog \<Rightarrow> catalog option" where
  "run_script occ [] c = Some c"
| "run_script occ (s # ss) c = (case ddl_exec occ s c of None \<Rightarrow> None | Some c' \<Rightarrow> run_script occ ss c')"

text \<open>Which tables have rows.\<close>

definition occupied :: "tables \<Rightarrow> string \<Rightarrow> bool" where
  "occupied t name \<longleftrightarrow>
     name = ''users'' \<and> users t \<noteq> [] \<or> name = ''sessions'' \<and> sessions t \<noteq> [] \<or>
     name = ''orgs'' \<and> orgs t \<noteq> [] \<or> name = ''org_members'' \<and> org_members t \<noteq> [] \<or>
     name = ''projects'' \<and> projects t \<noteq> [] \<or> name = ''services'' \<and> services t \<noteq> [] \<or>
     name = ''env_vars'' \<and> env_vars t \<noteq> [] \<or> name = ''deploys'' \<and> deploys t \<noteq> [] \<or>
     name = ''builds'' \<and> builds t \<noteq> [] \<or> name = ''custom_domains'' \<and> custom_domains t \<noteq> [] \<or>
     name = ''databases'' \<and> databases t \<noteq> [] \<or> name = ''api_tokens'' \<and> api_tokens t \<noteq> [] \<or>
     name = ''audit_logs'' \<and> audit_logs t \<noteq> [] \<or>
     name = ''registry_credentials'' \<and> registry_credentials t \<noteq> [] \<or>
     name = ''usage_samples'' \<and> usage_samples t \<noteq> [] \<or>
     name = ''github_connections'' \<and> github_connections t \<noteq> []"

section \<open>The scripts\<close>

definition ident :: "string \<Rightarrow> column" where
  "ident n = \<lparr>co_name = n, co_type = BigInt, co_required = True, co_default = Identity\<rparr>"

definition required :: "string \<Rightarrow> sql_type \<Rightarrow> column" where
  "required n ty = \<lparr>co_name = n, co_type = ty, co_required = True, co_default = NoDefault\<rparr>"

definition defaulted :: "string \<Rightarrow> sql_type \<Rightarrow> sql_default \<Rightarrow> column" where
  "defaulted n ty d = \<lparr>co_name = n, co_type = ty, co_required = True, co_default = d\<rparr>"

definition nullable :: "string \<Rightarrow> sql_type \<Rightarrow> column" where
  "nullable n ty = \<lparr>co_name = n, co_type = ty, co_required = False, co_default = NoDefault\<rparr>"

lemmas column_defs = ident_def required_def defaulted_def nullable_def

definition created_at :: column where
  "created_at = defaulted ''created_at'' Timestamptz DNow"

definition m0001_init :: "ddl list" where
  "m0001_init =
    [CreateTable ''users''
       [ident ''id'', required ''email'' SqlText, required ''password_hash'' SqlText,
        defaulted ''name'' SqlText (DText ''''), created_at]
       [PrimaryKey [''id''], UniqueKey [''email'']],
     CreateTable ''sessions''
       [required ''token'' SqlText, required ''user_id'' BigInt, required ''expires_at'' Timestamptz, created_at]
       [PrimaryKey [''token''], ForeignKey ''user_id'' ''users'' ''id''],
     CreateIndex ''sessions_user_id_idx'' ''sessions'' [(''user_id'', False)],
     CreateTable ''orgs''
       [ident ''id'', required ''name'' SqlText, required ''slug'' SqlText, created_at]
       [PrimaryKey [''id''], UniqueKey [''slug'']],
     CreateTable ''org_members''
       [required ''org_id'' BigInt, required ''user_id'' BigInt, defaulted ''role'' SqlText (DText ''owner'')]
       [PrimaryKey [''org_id'', ''user_id''], ForeignKey ''org_id'' ''orgs'' ''id'', ForeignKey ''user_id'' ''users'' ''id''],
     CreateTable ''projects''
       [ident ''id'', required ''org_id'' BigInt, required ''name'' SqlText, required ''slug'' SqlText, created_at]
       [PrimaryKey [''id''], ForeignKey ''org_id'' ''orgs'' ''id'', UniqueKey [''org_id'', ''slug'']],
     CreateTable ''services''
       [ident ''id'', required ''project_id'' BigInt, required ''name'' SqlText, required ''slug'' SqlText,
        defaulted ''type'' SqlText (DText ''web''), defaulted ''repo_url'' SqlText (DText ''''),
        defaulted ''branch'' SqlText (DText ''main''), created_at]
       [PrimaryKey [''id''], ForeignKey ''project_id'' ''projects'' ''id'', UniqueKey [''project_id'', ''slug'']],
     CreateTable ''env_vars''
       [ident ''id'', required ''service_id'' BigInt, required ''key'' SqlText, required ''value'' SqlText,
        defaulted ''secret'' SqlBool (DBool False)]
       [PrimaryKey [''id''], ForeignKey ''service_id'' ''services'' ''id'', UniqueKey [''service_id'', ''key'']],
     CreateTable ''deploys''
       [ident ''id'', required ''service_id'' BigInt, defaulted ''status'' SqlText (DText ''queued''),
        defaulted ''commit_sha'' SqlText (DText ''''), defaulted ''image'' SqlText (DText ''''), created_at,
        defaulted ''updated_at'' Timestamptz DNow]
       [PrimaryKey [''id''], ForeignKey ''service_id'' ''services'' ''id''],
     CreateIndex ''deploys_service_id_idx'' ''deploys'' [(''service_id'', False)],
     CreateTable ''builds''
       [ident ''id'', required ''deploy_id'' BigInt, defaulted ''status'' SqlText (DText ''queued''),
        defaulted ''logs'' SqlText (DText ''''), nullable ''started_at'' Timestamptz, nullable ''ended_at'' Timestamptz]
       [PrimaryKey [''id''], ForeignKey ''deploy_id'' ''deploys'' ''id''],
     CreateIndex ''builds_deploy_id_idx'' ''builds'' [(''deploy_id'', False)]]"

definition m0002_previews :: "ddl list" where
  "m0002_previews =
    [AddColumn ''deploys'' (defaulted ''kind'' SqlText (DText ''production'')),
     AddColumn ''deploys'' (nullable ''pr_number'' Integer),
     CreateIndex ''deploys_service_pr_idx'' ''deploys'' [(''service_id'', False), (''pr_number'', False)]]"

definition m0003_custom_domains :: "ddl list" where
  "m0003_custom_domains =
    [CreateTable ''custom_domains''
       [ident ''id'', required ''service_id'' BigInt, required ''domain'' SqlText, created_at]
       [PrimaryKey [''id''], ForeignKey ''service_id'' ''services'' ''id'', UniqueKey [''domain'']],
     CreateIndex ''custom_domains_service_id_idx'' ''custom_domains'' [(''service_id'', False)]]"

definition m0004_service_schedule :: "ddl list" where
  "m0004_service_schedule = [AddColumn ''services'' (defaulted ''schedule'' SqlText (DText ''''))]"

definition m0005_databases :: "ddl list" where
  "m0005_databases =
    [CreateTable ''databases''
       [ident ''id'', required ''project_id'' BigInt, required ''name'' SqlText, required ''slug'' SqlText,
        defaulted ''engine'' SqlText (DText ''postgres''), defaulted ''status'' SqlText (DText ''creating''),
        defaulted ''connection_uri'' SqlText (DText ''''), created_at]
       [PrimaryKey [''id''], ForeignKey ''project_id'' ''projects'' ''id'', UniqueKey [''project_id'', ''slug'']],
     CreateIndex ''databases_project_id_idx'' ''databases'' [(''project_id'', False)]]"

definition m0006_scaling_health :: "ddl list" where
  "m0006_scaling_health =
    [AddColumn ''services'' (defaulted ''replicas'' Integer (DInt 1)),
     AddColumn ''services'' (defaulted ''instance_size'' SqlText (DText ''small'')),
     AddColumn ''services'' (defaulted ''health_path'' SqlText (DText '''')),
     AddColumn ''services'' (defaulted ''min_replicas'' Integer (DInt 0)),
     AddColumn ''services'' (defaulted ''max_replicas'' Integer (DInt 0))]"

definition m0007_disks :: "ddl list" where
  "m0007_disks =
    [AddColumn ''services'' (defaulted ''disk_size'' SqlText (DText '''')),
     AddColumn ''services'' (defaulted ''disk_path'' SqlText (DText ''''))]"

definition m0008_api_tokens :: "ddl list" where
  "m0008_api_tokens =
    [CreateTable ''api_tokens''
       [ident ''id'', required ''user_id'' BigInt, required ''name'' SqlText, required ''token_hash'' SqlText,
        required ''prefix'' SqlText, created_at, nullable ''last_used_at'' Timestamptz]
       [PrimaryKey [''id''], ForeignKey ''user_id'' ''users'' ''id'', UniqueKey [''token_hash'']],
     CreateIndex ''api_tokens_user_id_idx'' ''api_tokens'' [(''user_id'', False)]]"

definition m0009_audit_log :: "ddl list" where
  "m0009_audit_log =
    [CreateTable ''audit_logs''
       [ident ''id'', required ''actor_user_id'' BigInt, required ''actor_email'' SqlText, required ''method'' SqlText,
        required ''path'' SqlText, required ''status'' Integer, created_at]
       [PrimaryKey [''id''], ForeignKey ''actor_user_id'' ''users'' ''id''],
     CreateIndex ''audit_logs_actor_idx'' ''audit_logs'' [(''actor_user_id'', False), (''id'', True)]]"

definition m0010_build_args :: "ddl list" where
  "m0010_build_args = [AddColumn ''env_vars'' (defaulted ''build_time'' SqlBool (DBool False))]"

definition m0011_registry_credentials :: "ddl list" where
  "m0011_registry_credentials =
    [CreateTable ''registry_credentials''
       [ident ''id'', required ''org_id'' BigInt, required ''registry'' SqlText, required ''username'' SqlText,
        required ''password'' SqlText, created_at]
       [PrimaryKey [''id''], ForeignKey ''org_id'' ''orgs'' ''id'', UniqueKey [''org_id'', ''registry'']],
     CreateIndex ''registry_credentials_org_idx'' ''registry_credentials'' [(''org_id'', False)]]"

definition m0012_suspend :: "ddl list" where
  "m0012_suspend = [AddColumn ''services'' (defaulted ''suspended'' SqlBool (DBool False))]"

definition m0013_db_scaling :: "ddl list" where
  "m0013_db_scaling =
    [AddColumn ''databases'' (defaulted ''instances'' Integer (DInt 1)),
     AddColumn ''databases'' (defaulted ''size'' SqlText (DText ''small'')),
     AddColumn ''databases'' (defaulted ''storage'' SqlText (DText ''1Gi'')),
     AddColumn ''databases'' (defaulted ''read_uri'' SqlText (DText ''''))]"

definition m0014_db_tiers :: "ddl list" where
  "m0014_db_tiers =
    [AddColumn ''databases'' (defaulted ''tier'' SqlText (DText ''standard'')),
     AddColumn ''databases'' (defaulted ''min_instances'' Integer (DInt 1)),
     AddColumn ''databases'' (defaulted ''max_instances'' Integer (DInt 1))]"

definition m0015_usage :: "ddl list" where
  "m0015_usage =
    [CreateTable ''usage_samples''
       [ident ''id'', required ''service_id'' BigInt, required ''cpu_millicores'' BigInt,
        required ''memory_bytes'' BigInt, defaulted ''sampled_at'' Timestamptz DNow]
       [PrimaryKey [''id''], ForeignKey ''service_id'' ''services'' ''id''],
     CreateIndex ''usage_samples_service_idx'' ''usage_samples'' [(''service_id'', False), (''id'', True)]]"

definition m0016_db_pooling :: "ddl list" where
  "m0016_db_pooling =
    [AddColumn ''databases'' (defaulted ''pooling'' SqlBool (DBool False)),
     AddColumn ''databases'' (defaulted ''pooled_uri'' SqlText (DText ''''))]"

definition m0017_db_backups :: "ddl list" where
  "m0017_db_backups = [AddColumn ''databases'' (defaulted ''backups'' SqlBool (DBool False))]"

definition m0018_github_connections :: "ddl list" where
  "m0018_github_connections =
    [CreateTable ''github_connections''
       [required ''org_id'' BigInt, required ''access_token'' SqlText, required ''account_login'' SqlText, created_at]
       [PrimaryKey [''org_id''], ForeignKey ''org_id'' ''orgs'' ''id'']]"

section \<open>Migrate\<close>

text \<open>The embedded directory, and the connection with the catalog it acts on.\<close>

datatype dirent = Dir string | File string "ddl list"

definition migrationsFS :: "dirent list" where
  "migrationsFS =
    [File ''0001_init.sql'' m0001_init, File ''0002_previews.sql'' m0002_previews,
     File ''0003_custom_domains.sql'' m0003_custom_domains,
     File ''0004_service_schedule.sql'' m0004_service_schedule, File ''0005_databases.sql'' m0005_databases,
     File ''0006_scaling_health.sql'' m0006_scaling_health, File ''0007_disks.sql'' m0007_disks,
     File ''0008_api_tokens.sql'' m0008_api_tokens, File ''0009_audit_log.sql'' m0009_audit_log,
     File ''0010_build_args.sql'' m0010_build_args,
     File ''0011_registry_credentials.sql'' m0011_registry_credentials,
     File ''0012_suspend.sql'' m0012_suspend, File ''0013_db_scaling.sql'' m0013_db_scaling,
     File ''0014_db_tiers.sql'' m0014_db_tiers, File ''0015_usage.sql'' m0015_usage,
     File ''0016_db_pooling.sql'' m0016_db_pooling, File ''0017_db_backups.sql'' m0017_db_backups,
     File ''0018_github_connections.sql'' m0018_github_connections]"

record schema_pg = pg +
  schema :: catalog

datatype migrate_error = ReadScript string | ApplyScript string

fun script_name :: "dirent \<Rightarrow> string list" where
  "script_name (Dir n) = []"
| "script_name (File n sql) = [n]"

fun read_script :: "dirent list \<Rightarrow> string \<Rightarrow> ddl list option" where
  "read_script [] name = None"
| "read_script (Dir n # es) name = read_script es name"
| "read_script (File n sql # es) name = (if n = name then Some sql else read_script es name)"

definition exec_script :: "ddl list \<Rightarrow> ('y schema_pg_scheme, store_error + unit) act" where
  "exec_script sql w = (case next_fault w of
      (True, w') \<Rightarrow> (Inl PgFault, w')
    | (False, w') \<Rightarrow> (case run_script (occupied (tabs w')) sql (schema w') of
          None \<Rightarrow> (Inl PgFault, w')
        | Some c \<Rightarrow> (Inr (), w'\<lparr>schema := c\<rparr>)))"

fun apply_scripts :: "dirent list \<Rightarrow> string list \<Rightarrow> ('y schema_pg_scheme, migrate_error + unit) act" where
  "apply_scripts fs [] = ret (Inr ())"
| "apply_scripts fs (name # names) = (case read_script fs name of
      None \<Rightarrow> ret (Inl (ReadScript name))
    | Some sql \<Rightarrow> attempt (exec_script sql) (\<lambda>_. ret (Inl (ApplyScript name))) (\<lambda>_. apply_scripts fs names))"

definition Migrate :: "dirent list \<Rightarrow> ('y schema_pg_scheme, migrate_error + unit) act" where
  "Migrate fs = apply_scripts fs (sort (concat (map script_name fs)))"

section \<open>A statement that is done stays done\<close>

fun holds :: "catalog \<Rightarrow> ddl \<Rightarrow> bool" where
  "holds c (CreateTable name cols cons) \<longleftrightarrow> name \<in> set (relation_names c)"
| "holds c (AddColumn name col) \<longleftrightarrow>
     (\<exists>t. map_of (ca_tables c) name = Some t \<and> co_name col \<in> set (column_names t))"
| "holds c (CreateIndex name tab keys) \<longleftrightarrow> map_of (ca_tables c) tab \<noteq> None \<and> name \<in> set (relation_names c)"

definition catalog_grown :: "catalog \<Rightarrow> catalog \<Rightarrow> bool" where
  "catalog_grown c d \<longleftrightarrow> set (relation_names c) \<subseteq> set (relation_names d) \<and>
     (\<forall>n t. map_of (ca_tables c) n = Some t \<longrightarrow>
       (\<exists>t'. map_of (ca_tables d) n = Some t' \<and> set (column_names t) \<subseteq> set (column_names t')))"

lemma catalog_grown_refl: "catalog_grown c c"
  by (simp add: catalog_grown_def)

lemma catalog_grown_trans: "catalog_grown c d \<Longrightarrow> catalog_grown d e \<Longrightarrow> catalog_grown c e"
  unfolding catalog_grown_def by (meson subset_trans)

lemma holds_grown: "holds c s \<Longrightarrow> catalog_grown c d \<Longrightarrow> holds d s"
  by (cases s) (fastforce simp: catalog_grown_def)+

lemma holds_skips: "holds c s \<Longrightarrow> ddl_exec occ s c = Some c"
  by (cases s) (auto split: option.splits)

text \<open>The table list, with a column added to one of them.\<close>

lemma map_of_widened:
  "map_of (map (widen name col) ts) n =
     map_option (\<lambda>t. if n = name then (fst t @ [col], snd t) else t) (map_of ts n)"
  by (induction ts) (auto simp: widen_def)

lemma names_widened: "fst \<circ> widen name col = fst"
  by (rule ext) (simp add: widen_def)

lemma ddl_exec_grown:
  assumes "ddl_exec occ s c = Some d"
  shows "catalog_grown c d \<and> holds d s"
proof (cases s)
  case (CreateTable name cols cons)
  then show ?thesis using assms
    by (auto simp: catalog_grown_def relation_names_def map_add_def split: if_splits option.splits)
next
  case (AddColumn name col)
  then show ?thesis using assms
    by (auto simp: catalog_grown_def relation_names_def map_of_widened names_widened column_names_def
        simp del: set_map split: if_splits option.splits)
next
  case (CreateIndex name tab keys)
  then show ?thesis using assms
    by (auto simp: catalog_grown_def relation_names_def split: if_splits option.splits)
qed

lemma run_script_grown: "run_script occ ss c = Some d \<Longrightarrow> catalog_grown c d \<and> list_all (holds d) ss"
proof (induction ss arbitrary: c)
  case (Cons s ss)
  then obtain c' where 1: "ddl_exec occ s c = Some c'" and 2: "run_script occ ss c' = Some d"
    by (auto split: option.splits)
  show ?case using ddl_exec_grown [OF 1] Cons.IH [OF 2] by (auto intro: catalog_grown_trans holds_grown)
qed (simp add: catalog_grown_refl)

lemma run_script_holds: "list_all (holds c) ss \<Longrightarrow> run_script occ ss c = Some c"
  by (induction ss) (auto simp: holds_skips)

lemma run_script_append:
  "run_script occ (ss @ ts) c = Option.bind (run_script occ ss c) (run_script occ ts)"
  by (induction ss arbitrary: c) (auto split: option.splits)

lemma run_script_again:
  assumes "run_script occ (ss @ ts) c = Some d" "run_script occ' ss c = Some c'"
    and "run_script occ ss c = Some c'"
  shows "run_script occ (ss @ ts) c' = Some d"
  using assms run_script_grown [OF assms(2)] by (simp add: run_script_append run_script_holds)

text \<open>
  What a run of \<open>Migrate\<close> leaves behind, whatever fails in it: the catalog of some prefix of the scripts, all of
  them if it reports success, and the rest of the database as it was.
\<close>

definition scripts_of :: "dirent list \<Rightarrow> string list \<Rightarrow> ddl list" where
  "scripts_of fs names = concat (map (\<lambda>n. case read_script fs n of None \<Rightarrow> [] | Some sql \<Rightarrow> sql) names)"

lemma exec_script_undisturbed:
  "faults w = [] \<Longrightarrow> exec_script sql w = (case run_script (occupied (tabs w)) sql (schema w) of
     None \<Rightarrow> (Inl PgFault, w) | Some c \<Rightarrow> (Inr (), w\<lparr>schema := c\<rparr>))"
  by (simp add: exec_script_def)

lemma exec_script_cases:
  assumes "exec_script sql w = (r, w1)"
  obtains c where "r = Inr ()" "run_script (occupied (tabs w)) sql (schema w) = Some c"
      "schema w1 = c" "tabs w1 = tabs w" "bus w1 = bus w"
    | e where "r = Inl e" "schema w1 = schema w" "tabs w1 = tabs w" "bus w1 = bus w"
proof -
  obtain b w' where f: "next_fault w = (b, w')" by (cases "next_fault w")
  have "schema w' = schema w" using f by (auto simp: next_fault_def split: list.splits)
  then show thesis using assms f next_fault_frame [OF f] that
    by (auto simp: exec_script_def split: bool.splits option.splits)
qed

lemma apply_scripts_undisturbed:
  assumes "faults w = []" "fst (apply_scripts fs names w) = Inr ()"
  shows "run_script (occupied (tabs w)) (scripts_of fs names) (schema w) = Some (schema (snd (apply_scripts fs names w)))"
  using assms
proof (induction names arbitrary: w)
  case (Cons n names)
  note again = Cons.IH [of "w\<lparr>schema := c\<rparr>" for c]
  show ?case using Cons.prems again
    by (auto simp: scripts_of_def run_script_append act_run exec_script_undisturbed split: option.splits)
qed (simp add: scripts_of_def ret_def)

lemma apply_scripts_succeeds:
  assumes "faults w = []" "run_script (occupied (tabs w)) (scripts_of fs names) (schema w) = Some c"
    and "list_all (\<lambda>n. read_script fs n \<noteq> None) names"
  shows "fst (apply_scripts fs names w) = Inr () \<and> schema (snd (apply_scripts fs names w)) = c"
  using assms
proof (induction names arbitrary: w)
  case (Cons n names)
  then show ?case
    by (auto simp: scripts_of_def run_script_append act_run exec_script_undisturbed
        split: option.splits bind_splits)
qed (simp add: scripts_of_def ret_def)

lemma apply_scripts_prefix:
  assumes "apply_scripts fs names w = (r, w1)"
  shows "\<exists>k. run_script (occupied (tabs w)) (scripts_of fs (take k names)) (schema w) = Some (schema w1) \<and>
    (r = Inr () \<longrightarrow> take k names = names) \<and> tabs w1 = tabs w \<and> bus w1 = bus w"
  using assms
proof (induction names arbitrary: w)
  case Nil
  then show ?case by (simp add: scripts_of_def ret_def)
next
  case (Cons n names)
  show ?case
  proof (cases "read_script fs n")
    case None
    then show ?thesis using Cons.prems by (intro exI [of _ 0]) (auto simp: scripts_of_def ret_def)
  next
    case (Some sql)
    obtain x w' where x: "exec_script sql w = (x, w')" by (cases "exec_script sql w")
    show ?thesis using x
    proof (cases rule: exec_script_cases)
      case (1 c)
      then have "apply_scripts fs names w' = (r, w1)" using Cons.prems Some x by (simp add: act_run)
      from Cons.IH [OF this] obtain k where
        "run_script (occupied (tabs w)) (scripts_of fs (take k names)) c = Some (schema w1)"
        "r = Inr () \<longrightarrow> take k names = names" "tabs w1 = tabs w" "bus w1 = bus w"
        using 1 by auto
      then show ?thesis using 1 Some by (intro exI [of _ "Suc k"]) (simp add: scripts_of_def run_script_append)
    next
      case (2 e)
      then show ?thesis using Cons.prems Some x
        by (intro exI [of _ 0]) (auto simp: scripts_of_def act_run)
    qed
  qed
qed

lemma scripts_of_split: "scripts_of fs names = scripts_of fs (take k names) @ scripts_of fs (drop k names)"
  unfolding scripts_of_def by (metis append_take_drop_id concat_append map_append)

lemma apply_scripts_reads: "fst (apply_scripts fs names w) = Inr () \<Longrightarrow> list_all (\<lambda>n. read_script fs n \<noteq> None) names"
  by (induction names arbitrary: w) (auto simp: act_run split: option.splits prod.splits sum.splits)

lemma apply_scripts_resumes:
  assumes calm: "fst (apply_scripts fs names (w\<lparr>faults := []\<rparr>)) = Inr ()"
    and run: "apply_scripts fs names w = (r, w1)"
  defines "goal \<equiv> schema (snd (apply_scripts fs names (w\<lparr>faults := []\<rparr>)))"
  shows "fst (apply_scripts fs names (w1\<lparr>faults := []\<rparr>)) = Inr () \<and>
    schema (snd (apply_scripts fs names (w1\<lparr>faults := []\<rparr>))) = goal \<and>
    (r = Inr () \<longrightarrow> schema w1 = goal) \<and> tabs w1 = tabs w \<and> bus w1 = bus w"
proof -
  let ?run = "run_script (occupied (tabs w))"
  have all: "?run (scripts_of fs names) (schema w) = Some goal"
    using apply_scripts_undisturbed [OF _ calm] by (simp add: goal_def)
  obtain k where k: "?run (scripts_of fs (take k names)) (schema w) = Some (schema w1)"
      "r = Inr () \<longrightarrow> take k names = names" "tabs w1 = tabs w" "bus w1 = bus w"
    using apply_scripts_prefix [OF run] by blast
  have "?run (scripts_of fs names) (schema w1) = Some goal"
    using run_script_again [OF _ k(1) k(1)] all scripts_of_split [of fs names k] by metis
  from apply_scripts_succeeds [of "w1\<lparr>faults := []\<rparr>", OF _ _ apply_scripts_reads [OF calm]] this k all
  show ?thesis by auto
qed

section \<open>What the store's statements need\<close>

definition deployCols :: string where
  "deployCols = ''id, service_id, status, commit_sha, image, kind, pr_number, created_at, updated_at''"

definition serviceCols :: string where
  "serviceCols = ''id, project_id, name, slug, type, repo_url, branch, schedule,
	replicas, instance_size, health_path, min_replicas, max_replicas, disk_size, disk_path, suspended, created_at''"

definition databaseCols :: string where
  "databaseCols = ''id, project_id, name, slug, engine, status, tier, instances, min_instances, max_instances, size, storage, pooling, backups, connection_uri, read_uri, pooled_uri''"

text \<open>Every \<open>INSERT\<close> of the store: its table, its columns and the target of its \<open>ON CONFLICT\<close>.\<close>

type_synonym insert_form = "string \<times> string \<times> string"

definition into_users :: insert_form where "into_users = (''users'', ''email, password_hash, name'', '''')"
definition into_sessions :: insert_form where "into_sessions = (''sessions'', ''token, user_id, expires_at'', '''')"
definition into_orgs :: insert_form where "into_orgs = (''orgs'', ''name, slug'', '''')"
definition into_members_owner :: insert_form where
  "into_members_owner = (''org_members'', ''org_id, user_id, role'', '''')"
definition into_members :: insert_form where
  "into_members = (''org_members'', ''org_id, user_id, role'', ''org_id, user_id'')"
definition into_projects :: insert_form where "into_projects = (''projects'', ''org_id, name, slug'', '''')"
definition into_services :: insert_form where
  "into_services = (''services'', ''project_id, name, slug, type, repo_url, branch, schedule'', '''')"
definition into_env_vars :: insert_form where
  "into_env_vars = (''env_vars'', ''service_id, key, value, secret, build_time'', ''service_id, key'')"
definition into_deploys :: insert_form where
  "into_deploys = (''deploys'', ''service_id, status, commit_sha, kind, pr_number'', '''')"
definition into_deploys_imaged :: insert_form where
  "into_deploys_imaged = (''deploys'', ''service_id, status, commit_sha, image, kind'', '''')"
definition into_builds :: insert_form where "into_builds = (''builds'', ''deploy_id, status'', '''')"
definition into_builds_done :: insert_form where
  "into_builds_done = (''builds'', ''deploy_id, status, logs, started_at, ended_at'', '''')"
definition into_custom_domains :: insert_form where
  "into_custom_domains = (''custom_domains'', ''service_id, domain'', '''')"
definition into_databases :: insert_form where
  "into_databases = (''databases'', ''project_id, name, slug, engine, tier, instances, min_instances, max_instances, size, storage, pooling, backups'', '''')"
definition into_api_tokens :: insert_form where
  "into_api_tokens = (''api_tokens'', ''user_id, name, token_hash, prefix'', '''')"
definition into_audit_logs :: insert_form where
  "into_audit_logs = (''audit_logs'', ''actor_user_id, actor_email, method, path, status'', '''')"
definition into_registry_credentials :: insert_form where
  "into_registry_credentials = (''registry_credentials'', ''org_id, registry, username, password'', ''org_id, registry'')"
definition into_usage_samples :: insert_form where
  "into_usage_samples = (''usage_samples'', ''service_id, cpu_millicores, memory_bytes'', '''')"
definition into_github_connections :: insert_form where
  "into_github_connections = (''github_connections'', ''org_id, access_token, account_login'', ''org_id'')"

definition store_inserts :: "insert_form list" where
  "store_inserts = [into_users, into_sessions, into_orgs, into_members_owner, into_members, into_projects,
     into_services, into_env_vars, into_deploys, into_deploys_imaged, into_builds, into_builds_done,
     into_custom_domains, into_databases, into_api_tokens, into_audit_logs, into_registry_credentials,
     into_usage_samples, into_github_connections]"

lemmas insert_defs = store_inserts_def into_users_def into_sessions_def into_orgs_def into_members_owner_def
  into_members_def into_projects_def into_services_def into_env_vars_def into_deploys_def
  into_deploys_imaged_def into_builds_def into_builds_done_def into_custom_domains_def into_databases_def
  into_api_tokens_def into_audit_logs_def into_registry_credentials_def into_usage_samples_def
  into_github_connections_def

definition sql_names :: "string \<Rightarrow> string list" where
  "sql_names cols = map trim_space (split_on CHR '','' cols)"

text \<open>
  A statement fits a catalog: its columns are there; an \<open>INSERT\<close> does not write a generated identity, leaves out
  only columns that may be null or fill themselves, and conflicts on a key of the table.
\<close>

definition reads_ok :: "catalog \<Rightarrow> string \<Rightarrow> string \<Rightarrow> bool" where
  "reads_ok c tab cols \<longleftrightarrow> (case map_of (ca_tables c) tab of
      None \<Rightarrow> False | Some t \<Rightarrow> set (sql_names cols) \<subseteq> set (column_names t))"

definition insert_ok :: "catalog \<Rightarrow> insert_form \<Rightarrow> bool" where
  "insert_ok c f = (case f of (tab, cols, target) \<Rightarrow> (case map_of (ca_tables c) tab of
      None \<Rightarrow> False
    | Some t \<Rightarrow> set (sql_names cols) \<subseteq> set (column_names t) \<and>
        list_all (\<lambda>co. if co_name co \<in> set (sql_names cols) then co_default co \<noteq> Identity
          else co_required co \<longrightarrow> co_default co \<noteq> NoDefault) (fst t) \<and>
        (target = '''' \<or> list_ex (\<lambda>k. k = PrimaryKey (sql_names target) \<or> k = UniqueKey (sql_names target)) (snd t))))"

definition schema_fits :: "catalog \<Rightarrow> bool" where
  "schema_fits c \<longleftrightarrow> reads_ok c ''deploys'' deployCols \<and> reads_ok c ''services'' serviceCols \<and>
     reads_ok c ''databases'' databaseCols \<and> list_all (insert_ok c) store_inserts"

section \<open>Properties\<close>

fun self_filling :: "ddl \<Rightarrow> bool" where
  "self_filling (AddColumn name col) \<longleftrightarrow> (co_required col \<longrightarrow> co_default col \<noteq> NoDefault)"
| "self_filling s \<longleftrightarrow> True"

lemma run_script_self_filling:
  "list_all self_filling ss \<Longrightarrow> run_script occ ss c = run_script (\<lambda>_. False) ss c"
proof (induction ss arbitrary: c)
  case (Cons s ss)
  have "ddl_exec occ s c = ddl_exec (\<lambda>_. False) s c" using Cons.prems by (cases s) (auto split: option.splits)
  then show ?case using Cons by (auto split: option.splits)
qed simp

definition lexical_names :: "string list" where
  "lexical_names = sort (concat (map script_name migrationsFS))"

definition release :: "nat \<Rightarrow> ddl list" where
  "release k = scripts_of migrationsFS (take k lexical_names)"

lemma scripts_migrate:
  "list_all self_filling (scripts_of migrationsFS lexical_names) \<and>
   list_all (\<lambda>n. read_script migrationsFS n \<noteq> None) lexical_names \<and>
   (case run_script (\<lambda>_. False) (scripts_of migrationsFS lexical_names) empty_catalog of
      None \<Rightarrow> False | Some c \<Rightarrow> schema_fits c)"
  by code_simp

lemma migrate_release:
  fixes w :: "'y schema_pg_scheme"
  assumes "faults w = []" "run_script (\<lambda>_. False) (release k) empty_catalog = Some (schema w)"
  shows "fst (Migrate migrationsFS w) = Inr () \<and> schema_fits (schema (snd (Migrate migrationsFS w)))"
proof -
  let ?all = "scripts_of migrationsFS lexical_names"
  obtain c where c: "run_script (\<lambda>_. False) ?all empty_catalog = Some c" "schema_fits c"
    using scripts_migrate by (auto split: option.splits)
  have "run_script (\<lambda>_. False) ?all (schema w) = Some c"
    using run_script_again [OF _ assms(2,2) [unfolded release_def]] c(1)
      scripts_of_split [of migrationsFS lexical_names k] by metis
  then have "run_script (occupied (tabs w)) ?all (schema w) = Some c"
    using run_script_self_filling scripts_migrate by metis
  then show ?thesis
    using apply_scripts_succeeds [OF assms(1)] scripts_migrate c(2)
    by (simp add: Migrate_def flip: lexical_names_def)
qed

text \<open>
  C9. An interrupted \<open>Migrate\<close> is harmless: whatever connection or statement failed in it and wherever, the rows are
  untouched and the next undisturbed start ends, without error, at the catalog the first one would have reached; and a
  run that reports success is there already, so running it again changes nothing.
\<close>

theorem migrate_resumes:
  fixes w :: "'y schema_pg_scheme"
  assumes calm: "fst (Migrate fs (w\<lparr>faults := []\<rparr>)) = Inr ()"
    and run: "Migrate fs w = (r, w1)"
  defines "goal \<equiv> schema (snd (Migrate fs (w\<lparr>faults := []\<rparr>)))"
  shows "fst (Migrate fs (w1\<lparr>faults := []\<rparr>)) = Inr () \<and>
    schema (snd (Migrate fs (w1\<lparr>faults := []\<rparr>))) = goal \<and>
    (r = Inr () \<longrightarrow> schema w1 = goal) \<and> tabs w1 = tabs w \<and> bus w1 = bus w"
  using apply_scripts_resumes [OF calm [unfolded Migrate_def] run [unfolded Migrate_def]]
  unfolding goal_def Migrate_def .

text \<open>The connection drops at the third script of a new database; the next start finishes the job.\<close>

definition new_pg :: schema_pg where
  "new_pg = pg.extend start_pg \<lparr>schema = empty_catalog\<rparr>"

lemma new_pg_release: "run_script (\<lambda>_. False) (release 0) empty_catalog = Some (schema (new_pg\<lparr>faults := fs\<rparr>))"
  by (simp add: release_def scripts_of_def new_pg_def pg.defs)

theorem migrate_resumes_witness:
  "\<exists>w1. Migrate migrationsFS (new_pg\<lparr>faults := [False, False, True]\<rparr>) = (Inl (ApplyScript ''0003_custom_domains.sql''), w1) \<and>
     fst (Migrate migrationsFS (w1\<lparr>faults := []\<rparr>)) = Inr () \<and>
     schema (snd (Migrate migrationsFS (w1\<lparr>faults := []\<rparr>))) = schema (snd (Migrate migrationsFS (new_pg\<lparr>faults := []\<rparr>)))"
proof -
  let ?w = "new_pg\<lparr>faults := [False, False, True]\<rparr>"
  have "fst (Migrate migrationsFS ?w) = Inl (ApplyScript ''0003_custom_domains.sql'')"
    by code_simp
  then obtain w1 where w1: "Migrate migrationsFS ?w = (Inl (ApplyScript ''0003_custom_domains.sql''), w1)"
    by (metis prod.collapse)
  have "fst (Migrate migrationsFS (?w\<lparr>faults := []\<rparr>)) = Inr ()"
    using migrate_release [OF _ new_pg_release [of "[]"]] by simp
  from migrate_resumes [OF this w1] w1 show ?thesis by auto
qed



end
