(* ===== verification/K8s_Reader.thy ===== *)
theory K8s_Reader
  imports K8s_Data
begin

text \<open>
  The read-only view of the cluster (\<open>internal/k8s/reader.go\<close>, \<open>backupInfos\<close> of \<open>backup.go\<close>): what the
  API and the controller make of the answers of the API and metrics servers. \<open>raw_reader\<close> holds those
  answers; \<open>live_reader\<close> is the reader the handlers of the API and the controller are given.
\<close>

record raw_pod =
  rp_name :: string
  rp_running :: bool

record raw_metric =
  rm_pod :: string
  rm_containers :: "(int \<times> int) list"

record raw_backup =
  rb_name :: string
  rb_cluster :: string
  rb_phase :: string
  rb_started :: string
  rb_stopped :: string

text \<open>
  The answers by namespace and label selector; \<open>None\<close> is a failed call. The log of a pod is what the
  stream yields.
\<close>

record raw_reader =
  raw_pods :: "string \<Rightarrow> string \<Rightarrow> raw_pod list option"
  raw_metrics :: "string \<Rightarrow> string \<Rightarrow> raw_metric list option"
  raw_backups :: "string \<Rightarrow> raw_backup list option"
  raw_logs :: "string \<Rightarrow> string \<Rightarrow> string option"

datatype log_error = ErrNoPods | ErrLogs

definition firstRunningPod :: "raw_reader \<Rightarrow> string \<Rightarrow> string \<Rightarrow> log_error + string" where
  "firstRunningPod rd ns sel = (case raw_pods rd ns sel of
      None \<Rightarrow> Inl ErrLogs
    | Some ps \<Rightarrow> (case find rp_running ps of None \<Rightarrow> Inl ErrNoPods | Some p \<Rightarrow> Inr (rp_name p)))"

definition StreamLogs :: "raw_reader \<Rightarrow> string \<Rightarrow> string \<Rightarrow> log_error + string" where
  "StreamLogs rd ns sel = (case firstRunningPod rd ns sel of
      Inl e \<Rightarrow> Inl e
    | Inr pod \<Rightarrow> (case raw_logs rd ns pod of None \<Rightarrow> Inl ErrLogs | Some s \<Rightarrow> Inr s))"

text \<open>The usage of a pod is the sum over its containers, in 64-bit arithmetic.\<close>

definition pod_usage :: "raw_metric \<Rightarrow> pod_metric" where
  "pod_usage m = \<lparr>pm_pod = rm_pod m, pm_cpu = foldl (\<lambda>a c. wrap64 (a + fst c)) 0 (rm_containers m),
     pm_memory = foldl (\<lambda>a c. wrap64 (a + snd c)) 0 (rm_containers m)\<rparr>"

definition Metrics :: "raw_reader \<Rightarrow> string \<Rightarrow> string \<Rightarrow> pod_metric list option" where
  "Metrics rd ns sel = map_option (map pod_usage) (raw_metrics rd ns sel)"

definition backupInfos :: "raw_backup list \<Rightarrow> string \<Rightarrow> backup_info list" where
  "backupInfos items cluster = map (\<lambda>b. \<lparr>bi_name = rb_name b, bi_phase = rb_phase b,
     bi_started = rb_started b, bi_stopped = rb_stopped b\<rparr>) (filter (\<lambda>b. rb_cluster b = cluster) items)"

definition ListBackups :: "raw_reader \<Rightarrow> string \<Rightarrow> string \<Rightarrow> backup_info list option" where
  "ListBackups rd ns cluster = map_option (\<lambda>items. backupInfos items cluster) (raw_backups rd ns)"

text \<open>
  What a handler sees of a log stream: nothing to read where there is no pod, and no text where a
  call failed.
\<close>

definition live_reader :: "raw_reader \<Rightarrow> reader" where
  "live_reader rd = \<lparr>
     stream_logs = (\<lambda>ns sel. case StreamLogs rd ns sel of
         Inl ErrNoPods \<Rightarrow> None | Inl ErrLogs \<Rightarrow> Some '''' | Inr s \<Rightarrow> Some s),
     pod_metrics = Metrics rd, list_backups = ListBackups rd\<rparr>"

end
