(* ===== verification/Controller_Types.thy ===== *)
theory Controller_Types
  imports Calm_Cluster K8s_Reader
begin

text \<open>
  The controller's process (\<open>internal/controller\<close>): its world, its clock, and what becomes of an error
  or a panic in one of its goroutines.

  The world is the cluster's, extended with the processor's \<open>lastScale\<close> map and the wall clock in
  nanoseconds. \<open>delays\<close> lists by how much the clock moves before each of its readings to come.

  The frame lemmas at the end say that no call to the cluster touches the database connection.
\<close>

section \<open>World\<close>

record controller = cluster +
  lastScale :: "int \<Rightarrow> int option"
  clock :: int
  delays :: "nat list"

type_synonym 'y pworld = "'y controller_scheme"

text \<open>A goroutine ends (\<open>Inr\<close>) or panics with a message (\<open>Inl\<close>), which takes the process down.\<close>

type_synonym ('y, 'a) routine = "('y, string + 'a) act"

definition time_Now :: "('y pworld, int) act" where
  "time_Now w = (case delays w of [] \<Rightarrow> (clock w, w)
     | d # ds \<Rightarrow> (clock w + int d, w\<lparr>clock := clock w + int d, delays := ds\<rparr>))"

text \<open>
  \<open>if x, err := m; err != nil { h err } else { k x }\<close> for a call of package \<open>k8s\<close>: a panic inside
  \<open>m\<close> skips both.
\<close>

fun on_error :: "(kerror \<Rightarrow> ('w, string + 'b) act) \<Rightarrow> kerror \<Rightarrow> ('w, string + 'b) act" where
  "on_error h (KPanic p) = ret (Inl p)"
| "on_error h e = h e"

definition calling ::
    "('w, kerror + 'a) act \<Rightarrow> (kerror \<Rightarrow> ('w, string + 'b) act) \<Rightarrow> ('a \<Rightarrow> ('w, string + 'b) act) \<Rightarrow>
       ('w, string + 'b) act" where
  "calling m h k = attempt m (on_error h) k"

abbreviation finish :: "('w, string + unit) act" where
  "finish \<equiv> ret (Inr ())"

text \<open>A loop whose body may panic.\<close>

fun each :: "('a \<Rightarrow> ('w, 'e + unit) act) \<Rightarrow> 'a list \<Rightarrow> ('w, 'e + unit) act" where
  "each f [] = ret (Inr ())"
| "each f (x # xs) = throwing (f x) (\<lambda>_. each f xs)"

context evolution
begin

lemma keeps_calling:
  assumes "keeps view R m" "\<And>e. keeps view R (h e)" "\<And>a. keeps view R (k a)"
  shows "keeps view R (calling m h k)"
proof -
  have "keeps view R (on_error h e)" for e
    by (cases e) (simp_all add: assms keeps_ret)
  then show ?thesis using assms unfolding calling_def by (intro keeps_attempt)
qed

lemma keeps_each: "(\<And>x. keeps view R (f x)) \<Longrightarrow> keeps view R (each f xs)"
  by (induction xs) (auto intro: keeps_ret keeps_throwing)

end

section \<open>Calls of the cluster leave the database alone\<close>

definition pg_frame :: "('y cworld, 'a) act \<Rightarrow> bool" where
  "pg_frame m \<longleftrightarrow> keeps pg.truncate (=) m"

interpretation frame: evolution "pg.truncate :: 'y cworld \<Rightarrow> pg" "(=)"
  by unfold_locales simp_all

lemma pg_frame_combine:
  "pg_frame (ret a)"
  "pg_frame m \<Longrightarrow> (\<And>e. pg_frame (h e)) \<Longrightarrow> (\<And>a. pg_frame (k a)) \<Longrightarrow> pg_frame (attempt m h k)"
  "pg_frame m \<Longrightarrow> (\<And>a. pg_frame (j a)) \<Longrightarrow> pg_frame (throwing m j)"
  "pg_frame n \<Longrightarrow> pg_frame n' \<Longrightarrow> pg_frame (if b then n else n')"
  unfolding pg_frame_def by (intro frame.keeps_rules; assumption)+

lemma pg_frameD: "pg_frame m \<Longrightarrow> m w = (r, w') \<Longrightarrow> pg.truncate w' = pg.truncate w"
  unfolding pg_frame_def by (drule (1) keepsD) simp

lemma truncate_frame:
  assumes "pg.truncate w' = pg.truncate (w :: 'y cworld)"
  shows "tabs w' = tabs w" "bus w' = bus w" "faults w' = faults w" "now w' = now w"
  using assms by (simp_all add: pg.truncate_def)

lemma next_error_truncate: "next_error w = (e, w') \<Longrightarrow> pg.truncate w' = pg.truncate w"
  by (auto simp: next_error_def pg.truncate_def split: list.splits)

lemma kube_frame:
  "pg_frame (kube_apply k x)" "pg_frame (kube_create k x)" "pg_frame (kube_delete k)"
  by (auto simp: pg_frame_def keeps_def kube_apply_def kube_create_def kube_delete_def pg.truncate_def
      dest!: next_error_truncate split: prod.split option.split)

lemma kube_wait_pg_frame: "pg_frame kube_wait"
  by (auto simp: pg_frame_def keeps_def kube_wait_def pg.truncate_def split: list.split)

lemma pg_frame_calls:
  "pg_frame m \<Longrightarrow> pg_frame (map_err f m)" "pg_frame n \<Longrightarrow> pg_frame (ignoreNotFound n)"
  "pg_frame (apply_obj msg k x)" "pg_frame (delete_obj msg k)"
  "pg_frame m' \<Longrightarrow> pg_frame (must_parse rc qs m')"
  unfolding map_err_def ignoreNotFound_def apply_obj_def delete_obj_def must_parse_def
  by (intro pg_frame_combine kube_frame; assumption)+

lemma pg_frame_wait: "pg_frame (bnd kube_wait (\<lambda>ps. ret (f ps)))"
  using kube_wait_pg_frame unfolding pg_frame_def by (intro frame.keeps_bnd frame.keeps_ret)

lemmas pg_frame_rules = pg_frame_combine pg_frame_calls pg_frame_wait kube_frame

lemma workload_parts_frame:
  "pg_frame (ensureNamespace ns)" "pg_frame (applyNamespacePolicies rc ns)"
  "pg_frame (reconcilePullSecret ns creds)" "pg_frame (applyEnvSecret spec)"
  "pg_frame (applyCronJob rc spec)" "pg_frame (reconcileDisk rc spec)" "pg_frame (applyDeployment rc spec)"
  "pg_frame (reconcileAutoscaler spec)" "pg_frame (deleteAutoscaler ns name)" "pg_frame (deletePVC ns name)"
  unfolding ensureNamespace_def applyNamespacePolicies_def applyResourceQuota_def applyLimitRange_def
    applyNetworkPolicy_def reconcilePullSecret_def applyEnvSecret_def applyCronJob_def reconcileDisk_def
    applyDeployment_def reconcileAutoscaler_def deleteAutoscaler_def deletePVC_def Let_def
  by (intro pg_frame_rules)+

lemma route_parts_frame:
  "pg_frame (applyCertificate rc spec)" "pg_frame (applyService spec)" "pg_frame (applyIngressRoute rc spec)"
  "pg_frame (waitForRollout ns name)"
  unfolding applyCertificate_def applyService_def applyIngressRoute_def waitForRollout_def Let_def
  by (intro pg_frame_rules)+

lemma workload_frame:
  "pg_frame (Apply rc spec)" "pg_frame (Delete ns name)" "pg_frame (DeleteNamespace ns)"
  unfolding Apply_def Delete_def DeleteNamespace_def
  by (intro pg_frame_rules workload_parts_frame route_parts_frame)+

lemma PostgresConnectionURI_frame: "pg_frame (PostgresConnectionURI ns name)"
  by (auto simp: pg_frame_def keeps_def PostgresConnectionURI_def dest!: next_error_truncate
      split: prod.split option.split)

lemma database_frame:
  "pg_frame (ProvisionPostgres rc ns name spec)" "pg_frame (ReconcilePgBouncer ns name b)"
  "pg_frame (WaitPostgresReady ns name)" "pg_frame (DeletePostgres ns name)"
  "pg_frame (ProvisionRedis rc ns name storage)" "pg_frame (WaitRedisReady ns name)"
  "pg_frame (DeleteRedis ns name)" "pg_frame (TriggerBackup ns name backup)"
  unfolding ProvisionPostgres_def ReconcilePgBouncer_def WaitPostgresReady_def DeletePostgres_def
    ProvisionRedis_def WaitRedisReady_def DeleteRedis_def TriggerBackup_def applyBackupCreds_def
    applyScheduledBackup_def Let_def
  by (intro pg_frame_rules workload_parts_frame route_parts_frame)+

text \<open>So a call of the cluster respects every relation on the tables.\<close>

lemma pg_frame_evolves: "pg_frame m \<Longrightarrow> keeps tabs db_evolves m"
  unfolding pg_frame_def keeps_def by (metis pg.select_convs(1) pg.truncate_def db_evolves_refl)

end
