(* ===== verification/Controller_Deploys.thy ===== *)
theory Controller_Deploys
  imports Controller_Types
begin

text \<open>
  The deploy half of \<open>internal/controller/processor.go\<close>: bringing a built deploy onto the cluster, and
  tearing down previews, services and namespaces. One action per method, in the order of its calls;
  what a method only logs is left out.
\<close>

section \<open>Reconciling a deploy\<close>

definition servicePort :: int where "servicePort = 8080"

definition deploy_fail :: "int \<Rightarrow> ('y pworld, unit) routine" where
  "deploy_fail deployID = bnd (UpdateDeployStatus deployID StatusFailed) (\<lambda>_. finish)"

definition pullCreds :: "int \<Rightarrow> ('y pworld, registry_cred list) act" where
  "pullCreds orgID = attempt (ListRegistryCredentials orgID) (\<lambda>_. ret [])
     (\<lambda>cs. ret (map (\<lambda>c. \<lparr>rg_registry = rc_registry c, rg_username = rc_username c,
       rg_password = rc_password c\<rparr>) cs))"

definition domainNames :: "int \<Rightarrow> ('y pworld, store_error + string list) act" where
  "domainNames serviceID = throwing (ListCustomDomains serviceID) (\<lambda>ds. ret (Inr (map cd_domain ds)))"

definition envMap :: "env_var list \<Rightarrow> (string \<times> string) list" where
  "envMap vars = foldl (\<lambda>m v. AList.update (e_key v) (e_value v) m) [] vars"

definition deploy_spec ::
    "deploy \<Rightarrow> service \<Rightarrow> int \<Rightarrow> env_var list \<Rightarrow> string list \<Rightarrow> registry_cred list \<Rightarrow> service_spec" where
  "deploy_spec d svc orgID envVars domains creds =
     \<lparr>sp_namespace = NamespaceForOrg orgID,
      sp_name = WorkloadName (sv_slug svc) (d_kind d) (d_pr d),
      sp_type = sv_type svc, sp_image = d_image d, sp_port = servicePort,
      sp_schedule = sv_schedule svc, sp_env = envMap envVars, sp_domains = domains,
      sp_replicas = sv_replicas svc, sp_size = sv_size svc, sp_health = sv_health svc,
      sp_min = sv_min svc, sp_max = sv_max svc, sp_disk_size = sv_disk_size svc,
      sp_disk_path = sv_disk_path svc, sp_pull = creds, sp_suspended = sv_suspended svc\<rparr>"

definition reconcile :: "reconciler \<Rightarrow> int \<Rightarrow> ('y pworld, unit) routine" where
  "reconcile rc deployID =
     attempt (DeployByID deployID) (\<lambda>_. finish) (\<lambda>d.
     if d_image d = '''' then deploy_fail deployID
     else attempt (ServiceByID (d_service d)) (\<lambda>_. deploy_fail deployID) (\<lambda>(svc, orgID).
     attempt (ListEnvVars (d_service d)) (\<lambda>_. deploy_fail deployID) (\<lambda>envVars.
     attempt (if d_kind d = KindProduction then domainNames (d_service d) else ret (Inr []))
       (\<lambda>_. deploy_fail deployID) (\<lambda>domains.
     bnd (pullCreds orgID) (\<lambda>creds.
     calling (Apply rc (deploy_spec d svc orgID envVars domains creds))
       (\<lambda>_. deploy_fail deployID)
       (\<lambda>_. bnd (UpdateDeployStatus deployID StatusLive) (\<lambda>_. finish)))))))"

section \<open>Teardown\<close>

definition parseTeardown :: "string \<Rightarrow> (int \<times> int) option" where
  "parseTeardown payload = (case cut CHR '':'' payload of None \<Rightarrow> None
     | Some (idStr, prStr) \<Rightarrow> (case parse_int idStr of None \<Rightarrow> None
       | Some serviceID \<Rightarrow> (case parse_int prStr of None \<Rightarrow> None
         | Some pr \<Rightarrow> Some (serviceID, pr))))"

definition teardown :: "string \<Rightarrow> ('y pworld, unit) routine" where
  "teardown payload = (case parseTeardown payload of None \<Rightarrow> finish
     | Some (serviceID, pr) \<Rightarrow> attempt (ServiceByID serviceID) (\<lambda>_. finish) (\<lambda>(svc, orgID).
         calling (Delete (NamespaceForOrg orgID) (WorkloadName (sv_slug svc) KindPreview (Some pr)))
           (\<lambda>_. finish) (\<lambda>_. finish)))"

definition resourceTeardown :: "string \<Rightarrow> ('y pworld, unit) routine" where
  "resourceTeardown payload = (case split_n 3 CHR '':'' payload of
      [] \<Rightarrow> finish
    | kind # parts \<Rightarrow>
        if kind = ''ns'' then
          (case parts of [namespace] \<Rightarrow> calling (DeleteNamespace namespace) (\<lambda>_. finish) (\<lambda>_. finish)
           | _ \<Rightarrow> finish)
        else if kind = ''svc'' then
          (case parts of [namespace, slug] \<Rightarrow> calling (Delete namespace slug) (\<lambda>_. finish) (\<lambda>_. finish)
           | _ \<Rightarrow> finish)
        else finish)"

section \<open>The database evolves\<close>

lemma deploy_helpers_evolve [evolves]:
  "keeps tabs db_evolves (deploy_fail i)" "keeps tabs db_evolves (pullCreds i)"
  "keeps tabs db_evolves (domainNames i)"
  unfolding deploy_fail_def pullCreds_def domainNames_def by (intro evo_rules evolves)+

lemma reconcile_evolves [evolves]: "keeps tabs db_evolves (reconcile rc i)"
  unfolding reconcile_def
  by (intro evo_rules evolves evo.keeps_calling pg_frame_evolves workload_frame)

lemma teardown_evolves [evolves]:
  "keeps tabs db_evolves (teardown payload)" "keeps tabs db_evolves (resourceTeardown payload)"
  unfolding teardown_def resourceTeardown_def
  by (intro evo_rules evolves evo.keeps_calling pg_frame_evolves workload_frame; simp)+

end
