(* ===== verification/Controller_Data.thy ===== *)
theory Controller_Data
  imports Controller_Deploys
begin

text \<open>
  The database half of \<open>internal/controller/processor.go\<close>, the database autoscaler
  (\<open>dbautoscaler.go\<close>), the usage sampler (\<open>usagesampler.go\<close>) and the notification loop \<open>Run\<close>.

  A run of the controller is a list of events: notifications, and ticks of the two periodic jobs,
  each with the metrics that can be read at that tick. The events are handled one after the other, as
  if each goroutine ended before the next event.
\<close>

section \<open>Managed databases\<close>

definition provisionEngine ::
    "reconciler \<Rightarrow> database \<Rightarrow> string \<Rightarrow> string \<Rightarrow> ('y, string \<times> string) kop" where
  "provisionEngine rc db namespace cluster =
     (if db_engine db = ''redis'' then
        throwing (ProvisionRedis rc namespace cluster (db_storage db)) (\<lambda>_.
        throwing (WaitRedisReady namespace cluster) (\<lambda>_.
        ret (Inr (RedisConnectionURI namespace cluster, ''''))))
      else
        throwing (ProvisionPostgres rc namespace cluster
          \<lparr>ps_instances = db_instances db, ps_size = db_size db, ps_storage = db_storage db,
           ps_backups = db_backups db\<rparr>) (\<lambda>_.
        throwing (WaitPostgresReady namespace cluster) (\<lambda>_.
        throwing (PostgresConnectionURI namespace cluster) (\<lambda>uri.
        ret (Inr (uri, if db_instances db > 1 then PostgresReadURI uri cluster else ''''))))))"

definition failDatabase :: "int \<Rightarrow> ('y pworld, unit) routine" where
  "failDatabase dbID = bnd (SetDatabaseStatus dbID DBStatusFailed) (\<lambda>_. finish)"

definition reconcileDatabase :: "reconciler \<Rightarrow> int \<Rightarrow> ('y pworld, unit) routine" where
  "reconcileDatabase rc dbID =
     attempt (DatabaseByID dbID) (\<lambda>_. finish) (\<lambda>(db, orgID).
       let namespace = NamespaceForOrg orgID; cluster = DatabaseCluster (db_slug db) in
       calling (provisionEngine rc db namespace cluster) (\<lambda>_. failDatabase dbID) (\<lambda>(uri, readURI).
       calling (if db_engine db = ''postgres''
           then ReconcilePgBouncer namespace cluster (db_pooling db) else ret (Inr ()))
         (\<lambda>_. failDatabase dbID)
       (\<lambda>_. let pooledURI = (if db_engine db = ''postgres'' \<and> db_pooling db
                then PostgresPooledURI uri cluster else '''')
            in bnd (SetDatabaseConnection dbID uri readURI pooledURI) (\<lambda>_. finish))))"

definition teardownDatabase :: "string \<Rightarrow> ('y pworld, unit) routine" where
  "teardownDatabase payload = (case split_on CHR '':'' payload of
      [namespace, cluster, engine] \<Rightarrow>
        calling (if engine = ''redis'' then DeleteRedis namespace cluster else DeletePostgres namespace cluster)
          (\<lambda>_. finish) (\<lambda>_. finish)
    | _ \<Rightarrow> finish)"

definition unix_seconds :: "int \<Rightarrow> int" where
  "unix_seconds nanos = nanos div 1000000000"

definition backupDatabase :: "int \<Rightarrow> ('y pworld, unit) routine" where
  "backupDatabase dbID = attempt (DatabaseByID dbID) (\<lambda>_. finish) (\<lambda>(db, orgID).
     bnd time_Now (\<lambda>t. let cluster = DatabaseCluster (db_slug db) in
     calling (TriggerBackup (NamespaceForOrg orgID) cluster (cluster @ ''-ondemand-'' @ itoa (unix_seconds t)))
       (\<lambda>_. finish) (\<lambda>_. finish)))"

section \<open>The database autoscaler\<close>

definition dbScaleUpPct :: int where "dbScaleUpPct = 70"
definition dbScaleDownPct :: int where "dbScaleDownPct = 30"
definition dbAutoscaleCooldown :: int where "dbAutoscaleCooldown = 60 * 1000000000"

text \<open>
  The average use of the pods in percent of the request: \<open>Inl\<close> is a panic, \<open>None\<close> is \<open>false\<close>.
\<close>

definition clusterCPUUtilization ::
    "reconciler \<Rightarrow> raw_reader \<Rightarrow> string \<Rightarrow> string \<Rightarrow> string \<Rightarrow> string + int option" where
  "clusterCPUUtilization rc rd namespace cluster sz =
     (case Metrics rd namespace (''cnpg.io/cluster='' @ cluster) of
        None \<Rightarrow> Inr None
      | Some metrics \<Rightarrow> if metrics = [] then Inr None
          else (case rc_quantity rc (CPURequest (instance_Get sz)) of
              None \<Rightarrow> Inl ''cannot parse quantity''
            | Some requestMilli \<Rightarrow> if requestMilli = 0 then Inr None
                else (let total = foldl (\<lambda>acc m. wrap64 (acc + pm_cpu m)) 0 metrics;
                          avg = go_div total (int (length metrics))
                      in Inr (Some (go_div (wrap64 (avg * 100)) requestMilli)))))"

definition desired_instances :: "int \<Rightarrow> database \<Rightarrow> int" where
  "desired_instances util db =
     (if util > dbScaleUpPct \<and> db_instances db < db_max db then db_instances db + 1
      else if util < dbScaleDownPct \<and> db_instances db > db_min db then db_instances db - 1
      else db_instances db)"

definition cooldownElapsed :: "int \<Rightarrow> ('y pworld, bool) act" where
  "cooldownElapsed dbID w = (case lastScale w dbID of
      None \<Rightarrow> (True, w)
    | Some prev \<Rightarrow> (case time_Now w of (t, w') \<Rightarrow> (t - prev \<ge> dbAutoscaleCooldown, w')))"

definition markScaled :: "int \<Rightarrow> ('y pworld, unit) act" where
  "markScaled dbID w = (case time_Now w of (t, w') \<Rightarrow> ((), w'\<lparr>lastScale := (lastScale w')(dbID \<mapsto> t)\<rparr>))"

definition autoscaleOne :: "reconciler \<Rightarrow> raw_reader \<Rightarrow> database \<times> int \<Rightarrow> ('y pworld, unit) routine" where
  "autoscaleOne rc rd = (\<lambda>(db, orgID).
     let namespace = NamespaceForOrg orgID; cluster = DatabaseCluster (db_slug db) in
     case clusterCPUUtilization rc rd namespace cluster (db_size db) of
       Inl p \<Rightarrow> ret (Inl p)
     | Inr None \<Rightarrow> finish
     | Inr (Some util) \<Rightarrow> let desired = desired_instances util db in
         if desired = db_instances db then finish
         else bnd (cooldownElapsed (db_id db)) (\<lambda>elapsed.
           if \<not> elapsed then finish
           else calling (ProvisionPostgres rc namespace cluster
               \<lparr>ps_instances = desired, ps_size = db_size db, ps_storage = db_storage db, ps_backups = False\<rparr>)
             (\<lambda>_. finish)
             (\<lambda>_. attempt (SetDatabaseInstances (db_id db) desired) (\<lambda>_. finish)
               (\<lambda>_. bnd (markScaled (db_id db)) (\<lambda>_. finish)))))"

definition autoscaleDatabases :: "reconciler \<Rightarrow> raw_reader \<Rightarrow> ('y pworld, unit) routine" where
  "autoscaleDatabases rc rd = attempt ListAutoscaleDatabases (\<lambda>_. finish) (each (autoscaleOne rc rd))"

section \<open>The usage sampler\<close>

definition sampleService :: "raw_reader \<Rightarrow> metered_service \<Rightarrow> ('y pworld, unit) routine" where
  "sampleService rd svc =
     (case Metrics rd (NamespaceForOrg (ms_org svc)) (''app.kubernetes.io/name='' @ ms_slug svc) of
        None \<Rightarrow> finish
      | Some metrics \<Rightarrow> if metrics = [] then finish
          else bnd (InsertUsageSample (ms_service svc)
              (foldl (\<lambda>cpu m. wrap64 (cpu + pm_cpu m)) 0 metrics)
              (foldl (\<lambda>mem m. wrap64 (mem + pm_memory m)) 0 metrics)) (\<lambda>_. finish))"

definition sampleUsage :: "raw_reader \<Rightarrow> ('y pworld, unit) routine" where
  "sampleUsage rd = attempt ServicesForMetering (\<lambda>_. finish) (each (sampleService rd))"

section \<open>The controller's loop\<close>

definition with_id :: "string \<Rightarrow> (int \<Rightarrow> ('y pworld, unit) routine) \<Rightarrow> ('y pworld, unit) routine" where
  "with_id payload h = (case parse_int payload of None \<Rightarrow> finish | Some i \<Rightarrow> h i)"

definition on_notification :: "reconciler \<Rightarrow> string \<Rightarrow> string \<Rightarrow> ('y pworld, unit) routine" where
  "on_notification rc channel payload =
     (if channel = DeploymentChannel then with_id payload (reconcile rc)
      else if channel = TeardownChannel then teardown payload
      else if channel = ResourceTeardownChannel then resourceTeardown payload
      else if channel = DatabaseChannel then with_id payload (reconcileDatabase rc)
      else if channel = DatabaseTeardownChannel then teardownDatabase payload
      else if channel = DatabaseBackupChannel then with_id payload backupDatabase
      else finish)"

datatype event = Notified string string | AutoscaleTick raw_reader | SampleTick raw_reader

fun on_event :: "reconciler \<Rightarrow> event \<Rightarrow> ('y pworld, unit) routine" where
  "on_event rc (Notified channel payload) = on_notification rc channel payload"
| "on_event rc (AutoscaleTick rd) = autoscaleDatabases rc rd"
| "on_event rc (SampleTick rd) = sampleUsage rd"

definition controller_run :: "reconciler \<Rightarrow> event list \<Rightarrow> ('y pworld, unit) routine" where
  "controller_run rc = each (on_event rc)"

section \<open>The database evolves\<close>

lemma provisionEngine_frame: "pg_frame (provisionEngine rc db ns cluster)"
  unfolding provisionEngine_def by (intro pg_frame_rules database_frame PostgresConnectionURI_frame)

lemma clock_evolves [evolves]:
  "keeps tabs db_evolves time_Now" "keeps tabs db_evolves (cooldownElapsed i)" "keeps tabs db_evolves (markScaled i)"
  by (auto simp: keeps_def time_Now_def cooldownElapsed_def markScaled_def split: list.split option.split)

lemma database_routines_evolve [evolves]:
  "keeps tabs db_evolves (failDatabase i)" "keeps tabs db_evolves (reconcileDatabase rc i)"
  "keeps tabs db_evolves (teardownDatabase payload)" "keeps tabs db_evolves (backupDatabase i)"
  unfolding failDatabase_def reconcileDatabase_def teardownDatabase_def backupDatabase_def
  by (intro evo_rules evolves evo.keeps_calling pg_frame_evolves provisionEngine_frame database_frame pg_frame_combine)+

lemma periodic_evolve [evolves]:
  "keeps tabs db_evolves (autoscaleOne rc rd x)" "keeps tabs db_evolves (autoscaleDatabases rc rd)"
  "keeps tabs db_evolves (sampleService rd svc)" "keeps tabs db_evolves (sampleUsage rd)"
  unfolding autoscaleDatabases_def sampleUsage_def autoscaleOne_def sampleService_def
  by (intro evo_rules evolves evo.keeps_calling evo.keeps_each pg_frame_evolves database_frame)+

lemma on_event_evolves [evolves]: "keeps tabs db_evolves (on_event rc e)"
  by (cases e) (auto simp: on_notification_def with_id_def intro!: evo_rules evolves)

end
