(* ===== verification/Controller_Scale.thy ===== *)
theory Controller_Scale
  imports Controller_Databases
begin

text \<open>
  What the database autoscaler of \<open>internal/controller/dbautoscaler.go\<close> may do: one instance at a
  time, for the reason the thresholds give, not within the cooldown, and never out of the bounds of the
  database; and what it does wrong.
\<close>

section \<open>One database\<close>

lemma time_Now_cases: "time_Now w = (t, w') \<Longrightarrow> clock w' = t \<and> clock w \<le> t \<and> lastScale w' = lastScale w \<and>
    cluster.truncate w' = cluster.truncate w"
  by (auto simp: time_Now_def cluster.truncate_def split: list.splits)

lemma cooldownElapsed_cases:
  assumes "cooldownElapsed i w = (b, w')"
  shows "lastScale w' = lastScale w" "cluster.truncate w' = cluster.truncate w"
    "b \<Longrightarrow> lastScale w i = Some t0 \<Longrightarrow> clock w' - t0 \<ge> dbAutoscaleCooldown"
  using assms by (auto simp: cooldownElapsed_def split: option.splits prod.splits
      dest!: time_Now_cases)

definition timer :: "'y pworld \<Rightarrow> (int \<Rightarrow> int option) \<times> int \<times> nat list" where
  "timer w = (lastScale w, clock w, delays w)"

interpretation timer: evolution "timer :: 'y pworld \<Rightarrow> _" "(=)"
  by unfold_locales simp_all

lemma timer_simps [simp]: "timer (w\<lparr>cl_objects := s\<rparr>) = timer w" "timer (w\<lparr>cl_errors := e\<rparr>) = timer w"
  "timer (w\<lparr>tabs := t\<rparr>) = timer w" "timer (w\<lparr>faults := f\<rparr>) = timer w"
  by (simp_all add: timer_def)

lemma apply_obj_timer: "keeps timer (=) (apply_obj msg k x)"
proof -
  have "keeps timer (=) (kube_apply k x)"
    by (auto simp: keeps_def kube_apply_def next_error_def split: prod.splits option.splits list.splits)
  then show ?thesis unfolding apply_obj_def map_err_def by (intro timer.keeps_rules)
qed

lemma ProvisionPostgres_timer: "keeps timer (=) (ProvisionPostgres rc ns name spec)"
  unfolding ProvisionPostgres_def ensureNamespace_def applyNamespacePolicies_def applyResourceQuota_def
    applyLimitRange_def applyNetworkPolicy_def applyBackupCreds_def applyScheduledBackup_def must_parse_def
  by (intro timer.keeps_rules apply_obj_timer)

lemma pg_exec_timer: "keeps timer (=) (pg_exec f)"
  by (auto simp: keeps_def pg_exec_def next_fault_def split: prod.split sum.split list.split bool.split)

lemma pg_exec_objects: "keeps cl_objects (=) (pg_exec f)"
  by (auto simp: keeps_def pg_exec_def next_fault_def split: prod.split sum.split list.split bool.split)

definition scaled_spec :: "database \<Rightarrow> int \<Rightarrow> postgres_spec" where
  "scaled_spec db n = \<lparr>ps_instances = n, ps_size = db_size db, ps_storage = db_storage db, ps_backups = False\<rparr>"

text \<open>The states between which a database is rescaled to \<open>n\<close> instances.\<close>

definition rescaled :: "reconciler \<Rightarrow> raw_reader \<Rightarrow> database \<Rightarrow> int \<Rightarrow> int \<Rightarrow> 'y pworld \<Rightarrow> 'y pworld \<Rightarrow> bool" where
  "rescaled rc rd db orgID n w w' \<longleftrightarrow>
     (let ns = NamespaceForOrg orgID; cluster = DatabaseCluster (db_slug db) in
      (\<exists>util. clusterCPUUtilization rc rd ns cluster (db_size db) = Inr (Some util) \<and>
        (util > 70 \<and> n = db_instances db + 1 \<and> n \<le> db_max db \<or>
         util < 30 \<and> n = db_instances db - 1 \<and> db_min db \<le> n)) \<and>
      tabs w' = upd_database (db_id db) (\<lambda>d. d\<lparr>db_instances := n\<rparr>) (tabs w) \<and>
      lastScale w' = (lastScale w)(db_id db \<mapsto> clock w') \<and>
      (case lastScale w (db_id db) of None \<Rightarrow> True | Some t0 \<Rightarrow> clock w' - t0 \<ge> 60 * 1000000000) \<and>
      cl_objects w' = override (cl_objects w) (plan_desired (postgres_plan rc ns cluster (scaled_spec db n))))"

lemma cluster_truncate_frame:
  assumes "cluster.truncate w' = cluster.truncate (w :: 'y pworld)"
  shows "tabs w' = tabs w" "faults w' = faults w" "cl_objects w' = cl_objects w"
  using assms by (simp_all add: cluster.truncate_def)

lemma desired_instances_cases:
  "desired_instances util db \<noteq> db_instances db \<Longrightarrow>
     util > 70 \<and> desired_instances util db = db_instances db + 1 \<and> desired_instances util db \<le> db_max db \<or>
     util < 30 \<and> desired_instances util db = db_instances db - 1 \<and> db_min db \<le> desired_instances util db"
  by (auto simp: desired_instances_def dbScaleUpPct_def dbScaleDownPct_def split: if_splits)

lemma autoscaleOne_cases:
  fixes w :: "'y pworld"
  assumes "autoscaleOne rc rd (db, orgID) w = (r, w')"
  shows "(tabs w' = tabs w \<and> lastScale w' = lastScale w) \<or> (r = Inr () \<and> (\<exists>n. rescaled rc rd db orgID n w w'))"
proof -
  let ?ns = "NamespaceForOrg orgID" and ?c = "DatabaseCluster (db_slug db)"
  let ?u = "clusterCPUUtilization rc rd ?ns ?c (db_size db)"
  show ?thesis
  proof (cases "\<exists>util. ?u = Inr (Some util) \<and> desired_instances util db \<noteq> db_instances db")
    case False
    then have "w' = w" using assms
      by (auto simp: autoscaleOne_def Let_def ret_def split: sum.splits option.splits if_splits)
    then show ?thesis by simp
  next
    case True
    then obtain util where u: "?u = Inr (Some util)" "desired_instances util db \<noteq> db_instances db" by blast
    let ?n = "desired_instances util db"
    obtain b w1 where 1: "cooldownElapsed (db_id db) w = (b, w1)" by fastforce
    note c1 = cooldownElapsed_cases [OF 1] and t1 = cluster_truncate_frame [OF cooldownElapsed_cases(2) [OF 1]]
    obtain q w2 where 2: "ProvisionPostgres rc ?ns ?c (scaled_spec db ?n) w1 = (q, w2)" by fastforce
    note f2 = truncate_frame [OF pg_frameD [OF database_frame(1) 2]]
    have l2: "lastScale w2 = lastScale w1" "clock w2 = clock w1"
      using keepsD [OF ProvisionPostgres_timer 2] by (simp_all add: timer_def)
    obtain q3 w3 where 3: "SetDatabaseInstances (db_id db) ?n w2 = (q3, w3)" by fastforce
    have l3: "lastScale w3 = lastScale w2" "clock w3 = clock w2"
      using keepsD [OF pg_exec_timer 3 [unfolded SetDatabaseInstances_def]] by (simp_all add: timer_def)
    obtain t w4 where 4: "time_Now w3 = (t, w4)" by fastforce
    note c4 = time_Now_cases [OF 4]
    have run: "autoscaleOne rc rd (db, orgID) w = (if \<not> b then (Inr (), w1) else
        calling (ProvisionPostgres rc ?ns ?c (scaled_spec db ?n)) (\<lambda>_. finish)
          (\<lambda>_. attempt (SetDatabaseInstances (db_id db) ?n) (\<lambda>_. finish)
             (\<lambda>_. bnd (markScaled (db_id db)) (\<lambda>_. finish))) w1)"
      by (simp add: autoscaleOne_def Let_def u bnd_def [of "cooldownElapsed _"] 1 ret_def scaled_spec_def)
    show ?thesis
    proof (cases "b \<and> \<not> isl q \<and> \<not> isl q3")
      case True
      then obtain u1 u3 where b: "b" "q = Inr u1" "q3 = Inr u3" by (metis sum.collapse(2))
      have "w' = w4\<lparr>lastScale := (lastScale w4)(db_id db \<mapsto> t)\<rparr>" "r = Inr ()"
        using assms unfolding run
        by (simp_all add: b 2 3 [unfolded b] calling_def attempt_def bnd_def markScaled_def 4 ret_def)
      moreover have "tabs w3 = upd_database (db_id db) (\<lambda>d. d\<lparr>db_instances := ?n\<rparr>) (tabs w2)"
        using pg_exec_cases [OF 3 [unfolded SetDatabaseInstances_def]] by (auto simp: b)
      moreover have "cl_objects w3 = cl_objects w2"
        using keepsD [OF pg_exec_objects 3 [unfolded SetDatabaseInstances_def]] by simp
      moreover have "cl_objects w2 = override (cl_objects w) (plan_desired (postgres_plan rc ?ns ?c (scaled_spec db ?n)))"
        using writesD [OF ProvisionPostgres_desired 2 [unfolded b]] by (simp add: t1)
      ultimately have "rescaled rc rd db orgID ?n w w'"
        using u c1 t1 f2 l2 l3 c4 b cluster_truncate_frame [OF conjunct2 [OF conjunct2 [OF conjunct2 [OF c4]]]]
          desired_instances_cases [OF u(2)]
        by (auto simp: rescaled_def Let_def dbAutoscaleCooldown_def split: option.split)
      then show ?thesis using \<open>r = Inr ()\<close> by blast
    next
      case False
      have "tabs w' = tabs w \<and> lastScale w' = lastScale w"
      proof (cases "b \<and> \<not> isl q")
        case True
        then obtain u1 e3 where b: "b" "q = Inr u1" "q3 = Inl e3" using False by (metis isl_def sum.collapse(2))
        have "tabs w3 = tabs w2" using pg_exec_cases [OF 3 [unfolded SetDatabaseInstances_def]] by (auto simp: b)
        then show ?thesis using assms c1 t1 f2 l2 l3 unfolding run
          by (simp add: b 2 3 [unfolded b] calling_def attempt_def ret_def)
      next
        case False
        then consider "\<not> b" | e where "b" "q = Inl e" by (auto simp: isl_def)
        then show ?thesis
        proof cases
          case (2 e)
          then show ?thesis using assms c1 t1 f2 l2 \<open>ProvisionPostgres rc ?ns ?c (scaled_spec db ?n) w1 = (q, w2)\<close>
            unfolding run by (cases e) (simp_all add: calling_def attempt_def ret_def)
        qed (use assms c1 t1 in \<open>simp add: run\<close>)
      qed
      then show ?thesis by blast
    qed
  qed
qed

text \<open>C33.
  One step of the autoscaler: a database is left alone, or it is rescaled by one instance: up only when
  its pods use more than 70 percent of their request and it is below its maximum, down only when they
  use less than 30 and it is above its minimum; never within 60 seconds of its last rescaling, whose
  time is then recorded; and no other row, and no object but the cluster's, is touched.\<close>

theorem autoscaler_step:
  "case autoscaleOne rc rd (db, orgID) w of (r, w') \<Rightarrow>
     (tabs w' = tabs w \<and> lastScale w' = lastScale w) \<or> (r = Inr () \<and> (\<exists>n. rescaled rc rd db orgID n w w'))"
proof -
  obtain r w' where run: "autoscaleOne rc rd (db, orgID) w = (r, w')" by fastforce
  show ?thesis using autoscaleOne_cases [OF run] by (simp add: run)
qed

section \<open>Bounds\<close>

definition within_bounds :: "database \<Rightarrow> bool" where
  "within_bounds d \<longleftrightarrow> db_min d \<le> db_instances d \<and> db_instances d \<le> db_max d"

text \<open>The databases are the same, with the same bounds, and none has left them.\<close>

definition bounds_kept :: "tables \<Rightarrow> tables \<Rightarrow> bool" where
  "bounds_kept t t' \<longleftrightarrow> list_all2 (\<lambda>d d'. db_id d' = db_id d \<and> db_min d' = db_min d \<and> db_max d' = db_max d \<and>
     (within_bounds d \<longrightarrow> within_bounds d')) (databases t) (databases t')"

lemma bounds_kept_refl: "bounds_kept t t"
  by (simp add: bounds_kept_def list_all2_same)

lemma bounds_kept_trans: "bounds_kept t u \<Longrightarrow> bounds_kept u v \<Longrightarrow> bounds_kept t v"
  unfolding bounds_kept_def by (erule (1) list_all2_trans [rotated]) auto

interpretation bnds: table_evolution bounds_kept
  by unfold_locales (rule bounds_kept_refl, rule bounds_kept_trans)

lemma bounds_kept_update:
  assumes "\<And>d. db_id (f d) = db_id d \<and> db_min (f d) = db_min d \<and> db_max (f d) = db_max d"
    and "\<And>d. d \<in> set (databases t) \<Longrightarrow> db_id d = i \<Longrightarrow> within_bounds d \<Longrightarrow> within_bounds (f d)"
  shows "bounds_kept t (upd_database i f t)"
  using assms by (auto simp: bounds_kept_def upd_database_def sql_update_def list_all2_conv_all_nth)

lemma same_databases: "databases t' = databases t \<Longrightarrow> bounds_kept t t'"
  by (simp add: bounds_kept_def list_all2_same)

lemma bounds_ids: "bounds_kept t t' \<Longrightarrow> map db_id (databases t') = map db_id (databases t)"
  unfolding bounds_kept_def by (induction rule: list_all2_induct) auto

named_theorems bounded \<open>actions that respect \<open>bounds_kept\<close>\<close>

lemma exec_bounded: "(\<And>n t a t'. f n t = Inr (a, t') \<Longrightarrow> databases t' = databases t) \<Longrightarrow> keeps tabs bounds_kept (pg_exec f)"
  by (rule bnds.keeps_exec) (metis same_databases)

lemma frame_bounded: "pg_frame m \<Longrightarrow> keeps tabs bounds_kept m"
  unfolding pg_frame_def keeps_def by (metis pg.select_convs(1) pg.truncate_def bounds_kept_refl)

lemma reads_bounded [bounded]:
  "keeps tabs bounds_kept (DeployByID i)" "keeps tabs bounds_kept (ServiceByID i)"
  "keeps tabs bounds_kept (ListEnvVars i)" "keeps tabs bounds_kept (ListCustomDomains i)"
  "keeps tabs bounds_kept (ListRegistryCredentials i)" "keeps tabs bounds_kept (DatabaseByID i)"
  "keeps tabs bounds_kept ListAutoscaleDatabases" "keeps tabs bounds_kept ServicesForMetering"
  unfolding DeployByID_def ServiceByID_def ListEnvVars_def ListCustomDomains_def ListRegistryCredentials_def
    DatabaseByID_def ListAutoscaleDatabases_def ServicesForMetering_def
  by (rule bnds.keeps_read)+

lemma set_status_databases: "set_status i st n t = Inr (d, t') \<Longrightarrow> databases t' = databases t"
  by (auto simp: set_status_def upd_deploy_def split: option.splits)

lemma ins_usage_databases: "ins_usage i c m n t = Inr (a, t') \<Longrightarrow> databases t' = databases t"
  by (auto simp: ins_usage_def nextval_def Let_def split: if_splits)

lemma writes_bounded [bounded]:
  "keeps tabs bounds_kept (UpdateDeployStatus i st)" "keeps tabs bounds_kept (InsertUsageSample i c m)"
  "keeps tabs bounds_kept (SetDatabaseStatus i s)" "keeps tabs bounds_kept (SetDatabaseConnection i u r p)"
proof -
  show "keeps tabs bounds_kept (UpdateDeployStatus i st)" unfolding UpdateDeployStatus_def
    by (intro bnds.keeps_db_rules bounded exec_bounded set_status_databases)
  show "keeps tabs bounds_kept (InsertUsageSample i c m)" unfolding InsertUsageSample_def
    by (intro exec_bounded ins_usage_databases)
qed (auto simp: SetDatabaseStatus_def SetDatabaseConnection_def within_bounds_def
      intro!: bnds.keeps_exec bounds_kept_update)

lemma routines_bounded [bounded]:
  "keeps tabs bounds_kept (reconcile rc i)" "keeps tabs bounds_kept (teardown payload)"
  "keeps tabs bounds_kept (resourceTeardown payload)" "keeps tabs bounds_kept (reconcileDatabase rc i)"
  "keeps tabs bounds_kept (teardownDatabase payload)" "keeps tabs bounds_kept (backupDatabase i)"
  "keeps tabs bounds_kept (sampleUsage rd)"
proof -
  have c: "keeps tabs bounds_kept (time_Now :: ('y pworld, int) act)"
    by (auto simp: keeps_def time_Now_def bounds_kept_refl split: list.split)
  show "keeps tabs bounds_kept (backupDatabase i)" unfolding backupDatabase_def
    by (intro bnds.keeps_db_rules bnds.keeps_calling bounded c frame_bounded database_frame)
  show "keeps tabs bounds_kept (reconcile rc i)"
    unfolding reconcile_def deploy_fail_def pullCreds_def domainNames_def
    by (intro bnds.keeps_db_rules bnds.keeps_calling bounded frame_bounded workload_frame)
  show "keeps tabs bounds_kept (reconcileDatabase rc i)"
    unfolding reconcileDatabase_def failDatabase_def
    by (intro bnds.keeps_db_rules bnds.keeps_calling bounded frame_bounded provisionEngine_frame
        database_frame pg_frame_combine)
qed (unfold teardown_def resourceTeardown_def teardownDatabase_def sampleUsage_def sampleService_def,
  (intro bnds.keeps_db_rules bnds.keeps_calling bnds.keeps_each bounded frame_bounded workload_frame
    database_frame pg_frame_combine)+)

text \<open>
  The loop of a tick works on rows read at its start: the bounds it goes by are those of the table
  then, and stay so.
\<close>

lemma autoscale_row_bounds:
  "(db, orgID) \<in> set (autoscale_row t d) \<Longrightarrow> db_id db = db_id d \<and> db_min db = db_min d \<and> db_max db = db_max d \<and>
     db_instances db = db_instances d"
  by (auto simp: autoscale_row_def)

lemma autoscaleOne_bounded:
  fixes w :: "'y pworld"
  assumes "distinct (map db_id (databases t))" "d \<in> set (databases t)" "(db, orgID) \<in> set (autoscale_row t d)"
    and "bounds_kept t (tabs w)" "autoscaleOne rc rd (db, orgID) w = (r, w')"
  shows "bounds_kept t (tabs w')"
proof -
  note b = autoscale_row_bounds [OF assms(3)]
  consider "tabs w' = tabs w" | n where "rescaled rc rd db orgID n w w'"
    using autoscaleOne_cases [OF assms(5)] by blast
  then show ?thesis
  proof cases
    case (2 n)
    then have t: "tabs w' = upd_database (db_id db) (\<lambda>d. d\<lparr>db_instances := n\<rparr>) (tabs w)"
      and n: "n = db_instances db + 1 \<and> n \<le> db_max db \<or> n = db_instances db - 1 \<and> db_min db \<le> n"
      by (auto simp: rescaled_def Let_def)
    show ?thesis unfolding bounds_kept_def list_all2_conv_all_nth
    proof (intro conjI allI impI)
      show l: "length (databases t) = length (databases (tabs w'))"
        using assms(4) by (simp add: bounds_kept_def t upd_database_def sql_update_def list_all2_lengthD)
      fix j assume j: "j < length (databases t)"
      let ?d = "databases t ! j" and ?e = "databases (tabs w) ! j"
      have e: "db_id ?e = db_id ?d" "db_min ?e = db_min ?d" "db_max ?e = db_max ?d" "within_bounds ?d \<longrightarrow> within_bounds ?e"
        using assms(4) j by (auto simp: bounds_kept_def list_all2_conv_all_nth)
      have f: "databases (tabs w') ! j = (if db_id ?e = db_id db then ?e\<lparr>db_instances := n\<rparr> else ?e)"
        using j l by (simp add: t upd_database_def sql_update_def)
      have same: "?d = d" if "db_id ?d = db_id db"
        using assms(1,2) b that j by (metis distinct_map inj_onD nth_mem)
      show "db_id (databases (tabs w') ! j) = db_id ?d" "db_min (databases (tabs w') ! j) = db_min ?d"
        "db_max (databases (tabs w') ! j) = db_max ?d"
        using e f by simp_all
      assume wb: "within_bounds ?d"
      show "within_bounds (databases (tabs w') ! j)"
      proof (cases "db_id ?d = db_id db")
        case True
        have "databases (tabs w') ! j = ?e\<lparr>db_instances := n\<rparr>" using f e(1) True by simp
        moreover have "db_min db \<le> db_instances db" "db_instances db \<le> db_max db"
          using wb same [OF True] b by (simp_all add: within_bounds_def)
        then have "db_min db \<le> n \<and> n \<le> db_max db" using n by auto
        then have "db_min ?e \<le> n" "n \<le> db_max ?e" using e(2,3) b same [OF True] by simp_all
        ultimately show ?thesis by (simp add: within_bounds_def)
      next
        case False
        then show ?thesis using f e(1,4) wb by simp
      qed
    qed
  qed (use assms(4) in simp)
qed

lemma autoscale_loop_bounded:
  fixes w :: "'y pworld"
  assumes "distinct (map db_id (databases t))"
    and "\<forall>x \<in> set dbs. \<exists>d \<in> set (databases t). x \<in> set (autoscale_row t d)"
    and "bounds_kept t (tabs w)" "each (autoscaleOne rc rd) dbs w = (r, w')"
  shows "bounds_kept t (tabs w')"
  using assms(2-4)
proof (induction dbs arbitrary: w)
  case Nil
  then show ?case by (simp add: ret_def)
next
  case (Cons x dbs)
  obtain db orgID where x: "x = (db, orgID)" by fastforce
  then obtain d where d: "d \<in> set (databases t)" "(db, orgID) \<in> set (autoscale_row t d)"
    using Cons.prems(1) by auto
  obtain q w1 where 1: "autoscaleOne rc rd (db, orgID) w = (q, w1)" by fastforce
  note b = autoscaleOne_bounded [OF assms(1) d Cons.prems(2) 1]
  show ?case
  proof (cases q)
    case (Inl e)
    then show ?thesis using Cons.prems(3) 1 b by (simp add: x throwing_def attempt_def ret_def)
  next
    case (Inr u)
    then show ?thesis using Cons.IH [OF _ b] Cons.prems 1 by (simp add: x throwing_def attempt_def)
  qed
qed

lemma autoscaleDatabases_bounded:
  fixes w :: "'y pworld"
  assumes "distinct (map db_id (databases (tabs w)))" "autoscaleDatabases rc rd w = (r, w')"
  shows "bounds_kept (tabs w) (tabs w')"
proof -
  obtain q w1 where 1: "(ListAutoscaleDatabases :: ('y pworld, store_error + (database \<times> int) list) act) w = (q, w1)"
    by fastforce
  note f = pg_read_frame [OF 1 [unfolded ListAutoscaleDatabases_def]]
  show ?thesis
  proof (cases q)
    case (Inl e)
    then show ?thesis using assms(2) 1 f(1) by (simp add: autoscaleDatabases_def attempt_def ret_def bounds_kept_refl)
  next
    case (Inr dbs)
    have "\<forall>x \<in> set dbs. \<exists>d \<in> set (databases (tabs w)). x \<in> set (autoscale_row (tabs w) d)"
      using f(4) Inr by auto
    moreover have "each (autoscaleOne rc rd) dbs w1 = (r, w')"
      using assms(2) 1 Inr by (simp add: autoscaleDatabases_def attempt_def)
    ultimately show ?thesis
      using autoscale_loop_bounded [OF assms(1), of dbs w1 rc rd r w'] f(1) by (simp add: bounds_kept_refl)
  qed
qed

lemma on_event_bounded:
  fixes w :: "'y pworld"
  assumes "distinct (map db_id (databases (tabs w)))"
  shows "bounds_kept (tabs w) (tabs (snd (on_event rc e w)))"
proof (cases e)
  case (AutoscaleTick rd)
  then show ?thesis using autoscaleDatabases_bounded [OF assms prod.collapse [symmetric]] by simp
next
  case (Notified c p)
  have "keeps tabs bounds_kept (on_notification rc c p :: ('y pworld, string + unit) act)"
    unfolding on_notification_def with_id_def by (intro bnds.keeps_db_rules bounded)
  then show ?thesis using Notified by (simp add: keeps_def)
next
  case (SampleTick rd)
  then show ?thesis using keepsD [OF routines_bounded(7) prod.collapse [symmetric], of w rd] by simp
qed

lemma run_bounded:
  fixes w :: "'y pworld"
  assumes "distinct (map db_id (databases (tabs w)))"
  shows "bounds_kept (tabs w) (tabs (snd (controller_run rc events w)))"
  using assms
proof (induction events arbitrary: w)
  case (Cons e events)
  obtain q w1 where 1: "on_event rc e w = (q, w1)" by fastforce
  have b: "bounds_kept (tabs w) (tabs w1)" using on_event_bounded [OF Cons.prems, of rc e] by (simp add: 1)
  then have "distinct (map db_id (databases (tabs w1)))" using Cons.prems by (simp add: bounds_ids)
  from bounds_kept_trans [OF b Cons.IH [OF this]] show ?case using b
    by (cases q) (simp_all add: controller_run_def throwing_def attempt_def ret_def 1)
qed (simp add: controller_run_def ret_def bounds_kept_refl)

text \<open>C32.
  The controller never takes a database out of its bounds: over any run, whatever fails, whatever the
  metrics say and whatever is notified, every database keeps its minimum and maximum, and one whose
  instances are between them stays there.\<close>

theorem controller_keeps_bounds:
  assumes "schema_ok (tabs w)"
  shows "list_all2 (\<lambda>d d'. db_id d' = db_id d \<and> db_min d' = db_min d \<and> db_max d' = db_max d \<and>
      (\<not> within_bounds d \<or> within_bounds d'))
    (databases (tabs w)) (databases (tabs (snd (controller_run rc events w))))"
proof -
  have "keyed db_id (seqs (tabs w) SDatabases) (databases (tabs w))" using assms by (simp add: schema_defs)
  then have "distinct (map db_id (databases (tabs w)))" by (simp add: keyed_def)
  from run_bounded [OF this] show ?thesis unfolding bounds_kept_def imp_conv_disj .
qed

text \<open>A tick at which the pods of the demonstration database use all they requested.\<close>

definition demo_metrics :: raw_reader where
  "demo_metrics = \<lparr>raw_pods = (\<lambda>_ _. Some []), raw_metrics = (\<lambda>_ _. Some [\<lparr>rm_pod = ''p'', rm_containers = [(50, 1)]\<rparr>]),
     raw_backups = (\<lambda>_. Some []), raw_logs = (\<lambda>_ _. None)\<rparr>"

definition demo_ready_world :: controller where
  "demo_ready_world = demo_db_world\<lparr>tabs := demo_tables\<lparr>databases := [demo_database\<lparr>db_status := ''ready''\<rparr>]\<rparr>\<rparr>"

theorem controller_keeps_bounds_witness:
  "\<exists>d. databases (tabs (snd (controller_run demo_reconciler [AutoscaleTick demo_metrics] demo_ready_world))) = [d] \<and>
     db_instances d = 3 \<and> within_bounds d"
proof -
  let ?R = "controller_run demo_reconciler [AutoscaleTick demo_metrics] demo_ready_world"
  have n: "map db_instances (databases (tabs (snd ?R))) = [3]" by code_simp
  then obtain d where d: "databases (tabs (snd ?R)) = [d]" "db_instances d = 3" by auto
  have ok: "schema_ok (tabs demo_ready_world)"
    by (simp add: demo_ready_world_def demo_db_world_def demo_controller_def demo_database_def schema_defs
        demo_tables_def demo_service_def demo_deploy_def empty_tables_def keyed_def uniq_def refs_def)
  have "databases (tabs demo_ready_world) = [demo_database\<lparr>db_status := ''ready''\<rparr>]"
    by (simp add: demo_ready_world_def)
  then have "within_bounds d"
    using controller_keeps_bounds [OF ok, of demo_reconciler "[AutoscaleTick demo_metrics]"] d
    by (simp add: within_bounds_def demo_database_def)
  then show ?thesis using d by blast
qed

section \<open>A defect\<close>

text \<open>C35.
  Rescaling switches a database's backups off: the autoscaler applies the cluster from a row without
  the backup flag, so after it has rescaled a database the cluster's configuration has no object
  store, where the reconciliation of the same row configures one.\<close>

theorem autoscaler_drops_backups:
  assumes "autoscaleOne rc rd (db, orgID) w = (r, w')" "tabs w' \<noteq> tabs w"
    and "db_backups row" "BackupsEnabled rc" "db_slug row = db_slug db"
  shows "\<exists>n bm. cl_objects w' (KCluster, NamespaceForOrg orgID, DatabaseCluster (db_slug db)) =
      Some (ClusterObj n (db_storage db) (instance_Get (db_size db)) None) \<and>
    postgres_objects rc row orgID (cl_objects w) (KCluster, NamespaceForOrg orgID, DatabaseCluster (db_slug db)) =
      Some (ClusterObj (db_instances row) (db_storage row) (instance_Get (db_size row)) (Some bm))"
proof -
  have c: "plan_desired (postgres_plan rc ns c spec) (KCluster, ns, c) = Some (Some (cluster_object rc c spec))" for ns c spec
    unfolding plan_desired_def by (rule map_of_is_SomeI [OF postgres_plan_distinct]) (simp add: postgres_plan_snd)
  obtain n where "rescaled rc rd db orgID n w w'" using autoscaleOne_cases [OF assms(1)] assms(2) by blast
  then have "cl_objects w' (KCluster, NamespaceForOrg orgID, DatabaseCluster (db_slug db)) =
      Some (ClusterObj n (db_storage db) (instance_Get (db_size db)) None)"
    by (simp add: rescaled_def Let_def override_def c cluster_object_def backed_up_def scaled_spec_def)
  moreover have "postgres_objects rc row orgID (cl_objects w) (KCluster, NamespaceForOrg orgID, DatabaseCluster (db_slug db)) =
      Some (ClusterObj (db_instances row) (db_storage row) (instance_Get (db_size row))
        (Some (barmanObjectStore rc (DatabaseCluster (db_slug db)))))"
    using assms(3-5) by (simp add: postgres_objects_def Let_def override_def c cluster_object_def backed_up_def
        postgres_spec_of_def)
  ultimately show ?thesis by blast
qed

theorem autoscaler_drops_backups_witness:
  "\<exists>rc w w' n sz. autoscaleOne rc demo_metrics (demo_database, 1) (w :: controller) = (Inr (), w') \<and>
     BackupsEnabled rc \<and> db_backups demo_database \<and>
     cl_objects w' (KCluster, ''uran-org-1'', ''db-main'') = Some (ClusterObj n ''1Gi'' sz None)"
proof -
  let ?rc = "demo_reconciler\<lparr>rc_backup := \<lparr>bc_endpoint = ''http://minio'', bc_bucket = ''backups'',
     bc_access_key = ''a'', bc_secret_key = ''s''\<rparr>\<rparr>"
  let ?A = "autoscaleOne ?rc demo_metrics (demo_database, 1) demo_ready_world"
  have "fst ?A = Inr () \<and> map db_instances (databases (tabs (snd ?A))) \<noteq> map db_instances (databases (tabs demo_ready_world))"
    by code_simp
  then have run: "?A = (Inr (), snd ?A)" "tabs (snd ?A) \<noteq> tabs demo_ready_world"
    by (auto simp: prod_eq_iff)
  have b: "db_backups demo_database" "BackupsEnabled ?rc" "NamespaceForOrg 1 = ''uran-org-1''"
    "DatabaseCluster (db_slug demo_database) = ''db-main''" "db_storage demo_database = ''1Gi''"
    by (simp add: demo_database_def, simp add: BackupsEnabled_def, code_simp, code_simp, simp add: demo_database_def)
  show ?thesis using autoscaler_drops_backups [OF run b(1,2) refl, unfolded b(3-5)] run(1) b(1,2) by blast
qed

end
