(* ===== verification/Config.thy ===== *)
theory Config
  imports Controller_Scale
begin

text \<open>
  Package \<open>config\<close> (\<open>internal/config/config.go\<close>): the three loaders that read a component's settings from
  the environment, and what the controller's \<open>main\<close> makes of its own.

  The environment is a function from names to values, \<open>''''\<close> for a variable that is not set. The
  loader's state is its list of errors. \<open>parse_duration\<close> is \<open>time.ParseDuration\<close>; the one floating-point
  product of that function, the nanoseconds of a decimal fraction, is the parameter \<open>frac\<close>.
\<close>

section \<open>Durations\<close>

definition quote_byte :: "char \<Rightarrow> string" where
  "quote_byte c = (let n = (of_char c :: nat) in
     if n \<ge> 128 \<or> n < 32 then [CHR 0x5C, CHR ''x'', hex_digit (n div 16), hex_digit (n mod 16)]
     else if c = CHR 0x22 \<or> c = CHR 0x5C then [CHR 0x5C, c] else [c])"

definition go_quote :: "string \<Rightarrow> string" where
  "go_quote s = [CHR 0x22] @ concat (map quote_byte s) @ [CHR 0x22]"

text \<open>Nanoseconds; the micro sign and the letter mu are two bytes each.\<close>

definition duration_units :: "(string \<times> nat) list" where
  "duration_units = [(''ns'', 1), (''us'', 1000), ([CHR 0xC2, CHR 0xB5, CHR ''s''], 1000),
     ([CHR 0xCE, CHR 0xBC, CHR ''s''], 1000), (''ms'', 1000000), (''s'', 1000000000),
     (''m'', 60 * 1000000000), (''h'', 3600 * 1000000000)]"

definition digits_value :: "string \<Rightarrow> nat" where
  "digits_value s = foldl (\<lambda>v c. 10 * v + (of_char c - 48)) 0 s"

text \<open>The digits of a fraction, up to the first that does not fit 63 bits, and their scale.\<close>

fun leading_fraction :: "nat \<Rightarrow> nat \<Rightarrow> string \<Rightarrow> nat \<times> nat" where
  "leading_fraction v scale [] = (v, scale)"
| "leading_fraction v scale (c # cs) =
     (if v > (2 ^ 63 - 1) div 10 \<or> 10 * v + (of_char c - 48) > 2 ^ 63 then (v, scale)
      else leading_fraction (10 * v + (of_char c - 48)) (10 * scale) cs)"

text \<open>One number with its unit: the nanoseconds and the rest, or an error given the whole text.\<close>

definition duration_part ::
    "(nat \<Rightarrow> nat \<Rightarrow> nat \<Rightarrow> nat) \<Rightarrow> string \<Rightarrow> string \<Rightarrow> string + (nat \<times> string)" where
  "duration_part frac orig s = (let
       invalid = Inl (''time: invalid duration '' @ go_quote orig);
       ds = takeWhile is_digit s; s1 = dropWhile is_digit s; v = digits_value ds;
       dot = (s1 \<noteq> [] \<and> hd s1 = CHR ''.'');
       fs = (if dot then takeWhile is_digit (tl s1) else []);
       s2 = (if dot then dropWhile is_digit (tl s1) else s1);
       u = takeWhile (\<lambda>c. c \<noteq> CHR ''.'' \<and> \<not> is_digit c) s2;
       s3 = dropWhile (\<lambda>c. c \<noteq> CHR ''.'' \<and> \<not> is_digit c) s2
     in if ds = [] \<and> \<not> dot then invalid
        else if v > 2 ^ 63 then invalid
        else if ds = [] \<and> fs = [] then invalid
        else if u = [] then Inl (''time: missing unit in duration '' @ go_quote orig)
        else (case map_of duration_units u of
            None \<Rightarrow> Inl (''time: unknown unit '' @ go_quote u @ '' in duration '' @ go_quote orig)
          | Some unit \<Rightarrow>
              if v > 2 ^ 63 div unit then invalid
              else (let (f, scale) = leading_fraction 0 1 fs;
                        n = v * unit + (if f > 0 then frac f unit scale else 0)
                    in if n > 2 ^ 63 then invalid else Inr (n, s3))))"

lemma duration_part_shorter: "duration_part frac orig s = Inr (n, r) \<Longrightarrow> length r < length s"
proof -
  assume a: "duration_part frac orig s = Inr (n, r)"
  let ?P = "\<lambda>c. c \<noteq> CHR ''.'' \<and> \<not> is_digit c"
  let ?s1 = "dropWhile is_digit s"
  let ?s2 = "if ?s1 \<noteq> [] \<and> hd ?s1 = CHR ''.'' then dropWhile is_digit (tl ?s1) else ?s1"
  have r: "r = dropWhile ?P ?s2" "takeWhile ?P ?s2 \<noteq> []"
    using a by (auto simp: duration_part_def Let_def split: if_splits option.splits prod.splits)
  have "length ?s2 \<le> length s"
    using length_dropWhile_le [of is_digit s] length_dropWhile_le [of is_digit "tl ?s1"]
    by (auto split: if_splits)
  moreover have "length (takeWhile ?P ?s2) + length r = length ?s2"
    unfolding r(1) by (metis length_append takeWhile_dropWhile_id)
  moreover have "0 < length (takeWhile ?P ?s2)" using r(2) by simp
  ultimately show ?thesis by linarith
qed

function duration_sum ::
    "(nat \<Rightarrow> nat \<Rightarrow> nat \<Rightarrow> nat) \<Rightarrow> string \<Rightarrow> nat \<Rightarrow> string \<Rightarrow> string + nat" where
  "duration_sum frac orig d s =
     (if s = [] then Inr d
      else (case duration_part frac orig s of
          Inl e \<Rightarrow> Inl e
        | Inr (n, r) \<Rightarrow> let d' = (d + n) mod 2 ^ 64 in
            if d' > 2 ^ 63 then Inl (''time: invalid duration '' @ go_quote orig)
            else duration_sum frac orig d' r))"
  by pat_completeness auto
termination
  by (relation "measure (\<lambda>(_, _, _, s). length s)") (auto intro: duration_part_shorter)

declare duration_sum.simps [simp del]

definition parse_duration :: "(nat \<Rightarrow> nat \<Rightarrow> nat \<Rightarrow> nat) \<Rightarrow> string \<Rightarrow> string + int" where
  "parse_duration frac orig = (let
       signed = (orig \<noteq> [] \<and> (hd orig = CHR ''-'' \<or> hd orig = CHR ''+''));
       neg = (orig \<noteq> [] \<and> hd orig = CHR ''-'');
       s = (if signed then tl orig else orig);
       invalid = Inl (''time: invalid duration '' @ go_quote orig)
     in if s = ''0'' then Inr 0
        else if s = [] then invalid
        else (case duration_sum frac orig 0 s of
            Inl e \<Rightarrow> Inl e
          | Inr d \<Rightarrow> if neg then Inr (- int d)
              else if d > 2 ^ 63 - 1 then invalid else Inr (int d)))"

section \<open>Loaders\<close>

type_synonym environ = "string \<Rightarrow> string"
type_synonym 'a load = "(string list, 'a) act"

record api_config =
  ac_Addr :: string
  ac_DatabaseURL :: string
  ac_SessionTTL :: int
  ac_ShutdownTimeout :: int
  ac_Env :: string
  ac_GitHubWebhookSecret :: string
  ac_Kubeconfig :: string
  ac_GitHubClientID :: string
  ac_GitHubClientSecret :: string
  ac_BaseDomain :: string

record builder_config =
  bcf_DatabaseURL :: string
  bcf_Env :: string
  bcf_Registry :: string
  bcf_BuildWorkdir :: string

record controller_config =
  cc_DatabaseURL :: string
  cc_Env :: string
  cc_Kubeconfig :: string
  cc_BaseDomain :: string
  cc_CertIssuer :: string
  cc_BackupEndpoint :: string
  cc_BackupBucket :: string
  cc_BackupAccessKey :: string
  cc_BackupSecretKey :: string

definition load_str :: "environ \<Rightarrow> string \<Rightarrow> string load" where
  "load_str env key errs = (env key,
     if trim_space (env key) = '''' then errs @ [key @ '' is required''] else errs)"

definition load_dur :: "(nat \<Rightarrow> nat \<Rightarrow> nat \<Rightarrow> nat) \<Rightarrow> environ \<Rightarrow> string \<Rightarrow> int load" where
  "load_dur frac env key errs =
     (if trim_space (env key) = '''' then (0, errs @ [key @ '' is required''])
      else (case parse_duration frac (env key) of
          Inl e \<Rightarrow> (0, errs @ [key @ '' is not a valid duration: '' @ e])
        | Inr d \<Rightarrow> (d, errs)))"

definition load_err :: "string list \<Rightarrow> string option" where
  "load_err errs = (if errs = [] then None
     else Some (''invalid configuration:\<newline>  - '' @ join ''\<newline>  - '' errs))"

definition LoadAPI :: "(nat \<Rightarrow> nat \<Rightarrow> nat \<Rightarrow> nat) \<Rightarrow> environ \<Rightarrow> api_config \<times> string option" where
  "LoadAPI frac env = (case
     (bnd (load_str env ''URAN_ADDR'') (\<lambda>addr.
      bnd (load_str env ''URAN_DATABASE_URL'') (\<lambda>url.
      bnd (load_dur frac env ''URAN_SESSION_TTL'') (\<lambda>ttl.
      bnd (load_dur frac env ''URAN_SHUTDOWN_TIMEOUT'') (\<lambda>timeout.
      bnd (load_str env ''URAN_ENV'') (\<lambda>e.
      bnd (load_str env ''URAN_GITHUB_WEBHOOK_SECRET'') (\<lambda>secret.
      bnd (load_str env ''URAN_KUBECONFIG'') (\<lambda>kubeconfig.
      bnd (load_str env ''URAN_GITHUB_CLIENT_ID'') (\<lambda>cid.
      bnd (load_str env ''URAN_GITHUB_CLIENT_SECRET'') (\<lambda>csecret.
      bnd (load_str env ''URAN_BASE_DOMAIN'') (\<lambda>domain.
      ret \<lparr>ac_Addr = addr, ac_DatabaseURL = url, ac_SessionTTL = ttl, ac_ShutdownTimeout = timeout,
        ac_Env = e, ac_GitHubWebhookSecret = secret, ac_Kubeconfig = kubeconfig, ac_GitHubClientID = cid,
        ac_GitHubClientSecret = csecret, ac_BaseDomain = domain\<rparr>))))))))))) []
     of (cfg, errs) \<Rightarrow> (cfg, load_err errs))"

definition LoadBuilder :: "environ \<Rightarrow> builder_config \<times> string option" where
  "LoadBuilder env = (case
     (bnd (load_str env ''URAN_DATABASE_URL'') (\<lambda>url.
      bnd (load_str env ''URAN_ENV'') (\<lambda>e.
      bnd (load_str env ''URAN_REGISTRY'') (\<lambda>registry.
      bnd (load_str env ''URAN_BUILD_WORKDIR'') (\<lambda>workdir.
      ret \<lparr>bcf_DatabaseURL = url, bcf_Env = e, bcf_Registry = registry, bcf_BuildWorkdir = workdir\<rparr>))))) []
     of (cfg, errs) \<Rightarrow> (cfg, load_err errs))"

definition LoadController :: "environ \<Rightarrow> controller_config \<times> string option" where
  "LoadController env = (case
     (bnd (load_str env ''URAN_DATABASE_URL'') (\<lambda>url.
      bnd (load_str env ''URAN_ENV'') (\<lambda>e.
      bnd (load_str env ''URAN_KUBECONFIG'') (\<lambda>kubeconfig.
      bnd (load_str env ''URAN_BASE_DOMAIN'') (\<lambda>domain.
      bnd (load_str env ''URAN_CERT_ISSUER'') (\<lambda>issuer.
      bnd (load_str env ''URAN_BACKUP_ENDPOINT'') (\<lambda>endpoint.
      bnd (load_str env ''URAN_BACKUP_BUCKET'') (\<lambda>bucket.
      bnd (load_str env ''URAN_BACKUP_ACCESS_KEY'') (\<lambda>access.
      bnd (load_str env ''URAN_BACKUP_SECRET_KEY'') (\<lambda>secret.
      ret \<lparr>cc_DatabaseURL = url, cc_Env = e, cc_Kubeconfig = kubeconfig, cc_BaseDomain = domain,
        cc_CertIssuer = issuer, cc_BackupEndpoint = endpoint, cc_BackupBucket = bucket,
        cc_BackupAccessKey = access, cc_BackupSecretKey = secret\<rparr>)))))))))) []
     of (cfg, errs) \<Rightarrow> (cfg, load_err errs))"

text \<open>The reconciler the controller's \<open>main\<close> builds from its configuration.\<close>

definition reconciler_of :: "(string \<Rightarrow> int option) \<Rightarrow> controller_config \<Rightarrow> reconciler" where
  "reconciler_of quantity cfg = \<lparr>rc_domain = cc_BaseDomain cfg, rc_issuer = cc_CertIssuer cfg,
     rc_backup = \<lparr>bc_endpoint = cc_BackupEndpoint cfg, bc_bucket = cc_BackupBucket cfg,
       bc_access_key = cc_BackupAccessKey cfg, bc_secret_key = cc_BackupSecretKey cfg\<rparr>,
     rc_quantity = quantity\<rparr>"

section \<open>Properties\<close>

text \<open>What is wrong with one variable, and the variables each component needs.\<close>

datatype var_kind = Text | Duration

definition problem :: "(nat \<Rightarrow> nat \<Rightarrow> nat \<Rightarrow> nat) \<Rightarrow> environ \<Rightarrow> string \<times> var_kind \<Rightarrow> string list" where
  "problem frac env = (\<lambda>(key, k).
     if trim_space (env key) = '''' then [key @ '' is required'']
     else (case k of Text \<Rightarrow> []
       | Duration \<Rightarrow> (case parse_duration frac (env key) of
             Inl e \<Rightarrow> [key @ '' is not a valid duration: '' @ e] | Inr _ \<Rightarrow> [])))"

definition api_vars :: "(string \<times> var_kind) list" where
  "api_vars = [(''URAN_ADDR'', Text), (''URAN_DATABASE_URL'', Text), (''URAN_SESSION_TTL'', Duration),
     (''URAN_SHUTDOWN_TIMEOUT'', Duration), (''URAN_ENV'', Text), (''URAN_GITHUB_WEBHOOK_SECRET'', Text),
     (''URAN_KUBECONFIG'', Text), (''URAN_GITHUB_CLIENT_ID'', Text), (''URAN_GITHUB_CLIENT_SECRET'', Text),
     (''URAN_BASE_DOMAIN'', Text)]"

definition builder_vars :: "(string \<times> var_kind) list" where
  "builder_vars = [(''URAN_DATABASE_URL'', Text), (''URAN_ENV'', Text), (''URAN_REGISTRY'', Text),
     (''URAN_BUILD_WORKDIR'', Text)]"

definition controller_vars :: "(string \<times> var_kind) list" where
  "controller_vars = [(''URAN_DATABASE_URL'', Text), (''URAN_ENV'', Text), (''URAN_KUBECONFIG'', Text),
     (''URAN_BASE_DOMAIN'', Text), (''URAN_CERT_ISSUER'', Text), (''URAN_BACKUP_ENDPOINT'', Text),
     (''URAN_BACKUP_BUCKET'', Text), (''URAN_BACKUP_ACCESS_KEY'', Text), (''URAN_BACKUP_SECRET_KEY'', Text)]"

lemma load_str_problem: "load_str env key errs = (env key, errs @ problem frac env (key, Text))"
  by (simp add: load_str_def problem_def)

lemma load_dur_problem: "snd (load_dur frac env key errs) = errs @ problem frac env (key, Duration)"
  by (simp add: load_dur_def problem_def split: sum.split)

lemma bnd_load_str: "bnd (load_str env key) k errs = k (env key) (errs @ problem frac env (key, Text))"
  by (simp add: bnd_def load_str_problem [of env key errs frac])

lemma bnd_load_dur: "bnd (load_dur frac env key) k errs =
    k (fst (load_dur frac env key errs)) (errs @ problem frac env (key, Duration))"
  by (simp add: bnd_def case_prod_beta load_dur_problem)

lemma loader_errors:
  "snd (LoadAPI frac env) = load_err (concat (map (problem frac env) api_vars)) \<and>
   snd (LoadBuilder env) = load_err (concat (map (problem frac env) builder_vars)) \<and>
   snd (LoadController env) = load_err (concat (map (problem frac env) controller_vars))"
  unfolding LoadAPI_def LoadBuilder_def LoadController_def bnd_load_str [where frac = frac] bnd_load_dur
  by (simp add: ret_def api_vars_def builder_vars_def controller_vars_def)


lemma is_digit_dec_nat: "c \<in> set (dec_nat n) \<Longrightarrow> is_digit c"
  using dec_nat_digits by blast

lemma digits_value_parse: "parse_digits v s = Some n \<Longrightarrow> foldl (\<lambda>v c. 10 * v + (of_char c - 48)) v s = n"
  by (induction v s rule: parse_digits.induct) (auto simp: digit_val_def Let_def split: option.splits if_splits)

lemma digits_value_dec_nat: "digits_value (dec_nat n) = n"
  unfolding digits_value_def by (rule digits_value_parse [OF parse_digits_dec_nat])

lemma duration_unit_names: "map fst duration_units = [''ns'', ''us'', [CHR 0xC2, CHR 0xB5, CHR ''s''],
    [CHR 0xCE, CHR 0xBC, CHR ''s''], ''ms'', ''s'', ''m'', ''h'']"
  by (simp add: duration_units_def)

lemma unit_chars:
  assumes "(u, k) \<in> set duration_units"
  shows "u \<noteq> [] \<and> k > 0 \<and> list_all (\<lambda>c. c \<noteq> CHR ''.'' \<and> \<not> is_digit c) u \<and> map_of duration_units u = Some k"
proof -
  have "list_all (\<lambda>u. u \<noteq> [] \<and> list_all (\<lambda>c. c \<noteq> CHR ''.'' \<and> \<not> is_digit c) u) (map fst duration_units)"
    unfolding duration_unit_names by code_simp
  moreover have "u \<in> set (map fst duration_units)" using assms by force
  ultimately have "u \<noteq> [] \<and> list_all (\<lambda>c. c \<noteq> CHR ''.'' \<and> \<not> is_digit c) u"
    unfolding list_all_iff by blast
  moreover have "list_all (\<lambda>(_, k). k > 0) duration_units" by (simp add: duration_units_def)
  then have "k > 0" using assms by (auto simp: list_all_iff)
  moreover have "distinct (map fst duration_units)" unfolding duration_unit_names by simp
  then have "map_of duration_units u = Some k" using assms by simp
  ultimately show ?thesis by blast
qed

lemma parse_duration_whole:
  assumes "(u, k) \<in> set duration_units"
  shows "parse_duration frac (dec_nat n @ u) =
    (if n * k < 2 ^ 63 then Inr (int (n * k))
     else Inl (''time: invalid duration '' @ go_quote (dec_nat n @ u)))"
proof -
  let ?s = "dec_nat n @ u"
  let ?P = "\<lambda>c. c \<noteq> CHR ''.'' \<and> \<not> is_digit c"
  have u: "u \<noteq> []" "k > 0" "list_all ?P u" "map_of duration_units u = Some k"
    using unit_chars [OF assms] by auto
  have hd_u: "\<not> is_digit (hd u)" "hd u \<noteq> CHR ''.''"
    using u(1,3) by (cases u; simp)+
  have d: "takeWhile is_digit ?s = dec_nat n" "dropWhile is_digit ?s = u"
  proof -
    have "takeWhile is_digit u = []" "dropWhile is_digit u = u" using hd_u(1) by (cases u; simp)+
    then show "takeWhile is_digit ?s = dec_nat n" "dropWhile is_digit ?s = u"
      by (simp_all add: takeWhile_append2 dropWhile_append2 is_digit_dec_nat)
  qed
  have p: "takeWhile ?P u = u" "dropWhile ?P u = []"
    using u(3) by (auto simp: list_all_iff takeWhile_eq_all_conv dropWhile_eq_Nil_conv)
  have le: "v * k \<le> m \<longleftrightarrow> v \<le> m div k" for v m using u(2) by (simp add: less_eq_div_iff_mult_less_eq)
  have part: "duration_part frac ?s ?s = (if n * k > 2 ^ 63 then Inl (''time: invalid duration '' @ go_quote ?s)
      else Inr (n * k, []))"
  proof -
    have "n \<le> 2 ^ 63 div k \<Longrightarrow> n \<le> 2 ^ 63" using div_le_dividend le_trans by blast
    then show ?thesis
      using u(1,4) hd_u(2) le [of n "2 ^ 63"]
      by (auto simp: duration_part_def Let_def d p digits_value_dec_nat not_less)
  qed
  have s: "?s \<noteq> []" "?s \<noteq> ''0''" "hd ?s \<noteq> CHR ''-''" "hd ?s \<noteq> CHR ''+''"
  proof -
    show "?s \<noteq> ''0''"
    proof
      assume "?s = ''0''"
      then have "dec_nat n = [] \<or> u = []" by (cases "dec_nat n") auto
      then show False using u(1) by simp
    qed
  qed (simp_all add: hd_dec_nat hd_append2)
  have "duration_sum frac ?s 0 ?s = (if n * k > 2 ^ 63 then Inl (''time: invalid duration '' @ go_quote ?s)
      else Inr (n * k))"
    using s(1) by (subst duration_sum.simps) (simp add: part duration_sum.simps)
  then show ?thesis using s by (auto simp: parse_duration_def Let_def)
qed

text \<open>
  A variable that holds a whole number and a unit is read as that many of the unit's nanoseconds, as
  long as the product fits 63 bits; a longer one is reported rather than wrapped around.\<close>

theorem duration_roundtrip:
  assumes "(u, k) \<in> set duration_units" "env key = dec_nat n @ u"
  shows "load_dur frac env key errs =
    (if n * k < 2 ^ 63 then (int (n * k), errs)
     else (0, errs @ [key @ '' is not a valid duration: time: invalid duration '' @ go_quote (env key)]))"
proof -
  have "list_all (\<lambda>u. \<not> is_space (last u)) (map fst duration_units)"
    unfolding duration_unit_names by code_simp
  then have "\<not> is_space (last u)" using assms(1) unfolding list_all_iff by force
  moreover have "\<not> is_space (hd (dec_nat n))"
  proof -
    have "is_digit (hd (dec_nat n))" by (rule is_digit_dec_nat [of _ n]) simp
    then show ?thesis by (auto simp: is_space_def is_digit_code)
  qed
  moreover have "u \<noteq> []" using unit_chars [OF assms(1)] by blast
  ultimately have "trim_space (dec_nat n @ u) = dec_nat n @ u"
    unfolding trim_space_def by (intro trim_if_id) (simp add: hd_append2)
  then show ?thesis
    using \<open>u \<noteq> []\<close> parse_duration_whole [OF assms(1), of frac n] assms(2) by (simp add: load_dur_def)
qed

theorem duration_roundtrip_witness:
  "load_dur (\<lambda>f unit scale. f * unit div scale) (\<lambda>_. ''12h'') ''URAN_SESSION_TTL'' [] = (43200000000000, [])"
proof -
  have "(''h'', 3600 * 1000000000) \<in> set duration_units" by (simp add: duration_units_def)
  moreover have "dec_nat 12 = ''12''" by code_simp
  ultimately show ?thesis
    using duration_roundtrip [of "''h''" "3600 * 1000000000" "\<lambda>_. ''12h''" "''URAN_SESSION_TTL''" 12] by simp
qed

text \<open>
  A controller that starts has everything its reconciler needs: its base domain, its certificate
  issuer and its object store are not blank, so that backups are always enabled.\<close>

theorem started_controller_configured:
  assumes "LoadController env = (cfg, None)"
  shows "BackupsEnabled (reconciler_of quantity cfg) \<and> trim_space (rc_domain (reconciler_of quantity cfg)) \<noteq> '''' \<and>
    trim_space (rc_issuer (reconciler_of quantity cfg)) \<noteq> '''' \<and>
    rc_domain (reconciler_of quantity cfg) = env ''URAN_BASE_DOMAIN''"
proof -
  let ?errs = "concat (map (problem (\<lambda>_ _ _. 0) env) controller_vars)"
  have "LoadController env = (\<lparr>cc_DatabaseURL = env ''URAN_DATABASE_URL'', cc_Env = env ''URAN_ENV'',
      cc_Kubeconfig = env ''URAN_KUBECONFIG'', cc_BaseDomain = env ''URAN_BASE_DOMAIN'',
      cc_CertIssuer = env ''URAN_CERT_ISSUER'', cc_BackupEndpoint = env ''URAN_BACKUP_ENDPOINT'',
      cc_BackupBucket = env ''URAN_BACKUP_BUCKET'', cc_BackupAccessKey = env ''URAN_BACKUP_ACCESS_KEY'',
      cc_BackupSecretKey = env ''URAN_BACKUP_SECRET_KEY''\<rparr>, load_err ?errs)"
    unfolding LoadController_def bnd_load_str [where frac = "\<lambda>_ _ _. 0"]
    by (simp add: ret_def controller_vars_def)
  then have "?errs = []" and "cc_BaseDomain cfg = env ''URAN_BASE_DOMAIN''"
    "cc_CertIssuer cfg = env ''URAN_CERT_ISSUER''" "cc_BackupBucket cfg = env ''URAN_BACKUP_BUCKET''"
    using assms by (simp_all add: load_err_def split: if_splits)
  moreover have "trim_space (env key) \<noteq> ''''" if "(key, Text) \<in> set controller_vars" for key
  proof
    assume "trim_space (env key) = ''''"
    then have "problem (\<lambda>_ _ _. 0) env (key, Text) \<noteq> []" by (simp add: problem_def)
    then show False using \<open>?errs = []\<close> that by auto
  qed
  from this [of "''URAN_BASE_DOMAIN''"] this [of "''URAN_CERT_ISSUER''"] this [of "''URAN_BACKUP_BUCKET''"]
  have "trim_space (env ''URAN_BASE_DOMAIN'') \<noteq> ''''" "trim_space (env ''URAN_CERT_ISSUER'') \<noteq> ''''"
    "trim_space (env ''URAN_BACKUP_BUCKET'') \<noteq> ''''"
    by (simp_all add: controller_vars_def)
  ultimately show ?thesis
    by (cases "env ''URAN_BACKUP_BUCKET'' = ''''") (simp_all add: reconciler_of_def BackupsEnabled_def)
qed

theorem started_controller_configured_witness:
  "BackupsEnabled (reconciler_of (\<lambda>_. Some 0) (fst (LoadController (\<lambda>_. ''x''))))"
proof -
  have "snd (LoadController (\<lambda>_. ''x'')) = None" by code_simp
  then have "LoadController (\<lambda>_. ''x'') = (fst (LoadController (\<lambda>_. ''x'')), None)" by (simp add: prod_eq_iff)
  from started_controller_configured [OF this] show ?thesis by blast
qed

end
