(* ===== verification/Build.thy ===== *)
theory Build
  imports Store_Resources "HOL-Library.AList" "HOL-Library.Sublist"
begin

text \<open>
  Package \<open>build\<close> (\<open>internal/build\<close>): the backends that turn a repository into a pushed image.
  The world is the builder process's: the database connection extended with the host, whose
  commands, temporary directories and file system calls have outcomes the program does not
  control. \<open>bw_answers\<close> lists, for the commands to come, what they print and whether they exit with
  zero; an exhausted list is silent success. The commands run are recorded in \<open>bw_trace\<close>.

  The locale \<open>image_builder\<close> is the contract of the interface \<open>Builder\<close>: a build that succeeds
  returns the image it was asked for, and a build touches the database only through the log
  writer it is given. Each backend is an interpretation.
\<close>

section \<open>The host\<close>

type_synonym command = "string \<times> string \<times> string list"

record builder_world = pg +
  bw_trace :: "command list"
  bw_answers :: "(string list \<times> bool) list"
  bw_tmp_ok :: "bool list"
  bw_write_ok :: "bool list"
  bw_dirs :: "string list"
  bw_files :: "(string \<times> string) list"
  bw_dockerfile :: "string \<Rightarrow> bool"
  bw_next_dir :: int

type_synonym 'y bworld = "'y builder_world_scheme"

text \<open>\<open>io.Writer\<close>: the result says whether the write succeeded.\<close>

type_synonym 'y writer = "string \<Rightarrow> ('y bworld, bool) act"

record build_request =
  br_RepoURL :: string
  br_Ref :: string
  br_Image :: string
  br_Type :: string
  br_BuildArgs :: "(string \<times> string) list"

type_synonym 'y builder = "build_request \<Rightarrow> 'y writer \<Rightarrow> ('y bworld, string + string) act"

section \<open>Running commands\<close>

fun joinArgs_from :: "string \<Rightarrow> nat \<Rightarrow> string list \<Rightarrow> string" where
  "joinArgs_from out i [] = out"
| "joinArgs_from out i (a # as) = joinArgs_from ((if i > 0 then out @ '' '' else out) @ a) (Suc i) as"

definition joinArgs :: "string list \<Rightarrow> string" where
  "joinArgs args = joinArgs_from '''' 0 args"

text \<open>The output of a command is copied chunk by chunk; a failed write ends the copying.\<close>

fun copy_output :: "'y writer \<Rightarrow> string list \<Rightarrow> ('y bworld, bool) act" where
  "copy_output logs [] = ret True"
| "copy_output logs (c # cs) = bnd (logs c) (\<lambda>ok. if ok then copy_output logs cs else ret False)"

definition next_answer :: "('y bworld, string list \<times> bool) act" where
  "next_answer w = (case bw_answers w of [] \<Rightarrow> (([], True), w)
     | a # as \<Rightarrow> (a, w\<lparr>bw_answers := as\<rparr>))"

definition record_command :: "command \<Rightarrow> ('y bworld, unit) act" where
  "record_command c w = ((), w\<lparr>bw_trace := bw_trace w @ [c]\<rparr>)"

definition runStream ::
    "'y writer \<Rightarrow> string \<Rightarrow> string \<Rightarrow> string list \<Rightarrow> ('y bworld, string + unit) act" where
  "runStream logs dir name args =
     bnd (logs (''$ '' @ name @ '' '' @ joinArgs args @ ''\<newline>'')) (\<lambda>_.
     bnd (record_command (dir, name, args)) (\<lambda>_.
     bnd next_answer (\<lambda>(output, exit_ok).
     bnd (copy_output logs output) (\<lambda>copied.
     ret (if exit_ok \<and> copied then Inr () else Inl (name @ '': failed''))))))"

section \<open>Directories and files\<close>

definition MkdirTemp :: "string \<Rightarrow> string \<Rightarrow> ('y bworld, string + string) act" where
  "MkdirTemp base pat w =
     (let dir = base @ ''/'' @ pat @ itoa (bw_next_dir w) in
      case bw_tmp_ok w of
        False # bs \<Rightarrow> (Inl ''create build dir: failed'', w\<lparr>bw_tmp_ok := bs\<rparr>)
      | True # bs \<Rightarrow> (Inr dir, w\<lparr>bw_tmp_ok := bs, bw_next_dir := bw_next_dir w + 1, bw_dirs := dir # bw_dirs w\<rparr>)
      | [] \<Rightarrow> (Inr dir, w\<lparr>bw_next_dir := bw_next_dir w + 1, bw_dirs := dir # bw_dirs w\<rparr>))"

definition RemoveAll :: "string \<Rightarrow> ('y bworld, unit) act" where
  "RemoveAll dir w = ((), w\<lparr>bw_dirs := removeAll dir (bw_dirs w)\<rparr>)"

definition WriteFile :: "string \<Rightarrow> string \<Rightarrow> ('y bworld, string + unit) act" where
  "WriteFile path content w = (case bw_write_ok w of
      False # bs \<Rightarrow> (Inl (''write '' @ path), w\<lparr>bw_write_ok := bs\<rparr>)
    | True # bs \<Rightarrow> (Inr (), w\<lparr>bw_write_ok := bs, bw_files := (path, content) # bw_files w\<rparr>)
    | [] \<Rightarrow> (Inr (), w\<lparr>bw_files := (path, content) # bw_files w\<rparr>))"

definition hasDockerfile :: "string \<Rightarrow> ('y bworld, bool) act" where
  "hasDockerfile dir w = (bw_dockerfile w dir, w)"

text \<open>\<open>defer os.RemoveAll(dir)\<close> around the rest of a build.\<close>

definition in_temp_dir ::
    "string \<Rightarrow> string \<Rightarrow> (string \<Rightarrow> ('y bworld, string + 'a) act) \<Rightarrow> ('y bworld, string + 'a) act" where
  "in_temp_dir base pat body = throwing (MkdirTemp base pat)
     (\<lambda>dir. bnd (body dir) (\<lambda>res. bnd (RemoveAll dir) (\<lambda>_. ret res)))"

section \<open>The backends\<close>

definition buildArgFlags :: "string \<Rightarrow> (string \<times> string) list \<Rightarrow> string list" where
  "buildArgFlags flag args =
     concat (map (\<lambda>k. [flag, k @ ''='' @ the (map_of args k)]) (sort (map fst args)))"

definition cloneRepo :: "string \<Rightarrow> string \<Rightarrow> string \<Rightarrow> 'y writer \<Rightarrow> ('y bworld, string + unit) act" where
  "cloneRepo repoURL ref dir logs =
     throwing (runStream logs '''' ''git'' [''clone'', repoURL, dir])
       (\<lambda>_. if ref \<noteq> '''' then runStream logs dir ''git'' [''checkout'', ref] else ret (Inr ()))"

text \<open>The dash of the log messages, in the UTF-8 of the source.\<close>

definition em_dash :: string where
  "em_dash = [CHR 0xE2, CHR 0x80, CHR 0x94]"

definition build_image :: "build_request \<Rightarrow> string \<Rightarrow> 'y writer \<Rightarrow> ('y bworld, string + unit) act" where
  "build_image req dir logs = bnd (hasDockerfile dir) (\<lambda>docker.
     if docker
     then bnd (logs (''detected Dockerfile '' @ em_dash @ '' building with docker build\<newline>'')) (\<lambda>_.
       runStream logs dir ''docker'' ([''build'', ''-t'', br_Image req] @
         buildArgFlags ''--build-arg'' (br_BuildArgs req) @ [''.'']))
     else bnd (logs (''no Dockerfile '' @ em_dash @ '' building with Nixpacks\<newline>'')) (\<lambda>_.
       runStream logs '''' ''nixpacks'' ([''build'', dir, ''--name'', br_Image req, ''--cache-key'',
         br_Image req] @ buildArgFlags ''--env'' (br_BuildArgs req))))"

definition CodeBuilder :: "string \<Rightarrow> 'y builder" where
  "CodeBuilder workdir req logs = in_temp_dir workdir ''build-'' (\<lambda>dir.
     throwing (cloneRepo (br_RepoURL req) (br_Ref req) dir logs) (\<lambda>_.
     throwing (build_image req dir logs) (\<lambda>_.
     throwing (runStream logs '''' ''docker'' [''push'', br_Image req]) (\<lambda>_.
     ret (Inr (br_Image req))))))"

definition nginxDockerfile :: string where
  "nginxDockerfile = ''FROM nginx:alpine\<newline>COPY . /usr/share/nginx/html\<newline>'' @
     ''RUN printf 'server {'' @ [CHR 0x5C] @ ''n  listen 8080;'' @ [CHR 0x5C] @
     ''n  location / {'' @ [CHR 0x5C] @ ''n    root /usr/share/nginx/html;'' @ [CHR 0x5C] @
     ''n    try_files $uri $uri/ /index.html;'' @ [CHR 0x5C] @ ''n  }'' @ [CHR 0x5C] @ ''n}'' @
     [CHR 0x5C] @ ''n' > /etc/nginx/conf.d/default.conf\<newline>''"

definition dockerignore :: string where
  "dockerignore = ''.git\<newline>Dockerfile\<newline>.dockerignore\<newline>''"

definition StaticBuilder :: "string \<Rightarrow> 'y builder" where
  "StaticBuilder workdir req logs = in_temp_dir workdir ''static-'' (\<lambda>dir.
     throwing (cloneRepo (br_RepoURL req) (br_Ref req) dir logs) (\<lambda>_.
     throwing (WriteFile (dir @ ''/Dockerfile'') nginxDockerfile) (\<lambda>_.
     throwing (WriteFile (dir @ ''/.dockerignore'') dockerignore) (\<lambda>_.
     throwing (runStream logs dir ''docker'' [''build'', ''-t'', br_Image req, ''.'']) (\<lambda>_.
     throwing (runStream logs dir ''docker'' [''push'', br_Image req]) (\<lambda>_.
     ret (Inr (br_Image req))))))))"

definition MockBuilder :: "string option \<Rightarrow> 'y builder" where
  "MockBuilder err req logs =
     bnd (logs (''mock build of '' @ br_RepoURL req @ ''@'' @ br_Ref req @ '' -> '' @ br_Image req @ ''\<newline>''))
       (\<lambda>_. case err of Some e \<Rightarrow> ret (Inl e) | None \<Rightarrow> ret (Inr (br_Image req)))"

definition Dispatcher :: "'y builder \<Rightarrow> 'y builder \<Rightarrow> 'y builder" where
  "Dispatcher code static req logs =
     (if br_Type req = Static then static req logs else code req logs)"

section \<open>The contract of a backend\<close>

text \<open>
  \<open>through logs m\<close>: whatever the log writer preserves of the database connection, \<open>m\<close> preserves.
\<close>

definition through :: "'y writer \<Rightarrow> ('y bworld, 'a) act \<Rightarrow> bool" where
  "through logs m \<longleftrightarrow> (\<forall>R. (\<forall>t. R t t) \<longrightarrow> (\<forall>t u v. R t u \<longrightarrow> R u v \<longrightarrow> R t v) \<longrightarrow>
     (\<forall>c. keeps pg.truncate R (logs c)) \<longrightarrow> keeps pg.truncate R m)"

lemma truncate_tabs [simp]: "tabs (pg.truncate w) = tabs w"
  by (simp add: pg.truncate_def)

locale image_builder =
  fixes build :: "'y builder"
  assumes build_image: "build req logs w = (Inr img, w') \<Longrightarrow> img = br_Image req"
    and build_through: "through logs (build req logs)"
begin

lemma build_keeps:
  assumes "\<And>t. R t t" "\<And>t u v. R t u \<Longrightarrow> R u v \<Longrightarrow> R t v" "\<And>c. keeps pg.truncate R (logs c)"
  shows "keeps pg.truncate R (build req logs)"
  using build_through [of logs req] assms unfolding through_def by blast

lemma build_keeps_tabs:
  assumes "\<And>t. R t t" "\<And>t u v. R t u \<Longrightarrow> R u v \<Longrightarrow> R t v" "\<And>c. keeps tabs R (logs c)"
  shows "keeps tabs R (build req logs)"
  using build_keeps [of "\<lambda>p q. R (tabs p) (tabs q)" logs req] assms
  unfolding keeps_def truncate_tabs by blast

end

lemma through_ret [intro]: "through logs (ret a)"
  by (simp add: through_def keeps_def ret_def)

lemma through_logs [intro]: "through logs (logs c)"
  by (simp add: through_def)

lemma through_bnd [intro]:
  "through logs m \<Longrightarrow> (\<And>a. through logs (k a)) \<Longrightarrow> through logs (bnd m k)"
  unfolding through_def
proof (intro allI impI)
  fix R :: "pg \<Rightarrow> pg \<Rightarrow> bool"
  assume h: "\<forall>R. (\<forall>t. R t t) \<longrightarrow> (\<forall>t u v. R t u \<longrightarrow> R u v \<longrightarrow> R t v) \<longrightarrow>
      (\<forall>c. keeps pg.truncate R (logs c)) \<longrightarrow> keeps pg.truncate R m"
    "\<And>a. \<forall>R. (\<forall>t. R t t) \<longrightarrow> (\<forall>t u v. R t u \<longrightarrow> R u v \<longrightarrow> R t v) \<longrightarrow>
      (\<forall>c. keeps pg.truncate R (logs c)) \<longrightarrow> keeps pg.truncate R (k a)"
    "\<forall>t. R t t" "\<forall>t u v. R t u \<longrightarrow> R u v \<longrightarrow> R t v" "\<forall>c. keeps pg.truncate R (logs c)"
  have "evolution R" using h(3,4) by unfold_locales blast+
  then show "keeps pg.truncate R (bnd m k)" using h by (intro evolution.keeps_bnd) blast+
qed

lemma attempt_bnd: "attempt m h k = bnd m (\<lambda>x. case x of Inl e \<Rightarrow> h e | Inr a \<Rightarrow> k a)"
  by (rule ext) (simp add: attempt_def bnd_def split: prod.split sum.split)

lemma through_throwing [intro]:
  "through logs m \<Longrightarrow> (\<And>a. through logs (k a)) \<Longrightarrow> through logs (throwing m k)"
  unfolding throwing_def attempt_bnd by (rule through_bnd) (auto split: sum.split)

lemma through_if [intro]: "through logs m \<Longrightarrow> through logs n \<Longrightarrow> through logs (if b then m else n)"
  by simp

text \<open>The host calls leave the database connection alone.\<close>

lemma through_host [intro]:
  assumes "\<And>w. pg.truncate (snd (m w)) = pg.truncate w"
  shows "through logs m"
  using assms by (simp add: through_def keeps_def)

lemma host_pg:
  "pg.truncate (snd (next_answer w)) = pg.truncate w" "pg.truncate (snd (record_command c w)) = pg.truncate w"
  "pg.truncate (snd (MkdirTemp base pat w)) = pg.truncate w" "pg.truncate (snd (RemoveAll dir w)) = pg.truncate w"
  "pg.truncate (snd (WriteFile path content w)) = pg.truncate w" "pg.truncate (snd (hasDockerfile dir w)) = pg.truncate w"
  by (simp_all add: pg.truncate_def next_answer_def record_command_def MkdirTemp_def RemoveAll_def WriteFile_def
      hasDockerfile_def Let_def split: list.split bool.split)

lemma through_copy: "through logs (copy_output logs cs)"
  by (induction cs) (auto intro!: through_bnd)

lemma through_runStream: "through logs (runStream logs dir name args)"
  unfolding runStream_def
  by (intro through_bnd through_logs through_host [OF host_pg(1)] through_host [OF host_pg(2)])
    (auto intro!: through_bnd through_copy)

lemma through_clone: "through logs (cloneRepo url ref dir logs)"
  unfolding cloneRepo_def by (intro through_throwing through_runStream through_if through_ret)

lemma through_temp:
  assumes "\<And>dir. through logs (body dir)"
  shows "through logs (in_temp_dir base pat body)"
  unfolding in_temp_dir_def
  by (intro through_throwing through_bnd through_ret assms through_host [OF host_pg(3)]
      through_host [OF host_pg(4)])

lemma throwing_Inr:
  "throwing m k w = (Inr b, w') \<Longrightarrow> \<exists>a w1. m w = (Inr a, w1) \<and> k a w1 = (Inr b, w')"
  by (auto simp: throwing_def attempt_def ret_def split: prod.splits sum.splits)

lemma in_temp_dir_Inr:
  assumes "in_temp_dir base pat body w = (Inr a, w')"
  shows "\<exists>dir v v'. body dir v = (Inr a, v')"
  using assms
  by (auto simp: in_temp_dir_def bnd_def ret_def split: prod.splits dest!: throwing_Inr) blast

interpretation code: image_builder "CodeBuilder workdir"
proof
  show "img = br_Image req" if "CodeBuilder workdir req logs w = (Inr img, w')" for req logs w img w'
    using in_temp_dir_Inr [OF that [unfolded CodeBuilder_def]]
    by (auto dest!: throwing_Inr simp: bnd_def ret_def split: prod.splits)
  show "through logs (CodeBuilder workdir req logs)" for logs req
    unfolding CodeBuilder_def build_image_def
    by (intro through_temp through_throwing through_clone through_bnd through_if through_logs
        through_runStream through_ret through_host [OF host_pg(6)])
qed

interpretation static: image_builder "StaticBuilder workdir"
proof
  show "img = br_Image req" if "StaticBuilder workdir req logs w = (Inr img, w')" for req logs w img w'
    using in_temp_dir_Inr [OF that [unfolded StaticBuilder_def]]
    by (auto dest!: throwing_Inr simp: ret_def)
  show "through logs (StaticBuilder workdir req logs)" for logs req
    unfolding StaticBuilder_def
    by (intro through_temp through_throwing through_clone through_runStream through_ret
        through_host [OF host_pg(5)])
qed

interpretation mock: image_builder "MockBuilder err"
proof
  show "img = br_Image req" if "MockBuilder err req logs w = (Inr img, w')" for req logs w img w'
    using that by (auto simp: MockBuilder_def bnd_def ret_def split: prod.splits option.splits)
  show "through logs (MockBuilder err req logs)" for logs req
    unfolding MockBuilder_def by (intro through_bnd through_logs) (auto split: option.split)
qed

text \<open>Dispatching between two backends is a backend.\<close>

lemma Dispatcher_builder:
  assumes "image_builder c" "image_builder s"
  shows "image_builder (Dispatcher c s)"
  using assms unfolding image_builder_def Dispatcher_def by (auto split: if_splits)

interpretation dispatch: image_builder "Dispatcher (CodeBuilder workdir) (StaticBuilder workdir)"
  by (rule Dispatcher_builder) (rule code.image_builder_axioms static.image_builder_axioms)+

section \<open>Build arguments\<close>

text \<open>C26.
  The arguments of a build do not depend on the iteration order of the map: two association lists
  of the same map give the same flags, one pair per variable in the order of the names.\<close>

theorem buildArgFlags_deterministic:
  assumes "distinct (map fst a)" "distinct (map fst b)" "map_of a = map_of b"
  shows "buildArgFlags flag a = buildArgFlags flag b \<and>
    buildArgFlags flag a = concat (map (\<lambda>k. [flag, k @ ''='' @ the (map_of a k)])
      (sorted_list_of_set (dom (map_of a))))"
proof -
  have "sort (map fst xs) = sorted_list_of_set (dom (map_of xs))" if "distinct (map fst xs)"
    for xs :: "(string \<times> string) list"
    using that by (simp add: dom_map_of_conv_image_fst sorted_list_of_set_sort_remdups
        distinct_remdups_id flip: set_map)
  then show ?thesis using assms by (simp add: buildArgFlags_def)
qed

theorem buildArgFlags_deterministic_witness:
  "buildArgFlags ''--env'' [(''B'', ''2''), (''A'', ''1'')] =
   buildArgFlags ''--env'' [(''A'', ''1''), (''B'', ''2'')]"
  using buildArgFlags_deterministic
    [of "[(''B'', ''2''), (''A'', ''1'')]" "[(''A'', ''1''), (''B'', ''2'')]" "''--env''"]
  by (simp add: fun_upd_twist)

section \<open>What a code build runs\<close>

text \<open>A log writer that leaves the host alone, as the database writer does.\<close>

definition host_quiet :: "'y writer \<Rightarrow> bool" where
  "host_quiet logs \<longleftrightarrow> (\<forall>c w. bw_trace (snd (logs c w)) = bw_trace w \<and>
     bw_dirs (snd (logs c w)) = bw_dirs w \<and> bw_dockerfile (snd (logs c w)) = bw_dockerfile w)"

lemma copy_quiet:
  assumes "host_quiet logs"
  shows "bw_trace (snd (copy_output logs cs w)) = bw_trace w \<and>
    bw_dirs (snd (copy_output logs cs w)) = bw_dirs w \<and>
    bw_dockerfile (snd (copy_output logs cs w)) = bw_dockerfile w"
proof (induction cs arbitrary: w)
  case (Cons c cs)
  have "bw_trace (snd (logs c w)) = bw_trace w" "bw_dirs (snd (logs c w)) = bw_dirs w"
    "bw_dockerfile (snd (logs c w)) = bw_dockerfile w" using assms by (simp_all add: host_quiet_def)
  then show ?case using Cons.IH [of "snd (logs c w)"] by (cases "logs c w") (simp add: bnd_def ret_def)
qed (simp add: ret_def)

lemma runStream_trace:
  assumes "host_quiet logs" "runStream logs dir name args w = (res, w')"
  shows "bw_trace w' = bw_trace w @ [(dir, name, args)] \<and> bw_dirs w' = bw_dirs w \<and>
    bw_dockerfile w' = bw_dockerfile w"
proof -
  let ?echo = "''$ '' @ name @ '' '' @ joinArgs args @ ''\<newline>''"
  obtain a w1 where 1: "logs ?echo w = (a, w1)" by fastforce
  obtain out ok w2 where 2: "next_answer (w1\<lparr>bw_trace := bw_trace w1 @ [(dir, name, args)]\<rparr>) = ((out, ok), w2)"
    by (metis prod.collapse)
  obtain c w3 where 3: "copy_output logs out w2 = (c, w3)" by fastforce
  have "bw_trace w1 = bw_trace w" "bw_dirs w1 = bw_dirs w" "bw_dockerfile w1 = bw_dockerfile w"
    using assms(1) 1 unfolding host_quiet_def by (metis snd_conv)+
  moreover have "bw_trace w2 = bw_trace w1 @ [(dir, name, args)] \<and> bw_dirs w2 = bw_dirs w1 \<and>
      bw_dockerfile w2 = bw_dockerfile w1"
    using 2 by (auto simp: next_answer_def split: list.splits)
  moreover have "bw_trace w3 = bw_trace w2 \<and> bw_dirs w3 = bw_dirs w2 \<and> bw_dockerfile w3 = bw_dockerfile w2"
    using copy_quiet [OF assms(1), of out w2] 3 by simp
  moreover have "w' = w3"
    using assms(2) 1 2 3 by (simp add: runStream_def bnd_def record_command_def ret_def)
  ultimately show ?thesis by simp
qed

definition clone_plan :: "build_request \<Rightarrow> string \<Rightarrow> command list" where
  "clone_plan req dir = [('''', ''git'', [''clone'', br_RepoURL req, dir])] @
     (if br_Ref req \<noteq> '''' then [(dir, ''git'', [''checkout'', br_Ref req])] else [])"

definition code_plan :: "build_request \<Rightarrow> string \<Rightarrow> bool \<Rightarrow> command list" where
  "code_plan req dir docker = clone_plan req dir @
     [if docker then (dir, ''docker'', [''build'', ''-t'', br_Image req] @
        buildArgFlags ''--build-arg'' (br_BuildArgs req) @ [''.''])
      else ('''', ''nixpacks'', [''build'', dir, ''--name'', br_Image req, ''--cache-key'', br_Image req] @
        buildArgFlags ''--env'' (br_BuildArgs req)),
      ('''', ''docker'', [''push'', br_Image req])]"

text \<open>\<open>ran p m\<close>: on success \<open>m\<close> has run the commands \<open>p\<close>, on failure a proper part from the start.\<close>

definition ran :: "command list \<Rightarrow> 'y bworld \<Rightarrow> ('e + 'a) \<times> 'y bworld \<Rightarrow> bool" where
  "ran p w out \<longleftrightarrow> (\<exists>cmds. bw_trace (snd out) = bw_trace w @ cmds \<and> prefix cmds p \<and>
     (\<forall>a. fst out = Inr a \<longrightarrow> cmds = p)) \<and> bw_dirs (snd out) = bw_dirs w \<and>
     bw_dockerfile (snd out) = bw_dockerfile w"

lemma ran_run: "host_quiet logs \<Longrightarrow> ran [(dir, name, args)] w (runStream logs dir name args w)"
  using runStream_trace [of logs dir name args w] unfolding ran_def
  by (cases "runStream logs dir name args w") auto

lemma ran_ret: "ran [] w (ret (Inr a) w)"
  by (simp add: ran_def ret_def)

lemma ran_throwing:
  assumes "ran p w (m w)" "\<And>a w'. m w = (Inr a, w') \<Longrightarrow> ran q w' (k a w')"
  shows "ran (p @ q) w (throwing m k w)"
proof (cases "m w")
  case (Pair res w1)
  show ?thesis
  proof (cases res)
    case (Inl e)
    then show ?thesis using assms(1) Pair
      by (auto simp: ran_def throwing_def attempt_def ret_def intro: prefix_prefix)
  next
    case (Inr a)
    obtain c where "bw_trace (snd (k a w1)) = bw_trace w1 @ c" "prefix c q"
        "\<forall>b. fst (k a w1) = Inr b \<longrightarrow> c = q" "bw_dirs (snd (k a w1)) = bw_dirs w1"
        "bw_dockerfile (snd (k a w1)) = bw_dockerfile w1"
      using assms(2) Pair Inr unfolding ran_def by blast
    moreover have "bw_trace w1 = bw_trace w @ p" "bw_dirs w1 = bw_dirs w" "bw_dockerfile w1 = bw_dockerfile w"
      using assms(1) Pair Inr unfolding ran_def by auto
    ultimately show ?thesis unfolding ran_def throwing_def attempt_def using Pair Inr by auto
  qed
qed

lemma ran_log:
  assumes "host_quiet logs" "\<And>v. ran p v (m v)"
  shows "ran p w (bnd (logs c) (\<lambda>_. m) w)"
proof -
  have "bw_trace (snd (logs c w)) = bw_trace w" "bw_dirs (snd (logs c w)) = bw_dirs w"
    "bw_dockerfile (snd (logs c w)) = bw_dockerfile w" using assms(1) by (simp_all add: host_quiet_def)
  then show ?thesis using assms(2) [of "snd (logs c w)"]
    by (cases "logs c w") (simp add: bnd_def ran_def)
qed

lemma ran_clone: "host_quiet logs \<Longrightarrow> ran (clone_plan req dir) w (cloneRepo (br_RepoURL req) (br_Ref req) dir logs w)"
  unfolding cloneRepo_def clone_plan_def by (intro ran_throwing ran_run) (auto intro: ran_run ran_ret)


definition image_command :: "build_request \<Rightarrow> string \<Rightarrow> bool \<Rightarrow> command" where
  "image_command req dir docker = (if docker
     then (dir, ''docker'', [''build'', ''-t'', br_Image req] @
        buildArgFlags ''--build-arg'' (br_BuildArgs req) @ [''.''])
     else ('''', ''nixpacks'', [''build'', dir, ''--name'', br_Image req, ''--cache-key'', br_Image req] @
        buildArgFlags ''--env'' (br_BuildArgs req)))"

lemma code_plan_parts: "code_plan req dir docker = clone_plan req dir @
    ([image_command req dir docker] @ ([('''', ''docker'', [''push'', br_Image req])] @ []))"
  by (simp add: code_plan_def image_command_def)

lemma ran_build_image:
  assumes "host_quiet logs"
  shows "ran [image_command req dir (bw_dockerfile w dir)] w (build_image req dir logs w)"
  unfolding build_image_def image_command_def
  by (simp add: bnd_def [of "hasDockerfile dir"] hasDockerfile_def)
    (auto intro!: ran_log ran_run assms)

lemma ran_dockerfile: "ran p w (m w) \<Longrightarrow> m w = (r, w') \<Longrightarrow> bw_dockerfile w' = bw_dockerfile w"
  by (simp add: ran_def)


definition demo_bw :: builder_world where
  "demo_bw = \<lparr>tabs = demo_tables, bus = [], faults = [], now = 7, bw_trace = [],
     bw_answers = [], bw_tmp_ok = [], bw_write_ok = [], bw_dirs = [], bw_files = [],
     bw_dockerfile = (\<lambda>_. True), bw_next_dir = 1\<rparr>"

definition demo_build :: build_request where
  "demo_build = \<lparr>br_RepoURL = ''https://x/r.git'', br_Ref = ''abc'', br_Image = ''reg/svc-1:1'',
     br_Type = ''web'', br_BuildArgs = []\<rparr>"


end
