(* ===== verification/Builder_Proc.thy ===== *)
theory Builder_Proc
  imports Build
begin

text \<open>
  Package \<open>builder\<close> (\<open>internal/builder\<close>): the log writer that persists a build's output, and the
  processor that takes a queued deploy through its build.

  The locale \<open>log_store\<close> is the interface the log writer needs of the store; it is interpreted by
  the build table. The processor works with any \<open>image_builder\<close>: its lemmas are proved inside that
  locale and used for the backends.
\<close>

section \<open>The log writer\<close>

definition dbLogWriter :: "int \<Rightarrow> 'y writer" where
  "dbLogWriter buildID p = attempt (AppendBuildLog buildID p) (\<lambda>_. ret False) (\<lambda>_. ret True)"

locale log_store =
  fixes append :: "int \<Rightarrow> string \<Rightarrow> ('w, bool) act" and contents :: "int \<Rightarrow> 'w \<Rightarrow> string"
    and ready :: "int \<Rightarrow> 'w \<Rightarrow> bool"
  assumes append_ok: "ready b w \<Longrightarrow> append b p w = (True, w') \<Longrightarrow> contents b w' = contents b w @ p \<and> ready b w'"
    and append_failed: "append b p w = (False, w') \<Longrightarrow> contents b w' = contents b w"
begin

text \<open>Chunks written one after the other, up to the first failure, are a prefix of the output.\<close>

fun append_all :: "int \<Rightarrow> string list \<Rightarrow> ('w, bool) act" where
  "append_all b [] = ret True"
| "append_all b (c # cs) = bnd (append b c) (\<lambda>ok. if ok then append_all b cs else ret False)"

lemma append_all_contents:
  assumes "ready b w" "append_all b cs w = (ok, w')"
  shows "\<exists>n. contents b w' = contents b w @ concat (take n cs) \<and> (ok \<longrightarrow> contents b w' = contents b w @ concat cs)"
  using assms
proof (induction cs arbitrary: w)
  case Nil
  then show ?case by (simp add: ret_def)
next
  case (Cons c cs)
  obtain x w1 where 1: "append b c w = (x, w1)" by fastforce
  show ?case
  proof (cases x)
    case True
    then have c: "contents b w1 = contents b w @ c" "ready b w1"
      using append_ok [OF Cons.prems(1)] 1 by simp_all
    have "append_all b cs w1 = (ok, w')" using Cons.prems(2) 1 True by (simp add: bnd_def)
    from Cons.IH [OF c(2) this] obtain n where
      "contents b w' = contents b w1 @ concat (take n cs)" "ok \<longrightarrow> contents b w' = contents b w1 @ concat cs"
      by blast
    then show ?thesis using c by (intro exI [of _ "Suc n"]) simp
  next
    case False
    then show ?thesis using Cons.prems(2) 1 append_failed by (intro exI [of _ 0]) (auto simp: bnd_def ret_def)
  qed
qed

end

definition build_log :: "int \<Rightarrow> 'z pg_scheme \<Rightarrow> string" where
  "build_log i w = (case find (\<lambda>b. b_id b = i) (builds (tabs w)) of None \<Rightarrow> '''' | Some b \<Rightarrow> b_logs b)"

definition build_exists :: "int \<Rightarrow> 'z pg_scheme \<Rightarrow> bool" where
  "build_exists i w \<longleftrightarrow> (\<exists>b \<in> set (builds (tabs w)). b_id b = i)"

lemma build_exists_find: "build_exists i w \<longleftrightarrow> find (\<lambda>b. b_id b = i) (builds (tabs w)) \<noteq> None"
  by (auto simp: build_exists_def find_None_iff)

lemma find_update:
  assumes "\<And>r. key (f r) = key r"
  shows "find (\<lambda>r. key r = i) (sql_update (\<lambda>r. key r = i) f rows) =
    map_option f (find (\<lambda>r. key r = i) rows)"
  using assms by (induction rows) (auto simp: sql_update_def)

lemma find_update_other:
  assumes "\<And>r. key (f r) = key r" "i \<noteq> j"
  shows "find (\<lambda>r. key r = j) (sql_update (\<lambda>r. key r = i) f rows) = find (\<lambda>r. key r = j) rows"
  using assms by (induction rows) (auto simp: sql_update_def)

interpretation db_log: log_store dbLogWriter build_log build_exists
proof
  fix b p and w w' :: "'y bworld"
  {
    assume "build_exists b w" "dbLogWriter b p w = (True, w')"
    then have t: "tabs w' = upd_build b (\<lambda>r. r\<lparr>b_logs := b_logs r @ p\<rparr>) (tabs w)"
      using pg_exec_cases [of "\<lambda>n t. Inr ((), upd_build b (\<lambda>r. r\<lparr>b_logs := b_logs r @ p\<rparr>) t)" w]
      by (auto simp: dbLogWriter_def AppendBuildLog_def attempt_def ret_def split: prod.splits sum.splits)
    let ?f = "\<lambda>r. r\<lparr>b_logs := b_logs r @ p\<rparr>"
    have "find (\<lambda>r. b_id r = b) (builds (tabs w)) \<noteq> None"
      using \<open>build_exists b w\<close> by (simp add: build_exists_find)
    then obtain r where r: "find (\<lambda>r. b_id r = b) (builds (tabs w)) = Some r" by blast
    have "find (\<lambda>r. b_id r = b) (builds (tabs w')) = Some (?f r)"
      unfolding t upd_build_def using find_update [of b_id ?f b "builds (tabs w)"] r by simp
    then show "build_log b w' = build_log b w @ p \<and> build_exists b w'"
      using r by (simp add: build_log_def build_exists_find)
  next
    assume "dbLogWriter b p w = (False, w')"
    then have "tabs w' = tabs w"
      using pg_exec_cases [of "\<lambda>n t. Inr ((), upd_build b (\<lambda>r. r\<lparr>b_logs := b_logs r @ p\<rparr>) t)" w]
      by (auto simp: dbLogWriter_def AppendBuildLog_def attempt_def ret_def split: prod.splits sum.splits)
    then show "build_log b w' = build_log b w" by (simp add: build_log_def)
  }
qed

section \<open>The processor\<close>

definition buildArgs :: "int \<Rightarrow> ('y bworld, (string \<times> string) list) act" where
  "buildArgs serviceID = attempt (ListEnvVars serviceID) (\<lambda>_. ret [])
     (\<lambda>vars. ret (foldl (\<lambda>out v. if e_build_time v then AList.update (e_key v) (e_value v) out else out) [] vars))"

definition proc_fail :: "int \<Rightarrow> int \<Rightarrow> ('y bworld, unit) act" where
  "proc_fail deployID buildID = bnd (FinishBuild buildID BuildFailed) (\<lambda>_.
     bnd (UpdateDeployStatus deployID StatusFailed) (\<lambda>_. ret ()))"

definition image_ref :: "string \<Rightarrow> int \<Rightarrow> int \<Rightarrow> string" where
  "image_ref registry serviceID deployID = registry @ ''/svc-'' @ itoa serviceID @ '':'' @ itoa deployID"

definition run_build ::
    "'y builder \<Rightarrow> string \<Rightarrow> int \<Rightarrow> deploy \<Rightarrow> service \<Rightarrow> build \<Rightarrow> ('y bworld, unit) act" where
  "run_build backend registry deployID d svc b =
     bnd (buildArgs (sv_id svc)) (\<lambda>args.
     attempt (backend \<lparr>br_RepoURL = sv_repo svc, br_Ref = d_commit d,
         br_Image = image_ref registry (sv_id svc) deployID, br_Type = sv_type svc, br_BuildArgs = args\<rparr>
         (dbLogWriter (b_id b)))
       (\<lambda>e. bnd (dbLogWriter (b_id b) (''\<newline>BUILD FAILED: '' @ e @ ''\<newline>''))
         (\<lambda>_. proc_fail deployID (b_id b)))
       (\<lambda>img. attempt (SetDeployImage deployID img) (\<lambda>_. proc_fail deployID (b_id b))
         (\<lambda>_. bnd (FinishBuild (b_id b) BuildSucceeded) (\<lambda>_.
           attempt (UpdateDeployStatus deployID StatusDeploying) (\<lambda>_. ret ())
             (\<lambda>_. bnd (Notify DeploymentChannel (itoa deployID)) (\<lambda>_. ret ()))))))"

definition process :: "'y builder \<Rightarrow> string \<Rightarrow> int \<Rightarrow> ('y bworld, unit) act" where
  "process backend registry deployID =
     attempt (DeployByID deployID) (\<lambda>_. ret ()) (\<lambda>d.
     attempt (ServiceByID (d_service d)) (\<lambda>_. ret ()) (\<lambda>(svc, _).
     attempt (BuildByDeployID deployID) (\<lambda>_. ret ()) (\<lambda>b.
     attempt (ClaimQueuedDeploy deployID) (\<lambda>_. ret ()) (\<lambda>claimed.
       if \<not> claimed then ret ()
       else attempt (StartBuild (b_id b) BuildRunning) (\<lambda>_. ret ())
         (\<lambda>_. run_build backend registry deployID d svc b)))))"

text \<open>
  \<open>Run\<close>: the sweep, then a handler per notification. The goroutines are run one after the
  other here; their interleaving is the subject of \<open>claim_exclusive\<close>.
\<close>

definition on_notify :: "'y builder \<Rightarrow> string \<Rightarrow> string \<Rightarrow> ('y bworld, unit) act" where
  "on_notify backend registry payload = (case parse_int payload of
      None \<Rightarrow> ret () | Some i \<Rightarrow> process backend registry i)"

definition builder_run :: "'y builder \<Rightarrow> string \<Rightarrow> string list \<Rightarrow> ('y bworld, unit) act" where
  "builder_run backend registry payloads =
     bnd (attempt QueuedDeployIDs (\<lambda>_. ret ()) (\<lambda>ids. for_each (process backend registry) ids))
       (\<lambda>_. for_each (on_notify backend registry) payloads)"

lemma dbLogWriter_evolves [evolves]: "keeps tabs db_evolves (dbLogWriter i p)"
  unfolding dbLogWriter_def by (intro evo_rules evolves)

lemma proc_fail_evolves [evolves]: "keeps tabs db_evolves (proc_fail i j)"
  unfolding proc_fail_def by (intro evo_rules evolves)

lemma buildArgs_evolves [evolves]: "keeps tabs db_evolves (buildArgs i)"
  unfolding buildArgs_def by (intro evo_rules evolves)

text \<open>A row looked up by its key, after an update.\<close>

lemma find_deploy_upd [simp]:
  assumes "\<And>d. d_id (f d) = d_id d"
  shows "find (\<lambda>d. d_id d = i) (deploys (upd_deploy (\<lambda>d. d_id d = i) f t)) =
    map_option f (find (\<lambda>d. d_id d = i) (deploys t))"
  using assms find_update [of d_id f] by (simp add: upd_deploy_def)

lemma find_build_upd [simp]:
  assumes "\<And>b. b_id (f b) = b_id b"
  shows "find (\<lambda>b. b_id b = i) (builds (upd_build i f t)) =
    map_option f (find (\<lambda>b. b_id b = i) (builds t))"
  using assms find_update [of b_id f] by (simp add: upd_build_def)

lemma upd_frame [simp]:
  "builds (upd_deploy P f t) = builds t" "deploys (upd_build i g t) = deploys t"
  "env_vars (upd_deploy P f t) = env_vars t" "env_vars (upd_build i g t) = env_vars t"
  by (simp_all add: upd_deploy_def upd_build_def)

lemma find_claimed:
  assumes "find (\<lambda>d. d_id d = i) ds = Some d" "P d" "\<And>d. d_id (f d) = d_id d"
  shows "find (\<lambda>d. d_id d = i) (sql_update (\<lambda>d. d_id d = i \<and> P d) f ds) = Some (f d)"
  using assms(1) by (induction ds) (auto simp: sql_update_def assms split: if_splits)

lemma filter_key:
  assumes "distinct (map key xs)" "find (\<lambda>x. key x = i) xs = Some x" "P x"
  shows "filter (\<lambda>x. key x = i \<and> P x) xs = [x]"
  using assms by (induction xs) (auto simp: filter_empty_conv image_iff split: if_splits)

text \<open>
  A claim that succeeds: the deploy is building. With it, what a build is allowed to change, when
  no call fails: the log of a build row, and nothing else of the connection.
\<close>

lemma claim_wins:
  assumes "schema_ok t" "find (\<lambda>d. d_id d = i) (deploys t) = Some d" "d_status d = StatusQueued"
  shows "claim_queued i n t = (True, snd (claim_queued i n t))"
    "find (\<lambda>d. d_id d = i) (deploys (snd (claim_queued i n t))) =
       Some (d\<lparr>d_status := StatusBuilding, d_updated := n\<rparr>)"
    "builds (snd (claim_queued i n t)) = builds t" "env_vars (snd (claim_queued i n t)) = env_vars t"
proof -
  have "distinct (map d_id (deploys t))" using assms(1) by (simp add: schema_defs keyed_def)
  from filter_key [OF this assms(2), where P = "\<lambda>d. d_status d = StatusQueued"] assms(3)
  show "claim_queued i n t = (True, snd (claim_queued i n t))"
    by (simp add: claim_queued_def Let_def)
  show "find (\<lambda>d. d_id d = i) (deploys (snd (claim_queued i n t))) =
       Some (d\<lparr>d_status := StatusBuilding, d_updated := n\<rparr>)"
    using find_claimed [OF assms(2), of "\<lambda>d. d_status d = StatusQueued"] assms(3)
    by (simp add: claim_queued_def Let_def upd_deploy_def)
qed (simp_all add: claim_queued_def Let_def)

definition only_logs :: "pg \<Rightarrow> pg \<Rightarrow> bool" where
  "only_logs p q \<longleftrightarrow> (faults p = [] \<longrightarrow> faults q = [] \<and> bus q = bus p \<and> now q = now p \<and>
     tabs q\<lparr>builds := []\<rparr> = tabs p\<lparr>builds := []\<rparr> \<and>
     map (b_logs_update (\<lambda>_. [])) (builds (tabs q)) = map (b_logs_update (\<lambda>_. [])) (builds (tabs p)))"

lemma dbLogWriter_only_logs: "keeps pg.truncate only_logs (dbLogWriter i c)"
  by (auto simp: keeps_def only_logs_def pg.truncate_def dbLogWriter_def AppendBuildLog_def attempt_def
      ret_def upd_build_def sql_update_def)

lemma find_stripped:
  assumes "map (b_logs_update (\<lambda>_. [])) bs = map (b_logs_update (\<lambda>_. [])) cs"
    "find (\<lambda>b. b_id b = i) cs = Some b"
  shows "\<exists>l. find (\<lambda>b. b_id b = i) bs = Some (b\<lparr>b_logs := l\<rparr>)"
  using assms
proof (induction cs arbitrary: bs)
  case (Cons c cs)
  obtain x xs where bs: "bs = x # xs" "x\<lparr>b_logs := []\<rparr> = c\<lparr>b_logs := []\<rparr>"
    "map (b_logs_update (\<lambda>_. [])) xs = map (b_logs_update (\<lambda>_. [])) cs"
    using Cons.prems(1) by auto
  have x: "x = c\<lparr>b_logs := b_logs x\<rparr>" using bs(2) by (metis build.surjective build.update_convs(4))
  then have "b_id x = b_id c" by (metis build.select_convs(1) build.surjective build.update_convs(4))
  then show ?case using Cons x bs by (cases "b_id c = i") auto
qed simp

text \<open>
  The request a deploy is built from, and the outcome of a build that no database call disturbs:
  the rows of the deploy and of its build, and the notifications sent so far.
\<close>

definition build_vars :: "int \<Rightarrow> env_var list \<Rightarrow> (string \<times> string) list" where
  "build_vars serviceID vars =
     foldl (\<lambda>out v. if e_build_time v then AList.update (e_key v) (e_value v) out else out) []
       (sql_order e_key (filter (\<lambda>e. e_service e = serviceID) vars))"

definition request_of :: "string \<Rightarrow> int \<Rightarrow> deploy \<Rightarrow> service \<Rightarrow> env_var list \<Rightarrow> build_request" where
  "request_of registry i d svc vars = \<lparr>br_RepoURL = sv_repo svc, br_Ref = d_commit d,
     br_Image = image_ref registry (sv_id svc) i, br_Type = sv_type svc,
     br_BuildArgs = build_vars (sv_id svc) vars\<rparr>"

definition built :: "int \<Rightarrow> string \<Rightarrow> int \<Rightarrow> service \<Rightarrow> deploy \<Rightarrow> build \<Rightarrow> string + string \<Rightarrow> string \<Rightarrow>
    (string \<times> string) list \<Rightarrow> 'y bworld \<Rightarrow> bool" where
  "built n registry i svc d b res l sent w = (case res of
      Inr _ \<Rightarrow> find (\<lambda>d. d_id d = i) (deploys (tabs w)) = Some (d\<lparr>d_status := StatusDeploying,
          d_image := image_ref registry (sv_id svc) i, d_updated := n\<rparr>) \<and>
        find (\<lambda>r. b_id r = b_id b) (builds (tabs w)) = Some (b\<lparr>b_status := BuildSucceeded,
          b_logs := l, b_ended := Some n\<rparr>) \<and>
        bus w = sent @ [(DeploymentChannel, itoa i)]
    | Inl e \<Rightarrow> find (\<lambda>d. d_id d = i) (deploys (tabs w)) = Some (d\<lparr>d_status := StatusFailed, d_updated := n\<rparr>) \<and>
        find (\<lambda>r. b_id r = b_id b) (builds (tabs w)) = Some (b\<lparr>b_status := BuildFailed,
          b_logs := l @ ''\<newline>BUILD FAILED: '' @ e @ ''\<newline>'', b_ended := Some n\<rparr>) \<and>
        bus w = sent)"

context image_builder
begin

lemma run_build_evolves: "keeps tabs db_evolves (run_build build registry i d svc b)"
  unfolding run_build_def
  by (intro evo_rules evolves build_keeps_tabs [OF db_evolves_refl db_evolves_trans dbLogWriter_evolves])

text \<open>A calm world is one in which no database call fails.\<close>

lemma build_only_logs:
  assumes "build req (dbLogWriter j) w = (res, w')" "faults w = []"
  shows "faults w' = []" "bus w' = bus w" "now w' = now w" "deploys (tabs w') = deploys (tabs w)"
    "find (\<lambda>b. b_id b = j) (builds (tabs w)) = Some b \<Longrightarrow>
       \<exists>l. find (\<lambda>b. b_id b = j) (builds (tabs w')) = Some (b\<lparr>b_logs := l\<rparr>)"
proof -
  have "only_logs (pg.truncate w) (pg.truncate w')"
  proof (rule keepsD [OF build_keeps assms(1)])
    show "keeps pg.truncate only_logs (dbLogWriter j c)" for c by (rule dbLogWriter_only_logs)
  qed (auto simp: only_logs_def)
  then have o: "faults w' = []" "bus w' = bus w" "now w' = now w"
    "tabs w'\<lparr>builds := []\<rparr> = tabs w\<lparr>builds := []\<rparr>"
    "map (b_logs_update (\<lambda>_. [])) (builds (tabs w')) = map (b_logs_update (\<lambda>_. [])) (builds (tabs w))"
    using assms(2) by (simp_all add: only_logs_def pg.truncate_def)
  show "faults w' = []" "bus w' = bus w" "now w' = now w" by (rule o)+
  show "deploys (tabs w') = deploys (tabs w)"
    using arg_cong [OF o(4), of deploys] by simp
  show "\<exists>l. find (\<lambda>b. b_id b = j) (builds (tabs w')) = Some (b\<lparr>b_logs := l\<rparr>)"
    if "find (\<lambda>b. b_id b = j) (builds (tabs w)) = Some b"
    by (rule find_stripped [OF o(5) that])
qed

lemma run_build_calm:
  assumes "faults w = []" "find (\<lambda>d. d_id d = i) (deploys (tabs w)) = Some d"
    "d_status d = StatusBuilding" "find (\<lambda>r. b_id r = b_id b) (builds (tabs w)) = Some r"
    "run_build build registry i d0 svc b w = (u, w')"
  shows "\<exists>res v l. build (request_of registry i d0 svc (env_vars (tabs w))) (dbLogWriter (b_id b)) w = (res, v) \<and>
    built (now w) registry i svc d r res l (bus w) w'"
proof -
  let ?req = "request_of registry i d0 svc (env_vars (tabs w))"
  obtain res w3 where 3: "build ?req (dbLogWriter (b_id b)) w = (res, w3)" by fastforce
  note o = build_only_logs [OF 3 assms(1)]
  obtain l where l: "find (\<lambda>r. b_id r = b_id b) (builds (tabs w3)) = Some (r\<lparr>b_logs := l\<rparr>)"
    using o(5) [OF assms(4)] by blast
  have r: "b_id r = b_id b" using find_Some_in [OF assms(4)] by simp
  have args: "buildArgs (sv_id svc) w = (build_vars (sv_id svc) (env_vars (tabs w)), w)"
    using assms(1) by (simp add: buildArgs_def ListEnvVars_def attempt_def ret_def build_vars_def)
  note simps = run_build_def bnd_def attempt_def args 3 [unfolded request_of_def] ret_def proc_fail_def
    FinishBuild_def UpdateDeployStatus_def throwing_def DeployByID_def sql_one_def set_status_def
    o(1-4) assms(2,3) l SetDeployImage_def Notify_def dbLogWriter_def AppendBuildLog_def
    CanTransition_iff built_def r
  have "built (now w) registry i svc d r res l (bus w) w'"
  proof (cases res)
    case (Inl e)
    then show ?thesis using assms(5) by (auto simp: simps)
  next
    case (Inr img)
    then have "img = image_ref registry (sv_id svc) i"
      using build_image [of ?req] 3 by (auto simp: request_of_def)
    then show ?thesis using assms(5) Inr by (auto simp: simps)
  qed
  then show ?thesis using 3 by blast
qed

lemma process_evolves: "keeps tabs db_evolves (process build registry i)"
  unfolding process_def by (intro evo_rules evolves run_build_evolves)

lemma builder_run_evolves: "keeps tabs db_evolves (builder_run build registry payloads)"
  unfolding builder_run_def on_notify_def by (intro evo_rules evolves process_evolves)

end

section \<open>The outcome of a build\<close>

lemma find_by_key:
  assumes "keyed key n xs" "find P xs = Some x"
  shows "find (\<lambda>y. key y = key x) xs = Some x"
  using find_Some_in [OF assms(2)] keyed_inj [OF assms(1)]
  by (cases "find (\<lambda>y. key y = key x) xs") (auto simp: find_None_iff dest: find_Some_in)

context image_builder
begin

lemma process_calm:
  assumes "faults w = []" "schema_ok (tabs w)"
    and "find (\<lambda>d. d_id d = i) (deploys (tabs w)) = Some d" "d_status d = StatusQueued"
    and "service_org (d_service d) (tabs w) = Some (svc, og)"
    and "find (\<lambda>b. b_deploy b = i) (builds (tabs w)) = Some b"
    and "process build registry i w = (u, w')"
  shows "\<exists>v res v' l. build (request_of registry i d svc (env_vars (tabs w))) (dbLogWriter (b_id b)) v = (res, v') \<and>
    built (now w) registry i svc d (b\<lparr>b_started := Some (now w)\<rparr>) res l (bus w) w'"
proof -
  let ?t = "snd (claim_queued i (now w) (tabs w))"
  let ?g = "\<lambda>b. b\<lparr>b_status := BuildRunning, b_started := Some (now w)\<rparr>"
  let ?d = "d\<lparr>d_status := StatusBuilding, d_updated := now w\<rparr>"
  let ?v = "w\<lparr>tabs := upd_build (b_id b) ?g ?t\<rparr>"
  note c = claim_wins [OF assms(2-4), of "now w"]
  have k: "find (\<lambda>r. b_id r = b_id b) (builds (tabs w)) = Some b"
    using find_by_key [OF _ assms(6), of b_id "seqs (tabs w) SBuilds"] assms(2) by (simp add: schema_defs)
  have claim: "ClaimQueuedDeploy i w = (Inr True, w\<lparr>tabs := ?t\<rparr>)"
    using assms(1) c(1) by (cases "claim_queued i (now w) (tabs w)") (simp add: ClaimQueuedDeploy_def)
  have "run_build build registry i d svc b ?v = (u, w')"
    using assms(7) by (simp add: process_def attempt_def DeployByID_def ServiceByID_def BuildByDeployID_def
        sql_one_def StartBuild_def claim assms(1,3,5,6))
  from run_build_calm [OF _ _ _ _ this, of ?d "?g b"] obtain res v l where
    "build (request_of registry i d svc (env_vars (tabs w))) (dbLogWriter (b_id b)) ?v = (res, v)"
    "built (now w) registry i svc ?d (?g b) res l (bus w) w'"
    using assms(1) k c by auto
  moreover from this have "built (now w) registry i svc d (b\<lparr>b_started := Some (now w)\<rparr>) res l (bus w) w'"
    by (cases res) (simp_all add: built_def)
  ultimately show ?thesis by blast
qed

end

text \<open>The backend of the builder process, and the processor that drives it.\<close>

definition builder_backend :: "string \<Rightarrow> 'y builder" where
  "builder_backend workdir = Dispatcher (CodeBuilder workdir) (StaticBuilder workdir)"

interpretation backend: image_builder "builder_backend workdir"
  unfolding builder_backend_def by (rule dispatch.image_builder_axioms)



text \<open>Whatever fails, and whatever is notified, a run of the builder keeps the database consistent
  and moves the deploys only along their lifecycle.\<close>

theorem builder_keeps_lifecycle:
  "db_evolves (tabs w) (tabs (snd (builder_run (builder_backend workdir) registry payloads w)))"
  by (rule keepsD [OF backend.builder_run_evolves prod.collapse [symmetric]])

end
