(* ===== verification/Processes.thy ===== *)
theory Processes
  imports Migrations Config Api_Router Builder_Proc Controller_Data
begin

text \<open>
  The three programs of \<open>cmd/\<close>: \<open>run\<close> and \<open>main\<close> of the API server, the builder and the controller, with what
  they call to come up: \<open>New\<close>, \<open>Close\<close> and \<open>Listen\<close> of package \<open>store\<close>, \<open>NewReader\<close> and \<open>NewReconciler\<close> of
  package \<open>k8s\<close>, \<open>Run\<close> of the two workers.

  What they cannot decide is input: the environment, whether the database answers, what the Kubernetes library says
  of the kubeconfig and its clients, the requests and notifications that come, how it ends. The world is the one of
  the code they run together with a trace: what of the process an observer outside can see.
\<close>

section \<open>Running with a trace\<close>

datatype sighting =
    Pool_Opened string | Pool_Closed
  | Migrated | Serving string | Answered request response
  | Conn_Acquired | Conn_Released | Sent string | Worked

type_synonym ('w, 'a) proc = "('w \<times> sighting list, 'a) act"

definition emit :: "sighting \<Rightarrow> ('w, unit) proc" where
  "emit e = (\<lambda>(w, tr). ((), (w, tr @ [e])))"

definition lift :: "('w, 'a) act \<Rightarrow> ('w, 'a) proc" where
  "lift m = (\<lambda>(w, tr). (case m w of (a, w') \<Rightarrow> (a, (w', tr))))"

text \<open>The errors of a process by their source, and its end: \<open>run\<close> returns, or a goroutine panics.\<close>

datatype start_error =
    BadConfig string | ConnectPostgres string | PingPostgres string | MigrateFailed migrate_error
  | LoadKubeconfig string string | KubeClient string | MetricsClient string | DynamicClient string
  | ServerFailed string | ShutdownFailed string
  | AcquireConn string | ListenFailed string string | Interrupted string

datatype exit = Returned "start_error option" | Crashed string

definition starting :: "('w, start_error + 'a) proc \<Rightarrow> ('a \<Rightarrow> ('w, exit) proc) \<Rightarrow> ('w, exit) proc" where
  "starting m k = attempt m (\<lambda>e. ret (Returned (Some e))) k"

text \<open>\<open>log.Error\<close> and \<open>os.Exit(1)\<close>, or the runtime's exit after a panic.\<close>

definition exit_code :: "exit \<Rightarrow> nat" where
  "exit_code x = (case x of Returned None \<Rightarrow> 0 | Returned (Some _) \<Rightarrow> 1 | Crashed _ \<Rightarrow> 2)"

section \<open>The database pool and its listeners\<close>

datatype dial = BadURL string | Unreachable string | Reachable

definition store_New :: "(string \<Rightarrow> dial) \<Rightarrow> string \<Rightarrow> ('w, start_error + unit) proc" where
  "store_New dial url = (case dial url of
      BadURL e \<Rightarrow> ret (Inl (ConnectPostgres e))
    | Unreachable e \<Rightarrow> bnd (emit (Pool_Opened url)) (\<lambda>_. bnd (emit Pool_Closed) (\<lambda>_. ret (Inl (PingPostgres e))))
    | Reachable \<Rightarrow> bnd (emit (Pool_Opened url)) (\<lambda>_. ret (Inr ())))"

definition store_Close :: "('w, unit) proc" where
  "store_Close = emit Pool_Closed"

text \<open>\<open>defer st.Close()\<close>: on every return, and not when the process dies of a panic.\<close>

definition closing :: "('w, exit) proc \<Rightarrow> ('w, exit) proc" where
  "closing m = bnd m (\<lambda>x. case x of
     Returned e \<Rightarrow> bnd store_Close (\<lambda>_. ret x) | Crashed p \<Rightarrow> ret x)"

text \<open>
  A listener gets its connection and its \<open>LISTEN\<close>, or not; then it hears payloads until the wait fails,
  which is how a cancelled context ends it. It has no other end.
\<close>

datatype listener = No_Conn string | Refused string | Heard "string list" string

definition Listen :: "listener \<Rightarrow> string \<Rightarrow> (string \<Rightarrow> ('w, unit) proc) \<Rightarrow> ('w, start_error) proc" where
  "Listen l channel handler = (case l of
      No_Conn e \<Rightarrow> ret (AcquireConn e)
    | Refused e \<Rightarrow> bnd (emit Conn_Acquired) (\<lambda>_. bnd (emit (Sent (''LISTEN '' @ pgQuoteIdent channel)))
        (\<lambda>_. bnd (emit Conn_Released) (\<lambda>_. ret (ListenFailed channel e))))
    | Heard ps e \<Rightarrow> bnd (emit Conn_Acquired) (\<lambda>_. bnd (emit (Sent (''LISTEN '' @ pgQuoteIdent channel)))
        (\<lambda>_. bnd (for_each handler ps) (\<lambda>_. bnd (emit Conn_Released) (\<lambda>_. ret (Interrupted e))))))"

section \<open>The clients of the cluster\<close>

record 'c kube_lib =
  load_config :: "string \<Rightarrow> string + 'c"
  new_kube :: "'c \<Rightarrow> string option"
  new_metrics :: "'c \<Rightarrow> string option"
  new_dynamic :: "'c \<Rightarrow> string option"

definition new_client :: "('c \<Rightarrow> string option) \<Rightarrow> (string \<Rightarrow> start_error) \<Rightarrow> 'c \<Rightarrow> ('w, start_error + unit) proc" where
  "new_client new err c = (case new c of Some e \<Rightarrow> ret (Inl (err e)) | None \<Rightarrow> ret (Inr ()))"

definition NewReader :: "'c kube_lib \<Rightarrow> string \<Rightarrow> ('w, start_error + unit) proc" where
  "NewReader lib path = (case load_config lib path of
      Inl e \<Rightarrow> ret (Inl (LoadKubeconfig path e))
    | Inr c \<Rightarrow> throwing (new_client (new_kube lib) KubeClient c)
        (\<lambda>_. throwing (new_client (new_metrics lib) MetricsClient c)
        (\<lambda>_. new_client (new_dynamic lib) DynamicClient c)))"

definition NewReconciler ::
    "'c kube_lib \<Rightarrow> (string \<Rightarrow> int option) \<Rightarrow> controller_config \<Rightarrow> ('w, start_error + reconciler) proc" where
  "NewReconciler lib quantity cfg = (case load_config lib (cc_Kubeconfig cfg) of
      Inl e \<Rightarrow> ret (Inl (LoadKubeconfig (cc_Kubeconfig cfg) e))
    | Inr c \<Rightarrow> throwing (new_client (new_kube lib) KubeClient c)
        (\<lambda>_. throwing (new_client (new_dynamic lib) DynamicClient c)
        (\<lambda>_. ret (Inr (reconciler_of quantity cfg)))))"

section \<open>The API server\<close>

record 'c outside =
  ou_env :: environ
  ou_frac :: "nat \<Rightarrow> nat \<Rightarrow> nat \<Rightarrow> nat"
  ou_dial :: "string \<Rightarrow> dial"
  ou_kube :: "'c kube_lib"
  ou_crypto :: crypto
  ou_hooks :: hooks
  ou_github :: github
  ou_answers :: raw_reader
  ou_quantity :: "string \<Rightarrow> int option"

definition api_New :: "'c outside \<Rightarrow> api_config \<Rightarrow> ('z pg_scheme, unit) act list \<Rightarrow> 'z server" where
  "api_New ou cfg others = \<lparr>srv_crypto = ou_crypto ou, srv_hooks = ou_hooks ou, srv_github = ou_github ou,
     srv_reader = live_reader (ou_answers ou), srv_webhook_secret = ac_GitHubWebhookSecret cfg,
     srv_gh_client_id = ac_GitHubClientID cfg, srv_gh_client_secret = ac_GitHubClientSecret cfg,
     srv_base_domain = ac_BaseDomain cfg, srv_ttl = ac_SessionTTL cfg, srv_others = others\<rparr>"

text \<open>
  \<open>ListenAndServe\<close> fails at once, or some time after requests were answered; or a signal comes and \<open>Shutdown\<close>
  ends well or with an error.
\<close>

datatype serving = Bind_Fails string | Fails_After "request list" string | Signalled "request list" "string option"

definition answer_all :: "'y schema_pg_ext server \<Rightarrow> request list \<Rightarrow> ('y schema_pg_scheme, unit) proc" where
  "answer_all s = for_each (\<lambda>r. bnd (lift (serve s r)) (\<lambda>resp. emit (Answered r resp)))"

definition api_serve ::
    "api_config \<Rightarrow> 'y schema_pg_ext server \<Rightarrow> serving \<Rightarrow> ('y schema_pg_scheme, exit) proc" where
  "api_serve cfg s sv = (case sv of
      Bind_Fails e \<Rightarrow> ret (Returned (Some (ServerFailed e)))
    | Fails_After rs e \<Rightarrow> bnd (emit (Serving (ac_Addr cfg))) (\<lambda>_. bnd (answer_all s rs)
        (\<lambda>_. ret (Returned (Some (ServerFailed e)))))
    | Signalled rs down \<Rightarrow> bnd (emit (Serving (ac_Addr cfg))) (\<lambda>_. bnd (answer_all s rs)
        (\<lambda>_. ret (Returned (map_option ShutdownFailed down)))))"

definition migrating :: "('y schema_pg_scheme, start_error + unit) proc" where
  "migrating = attempt (lift (Migrate migrationsFS)) (\<lambda>e. ret (Inl (MigrateFailed e)))
     (\<lambda>_. bnd (emit Migrated) (\<lambda>_. ret (Inr ())))"

definition api_run ::
    "'c outside \<Rightarrow> ('y schema_pg_scheme, unit) act list \<Rightarrow> serving \<Rightarrow> ('y schema_pg_scheme, exit) proc" where
  "api_run ou others sv = (case LoadAPI (ou_frac ou) (ou_env ou) of
      (cfg, Some e) \<Rightarrow> ret (Returned (Some (BadConfig e)))
    | (cfg, None) \<Rightarrow> starting (store_New (ou_dial ou) (ac_DatabaseURL cfg)) (\<lambda>_. closing
        (starting migrating (\<lambda>_.
         starting (NewReader (ou_kube ou) (ac_Kubeconfig cfg)) (\<lambda>_.
           api_serve cfg (api_New ou cfg others) sv)))))"

section \<open>The builder\<close>

text \<open>
  \<open>Run\<close> of the builder: the sweep, then the listener. How many of the sweep's goroutines get to run
  before the process ends is input (\<open>swept\<close>); so is which of the notified ones do.
\<close>

definition working :: "('w, unit) act \<Rightarrow> ('w, unit) proc" where
  "working m = bnd (lift m) (\<lambda>_. emit Worked)"

definition builder_Run ::
    "'y builder \<Rightarrow> string \<Rightarrow> nat \<Rightarrow> listener \<Rightarrow> ('y bworld, start_error) proc" where
  "builder_Run backend registry swept l =
     bnd (attempt (lift QueuedDeployIDs) (\<lambda>_. ret ())
       (\<lambda>ids. for_each (\<lambda>i. working (process backend registry i)) (take swept ids)))
       (\<lambda>_. Listen l DeployChannel (\<lambda>payload. working (on_notify backend registry payload)))"

definition builder_main :: "'c outside \<Rightarrow> nat \<Rightarrow> listener \<Rightarrow> ('y bworld, exit) proc" where
  "builder_main ou swept l = (case LoadBuilder (ou_env ou) of
      (cfg, Some e) \<Rightarrow> ret (Returned (Some (BadConfig e)))
    | (cfg, None) \<Rightarrow> starting (store_New (ou_dial ou) (bcf_DatabaseURL cfg)) (\<lambda>_. closing
        (bnd (builder_Run (builder_backend (bcf_BuildWorkdir cfg)) (bcf_Registry cfg) swept l)
          (\<lambda>e. ret (Returned (Some e))))))"

section \<open>The controller\<close>

text \<open>
  \<open>Run\<close> of the controller: six listeners and two tickers in one group, whose first error ends them all. What
  happens to them, in time order, is input: a listener is up, a listener gives up, an event occurs. A notification
  on a channel nobody listens on is lost.
\<close>

definition controller_channels :: "string list" where
  "controller_channels = [DeploymentChannel, TeardownChannel, ResourceTeardownChannel, DatabaseChannel,
     DatabaseTeardownChannel, DatabaseBackupChannel]"

datatype happening = Comes_Up string | Gives_Up string listener | Happens event

definition listener_error :: "string \<Rightarrow> listener \<Rightarrow> start_error" where
  "listener_error channel l = (case l of
      No_Conn e \<Rightarrow> AcquireConn e | Refused e \<Rightarrow> ListenFailed channel e | Heard _ e \<Rightarrow> Interrupted e)"

fun delivered :: "string list \<Rightarrow> event \<Rightarrow> bool" where
  "delivered up (Notified channel payload) \<longleftrightarrow> channel \<in> set up"
| "delivered up _ \<longleftrightarrow> True"

fun controller_Run ::
    "reconciler \<Rightarrow> string list \<Rightarrow> happening list \<Rightarrow> string \<Rightarrow> ('y pworld, exit) proc" where
  "controller_Run rc up [] cancelled = ret (Returned (Some (Interrupted cancelled)))"
| "controller_Run rc up (Comes_Up c # hs) cancelled =
     (if c \<in> set controller_channels \<and> c \<notin> set up
      then bnd (emit Conn_Acquired) (\<lambda>_. bnd (emit (Sent (''LISTEN '' @ pgQuoteIdent c)))
        (\<lambda>_. controller_Run rc (c # up) hs cancelled))
      else controller_Run rc up hs cancelled)"
| "controller_Run rc up (Gives_Up c l # hs) cancelled = ret (Returned (Some (listener_error c l)))"
| "controller_Run rc up (Happens ev # hs) cancelled =
     (if delivered up ev
      then attempt (lift (on_event rc ev)) (\<lambda>p. ret (Crashed p))
        (\<lambda>_. bnd (emit Worked) (\<lambda>_. controller_Run rc up hs cancelled))
      else controller_Run rc up hs cancelled)"

definition controller_main :: "'c outside \<Rightarrow> happening list \<Rightarrow> string \<Rightarrow> ('y pworld, exit) proc" where
  "controller_main ou hs cancelled = (case LoadController (ou_env ou) of
      (cfg, Some e) \<Rightarrow> ret (Returned (Some (BadConfig e)))
    | (cfg, None) \<Rightarrow> starting (store_New (ou_dial ou) (cc_DatabaseURL cfg)) (\<lambda>_. closing
        (starting (NewReconciler (ou_kube ou) (ou_quantity ou) cfg) (\<lambda>rc.
         starting (NewReader (ou_kube ou) (cc_Kubeconfig cfg)) (\<lambda>_.
           controller_Run rc [] hs cancelled)))))"

section \<open>What a trace can look like\<close>

text \<open>\<open>extends P m\<close>: whatever happens, \<open>m\<close> adds to the trace, and only sightings in \<open>P\<close>.\<close>

definition adds :: "(sighting \<Rightarrow> bool) \<Rightarrow> ('w, 'a) proc \<Rightarrow> bool" where
  "adds P m \<longleftrightarrow> (\<forall>w tr. \<exists>new. snd (snd (m (w, tr))) = tr @ new \<and> list_all P new)"

definition busy :: "sighting \<Rightarrow> bool" where
  "busy e \<longleftrightarrow> e \<noteq> Pool_Closed \<and> (\<forall>url. e \<noteq> Pool_Opened url)"

lemma adds_ret: "adds P (ret x)"
  by (simp add: adds_def ret_def)

lemma adds_emit: "P e \<Longrightarrow> adds P (emit e)"
  by (simp add: adds_def emit_def)

lemma adds_lift: "adds P (lift m)"
  by (simp add: adds_def lift_def split: prod.split)

lemma adds_bnd:
  assumes "adds P m" "\<And>a. adds P (k a)"
  shows "adds P (bnd m k)"
  unfolding adds_def
proof (intro allI)
  fix w tr
  obtain a w1 tr1 where m: "m (w, tr) = (a, w1, tr1)" by (cases "m (w, tr)") auto
  obtain x where "tr1 = tr @ x" "list_all P x" using assms(1) m unfolding adds_def by (metis snd_conv)
  moreover obtain y where "snd (snd (k a (w1, tr1))) = tr1 @ y" "list_all P y"
    using assms(2) unfolding adds_def by blast
  ultimately show "\<exists>new. snd (snd (bnd m k (w, tr))) = tr @ new \<and> list_all P new"
    using m by (intro exI [of _ "x @ y"]) (simp add: bnd_def)
qed

lemma adds_attempt: "adds P m \<Longrightarrow> (\<And>e. adds P (h e)) \<Longrightarrow> (\<And>a. adds P (k a)) \<Longrightarrow> adds P (attempt m h k)"
proof -
  assume a: "adds P m" "\<And>e. adds P (h e)" "\<And>a. adds P (k a)"
  have "attempt m h k = bnd m (\<lambda>x. case x of Inl e \<Rightarrow> h e | Inr a \<Rightarrow> k a)"
    by (rule ext) (simp add: attempt_def bnd_def split: prod.split sum.split)
  then show ?thesis using a by (auto intro!: adds_bnd split: sum.split)
qed

lemma adds_for_each: "(\<And>x. adds P (f x)) \<Longrightarrow> adds P (for_each f xs)"
  by (induction xs) (auto intro: adds_ret adds_bnd)

lemmas adds_rules = adds_ret adds_emit adds_lift adds_bnd adds_attempt adds_for_each

definition one_pool :: "string \<Rightarrow> sighting list \<Rightarrow> bool" where
  "one_pool url tr \<longleftrightarrow> (\<exists>mid. tr = Pool_Opened url # mid @ [Pool_Closed] \<and> list_all busy mid)"

lemma one_pool_closing:
  assumes "adds busy m" "closing m (w, [Pool_Opened url]) = (Returned e, w', tr)"
  shows "one_pool url tr"
proof -
  obtain x w1 tr1 where m: "m (w, [Pool_Opened url]) = (x, w1, tr1)" by (cases "m (w, [Pool_Opened url])") auto
  then obtain mid where "tr1 = [Pool_Opened url] @ mid" "list_all busy mid"
    using assms(1) unfolding adds_def by (metis snd_conv)
  then show ?thesis using assms(2) m
    by (auto simp: closing_def bnd_def ret_def store_Close_def emit_def one_pool_def split: exit.splits)
qed

lemma Listen_adds: "(\<And>p. adds busy (h p)) \<Longrightarrow> adds busy (Listen l c h)"
  unfolding Listen_def
  by (cases l) (auto simp: busy_def intro!: adds_rules)

lemma working_adds: "adds busy (working m)"
  unfolding working_def by (intro adds_rules) (simp add: busy_def)

lemma builder_Run_adds: "adds busy (builder_Run backend registry n l)"
  unfolding builder_Run_def by (intro adds_rules Listen_adds working_adds)

lemma controller_Run_adds: "adds busy (controller_Run rc up hs cancelled)"
  by (induction rc up hs cancelled rule: controller_Run.induct)
    (auto simp: busy_def intro!: adds_rules)

lemma store_New_up: "dial url = Reachable \<Longrightarrow> starting (store_New dial url) k (w, tr) = k () (w, tr @ [Pool_Opened url])"
  by (simp add: starting_def attempt_def store_New_def bnd_def emit_def ret_def)

lemma store_New_down:
  assumes "dial url \<noteq> Reachable" "starting (store_New dial url) k (w, tr) = (x, w', tr')"
  shows "w' = w \<and> (tr' = tr \<or> tr' = tr @ [Pool_Opened url, Pool_Closed]) \<and> exit_code x = 1"
  using assms
  by (auto simp: starting_def attempt_def store_New_def bnd_def emit_def ret_def exit_code_def split: dial.splits)

lemma Migrate_frame: "Migrate fs w = (r, w1) \<Longrightarrow> tabs w1 = tabs w \<and> bus w1 = bus w"
  unfolding Migrate_def using apply_scripts_prefix by blast

lemma kube_clients:
  assumes "NewReader lib path (w, tr) = (r, s)"
  shows "s = (w, tr) \<and> (r = Inr () \<longrightarrow> (\<exists>c. load_config lib path = Inr c))"
  using assms
  by (auto simp: NewReader_def new_client_def throwing_def attempt_def ret_def split: sum.splits option.splits)

lemma reconciler_client:
  assumes "NewReconciler lib q cfg (w, tr) = (r, s)"
  shows "s = (w, tr) \<and> (\<forall>rc. r = Inr rc \<longrightarrow> rc = reconciler_of q cfg)"
  using assms
  by (auto simp: NewReconciler_def new_client_def throwing_def attempt_def ret_def split: sum.splits option.splits)

lemma migrating_runs:
  assumes "migrating (w, tr) = (r, s)"
  obtains w1 where "Migrate migrationsFS w = (Inr (), w1)" "r = Inr ()" "s = (w1, tr @ [Migrated])"
  | e w1 where "Migrate migrationsFS w = (Inl e, w1)" "r = Inl (MigrateFailed e)" "s = (w1, tr)"
  using assms by (auto simp: migrating_def attempt_def lift_def bnd_def emit_def ret_def split: prod.splits sum.splits)

text \<open>The answers of the server are those of \<open>serve\<close>, one per request and in their order.\<close>

fun answers_of :: "'z server \<Rightarrow> request list \<Rightarrow> 'z pg_scheme \<Rightarrow> sighting list \<times> 'z pg_scheme" where
  "answers_of s [] w = ([], w)"
| "answers_of s (r # rs) w = (let (resp, w1) = serve s r w; (as, w2) = answers_of s rs w1
     in (Answered r resp # as, w2))"

lemma answer_all_runs: "answer_all s rs (w, tr) = ((), snd (answers_of s rs w), tr @ fst (answers_of s rs w))"
  unfolding answer_all_def
  by (induction rs arbitrary: w tr) (auto simp: bnd_def ret_def lift_def emit_def split: prod.splits)

text \<open>
  C10. The API server answers requests only after everything it needs is there: its configuration is complete, the
  database answered, every migration is applied, the kubeconfig loads. It then answers from the migrated database. A start
  that fails at any of these steps ends in exit code 1 with the rows and the notifications as they were, and
  whichever way it ends, a pool that was opened has been closed.
\<close>

theorem api_starts_safely:
  fixes w :: "'y schema_pg_scheme"
  assumes run: "api_run ou others sv (w, []) = (x, w', tr)"
  shows "(exit_code x = 1 \<and> tabs w' = tabs w \<and> bus w' = bus w \<and>
      (tr = [] \<or> (\<exists>url. tr = [Pool_Opened url, Pool_Closed] \<or> tr = [Pool_Opened url, Migrated, Pool_Closed]))) \<or>
    (\<exists>cfg w1 rs. LoadAPI (ou_frac ou) (ou_env ou) = (cfg, None) \<and> ou_dial ou (ac_DatabaseURL cfg) = Reachable \<and>
      Migrate migrationsFS w = (Inr (), w1) \<and> (\<exists>c. load_config (ou_kube ou) (ac_Kubeconfig cfg) = Inr c) \<and>
      w' = snd (answers_of (api_New ou cfg others) rs w1) \<and>
      tr = [Pool_Opened (ac_DatabaseURL cfg), Migrated, Serving (ac_Addr cfg)] @
        fst (answers_of (api_New ou cfg others) rs w1) @ [Pool_Closed] \<and>
      (exit_code x = 0 \<longleftrightarrow> sv = Signalled rs None))"
proof -
  obtain cfg er where cfg: "LoadAPI (ou_frac ou) (ou_env ou) = (cfg, er)" by (cases "LoadAPI (ou_frac ou) (ou_env ou)")
  let ?url = "ac_DatabaseURL cfg"
  show ?thesis
  proof (cases "er = None \<and> ou_dial ou ?url = Reachable")
    case False
    then show ?thesis using run cfg store_New_down
      by (fastforce simp: api_run_def ret_def exit_code_def split: option.splits)
  next
    case True
    obtain r w1 s where m: "migrating (w, [Pool_Opened ?url]) = (r, w1, s)"
      by (cases "migrating (w, [Pool_Opened ?url])") auto
    obtain k v t where rd: "NewReader (ou_kube ou) (ac_Kubeconfig cfg) (w1, s) = (k, v, t)"
      by (cases "NewReader (ou_kube ou) (ac_Kubeconfig cfg) (w1, s)") auto
    have rd': "v = w1" "t = s" "k = Inr () \<longrightarrow> (\<exists>c. load_config (ou_kube ou) (ac_Kubeconfig cfg) = Inr c)"
      using kube_clients [OF rd] by auto
    have body: "closing (starting migrating (\<lambda>_. starting (NewReader (ou_kube ou) (ac_Kubeconfig cfg)) (\<lambda>_.
        api_serve cfg (api_New ou cfg others) sv))) (w, [Pool_Opened ?url]) = (x, w', tr)"
      using run cfg True by (simp add: api_run_def store_New_up)
    show ?thesis using m
    proof (cases rule: migrating_runs)
      case (2 e w2)
      then show ?thesis using body m Migrate_frame [OF 2(1)]
        by (auto simp: closing_def starting_def attempt_def bnd_def ret_def store_Close_def emit_def exit_code_def)
    next
      case (1 w2)
      note f = Migrate_frame [OF 1(1)]
      show ?thesis
      proof (cases "k = Inr () \<and> (\<forall>e. sv \<noteq> Bind_Fails e)")
        case False
        then show ?thesis using body m 1 rd rd' f
          by (cases k) (auto simp: closing_def starting_def attempt_def bnd_def ret_def store_Close_def emit_def
              exit_code_def api_serve_def split: serving.splits)
      next
        case True
        then have "\<exists>rs. tr = [Pool_Opened ?url, Migrated, Serving (ac_Addr cfg)] @
            fst (answers_of (api_New ou cfg others) rs w1) @ [Pool_Closed] \<and>
            w' = snd (answers_of (api_New ou cfg others) rs w1) \<and> (exit_code x = 0 \<longleftrightarrow> sv = Signalled rs None)"
          using body m 1 rd rd'
          by (cases sv) (auto simp: closing_def starting_def attempt_def bnd_def ret_def store_Close_def emit_def
              exit_code_def api_serve_def answer_all_runs split: option.splits)
        then obtain rs where "tr = [Pool_Opened ?url, Migrated, Serving (ac_Addr cfg)] @
            fst (answers_of (api_New ou cfg others) rs w1) @ [Pool_Closed] \<and>
            w' = snd (answers_of (api_New ou cfg others) rs w1) \<and> (exit_code x = 0 \<longleftrightarrow> sv = Signalled rs None)"
          by (elim exE)
        then show ?thesis using 1 True rd'(3) cfg \<open>er = None \<and> ou_dial ou ?url = Reachable\<close>
          by (intro disjI2 exI [of _ cfg] exI [of _ w1] exI [of _ rs]) simp
      qed
    qed
  qed
qed

lemma controller_Run_ends: "fst (controller_Run rc up hs cancelled w) \<noteq> Returned None"
  by (induction rc up hs cancelled arbitrary: w rule: controller_Run.induct)
    (auto simp: ret_def bnd_def attempt_def split: if_splits prod.splits sum.splits)

lemma builder_main_runs:
  assumes "builder_main ou n l (w, []) = (x, w', tr)"
  shows "exit_code x = 1 \<and> (w' = w \<and> (tr = [] \<or> (\<exists>url. tr = [Pool_Opened url, Pool_Closed])) \<or>
    (\<exists>cfg. LoadBuilder (ou_env ou) = (cfg, None) \<and> ou_dial ou (bcf_DatabaseURL cfg) = Reachable \<and>
      one_pool (bcf_DatabaseURL cfg) tr))"
proof -
  obtain cfg er where cfg: "LoadBuilder (ou_env ou) = (cfg, er)" by (cases "LoadBuilder (ou_env ou)")
  show ?thesis
  proof (cases "er = None \<and> ou_dial ou (bcf_DatabaseURL cfg) = Reachable")
    case False
    then show ?thesis using assms cfg store_New_down
      by (fastforce simp: builder_main_def ret_def exit_code_def split: option.splits)
  next
    case True
    let ?m = "bnd (builder_Run (builder_backend (bcf_BuildWorkdir cfg)) (bcf_Registry cfg) n l)
      (\<lambda>e. ret (Returned (Some e)))"
    have run: "closing ?m (w, [Pool_Opened (bcf_DatabaseURL cfg)]) = (x, w', tr)"
      using assms cfg True by (simp add: builder_main_def store_New_up)
    then obtain e where x: "x = Returned (Some e)"
      by (auto simp: closing_def bnd_def ret_def store_Close_def emit_def split: prod.splits)
    have "adds busy ?m" by (intro adds_rules builder_Run_adds)
    from one_pool_closing [OF this run [unfolded x]] show ?thesis using x cfg True by (simp add: exit_code_def)
  qed
qed

lemma controller_main_runs:
  assumes "controller_main ou hs cancelled (w, []) = (x, w', tr)"
  shows "exit_code x \<noteq> 0 \<and> (w' = w \<and> (tr = [] \<or> (\<exists>url. tr = [Pool_Opened url, Pool_Closed])) \<or>
    (\<exists>cfg c. LoadController (ou_env ou) = (cfg, None) \<and> ou_dial ou (cc_DatabaseURL cfg) = Reachable \<and>
      load_config (ou_kube ou) (cc_Kubeconfig cfg) = Inr c \<and>
      ((\<exists>e. x = Returned e) \<longrightarrow> one_pool (cc_DatabaseURL cfg) tr)))"
proof -
  obtain cfg er where cfg: "LoadController (ou_env ou) = (cfg, er)" by (cases "LoadController (ou_env ou)")
  let ?url = "cc_DatabaseURL cfg"
  show ?thesis
  proof (cases "er = None \<and> ou_dial ou ?url = Reachable")
    case False
    then show ?thesis using assms cfg store_New_down
      by (fastforce simp: controller_main_def ret_def exit_code_def split: option.splits)
  next
    case True
    let ?rest = "\<lambda>rc. starting (NewReader (ou_kube ou) (cc_Kubeconfig cfg)) (\<lambda>_. controller_Run rc [] hs cancelled)"
    let ?m = "starting (NewReconciler (ou_kube ou) (ou_quantity ou) cfg) ?rest"
    have run: "closing ?m (w, [Pool_Opened ?url]) = (x, w', tr)"
      using assms cfg True by (simp add: controller_main_def store_New_up)
    obtain a v s where rc: "NewReconciler (ou_kube ou) (ou_quantity ou) cfg (w, [Pool_Opened ?url]) = (a, v, s)"
      by (cases "NewReconciler (ou_kube ou) (ou_quantity ou) cfg (w, [Pool_Opened ?url])") auto
    obtain b u t where rd: "NewReader (ou_kube ou) (cc_Kubeconfig cfg) (w, [Pool_Opened ?url]) = (b, u, t)"
      by (cases "NewReader (ou_kube ou) (cc_Kubeconfig cfg) (w, [Pool_Opened ?url])") auto
    note st = reconciler_client [OF rc] kube_clients [OF rd]
    show ?thesis
    proof (cases "(\<exists>r. a = Inr r) \<and> b = Inr ()")
      case False
      then show ?thesis using run rc rd st
        by (cases a; cases b) (auto simp: closing_def starting_def attempt_def bnd_def ret_def store_Close_def
            emit_def exit_code_def)
    next
      case True
      then obtain r c where r: "a = Inr r" "b = Inr ()" "load_config (ou_kube ou) (cc_Kubeconfig cfg) = Inr c"
        using st by blast
      have eq: "closing (controller_Run r [] hs cancelled) (w, [Pool_Opened ?url]) = (x, w', tr)"
        using run rc rd st r by (simp add: closing_def starting_def attempt_def bnd_def)
      have "x \<noteq> Returned None"
        using eq controller_Run_ends [of r "[]" hs cancelled "(w, [Pool_Opened ?url])"] by (auto simp: closing_def bnd_def ret_def store_Close_def emit_def split: prod.splits exit.splits)
      then have "exit_code x \<noteq> 0" by (auto simp: exit_code_def split: exit.splits option.splits)
      moreover have "one_pool ?url tr" if "x = Returned e" for e
        using one_pool_closing [OF controller_Run_adds eq [unfolded that]] .
      ultimately show ?thesis using cfg r \<open>er = None \<and> ou_dial ou ?url = Reachable\<close> by auto
    qed
  qed
qed

text \<open>
  C39. The workers. They work only with a complete configuration, a database that answered and, the controller, a
  kubeconfig that loads. A pool that was opened is closed whenever \<open>run\<close> returns. But neither ever exits with code 0: their listeners end only in an
  error, the cancelled context of an ordinary shutdown included.
\<close>

theorem workers_start_safely:
  assumes b: "builder_main ou n l (w, []) = (x, w', tr)"
    and c: "controller_main ou hs cancelled (v, []) = (y, v', ts)"
  shows "exit_code x \<noteq> 0 \<and> exit_code y \<noteq> 0 \<and>
    (tabs w' \<noteq> tabs w \<or> Worked \<in> set tr \<longrightarrow> (\<exists>cfg. LoadBuilder (ou_env ou) = (cfg, None) \<and>
      ou_dial ou (bcf_DatabaseURL cfg) = Reachable)) \<and>
    (tabs v' \<noteq> tabs v \<or> Worked \<in> set ts \<longrightarrow> (\<exists>cfg c. LoadController (ou_env ou) = (cfg, None) \<and>
      ou_dial ou (cc_DatabaseURL cfg) = Reachable \<and> load_config (ou_kube ou) (cc_Kubeconfig cfg) = Inr c)) \<and>
    (tr = [] \<or> (\<exists>url. one_pool url tr)) \<and> (ts = [] \<or> (\<exists>url. one_pool url ts) \<or> (\<exists>p. y = Crashed p))"
proof -
  have "one_pool url [Pool_Opened url, Pool_Closed]" for url by (simp add: one_pool_def)
  with builder_main_runs [OF b] controller_main_runs [OF c] show ?thesis
    by (cases y) (auto simp: exit_code_def)
qed

section \<open>Six listeners and the pool\<close>

text \<open>
  The library's pool gives out at most \<open>cap\<close> connections (four by default, or one per processor if there are more)
  and makes whoever asks for another wait. A listener takes one for good, a query takes one and returns it.
\<close>

datatype pool_use = Grab string | Query_Done

fun pool_step :: "nat \<Rightarrow> string list \<Rightarrow> pool_use \<Rightarrow> string list" where
  "pool_step cap held (Grab c) = (if c \<in> set held \<or> length held \<ge> cap then held else c # held)"
| "pool_step cap held Query_Done = held"

definition query_runs :: "nat \<Rightarrow> string list \<Rightarrow> bool" where
  "query_runs cap held \<longleftrightarrow> length held < cap"

lemma pool_held:
  assumes "distinct held" "set held \<subseteq> set cs" "length held \<le> cap" "\<And>c. Grab c \<in> set us \<Longrightarrow> c \<in> set cs"
  defines "h \<equiv> foldl (pool_step cap) held us"
  shows "distinct h \<and> set held \<subseteq> set h \<and> set h \<subseteq> set cs \<and> length h \<le> cap \<and>
    (length h < cap \<longrightarrow> (\<forall>c. Grab c \<in> set us \<longrightarrow> c \<in> set h))"
  using assms(1-4) unfolding h_def
proof (induction us arbitrary: held)
  case (Cons u us)
  have step: "distinct (pool_step cap held u)" "set (pool_step cap held u) \<subseteq> set cs"
      "length (pool_step cap held u) \<le> cap" "set held \<subseteq> set (pool_step cap held u)"
    using Cons.prems by (cases u; auto)+
  have grabbed: "c \<in> set (pool_step cap held u) \<or> length (pool_step cap held u) = cap" if "u = Grab c" for c
    using that Cons.prems(3) by auto
  note IH = Cons.IH [OF step(1-3) Cons.prems(4)]
  have "length (pool_step cap held u) \<le> length (foldl (pool_step cap) (pool_step cap held u) us)"
    using IH step by (metis card_mono distinct_card finite_set list.set_intros(2))
  then show ?case using IH step grabbed by fastforce
qed auto



section \<open>A start that succeeds, and a shutdown of the workers\<close>

definition demo_environ :: environ where
  "demo_environ k = (if k = ''URAN_SESSION_TTL'' \<or> k = ''URAN_SHUTDOWN_TIMEOUT'' then ''1h'' else ''on'')"

definition demo_outside :: "unit outside" where
  "demo_outside = \<lparr>ou_env = demo_environ, ou_frac = (\<lambda>_ _ _. 0), ou_dial = (\<lambda>_. Reachable),
     ou_kube = \<lparr>load_config = (\<lambda>_. Inr ()), new_kube = (\<lambda>_. None), new_metrics = (\<lambda>_. None), new_dynamic = (\<lambda>_. None)\<rparr>,
     ou_crypto = srv_crypto demo_server, ou_hooks = srv_hooks demo_server, ou_github = srv_github demo_server,
     ou_answers = \<lparr>raw_pods = (\<lambda>_ _. None), raw_metrics = (\<lambda>_ _. None), raw_backups = (\<lambda>_. None), raw_logs = (\<lambda>_ _. None)\<rparr>,
     ou_quantity = (\<lambda>_. None)\<rparr>"

lemma demo_config: "snd (LoadAPI frac demo_environ) = None"
proof -
  have h: "(''h'', 3600000000000) \<in> set duration_units" by (simp add: duration_units_def)
  have one: "''1h'' = dec_nat 1 @ ''h''" by code_simp
  have "parse_duration frac ''1h'' = Inr 3600000000000"
    unfolding one parse_duration_whole [OF h] by simp
  moreover have "trim_space ''1h'' \<noteq> []" "trim_space ''on'' \<noteq> []" by code_simp+
  ultimately show ?thesis
    unfolding loader_errors [THEN conjunct1] by (simp add: load_err_def api_vars_def problem_def demo_environ_def)
qed

lemma demo_start: "fst (api_run demo_outside [] (Signalled [] None) (new_pg\<lparr>faults := []\<rparr>, [])) = Returned None"
proof -
  let ?w = "new_pg\<lparr>faults := []\<rparr>"
  obtain cfg where cfg: "LoadAPI (ou_frac demo_outside) (ou_env demo_outside) = (cfg, None)"
    using demo_config [of "\<lambda>_ _ _. 0"] by (cases "LoadAPI (\<lambda>_ _ _. 0) demo_environ") (simp add: demo_outside_def)
  obtain w1 where "Migrate migrationsFS ?w = (Inr (), w1)"
    using migrate_release [OF _ new_pg_release [of "[]"]] by (cases "Migrate migrationsFS ?w") auto
  moreover have "ou_dial demo_outside (ac_DatabaseURL cfg) = Reachable" by (simp add: demo_outside_def)
  moreover from this cfg have "api_run demo_outside [] (Signalled [] None) (?w, []) = closing (starting migrating (\<lambda>_.
      starting (NewReader (ou_kube demo_outside) (ac_Kubeconfig cfg)) (\<lambda>_.
        api_serve cfg (api_New demo_outside cfg []) (Signalled [] None)))) (?w, [Pool_Opened (ac_DatabaseURL cfg)])"
    by (simp add: api_run_def store_New_up)
  ultimately show ?thesis
    by (simp add: closing_def starting_def attempt_def migrating_def lift_def bnd_def
        emit_def ret_def store_Close_def NewReader_def new_client_def throwing_def demo_outside_def api_serve_def
        answer_all_def)
qed

theorem api_starts_safely_witness:
  "\<exists>x w' tr (cfg :: api_config). api_run demo_outside [] (Signalled [] None) (new_pg\<lparr>faults := []\<rparr>, []) = (x, w', tr) \<and>
     exit_code x = 0 \<and> tr = [Pool_Opened (ac_DatabaseURL cfg), Migrated, Serving (ac_Addr cfg), Pool_Closed]"
proof -
  obtain x w' tr where run: "api_run demo_outside [] (Signalled [] None) (new_pg\<lparr>faults := []\<rparr>, []) = (x, w', tr)"
    by (cases "api_run demo_outside [] (Signalled [] None) (new_pg\<lparr>faults := []\<rparr>, [])") auto
  then have x: "exit_code x = 0" using demo_start by (simp add: exit_code_def)
  from api_starts_safely [OF run] x obtain cfg w1 rs where
    "tr = [Pool_Opened (ac_DatabaseURL cfg), Migrated, Serving (ac_Addr cfg)] @
      fst (answers_of (api_New demo_outside cfg []) rs w1) @ [Pool_Closed]"
    "exit_code x = 0 \<longleftrightarrow> Signalled [] None = Signalled rs None"
    by (elim disjE exE conjE) simp_all
  then have "tr = [Pool_Opened (ac_DatabaseURL cfg), Migrated, Serving (ac_Addr cfg), Pool_Closed]" using x by simp
  with run x show ?thesis
    by (intro exI [of _ x] exI [of _ w'] exI [of _ tr] exI [of _ cfg]) simp
qed

theorem workers_start_safely_witness:
  "\<exists>(b :: builder_world) (c :: controller) x w' tr y v' ts. builder_main demo_outside 0 (Heard [] ''context canceled'') (b, []) = (x, w', tr) \<and>
     controller_main demo_outside [] ''context canceled'' (c, []) = (y, v', ts) \<and> exit_code x \<noteq> 0 \<and> exit_code y \<noteq> 0"
proof -
  fix b :: builder_world and c :: controller
  obtain x w' tr where x: "builder_main demo_outside 0 (Heard [] ''context canceled'') (b, []) = (x, w', tr)"
    by (cases "builder_main demo_outside 0 (Heard [] ''context canceled'') (b, [])") auto
  obtain y v' ts where y: "controller_main demo_outside [] ''context canceled'' (c, []) = (y, v', ts)"
    by (cases "controller_main demo_outside [] ''context canceled'' (c, [])") auto
  from workers_start_safely [OF x y] x y show ?thesis by blast
qed

end
