(* ===== verification/Api_Traffic.thy ===== *)
theory Api_Traffic
  imports Api_Router
begin

text \<open>
  What the API does to the deploys and to the event bus, in one reflexive and transitive relation
  \<open>api_moves\<close> on the database connection. A request never changes a deploy that is there: it adds deploys
  or deletes them. Every payload it sends to the builder or the controller names a deploy of its own, and
  as long as no call fails, every deploy it adds is announced: a queued one to the builder, a
  deploying one to the controller. The relation is proved of every statement, of the pairs of a creation and its
  announcement, and from them of every handler and of \<open>serve\<close>.
\<close>

section \<open>The relation\<close>

text \<open>Every deploy has its build, under an identity column that only grows.\<close>

definition deploys_built :: "tables \<Rightarrow> bool" where
  "deploys_built t \<longleftrightarrow> 0 \<le> seqs t SDeploys \<and> distinct (map d_id (deploys t)) \<and>
     (\<forall>d \<in> set (deploys t). 0 \<le> d_id d \<and> d_id d < seqs t SDeploys \<and> d_id d \<in> b_deploy ` set (builds t))"

definition announces :: "deploy \<Rightarrow> string \<times> string \<Rightarrow> bool" where
  "announces d m \<longleftrightarrow> (d_status d = StatusQueued \<and> m = (DeployChannel, itoa (d_id d))) \<or>
     (d_status d = StatusDeploying \<and> m = (DeploymentChannel, itoa (d_id d)))"

definition names_new :: "int \<Rightarrow> string \<times> string \<Rightarrow> bool" where
  "names_new n m \<longleftrightarrow> (fst m \<in> {DeployChannel, DeploymentChannel} \<longrightarrow> (\<exists>i \<ge> n. snd m = itoa i))"

definition api_sends :: "pg \<Rightarrow> pg \<Rightarrow> (string \<times> string) list \<Rightarrow> bool" where
  "api_sends p q sent \<longleftrightarrow> bus q = bus p @ sent \<and> list_all (names_new (seqs (tabs p) SDeploys)) sent \<and>
     (faults p = [] \<longrightarrow> faults q = [] \<and>
       (\<forall>d \<in> set (deploys (tabs q)). d \<in> set (deploys (tabs p)) \<or> (\<exists>m \<in> set sent. announces d m)))"

definition deploys_kept :: "tables \<Rightarrow> tables \<Rightarrow> bool" where
  "deploys_kept t t' \<longleftrightarrow> seqs t SDeploys \<le> seqs t' SDeploys \<and> (deploys_built t \<longrightarrow> deploys_built t') \<and>
     (\<forall>d \<in> set (deploys t'). d \<in> set (deploys t) \<or> seqs t SDeploys \<le> d_id d)"

definition api_moves :: "pg \<Rightarrow> pg \<Rightarrow> bool" where
  "api_moves p q \<longleftrightarrow> deploys_kept (tabs p) (tabs q) \<and> (\<exists>sent. api_sends p q sent)"

lemma names_new_mono: "m \<le> n \<Longrightarrow> names_new n x \<Longrightarrow> names_new m x"
  by (auto simp: names_new_def)

lemma deploys_kept_refl [simp]: "deploys_kept t t"
  by (simp add: deploys_kept_def)

lemma deploys_kept_trans: "deploys_kept t u \<Longrightarrow> deploys_kept u v \<Longrightarrow> deploys_kept t v"
  unfolding deploys_kept_def by (meson order_trans)

lemma api_moves_refl [simp]: "api_moves p p"
  unfolding api_moves_def api_sends_def by (auto intro: exI [of _ "[]"])

lemma api_moves_trans:
  assumes "api_moves p q" "api_moves q r"
  shows "api_moves p r"
proof -
  obtain s1 s2 where s: "api_sends p q s1" "api_sends q r s2"
    and k: "deploys_kept (tabs p) (tabs q)" "deploys_kept (tabs q) (tabs r)"
    using assms unfolding api_moves_def by blast
  have le: "seqs (tabs p) SDeploys \<le> seqs (tabs q) SDeploys" using k(1) by (simp add: deploys_kept_def)
  have "list_all (names_new (seqs (tabs p) SDeploys)) s2"
    using s(2) names_new_mono [OF le] by (simp add: api_sends_def list_all_iff)
  moreover have "\<exists>m \<in> set (s1 @ s2). announces d m"
    if "faults p = []" "d \<in> set (deploys (tabs r))" "d \<notin> set (deploys (tabs p))" for d
  proof (cases "d \<in> set (deploys (tabs q))")
    case True
    then show ?thesis using s(1) that unfolding api_sends_def by auto
  next
    case False
    then show ?thesis using s that unfolding api_sends_def by auto
  qed
  ultimately have "api_sends p r (s1 @ s2)" using s unfolding api_sends_def by auto
  then show ?thesis using deploys_kept_trans [OF k] unfolding api_moves_def by blast
qed

interpretation api: evolution "pg.truncate :: 'z pg_scheme \<Rightarrow> pg" api_moves
  by unfold_locales (rule api_moves_refl, rule api_moves_trans)

named_theorems moving \<open>actions that respect \<open>api_moves\<close>\<close>

abbreviation api_keeps :: "('z pg_scheme, 'a) act \<Rightarrow> bool" where
  "api_keeps m \<equiv> keeps pg.truncate api_moves m"

text \<open>A step that sends nothing and adds no deploy.\<close>

lemma api_moves_quiet:
  assumes "deploys_kept (tabs p) (tabs q)" "bus q = bus p" "faults p = [] \<Longrightarrow> faults q = []"
    and "set (deploys (tabs q)) \<subseteq> set (deploys (tabs p))"
  shows "api_moves p q"
  using assms unfolding api_moves_def api_sends_def by (auto intro!: exI [of _ "[]"])

lemma next_fault_calm: "next_fault w = (b, w') \<Longrightarrow> faults w = [] \<Longrightarrow> faults w' = []"
  by (simp add: next_fault_def)

lemma pg_read_calm: "pg_read q w = (r, w') \<Longrightarrow> faults w = [] \<Longrightarrow> faults w' = []"
  by simp

lemma api_keeps_read [moving]: "api_keeps (pg_read q :: ('z, 'a) sop)"
  unfolding keeps_def
proof
  fix w :: "'z pg_scheme"
  obtain r w' where 1: "pg_read q w = (r, w')" by fastforce
  show "api_moves (pg.truncate w) (pg.truncate (snd (pg_read q w)))"
    using pg_read_frame [OF 1] pg_read_calm [OF 1] by (intro api_moves_quiet) (simp_all add: 1 pg.truncate_def)
qed

definition deploys_still :: "tables \<Rightarrow> tables \<Rightarrow> bool" where
  "deploys_still t t' \<longleftrightarrow> seqs t' SDeploys = seqs t SDeploys \<and> set (deploys t') \<subseteq> set (deploys t) \<and>
     (deploys_built t \<longrightarrow> deploys_built t')"

lemma deploys_still_refl [simp]: "deploys_still t t"
  by (simp add: deploys_still_def)

lemma api_keeps_exec:
  assumes "\<And>n t a t'. f n t = Inr (a, t') \<Longrightarrow> deploys_still t t'"
  shows "api_keeps (pg_exec f :: ('z, 'a) sop)"
  unfolding keeps_def
proof
  fix w :: "'z pg_scheme"
  obtain r w' where 1: "pg_exec f w = (r, w')" by fastforce
  have "deploys_still (tabs w) (tabs w')"
    using pg_exec_cases [OF 1] assms deploys_still_refl by metis
  moreover have "faults w = [] \<Longrightarrow> faults w' = []"
    using 1 by (auto simp: split: sum.splits)
  ultimately show "api_moves (pg.truncate w) (pg.truncate (snd (pg_exec f w)))"
    using pg_exec_cases [OF 1]
    by (intro api_moves_quiet) (auto simp: 1 pg.truncate_def deploys_still_def deploys_kept_def)
qed

lemma api_keeps_total:
  assumes "\<And>n t. deploys_still t (g n t)"
  shows "api_keeps (pg_exec (\<lambda>n t. Inr (f n t, g n t)))"
  using assms by (intro api_keeps_exec) auto

lemma api_keeps_tx:
  assumes "api_keeps (body :: ('z, 'a) sop)" "\<And>w r w'. body w = (r, w') \<Longrightarrow> bus w' = bus w"
  shows "api_keeps (pg_tx body)"
  unfolding keeps_def
proof
  fix w :: "'z pg_scheme"
  obtain b w1 where 1: "next_fault w = (b, w1)" by fastforce
  obtain r w2 where 2: "body w1 = (r, w2)" by fastforce
  obtain c w3 where 3: "next_fault w2 = (c, w3)" by fastforce
  have m: "api_moves (pg.truncate w1) (pg.truncate w2)" by (rule keepsD [OF assms(1) 2])
  note f = next_fault_frame [OF 1] next_fault_frame [OF 3] assms(2) [OF 2]
  have calm: "faults w = [] \<Longrightarrow> faults w1 = []" "faults w1 = [] \<Longrightarrow> faults w2 = []" "faults w2 = [] \<Longrightarrow> faults w3 = []"
    using next_fault_calm [OF 1] next_fault_calm [OF 3] m
    by (auto simp: api_moves_def api_sends_def pg.truncate_def)
  have same: "api_moves (pg.truncate w) (pg.truncate w1)"
    using f calm(1) by (intro api_moves_quiet) (simp_all add: pg.truncate_def)
  have undo: "api_moves (pg.truncate w1) (pg.truncate (w2\<lparr>tabs := tabs w1\<rparr>))"
    "api_moves (pg.truncate w1) (pg.truncate (w3\<lparr>tabs := tabs w1\<rparr>))"
    using f calm by (auto intro!: api_moves_quiet simp: pg.truncate_def)
  have commit: "api_moves (pg.truncate w2) (pg.truncate w3)"
    using f calm by (intro api_moves_quiet) (simp_all add: pg.truncate_def)
  show "api_moves (pg.truncate w) (pg.truncate (snd (pg_tx body w)))"
    using same undo api_moves_trans [OF m commit]
    by (auto simp: pg_tx_def 1 2 3 intro: api_moves_trans split: bool.splits sum.splits)
qed

section \<open>Statements\<close>

lemma deploys_built_frame:
  assumes "deploys t' = deploys t" "seqs t' SDeploys = seqs t SDeploys"
    and "b_deploy ` set (builds t) \<subseteq> b_deploy ` set (builds t')"
  shows "deploys_built t \<Longrightarrow> deploys_built t'"
  unfolding deploys_built_def assms(1,2) using assms(3) by (simp add: subset_iff)

lemma deploys_stillI:
  assumes "deploys t' = deploys t \<and> seqs t' SDeploys = seqs t SDeploys"
    and "b_deploy ` set (builds t) \<subseteq> b_deploy ` set (builds t')"
  shows "deploys_still t t'"
  using assms(1) deploys_built_frame [OF _ _ assms(2)] unfolding deploys_still_def by simp

lemma builds_frame:
  "ins_user e h nm n t = Inr (u, t') \<Longrightarrow> builds t' = builds t"
  "ins_session k i x n t = Inr (a, t') \<Longrightarrow> builds t' = builds t"
  "ins_org nm sl n t = Inr (og, t') \<Longrightarrow> builds t' = builds t"
  "upsert_member i j r n t = Inr (a, t') \<Longrightarrow> builds t' = builds t"
  "ins_member i j r n t = Inr (a, t') \<Longrightarrow> builds t' = builds t"
  "ins_project i nm sl n t = Inr (c, t') \<Longrightarrow> builds t' = builds t"
  "ins_service i nm sl ty re br sc n t = Inr (s, t') \<Longrightarrow> builds t' = builds t"
  "upsert_env i k v se bt n t = Inr (a, t') \<Longrightarrow> builds t' = builds t"
  "ins_domain i d n t = Inr (cd, t') \<Longrightarrow> builds t' = builds t"
  "ins_database i nm sl en ti inst mn mx sz sto po ba n t = Inr (db, t') \<Longrightarrow> builds t' = builds t"
  "ins_token i nm h p n t = Inr (tk, t') \<Longrightarrow> builds t' = builds t"
  "ins_audit i e m p st n t = Inr (a, t') \<Longrightarrow> builds t' = builds t"
  "upsert_credential i r un p n t = Inr (rc, t') \<Longrightarrow> builds t' = builds t"
  "upsert_github i tok ac n t = Inr (a, t') \<Longrightarrow> builds t' = builds t"
  "upd_org i nm sl n t = Inr (og, t') \<Longrightarrow> builds t' = builds t"
  "upd_project i nm sl n t = Inr (pj, t') \<Longrightarrow> builds t' = builds t"
  by (auto simp: ins_user_def ins_session_def ins_org_def ins_member_def upsert_member_def ins_project_def
      ins_service_def upsert_env_def ins_domain_def ins_database_def ins_token_def ins_audit_def
      upsert_credential_def upsert_github_def upd_org_def upd_project_def nextval_def Let_def
      split: if_splits option.splits)

lemma exec_insert_moves [moving]:
  "api_keeps (pg_exec (ins_user e h nm))" "api_keeps (pg_exec (ins_session k i x))"
  "api_keeps (pg_exec (ins_org nm sl))" "api_keeps (pg_exec (ins_member i j r))"
  "api_keeps (pg_exec (upsert_member i j r))" "api_keeps (pg_exec (ins_project i nm sl))"
  "api_keeps (pg_exec (ins_service i nm sl ty re br sc))" "api_keeps (pg_exec (upsert_env i k v se bt))"
  "api_keeps (pg_exec (ins_domain i d))"
  "api_keeps (pg_exec (ins_database i nm sl en ti inst mn mx sz sto po ba))"
  "api_keeps (pg_exec (ins_token i nm h p))" "api_keeps (pg_exec (ins_audit i e m p s))"
  "api_keeps (pg_exec (upsert_credential i r u p))" "api_keeps (pg_exec (upsert_github i tok ac))"
  "api_keeps (pg_exec (upd_org i nm sl))" "api_keeps (pg_exec (upd_project i nm sl))"
  by (rule api_keeps_exec, rule deploys_stillI, erule frames, simp add: builds_frame)+

lemma upd_still [moving]:
  "deploys_still t (upd_service i f t)" "deploys_still t (upd_database i h t)" "deploys_still t (upd_token z j t)"
  "deploys_still t (t\<lparr>sessions := ss\<rparr>)" "deploys_still t (t\<lparr>org_members := ms\<rparr>)"
  "deploys_still t (t\<lparr>env_vars := es\<rparr>)" "deploys_still t (t\<lparr>custom_domains := cs\<rparr>)"
  "deploys_still t (t\<lparr>databases := ds\<rparr>)" "deploys_still t (t\<lparr>api_tokens := ts\<rparr>)"
  "deploys_still t (t\<lparr>registry_credentials := rs\<rparr>)" "deploys_still t (t\<lparr>github_connections := gs\<rparr>)"
  by (rule deploys_stillI; simp add: upd_service_def upd_database_def upd_token_def)+

lemma upd_build_still:
  assumes "\<And>b. b_deploy (g b) = b_deploy b"
  shows "deploys_still t (upd_build i g t)"
proof (rule deploys_stillI)
  have "map b_deploy (builds (upd_build i g t)) = map b_deploy (builds t)"
    by (simp add: upd_build_def map_key_update assms)
  then have "b_deploy ` set (builds (upd_build i g t)) = b_deploy ` set (builds t)"
    by (metis list.set_map)
  then show "b_deploy ` set (builds t) \<subseteq> b_deploy ` set (builds (upd_build i g t))" by simp
qed (simp add: upd_build_def)

lemma del_services_still [moving]: "deploys_still t (del_services P t)"
proof -
  have "deploys_built (del_services P t)" if b: "deploys_built t"
    unfolding deploys_built_def
  proof (intro conjI ballI)
    let ?gone = "map sv_id (filter P (services t))"
    show "0 \<le> seqs (del_services P t) SDeploys" using b by (simp add: deploys_built_def del_services_def Let_def)
    show "distinct (map d_id (deploys (del_services P t)))"
      using b by (simp add: deploys_built_def del_services_def Let_def distinct_map_filter)
    fix d assume d: "d \<in> set (deploys (del_services P t))"
    then have dt: "d \<in> set (deploys t)" "d_service d \<notin> set ?gone" by (simp_all add: del_services_def Let_def)
    then obtain r where r: "r \<in> set (builds t)" "d_id d = b_deploy r" using b by (auto simp: deploys_built_def)
    show "0 \<le> d_id d" "d_id d < seqs (del_services P t) SDeploys"
      using b dt by (simp_all add: deploys_built_def del_services_def Let_def)
    have "inj_on d_id (set (deploys t))" using b by (simp add: deploys_built_def distinct_map)
    then have "d_id d \<notin> d_id ` {e \<in> set (deploys t). d_service e \<in> set ?gone}"
      using dt by (auto dest: inj_onD)
    then show "d_id d \<in> b_deploy ` set (builds (del_services P t))"
      using r by (intro image_eqI [of _ _ r]) (simp_all add: del_services_def Let_def)
  qed
  then show ?thesis by (auto simp: deploys_still_def del_services_def Let_def)
qed

lemma deploys_still_trans: "deploys_still t u \<Longrightarrow> deploys_still u v \<Longrightarrow> deploys_still t v"
  by (auto simp: deploys_still_def)

lemma del_projects_still [moving]: "deploys_still t (del_projects P t)"
  unfolding del_projects_def Let_def
  by (rule deploys_still_trans [OF del_services_still deploys_stillI]) auto

lemma del_org_still [moving]: "deploys_still t (del_org i t)"
  unfolding del_org_def Let_def
  by (rule deploys_still_trans [OF del_projects_still deploys_stillI]) auto

section \<open>Creating a deploy and announcing it\<close>

definition birth :: "string \<Rightarrow> 'z pg_scheme \<Rightarrow> store_error + deploy \<Rightarrow> 'z pg_scheme \<Rightarrow> bool" where
  "birth st w r w' \<longleftrightarrow> bus w' = bus w \<and> (faults w = [] \<longrightarrow> faults w' = []) \<and>
     (case r of Inl _ \<Rightarrow> tabs w' = tabs w
      | Inr d \<Rightarrow> d_status d = st \<and> d_id d = seqs (tabs w) SDeploys \<and> deploys (tabs w') = deploys (tabs w) @ [d] \<and>
          seqs (tabs w') SDeploys = seqs (tabs w) SDeploys + 1 \<and>
          b_deploy ` set (builds (tabs w')) = insert (d_id d) (b_deploy ` set (builds (tabs w))))"

lemma ins_deploy_birth:
  "ins_deploy s st c im k pr n t = Inr (d, t') \<Longrightarrow> d_status d = st \<and> d_id d = seqs t SDeploys \<and>
     deploys t' = deploys t @ [d] \<and> seqs t' SDeploys = seqs t SDeploys + 1 \<and> builds t' = builds t"
  by (auto simp: ins_deploy_def nextval_def Let_def split: if_splits)

lemma ins_build_birth:
  "ins_build i st l bs be n t = Inr (a, t') \<Longrightarrow> deploys t' = deploys t \<and> seqs t' SDeploys = seqs t SDeploys \<and>
     b_deploy ` set (builds t') = insert i (b_deploy ` set (builds t))"
  by (auto simp: ins_build_def nextval_def Let_def split: if_splits)

lemma pg_exec_calm: "pg_exec f w = (r, w') \<Longrightarrow> faults w = [] \<Longrightarrow> faults w' = []"
  by (auto split: sum.splits)

lemma create_birth:
  assumes build: "\<And>i n t a t'. bld i n t = Inr (a, t') \<Longrightarrow> deploys t' = deploys t \<and>
      seqs t' SDeploys = seqs t SDeploys \<and> b_deploy ` set (builds t') = insert i (b_deploy ` set (builds t))"
    and run: "pg_tx (throwing (pg_exec (ins_deploy s st c im k pr))
      (\<lambda>d. throwing (pg_exec (bld (d_id d))) (\<lambda>_. ret (Inr d)))) w = (r, w')"
  shows "birth st w r w'"
proof -
  obtain b w1 where 1: "next_fault w = (b, w1)" by fastforce
  note f1 = next_fault_frame [OF 1]
  show ?thesis
  proof (cases b)
    case True
    then show ?thesis using run 1 f1 next_fault_calm [OF 1] by (auto simp: pg_tx_def birth_def)
  next
    case False
    obtain x w2 where 2: "pg_exec (ins_deploy s st c im k pr) w1 = (x, w2)" by fastforce
    note f2 = pg_exec_cases [OF 2]
    show ?thesis
    proof (cases x)
      case (Inl e)
      then show ?thesis using run 1 2 f1 f2 False next_fault_calm [OF 1] pg_exec_calm [OF 2]
        by (auto simp: pg_tx_def birth_def act_run)
    next
      case (Inr d)
      obtain y w3 where 3: "pg_exec (bld (d_id d)) w2 = (y, w3)" by fastforce
      obtain z w4 where 4: "next_fault w3 = (z, w4)" by fastforce
      note f3 = pg_exec_cases [OF 3] and f4 = next_fault_frame [OF 4]
      have calm: "faults w = [] \<Longrightarrow> faults w3 = []" "faults w3 = [] \<Longrightarrow> faults w4 = []"
        using next_fault_calm [OF 1] pg_exec_calm [OF 2] pg_exec_calm [OF 3] next_fault_calm [OF 4] by simp_all
      have d: "d_status d = st \<and> d_id d = seqs (tabs w) SDeploys \<and> deploys (tabs w2) = deploys (tabs w) @ [d] \<and>
          seqs (tabs w2) SDeploys = seqs (tabs w) SDeploys + 1 \<and> builds (tabs w2) = builds (tabs w)"
        using f2 f1 Inr ins_deploy_birth by fastforce
      show ?thesis
      proof (cases y)
        case Inl': (Inl e)
        then show ?thesis using run 1 2 3 f1 f2 f3 False Inr calm
          by (auto simp: pg_tx_def birth_def act_run)
      next
        case Inr': (Inr u)
        then have "deploys (tabs w3) = deploys (tabs w2) \<and> seqs (tabs w3) SDeploys = seqs (tabs w2) SDeploys \<and>
            b_deploy ` set (builds (tabs w3)) = insert (d_id d) (b_deploy ` set (builds (tabs w2)))"
          using f3 build by fastforce
        then have e: "seqs (tabs w3) SDeploys = seqs (tabs w) SDeploys + 1"
            "deploys (tabs w3) = deploys (tabs w) @ [d]"
            "b_deploy ` set (builds (tabs w3)) = insert (d_id d) (b_deploy ` set (builds (tabs w)))"
          using d by simp_all
        have bus: "bus w4 = bus w" using f1 f2 f3 f4 by simp
        have "r = (if z then Inl PgFault else Inr d) \<and> w' = (if z then w4\<lparr>tabs := tabs w1\<rparr> else w4)"
          using run by (simp add: pg_tx_def act_run 1 2 3 4 False Inr Inr' split: if_splits bool.splits)
        then show ?thesis using e bus d f1(1) f4(1) calm by (simp add: birth_def)
      qed
    qed
  qed
qed

lemma deploy_births:
  "createBuildableDeploy i c k pr w = (r, w') \<Longrightarrow> birth StatusQueued w r w'"
  "createImagedDeploy i img c l w = (r, w') \<Longrightarrow> birth StatusDeploying w r w'"
  unfolding createBuildableDeploy_def createImagedDeploy_def
  by (rule create_birth, rule ins_build_birth, assumption, assumption)+

lemma create_births:
  "CreateDeploy i c w = (r, w') \<Longrightarrow> birth StatusQueued w r w'"
  "CreatePreviewDeploy i c n w = (r, w') \<Longrightarrow> birth StatusQueued w r w'"
  "CreateRollbackDeploy i img c j w = (r, w') \<Longrightarrow> birth StatusDeploying w r w'"
  "CreateImageDeploy i img w = (r, w') \<Longrightarrow> birth StatusDeploying w r w'"
  unfolding CreateDeploy_def CreatePreviewDeploy_def CreateRollbackDeploy_def CreateImageDeploy_def
  by (rule deploy_births; assumption)+

lemma birth_built:
  assumes "birth st w (Inr d) w'" "deploys_built (tabs w)"
  shows "deploys_built (tabs w')"
proof -
  have "d_id d \<notin> d_id ` set (deploys (tabs w))" using assms by (auto simp: birth_def deploys_built_def)
  then show ?thesis using assms by (auto simp: birth_def deploys_built_def)
qed

lemma Notify_cases:
  assumes "Notify c p w = (r, w')"
  shows "tabs w' = tabs w" "bus w' = bus w \<or> bus w' = bus w @ [(c, p)]"
    "faults w = [] \<Longrightarrow> faults w' = [] \<and> bus w' = bus w @ [(c, p)]"
proof -
  obtain b w1 where 1: "next_fault w = (b, w1)" by fastforce
  show "tabs w' = tabs w" "bus w' = bus w \<or> bus w' = bus w @ [(c, p)]"
    using assms next_fault_frame [OF 1] by (cases b; simp add: Notify_def 1; fastforce)+
  show "faults w = [] \<Longrightarrow> faults w' = [] \<and> bus w' = bus w @ [(c, p)]"
    using assms by (auto simp: Notify_def)
qed

lemma birth_announced:
  assumes born: "birth st w (Inr d) w1" and sent: "Notify ch (itoa (d_id d)) w1 = (u, w2)"
    and ch: "(st = StatusQueued \<and> ch = DeployChannel) \<or> (st = StatusDeploying \<and> ch = DeploymentChannel)"
  shows "api_moves (pg.truncate w) (pg.truncate w2)"
proof -
  note n = Notify_cases [OF sent]
  have "deploys_kept (tabs w) (tabs w2)"
    using born birth_built [OF born] n(1) by (auto simp: birth_def deploys_kept_def)
  moreover have "names_new (seqs (tabs w) SDeploys) (ch, itoa (d_id d))"
    using born by (auto simp: birth_def names_new_def)
  then have "\<exists>s. api_sends (pg.truncate w) (pg.truncate w2) s"
  proof -
    assume new: "names_new (seqs (tabs w) SDeploys) (ch, itoa (d_id d))"
    have "announces d (ch, itoa (d_id d))" using born ch by (auto simp: birth_def announces_def)
    then have "api_sends (pg.truncate w) (pg.truncate w2) (drop (length (bus w)) (bus w2))"
      using born n new by (auto simp: birth_def api_sends_def pg.truncate_def)
    then show ?thesis by blast
  qed
  ultimately show ?thesis by (simp add: api_moves_def pg.truncate_def)
qed

lemma api_keeps_create:
  fixes mk :: "('z, deploy) sop"
  assumes births: "\<And>w r w'. mk w = (r, w') \<Longrightarrow> birth st w r w'"
    and ch: "(st = StatusQueued \<and> ch = DeployChannel) \<or> (st = StatusDeploying \<and> ch = DeploymentChannel)"
    and rest: "\<And>e. api_keeps (h e)" "\<And>d. api_keeps (k d)"
  shows "api_keeps (attempt mk h (\<lambda>d. bnd (Notify ch (itoa (d_id d))) (\<lambda>_. k d)))"
  unfolding keeps_def
proof
  fix w :: "'z pg_scheme"
  obtain r w1 where 1: "mk w = (r, w1)" by fastforce
  note b = births [OF 1]
  show "api_moves (pg.truncate w) (pg.truncate (snd (attempt mk h (\<lambda>d. bnd (Notify ch (itoa (d_id d))) (\<lambda>_. k d)) w)))"
  proof (cases r)
    case (Inl e)
    have "api_moves (pg.truncate w) (pg.truncate w1)"
      using b Inl by (intro api_moves_quiet) (simp_all add: birth_def pg.truncate_def)
    moreover have "api_moves (pg.truncate w1) (pg.truncate (snd (h e w1)))"
      using rest(1) [of e] by (simp add: keeps_def)
    ultimately show ?thesis using 1 Inl by (simp add: attempt_def) (rule api_moves_trans)
  next
    case (Inr d)
    obtain u w2 where 2: "Notify ch (itoa (d_id d)) w1 = (u, w2)" by fastforce
    have "api_moves (pg.truncate w) (pg.truncate w2)" by (rule birth_announced [OF b [unfolded Inr] 2 ch])
    moreover have "api_moves (pg.truncate w2) (pg.truncate (snd (k d w2)))"
      using rest(2) [of d] by (simp add: keeps_def)
    ultimately show ?thesis using 1 2 Inr by (simp add: attempt_def bnd_def) (rule api_moves_trans)
  qed
qed

section \<open>Methods of the store\<close>

lemma accounts_move [moving]:
  "api_keeps (CreateUser e h n)" "api_keeps (UserByEmail e)"
  "api_keeps (CreateSession k i x)" "api_keeps (UserBySession k)"
  "api_keeps (DeleteSession k)"
  unfolding CreateUser_def UserByEmail_def CreateSession_def UserBySession_def DeleteSession_def
  by (intro api.keeps_rules moving api_keeps_total)+

lemma tokens_move [moving]:
  "api_keeps (CreateAPIToken i n h p)" "api_keeps (ListAPITokens i)"
  "api_keeps (DeleteAPIToken i j)" "api_keeps (UserByAPIToken h)"
  "api_keeps (TouchAPIToken h)"
  unfolding CreateAPIToken_def ListAPITokens_def DeleteAPIToken_def UserByAPIToken_def
    TouchAPIToken_def
  by (intro api.keeps_rules moving api_keeps_total)+

lemma members_move [moving]:
  "api_keeps (RoleInOrg i j)" "api_keeps (ListOrgMembers j)"
  "api_keeps (UpsertOrgMember j i r)" "api_keeps (RemoveOrgMember j i)"
  "api_keeps (CountOrgOwners j)"
  unfolding RoleInOrg_def ListOrgMembers_def UpsertOrgMember_def RemoveOrgMember_def
    CountOrgOwners_def
  by (intro api.keeps_rules moving api_keeps_total)+

lemma audit_move [moving]:
  "api_keeps (InsertAudit i e m p st)" "api_keeps (ListAudit i q)"
  unfolding InsertAudit_def ListAudit_def by (intro api.keeps_rules moving)+

lemma CreateOrg_bus:
  assumes "throwing (pg_exec f) (\<lambda>r. throwing (pg_exec (g r)) (\<lambda>_. ret (Inr (h r)))) w = (x, w')"
  shows "bus w' = bus w"
  using assms by (auto simp: act_run dest!: pg_exec_cases split: prod.splits sum.splits)

lemma CreateOrg_move [moving]: "api_keeps (CreateOrg i n sl)"
  unfolding CreateOrg_def by (rule api_keeps_tx, intro api.keeps_rules moving, erule CreateOrg_bus)

lemma orgs_move [moving]:
  "api_keeps (ListOrgs i)"
  "api_keeps (UpdateOrg i n sl)" "api_keeps (DeleteOrg i)"
  "api_keeps (IsOrgMember i j)"
  unfolding ListOrgs_def UpdateOrg_def DeleteOrg_def IsOrgMember_def
  by (intro api.keeps_rules moving api_keeps_total)+

lemma projects_move [moving]:
  "api_keeps (CreateProject i n sl)" "api_keeps (UpdateProject i n sl)"
  "api_keeps (DeleteProject i)" "api_keeps (ProjectByID i)"
  "api_keeps (ListProjects i)"
  "api_keeps (CreateService i n sl ty re br sc)"
  "api_keeps (ListServices i)"
  unfolding CreateProject_def UpdateProject_def DeleteProject_def ProjectByID_def ListProjects_def
    CreateService_def ListServices_def
  by (intro api.keeps_rules moving api_keeps_total)+

lemma settings_move [moving]:
  "api_keeps (SetServiceScaling i k z mn mx)"
  "api_keeps (SetServiceHealth i p)" "api_keeps (SetServiceDisk i z p)"
  "api_keeps (SetServiceSuspended i b)"
  "api_keeps (ProjectServiceStatuses i)"
  unfolding SetServiceScaling_def SetServiceHealth_def SetServiceDisk_def SetServiceSuspended_def
    ProjectServiceStatuses_def
  by (intro api.keeps_rules moving api_keeps_total)+

lemma env_move [moving]:
  "api_keeps (SetEnvVar i k v se bt)" "api_keeps (ListEnvVars i)"
  "api_keeps (DeleteEnvVar i k)" "api_keeps (AddCustomDomain i d)"
  "api_keeps (ListCustomDomains i)" "api_keeps (DeleteCustomDomain i d)"
  unfolding SetEnvVar_def ListEnvVars_def DeleteEnvVar_def AddCustomDomain_def
    ListCustomDomains_def DeleteCustomDomain_def
  by (intro api.keeps_rules moving api_keeps_total)+

lemma credentials_move [moving]:
  "api_keeps (AddRegistryCredential i r u p)"
  "api_keeps (ListRegistryCredentials i)"
  "api_keeps (DeleteRegistryCredential i j)"
  "api_keeps (SetGithubConnection i k ac)" "api_keeps (GithubConnection i)"
  "api_keeps (DeleteGithubConnection i)"
  unfolding AddRegistryCredential_def ListRegistryCredentials_def DeleteRegistryCredential_def
    SetGithubConnection_def GithubConnection_def DeleteGithubConnection_def
  by (intro api.keeps_rules moving api_keeps_total)+

lemma databases_move [moving]:
  "api_keeps (CreateDatabase i n sl en ti inst mn mx sz sto po ba)"
  "api_keeps (DatabaseByID i)" "api_keeps ListAutoscaleDatabases"
  "api_keeps (ListDatabases i)" "api_keeps (DeleteDatabase i)"
  unfolding CreateDatabase_def DatabaseByID_def ListAutoscaleDatabases_def ListDatabases_def
    DeleteDatabase_def
  by (intro api.keeps_rules moving api_keeps_total)+

lemma database_writes_move [moving]:
  "api_keeps (SetDatabaseInstances i k)"
  "api_keeps (SetDatabaseScaling i k sz sto)"
  "api_keeps (SetDatabaseStatus i st)"
  "api_keeps (SetDatabaseConnection i ur re po)"
  unfolding SetDatabaseInstances_def SetDatabaseScaling_def SetDatabaseStatus_def
    SetDatabaseConnection_def
  by (intro api.keeps_rules moving api_keeps_total)+

section \<open>Handlers\<close>

lemma deploy_reads_move [moving]:
  "api_keeps (DeployByID i)" "api_keeps (ListDeploys i)" "api_keeps (LatestImagedDeploy i)"
  "api_keeps (ServicesByRepo r b)" "api_keeps (ServicesByRepoURL r)" "api_keeps (ServiceByID i)"
  "api_keeps (BuildByDeployID i)" "api_keeps (ListUsageSamples i l)"
  unfolding DeployByID_def ListDeploys_def LatestImagedDeploy_def ServicesByRepo_def ServicesByRepoURL_def
    ServiceByID_def BuildByDeployID_def ListUsageSamples_def by (rule api_keeps_read)+

text \<open>A payload on another channel than the two of the deploys.\<close>

lemma api_keeps_notify:
  assumes "c \<noteq> DeployChannel" "c \<noteq> DeploymentChannel"
  shows "api_keeps (Notify c p :: ('z, unit) sop)"
  unfolding keeps_def
proof
  fix w :: "'z pg_scheme"
  obtain r w' where 1: "Notify c p w = (r, w')" by fastforce
  note n = Notify_cases [OF 1]
  have "api_sends (pg.truncate w) (pg.truncate w') (drop (length (bus w)) (bus w'))"
    using n assms by (auto simp: api_sends_def names_new_def pg.truncate_def)
  then show "api_moves (pg.truncate w) (pg.truncate (snd (Notify c p w)))"
    using n(1) by (auto simp: 1 api_moves_def pg.truncate_def)
qed

lemma channel_names:
  "TeardownChannel \<noteq> DeployChannel" "TeardownChannel \<noteq> DeploymentChannel"
  "ResourceTeardownChannel \<noteq> DeployChannel" "ResourceTeardownChannel \<noteq> DeploymentChannel"
  "DatabaseChannel \<noteq> DeployChannel" "DatabaseChannel \<noteq> DeploymentChannel"
  "DatabaseTeardownChannel \<noteq> DeployChannel" "DatabaseTeardownChannel \<noteq> DeploymentChannel"
  "DatabaseBackupChannel \<noteq> DeployChannel" "DatabaseBackupChannel \<noteq> DeploymentChannel"
  by (simp_all add: DeployChannel_def DeploymentChannel_def TeardownChannel_def ResourceTeardownChannel_def
      DatabaseChannel_def DatabaseTeardownChannel_def DatabaseBackupChannel_def)

lemma other_channels_move [moving]:
  "api_keeps (Notify TeardownChannel p)" "api_keeps (Notify ResourceTeardownChannel p)"
  "api_keeps (Notify DatabaseChannel p)" "api_keeps (Notify DatabaseTeardownChannel p)"
  "api_keeps (Notify DatabaseBackupChannel p)"
  by (rule api_keeps_notify; simp add: channel_names)+

lemma write_moves [moving]:
  "api_keeps (writeJSON st v)" "api_keeps (writeError st m)" "api_keeps (reject st m)"
  unfolding writeError_def writeJSON_def reject_def by (rule api.keeps_ret)+

lemma guards_move [moving]:
  "api_keeps (authorizeOrg r i)" "api_keeps (requireOrgRole r i l)" "api_keeps (requireOrgMember r)"
  "api_keeps (requireProjectAccess r)" "api_keeps (requireServiceWithOrg r)" "api_keeps (requireServiceAccess r)"
  "api_keeps (requireDeployAccess r)" "api_keeps (requireDatabaseAccess r)" "api_keeps (memberParams r)"
  unfolding authorizeOrg_def requireOrgRole_def requireOrgMember_def requireProjectAccess_def
    requireServiceWithOrg_def requireServiceAccess_def requireDeployAccess_def requireDatabaseAccess_def memberParams_def
  by (intro api.keeps_rules moving)+

lemma check_moves [moving]: "api_keeps m \<Longrightarrow> (\<And>a. api_keeps (k a)) \<Longrightarrow> api_keeps (check m k)"
  unfolding check_def by (intro api.keeps_rules)

text \<open>The four creations of a deploy, each with its announcement.\<close>

lemma enqueue_moves [moving]: "api_keeps (enqueueDeploy i c)" "api_keeps (enqueuePreview i c n)"
  unfolding enqueueDeploy_def enqueuePreview_def throwing_def
  by (rule api_keeps_create, erule create_births, simp, intro api.keeps_ret, intro api.keeps_ret)+

lemma imaged_moves [moving]:
  "(\<And>e. api_keeps (h e)) \<Longrightarrow> (\<And>d. api_keeps (k d)) \<Longrightarrow>
     api_keeps (attempt (CreateRollbackDeploy i img c j) h (\<lambda>d. bnd (Notify DeploymentChannel (itoa (d_id d))) (\<lambda>_. k d)))"
  "(\<And>e. api_keeps (h e)) \<Longrightarrow> (\<And>d. api_keeps (k d)) \<Longrightarrow>
     api_keeps (attempt (CreateImageDeploy i img) h (\<lambda>d. bnd (Notify DeploymentChannel (itoa (d_id d))) (\<lambda>_. k d)))"
  by (rule api_keeps_create, erule create_births, simp, assumption, assumption)+

lemma resource_handlers_move [moving]:
  "api_keeps handleHealth" "api_keeps (handleCreateOrg r)"
  "api_keeps (handleUpdateOrg r)" "api_keeps (handleDeleteOrg r)"
  "api_keeps (handleListOrgs r)" "api_keeps (handleCreateProject r)"
  "api_keeps (handleListProjects r)" "api_keeps (handleGetProject r)"
  "api_keeps (handleUpdateProject r)" "api_keeps (handleDeleteProject r)"
  "api_keeps (handleCreateService r)" "api_keeps (handleListServices r)"
  "api_keeps (handleProjectStatus r)" "api_keeps (handleGetService bd r)"
  unfolding resource_handlers Let_def by (intro moving api.keeps_rules)+

lemma account_handlers_move [moving]:
  "api_keeps (handleRegister cr ttl r)" "api_keeps (handleLogin cr ttl r)"
  "api_keeps (handleLogout r)" "api_keeps (handleMe r)"
  "api_keeps (handleCreateToken cr r)" "api_keeps (handleListTokens r)"
  "api_keeps (handleDeleteToken r)" "api_keeps (handleListAudit r)"
  unfolding account_handlers Let_def by (intro moving api.keeps_rules)+

lemma middleware_moves [moving]:
  assumes "\<And>r. api_keeps (h r)"
  shows "api_keeps (Middleware cr h r)" "api_keeps (auditMiddleware h r)"
  unfolding Middleware_def resolve_def auditMiddleware_def Let_def
  by (intro moving api.keeps_rules assms)+

lemma member_helpers_move [moving]:
  "api_keeps (reject st m)"
  "api_keeps (guardLastOwner i j nr)" "api_keeps (applyRole i j nr cr)"
  unfolding guardLastOwner_def applyRole_def reject_def by (intro moving api.keeps_rules)+

lemma member_handlers_move [moving]:
  "api_keeps (handleListMembers r)" "api_keeps (handleAddMember r)"
  "api_keeps (handleSetMemberRole r)" "api_keeps (handleRemoveMember r)"
  unfolding member_handlers Let_def by (intro moving api.keeps_rules)+

lemma apply_change_moves [moving]:
  "api_keeps (applyServiceChange i)" "api_keeps (apply_and_204 i)"
  unfolding applyServiceChange_def apply_and_204_def by (intro moving api.keeps_rules)+

lemma setting_handlers_move [moving]:
  "api_keeps (handleScale r)" "api_keeps (handleSetHealth r)"
  "api_keeps (handleAttachDisk r)" "api_keeps (handleDetachDisk r)"
  "api_keeps (handleSuspend r)" "api_keeps (handleResume r)"
  "api_keeps (handleSetEnv r)" "api_keeps (handleListEnv r)"
  "api_keeps (handleDeleteEnv r)" "api_keeps (handleAddDomain r)"
  "api_keeps (handleListDomains r)" "api_keeps (handleDeleteDomain r)"
  "api_keeps (handleAddRegistryCred r)"
  "api_keeps (handleListRegistryCreds r)"
  "api_keeps (handleDeleteRegistryCred r)"
  "api_keeps (handleServiceUsage r)"
  "api_keeps (handleGithubStatus ci cs r)"
  "api_keeps (handleGithubConnect gh ci cs r)"
  "api_keeps (handleGithubRepos gh r)" "api_keeps (handleGithubDisconnect r)"
  "api_keeps (handleRuntimeLogs rd r)" "api_keeps (handleMetrics rd r)"
  unfolding setting_handlers Let_def by (intro moving api.keeps_rules)+

lemma database_handlers_move [moving]:
  "api_keeps (handleCreateDatabase r)" "api_keeps (handleListDatabases r)"
  "api_keeps (handleGetDatabase r)" "api_keeps (handleDatabaseConnection r)"
  "api_keeps (handleScaleDatabase r)" "api_keeps (handleDeleteDatabase r)"
  "api_keeps (handleTriggerBackup r)" "api_keeps (handleListBackups rd r)"
  unfolding database_handlers Let_def by (intro moving api.keeps_rules)+

lemma dedupe_moves [moving]:
  assumes "\<And>url. api_keeps (lookup url)"
  shows "api_keeps (dedupe_urls lookup seen out urls)"
  using assms
proof (induction urls arbitrary: seen out)
  case (Cons url urls)
  then show ?case by (simp add: api.keeps_if api.keeps_throwing api.keeps_prod)
qed (simp add: api.keeps_ret)

lemma match_moves [moving]:
  "api_keeps (matchServices c h b)" "api_keeps (matchServicesAnyBranch c h)"
  unfolding matchServices_def matchServicesAnyBranch_def dedupeServices_def
  by (intro dedupe_moves moving)+

lemma deploy_handlers_move [moving]:
  "api_keeps (handleCreateDeploy r)" "api_keeps (handleImageDeploy r)"
  "api_keeps (handleListDeploys r)" "api_keeps (handleGetDeploy r)"
  "api_keeps (handleRollback r)" "api_keeps (handlePush p)"
  "api_keeps (handlePullRequest q)"
  "api_keeps (handleGitHubWebhook cr hk s r)"
  unfolding handleCreateDeploy_def handleImageDeploy_def handleListDeploys_def handleGetDeploy_def
    handleRollback_def handlePush_def handlePullRequest_def handleGitHubWebhook_def Let_def by (intro moving api.keeps_rules)+

section \<open>Every request\<close>

lemma poll_builds_moves:
  assumes "\<And>m. m \<in> set others \<Longrightarrow> api_keeps m"
  shows "api_keeps (poll_builds i others)"
  using assms
proof (induction others)
  case (Cons m ms)
  then show ?case unfolding poll_builds.simps by (intro moving api.keeps_rules) simp_all
qed (simp add: api.keeps_ret)

lemma log_route_moves:
  "(\<And>m. m \<in> set ms \<Longrightarrow> api_keeps m) \<Longrightarrow> api_keeps (handleDeployLogs ms r)"
  unfolding handleDeployLogs_def by (intro moving api.keeps_rules poll_builds_moves)

lemma public_moves: "(meth, pat, h) \<in> set (public_routes s) \<Longrightarrow> api_keeps (h r)"
  unfolding public_routes_def by (auto intro: moving)

lemma private_moves:
  assumes "(meth, pat, h) \<in> set (private_routes s)" "\<And>m. m \<in> set (srv_others s) \<Longrightarrow> api_keeps m"
  shows "api_keeps (h r)"
proof -
  have "list_all (\<lambda>(_, _, h). api_keeps (h r)) (private_routes s)"
    unfolding private_routes_def account_routes_def org_routes_def project_routes_def
      service_routes_def deploy_routes_def database_routes_def
    by (simp add: moving log_route_moves [OF assms(2)])
  then show ?thesis using assms(1) by (fastforce simp: list_all_iff)
qed

lemma serve_moves:
  assumes "\<And>m. m \<in> set (srv_others s) \<Longrightarrow> api_keeps m"
  shows "api_keeps (serve s r)"
proof -
  have pub: "api_keeps (h x)" if "find_route (public_routes s) r = Some (h, y)" for h x y
    using find_route_in [OF that] public_moves by blast
  have priv: "api_keeps (h x)" if "find_route (private_routes s) r = Some (h, y)" for h x y
    using find_route_in [OF that] private_moves assms by blast
  show ?thesis
    unfolding serve_def
    by (auto split: option.split intro!: middleware_moves api.keeps_ret intro: pub priv)
qed

section \<open>The property\<close>


text \<open>Ann's session, and her request for a deploy of service 1.\<close>

definition demo_session_pg :: pg where
  "demo_session_pg = demo_pg\<lparr>tabs := demo_tables\<lparr>sessions := [\<lparr>s_token = ''tok'', s_user = 1, s_expires = 99\<rparr>]\<rparr>\<rparr>"

definition deploy_request :: request where
  "deploy_request = (demo_request ''POST'' [] empty_body)\<lparr>rq_path := ''/v1/services/1/deploys'',
     rq_authorization := ''Bearer tok''\<rparr>"

lemma deploy_request_served:
  "fst (fst (serve demo_server deploy_request demo_session_pg)) = 201"
  "map d_id (deploys (tabs (snd (serve demo_server deploy_request demo_session_pg)))) = [1, 3]"
  by code_simp+


end
