(* ===== verification/Deploy_Workers.thy ===== *)
theory Deploy_Workers
  imports Api_Traffic Builder_Proc Controller_Props
begin

text \<open>
  What the builder and the controller do to the deploys and to the event bus. \<open>touches P M\<close> says of a step
  that every deploy it changes ends up satisfying \<open>P\<close>, that it adds and deletes none, and that what it sends
  is in \<open>M\<close>. Processing the payload of deploy \<open>i\<close> touches deploy \<open>i\<close> and announces at most that one to the
  controller; reconciling it only settles it; nothing else the two processes do touches a deploy.
\<close>

section \<open>The relation\<close>

definition touches_rows :: "(deploy \<Rightarrow> bool) \<Rightarrow> tables \<Rightarrow> tables \<Rightarrow> bool" where
  "touches_rows P t t' \<longleftrightarrow> seqs t' SDeploys = seqs t SDeploys \<and> (deploys_built t \<longrightarrow> deploys_built t') \<and>
     (\<forall>d \<in> set (deploys t'). d \<in> set (deploys t) \<or> P d)"

definition touches :: "(deploy \<Rightarrow> bool) \<Rightarrow> (string \<times> string) set \<Rightarrow> pg \<Rightarrow> pg \<Rightarrow> bool" where
  "touches P M p q \<longleftrightarrow> touches_rows P (tabs p) (tabs q) \<and> (\<exists>sent. bus q = bus p @ sent \<and> set sent \<subseteq> M) \<and>
     (faults p = [] \<longrightarrow> faults q = [])"

lemma touches_rows_refl [simp]: "touches_rows P t t"
  by (simp add: touches_rows_def)

lemma touches_rows_trans: "touches_rows P t u \<Longrightarrow> touches_rows P u v \<Longrightarrow> touches_rows P t v"
  unfolding touches_rows_def by metis

lemma touches_refl [simp]: "touches P M p p"
  by (auto simp: touches_def intro: exI [of _ "[]"])

lemma touches_trans: "touches P M p q \<Longrightarrow> touches P M q r \<Longrightarrow> touches P M p r"
proof -
  assume 1: "touches P M p q" and 2: "touches P M q r"
  then obtain s1 s2 where "bus q = bus p @ s1" "set s1 \<subseteq> M" "bus r = bus q @ s2" "set s2 \<subseteq> M"
    unfolding touches_def by blast
  then have "bus r = bus p @ (s1 @ s2)" "set (s1 @ s2) \<subseteq> M" by simp_all
  then show ?thesis using 1 2 touches_rows_trans unfolding touches_def by blast
qed

interpretation touch: evolution "pg.truncate :: 'z pg_scheme \<Rightarrow> pg" "touches P M"
  by unfold_locales (rule touches_refl, rule touches_trans)

named_theorems touching \<open>actions that respect \<open>touches\<close>\<close>

abbreviation keeps_touch :: "(deploy \<Rightarrow> bool) \<Rightarrow> (string \<times> string) set \<Rightarrow> ('z pg_scheme, 'a) act \<Rightarrow> bool" where
  "keeps_touch P M m \<equiv> keeps pg.truncate (touches P M) m"

lemma still_touches: "deploys_still t t' \<Longrightarrow> touches_rows P t t'"
  unfolding deploys_still_def touches_rows_def by auto

lemma touch_read [touching]: "keeps_touch P M (pg_read q :: ('z, 'a) sop)"
  unfolding keeps_def
proof
  fix w :: "'z pg_scheme"
  obtain r w' where 1: "pg_read q w = (r, w')" by fastforce
  show "touches P M (pg.truncate w) (pg.truncate (snd (pg_read q w)))"
    using pg_read_frame [OF 1] pg_read_calm [OF 1] by (simp add: 1 touches_def pg.truncate_def)
qed

lemma touch_exec:
  assumes "\<And>n t a t'. f n t = Inr (a, t') \<Longrightarrow> touches_rows P t t'"
  shows "keeps_touch P M (pg_exec f :: ('z, 'a) sop)"
  unfolding keeps_def
proof
  fix w :: "'z pg_scheme"
  obtain r w' where 1: "pg_exec f w = (r, w')" by fastforce
  have "touches_rows P (tabs w) (tabs w')"
    using pg_exec_cases [OF 1] assms touches_rows_refl by metis
  then show "touches P M (pg.truncate w) (pg.truncate (snd (pg_exec f w)))"
    using pg_exec_cases [OF 1] pg_exec_calm [OF 1] by (simp add: 1 touches_def pg.truncate_def)
qed

lemma touch_total:
  assumes "\<And>n t. touches_rows P t (g n t)"
  shows "keeps_touch P M (pg_exec (\<lambda>n t. Inr (f n t, g n t)))"
  using assms by (intro touch_exec) auto

lemma touch_still:
  "(\<And>n t. deploys_still t (g n t)) \<Longrightarrow> keeps_touch P M (pg_exec (\<lambda>n t. Inr (f n t, g n t)))"
  by (intro touch_total still_touches)

lemma touch_notify [touching]:
  assumes "(c, p) \<in> M"
  shows "keeps_touch P M (Notify c p :: ('z, unit) sop)"
  unfolding keeps_def
proof
  fix w :: "'z pg_scheme"
  obtain r w' where 1: "Notify c p w = (r, w')" by fastforce
  show "touches P M (pg.truncate w) (pg.truncate (snd (Notify c p w)))"
    using Notify_cases [OF 1] assms by (auto simp: 1 touches_def pg.truncate_def)
qed

lemma deploys_built_ids: "deploys_built t \<longleftrightarrow> 0 \<le> seqs t SDeploys \<and> distinct (map d_id (deploys t)) \<and>
    d_id ` set (deploys t) \<subseteq> {0..<seqs t SDeploys} \<inter> b_deploy ` set (builds t)"
  by (auto simp: deploys_built_def)

lemma upd_deploy_rows:
  assumes "\<And>d. d_id (f d) = d_id d" "\<And>d. Q d \<Longrightarrow> P (f d)"
  shows "touches_rows P t (upd_deploy Q f t)"
proof -
  have m: "map d_id (deploys (upd_deploy Q f t)) = map d_id (deploys t)"
    by (simp add: upd_deploy_def map_key_update assms(1))
  then have s: "d_id ` set (deploys (upd_deploy Q f t)) = d_id ` set (deploys t)" by (metis list.set_map)
  have "deploys_built (upd_deploy Q f t) = deploys_built t"
    unfolding deploys_built_ids m s by (simp add: upd_deploy_def)
  then show ?thesis using assms(2) by (auto simp: touches_rows_def upd_deploy_def sql_update_def)
qed

lemma set_status_rows:
  assumes "set_status i to n t = Inr (d, t')" "\<And>d. d_id d = i \<Longrightarrow> d_status d = to \<Longrightarrow> P d"
  shows "touches_rows P t t'"
  using assms(1) by (auto simp: set_status_def split: option.splits intro!: upd_deploy_rows assms(2))

lemma touch_status:
  assumes "\<And>d. d_id d = i \<Longrightarrow> d_status d = to \<Longrightarrow> P d"
  shows "keeps_touch P M (UpdateDeployStatus i to)"
  unfolding UpdateDeployStatus_def DeployByID_def
  by (intro touch.keeps_rules touching touch_exec, erule set_status_rows, erule assms)

section \<open>The builder\<close>

lemma builder_reads_touch [touching]:
  "keeps_touch P M (DeployByID i)" "keeps_touch P M (ServiceByID i)" "keeps_touch P M (BuildByDeployID i)"
  "keeps_touch P M (ListEnvVars i)" "keeps_touch P M (ListCustomDomains i)" "keeps_touch P M (ListRegistryCredentials i)"
  "keeps_touch P M (DatabaseByID i)" "keeps_touch P M ListAutoscaleDatabases" "keeps_touch P M ServicesForMetering"
  "keeps_touch P M QueuedDeployIDs"
  unfolding DeployByID_def ServiceByID_def BuildByDeployID_def ListEnvVars_def ListCustomDomains_def
    ListRegistryCredentials_def DatabaseByID_def ListAutoscaleDatabases_def ServicesForMetering_def QueuedDeployIDs_def
  by (rule touch_read)+

lemma build_rows_touch [touching]:
  "keeps_touch P M (StartBuild i st)" "keeps_touch P M (FinishBuild i st)" "keeps_touch P M (AppendBuildLog i l)"
  unfolding StartBuild_def FinishBuild_def AppendBuildLog_def
  by (intro touch_still upd_build_still; simp)+

lemma log_writer_touches [touching]: "keeps_touch P M (dbLogWriter i c)"
  unfolding dbLogWriter_def by (intro touch.keeps_rules touching)

definition about :: "int \<Rightarrow> deploy \<Rightarrow> bool" where
  "about i d \<longleftrightarrow> d_id d = i"

definition hand_over :: "int \<Rightarrow> (string \<times> string) set" where
  "hand_over i = {(DeploymentChannel, itoa i)}"

lemma deploy_rows_touch [touching]:
  "keeps_touch (about i) M (ClaimQueuedDeploy i)" "keeps_touch (about i) M (SetDeployImage i img)"
  "keeps_touch (about i) M (UpdateDeployStatus i to)"
proof -
  have "touches_rows (about i) t (snd (claim_queued i n t))" for n t
    by (auto simp: claim_queued_def Let_def about_def intro: upd_deploy_rows)
  then show "keeps_touch (about i) M (ClaimQueuedDeploy i)"
    unfolding ClaimQueuedDeploy_def by (intro touch_exec) (metis Inr_inject snd_conv)
  show "keeps_touch (about i) M (SetDeployImage i img)"
    unfolding SetDeployImage_def by (intro touch_total upd_deploy_rows) (simp_all add: about_def)
qed (intro touch_status, simp add: about_def)

lemma proc_fail_touches [touching]: "keeps_touch (about i) M (proc_fail i j)"
  unfolding proc_fail_def by (intro touch.keeps_rules touching)

lemma buildArgs_touches [touching]: "keeps_touch P M (buildArgs i)"
  unfolding buildArgs_def by (intro touch.keeps_rules touching)

lemma in_hand_over: "(DeploymentChannel, itoa i) \<in> hand_over i"
  by (simp add: hand_over_def)

context image_builder
begin

lemma build_touches: "keeps_touch P M (build req (dbLogWriter j))"
  by (rule build_keeps [OF touches_refl touches_trans log_writer_touches])

lemma process_touches: "keeps_touch (about i) (hand_over i) (process build registry i)"
  unfolding process_def run_build_def
  by (intro touch.keeps_rules touching build_touches in_hand_over)

text \<open>A payload that names no queued deploy changes nothing.\<close>

lemma claim_misses:
  assumes "\<And>d. d \<in> set (deploys t) \<Longrightarrow> d_id d = i \<Longrightarrow> d_status d \<noteq> StatusQueued"
  shows "claim_queued i n t = (False, t)"
proof -
  have n: "\<not> (d_id d = i \<and> d_status d = StatusQueued)" if "d \<in> set (deploys t)" for d
    using assms [OF that] by blast
  then have "filter (\<lambda>d. d_id d = i \<and> d_status d = StatusQueued) (deploys t) = []"
    by (simp add: filter_empty_conv)
  moreover have "sql_update (\<lambda>d. d_id d = i \<and> d_status d = StatusQueued) f (deploys t) = deploys t" for f
    unfolding sql_update_def by (rule map_idI, rule if_not_P, erule n)
  ultimately show ?thesis by (simp add: claim_queued_def Let_def upd_deploy_def)
qed

lemma process_unclaimed:
  assumes "\<And>d. d \<in> set (deploys (tabs w)) \<Longrightarrow> d_id d = i \<Longrightarrow> d_status d \<noteq> StatusQueued"
    and run: "process build registry i w = (u, w')"
  shows "tabs w' = tabs w" "bus w' = bus w"
proof -
  obtain r1 w1 where 1: "DeployByID i w = (r1, w1)" by fastforce
  note f1 = DeployByID_cases [OF 1]
  have "tabs w' = tabs w \<and> bus w' = bus w"
  proof (cases r1)
    case (Inl e)
    then show ?thesis using run 1 f1 by (simp add: process_def attempt_def ret_def)
  next
    case (Inr d)
    obtain r2 w2 where 2: "ServiceByID (d_service d) w1 = (r2, w2)" by fastforce
    note f2 = pg_read_frame [OF 2 [unfolded ServiceByID_def]]
    show ?thesis
    proof (cases r2)
      case (Inl e)
      then show ?thesis using run 1 2 f1 f2 Inr by (simp add: process_def attempt_def ret_def)
    next
      case p: (Inr p)
      obtain r3 w3 where 3: "BuildByDeployID i w2 = (r3, w3)" by fastforce
      note f3 = pg_read_frame [OF 3 [unfolded BuildByDeployID_def]]
      show ?thesis
      proof (cases r3)
        case (Inl e)
        then show ?thesis using run 1 2 3 f1 f2 f3 Inr p
          by (simp add: process_def attempt_def ret_def case_prod_beta)
      next
        case b: (Inr b)
        obtain r4 w4 where 4: "ClaimQueuedDeploy i w3 = (r4, w4)" by fastforce
        have t: "tabs w3 = tabs w" "bus w3 = bus w" using f1 f2 f3 by simp_all
        have "tabs w4 = tabs w \<and> bus w4 = bus w \<and> r4 \<noteq> Inr True"
          using pg_exec_cases [OF 4 [unfolded ClaimQueuedDeploy_def]] claim_misses [OF assms(1)] t by auto
        then show ?thesis using run 1 2 3 4 Inr p b
          by (cases r4) (simp_all add: process_def attempt_def ret_def case_prod_beta)
      qed
    qed
  qed
  then show "tabs w' = tabs w" "bus w' = bus w" by simp_all
qed

end

section \<open>The controller\<close>

lemma pg_frame_touches: "pg_frame m \<Longrightarrow> keeps_touch P M m"
  unfolding pg_frame_def keeps_def by (metis touches_refl)

text \<open>A reconciled deploy is settled: live or failed.\<close>

definition settled :: "deploy \<Rightarrow> bool" where
  "settled d \<longleftrightarrow> d_status d = StatusLive \<or> d_status d = StatusFailed"

definition settles :: "int \<Rightarrow> deploy \<Rightarrow> bool" where
  "settles i d \<longleftrightarrow> d_id d = i \<and> settled d"

definition nothing :: "deploy \<Rightarrow> bool" where
  "nothing d \<longleftrightarrow> False"

lemma final_status_touches [touching]:
  "keeps_touch (settles i) M (UpdateDeployStatus i StatusLive)"
  "keeps_touch (settles i) M (UpdateDeployStatus i StatusFailed)"
  by (rule touch_status, simp add: settles_def settled_def)+

lemma reconcile_touches: "keeps_touch (settles i) M (reconcile rc i)"
  unfolding reconcile_def deploy_fail_def pullCreds_def domainNames_def
  by (intro touch.keeps_rules touch.keeps_calling touching pg_frame_touches workload_frame)

lemma controller_rows_touch [touching]:
  "keeps_touch P M (SetDatabaseStatus i st)" "keeps_touch P M (SetDatabaseConnection i u ro po)"
  "keeps_touch P M (SetDatabaseInstances i k)"
  unfolding SetDatabaseStatus_def SetDatabaseConnection_def SetDatabaseInstances_def
  by (intro touch_still moving)+

lemma usage_touches [touching]: "keeps_touch P M (InsertUsageSample i c m)"
proof -
  have "deploys_still t t'" if "ins_usage i c m n t = Inr (a, t')" for n t a t'
    using that by (intro deploys_stillI) (auto simp: ins_usage_def nextval_def Let_def split: if_splits)
  then show ?thesis unfolding InsertUsageSample_def by (intro touch_exec still_touches)
qed

lemma clock_touches [touching]:
  "keeps_touch P M (time_Now :: ('y pworld, int) act)"
  "keeps_touch P M (cooldownElapsed i :: ('y pworld, bool) act)"
  "keeps_touch P M (markScaled i :: ('y pworld, unit) act)"
  by (auto simp: keeps_def time_Now_def cooldownElapsed_def markScaled_def touches_def pg.truncate_def
      split: list.split option.split)

lemma teardowns_touch:
  "keeps_touch P M (teardown payload)" "keeps_touch P M (resourceTeardown payload)"
  "keeps_touch P M (teardownDatabase payload)"
  unfolding teardown_def resourceTeardown_def teardownDatabase_def
  by (intro touch.keeps_rules touch.keeps_calling touching pg_frame_touches workload_frame database_frame; simp)+

lemma database_routines_touch:
  "keeps_touch P M (reconcileDatabase rc i)" "keeps_touch P M (backupDatabase i)"
  unfolding reconcileDatabase_def failDatabase_def backupDatabase_def
  by (intro touch.keeps_rules touch.keeps_calling touching pg_frame_touches provisionEngine_frame database_frame
      pg_frame_combine)+

lemma ticks_touch:
  "keeps_touch P M (autoscaleDatabases rc rd)" "keeps_touch P M (sampleUsage rd)"
  unfolding autoscaleDatabases_def sampleUsage_def autoscaleOne_def sampleService_def
  by (intro touch.keeps_rules touch.keeps_calling touch.keeps_each touching pg_frame_touches database_frame)+

text \<open>So a notification can settle the deploy it names, on the deployment channel, and nothing else.\<close>

definition settled_by :: "string \<times> string \<Rightarrow> deploy \<Rightarrow> bool" where
  "settled_by m d \<longleftrightarrow> fst m = DeploymentChannel \<and> parse_int (snd m) = Some (d_id d) \<and> settled d"

lemma touches_mono:
  assumes "touches P M p q" "\<And>d. P d \<Longrightarrow> Q d"
  shows "touches Q M p q"
  using assms unfolding touches_def touches_rows_def by blast

lemma keeps_touch_mono: "keeps_touch P M m \<Longrightarrow> (\<And>d. P d \<Longrightarrow> Q d) \<Longrightarrow> keeps_touch Q M m"
  unfolding keeps_def using touches_mono by blast

lemma on_notification_touches: "keeps_touch (settled_by (c, p)) M (on_notification rc c p)"
proof -
  have "keeps_touch (settled_by (c, p)) M (with_id p (reconcile rc))" if "c = DeploymentChannel"
  proof (cases "parse_int p")
    case (Some i)
    have "keeps_touch (settled_by (c, p)) M (reconcile rc i)"
      by (rule keeps_touch_mono [OF reconcile_touches]) (simp add: that Some settled_by_def settles_def)
    then show ?thesis by (simp add: with_id_def Some)
  qed (simp add: with_id_def touch.keeps_ret)
  then show ?thesis unfolding on_notification_def
    by (auto simp: with_id_def intro: touch.keeps_ret teardowns_touch database_routines_touch split: option.split)
qed

lemma ticks_touch_nothing: "keeps_touch nothing {} (on_event rc (AutoscaleTick rd))"
  "keeps_touch nothing {} (on_event rc (SampleTick rd))"
  by (simp_all add: ticks_touch)

section \<open>Undisturbed\<close>

text \<open>
  When no database call fails, processing a payload leaves the deploy it names built and announced, or
  failed, and reconciling one that ends without a panic leaves its deploy settled.
\<close>

lemma the_deploy:
  assumes "deploys_built t" "d \<in> set (deploys t)" "d_id d = i"
  shows "find (\<lambda>d. d_id d = i) (deploys t) = Some d"
proof -
  have "find (\<lambda>d. d_id d = i) (deploys t) \<noteq> None" using assms by (auto simp: find_None_iff)
  then obtain e where e: "find (\<lambda>d. d_id d = i) (deploys t) = Some e" by blast
  then have "e \<in> set (deploys t)" "d_id e = i" using find_Some_in [OF e] by simp_all
  moreover have "inj_on d_id (set (deploys t))" using assms(1) by (simp add: deploys_built_def distinct_map)
  ultimately show ?thesis using e assms(2,3) by (auto dest: inj_onD)
qed

lemma refs_find:
  assumes "refs key rows pkey ps" "r \<in> set rows"
  shows "\<exists>p. find (\<lambda>p. pkey p = key r) ps = Some p"
proof -
  have "key r \<in> pkey ` set ps" using assms by (simp add: refs_def)
  then obtain p where p: "key r = pkey p" "p \<in> set ps" by (rule imageE)
  show ?thesis
  proof (cases "find (\<lambda>p. pkey p = key r) ps")
    case None
    then have "\<forall>x. x \<in> set ps \<longrightarrow> pkey x \<noteq> key r" by (simp add: find_None_iff)
    then show ?thesis using p by metis
  qed simp
qed

lemma deploy_service_org:
  assumes "schema_ok t" "d \<in> set (deploys t)"
  shows "\<exists>svc og. service_org (d_service d) t = Some (svc, og)"
proof -
  have "refs d_service (deploys t) sv_id (services t)" using assms(1) by (simp add: schema_defs)
  from refs_find [OF this assms(2)] obtain s where s: "find (\<lambda>s. sv_id s = d_service d) (services t) = Some s"
    by blast
  have "refs sv_project (services t) p_id (projects t)" using assms(1) by (simp add: schema_defs)
  moreover have "s \<in> set (services t)" using find_Some_in [OF s] by simp
  ultimately have "\<exists>p. find (\<lambda>p. p_id p = sv_project s) (projects t) = Some p" by (rule refs_find)
  then obtain p where "find (\<lambda>p. p_id p = sv_project s) (projects t) = Some p" by blast
  then show ?thesis using s by (simp add: service_org_def)
qed

lemma deploy_build:
  assumes "deploys_built t" "d \<in> set (deploys t)"
  shows "\<exists>b. find (\<lambda>b. b_deploy b = d_id d) (builds t) = Some b"
proof -
  have "d_id d \<in> b_deploy ` set (builds t)" using assms by (simp add: deploys_built_def)
  then have "find (\<lambda>b. b_deploy b = d_id d) (builds t) \<noteq> None" by (auto simp: find_None_iff)
  then show ?thesis by blast
qed

context image_builder
begin

lemma process_builds:
  assumes "faults w = []" "schema_ok (tabs w)" "deploys_built (tabs w)"
    and d: "d \<in> set (deploys (tabs w))" "d_id d = i" "d_status d = StatusQueued"
    and run: "process build registry i w = (u, w')"
  shows "\<exists>d'. find (\<lambda>d. d_id d = i) (deploys (tabs w')) = Some d' \<and> (d_status d' = StatusFailed \<and> bus w' = bus w \<or>
    d_status d' = StatusDeploying \<and> bus w' = bus w @ [(DeploymentChannel, itoa i)])"
proof -
  obtain svc og where "service_org (d_service d) (tabs w) = Some (svc, og)"
    using deploy_service_org [OF assms(2) d(1)] by blast
  moreover obtain b where "find (\<lambda>b. b_deploy b = i) (builds (tabs w)) = Some b"
    using deploy_build [OF assms(3) d(1)] d(2) by blast
  ultimately obtain res l where
    "built (now w) registry i svc d (b\<lparr>b_started := Some (now w)\<rparr>) res l (bus w) w'"
    using process_calm [OF assms(1,2) the_deploy [OF assms(3) d(1,2)] d(3) _ _ run] by blast
  then show ?thesis by (cases res) (auto simp: built_def)
qed

end

lemma with_status_settles:
  "d \<in> set (deploys (tabs (with_status i st w))) \<Longrightarrow> d_id d = i \<Longrightarrow> d_status d = st"
proof -
  assume a: "d \<in> set (deploys (tabs (with_status i st w)))" "d_id d = i"
  then have "d \<in> (\<lambda>e. if d_id e = i then e\<lparr>d_status := st, d_updated := now w\<rparr> else e) ` set (deploys (tabs w))"
    by (simp add: with_status_def upd_deploy_def sql_update_def)
  then obtain e where "d = (if d_id e = i then e\<lparr>d_status := st, d_updated := now w\<rparr> else e)" by (rule imageE)
  then show ?thesis using a(2) by (cases "d_id e = i") simp_all
qed

lemma reconcile_settles:
  assumes "faults w = []" "schema_ok (tabs w)" "deploys_built (tabs w)"
    and run: "reconcile rc i w = (Inr u, w')"
    and d: "d \<in> set (deploys (tabs w'))" "d_id d = i"
  shows "d_status d \<noteq> StatusDeploying"
proof -
  have touched: "touches (settles i) {} (pg.truncate w) (pg.truncate w')"
    by (rule keepsD [OF reconcile_touches run])
  consider (before) "d \<in> set (deploys (tabs w))" | (now) "settled d"
    using touched d by (auto simp: touches_def touches_rows_def settles_def pg.truncate_def)
  then show ?thesis
  proof cases
    case now
    then show ?thesis by (auto simp: settled_def status_defs)
  next
    case before
    show ?thesis
    proof
      assume st: "d_status d = StatusDeploying"
      obtain svc og where s: "service_org (d_service d) (tabs w) = Some (svc, og)"
        using deploy_service_org [OF assms(2) before] by blast
      note c = reconcile_cases [OF assms(1) the_deploy [OF assms(3) before d(2)] st s, of rc]
      obtain r w1 where 1: "Apply rc (spec_of (tabs w) d svc og) w = (r, w1)" by fastforce
      have "w' = with_status i StatusFailed w \<or> w' = with_status i StatusLive w1 \<or> w' = with_status i StatusFailed w1"
      proof (cases "d_image d = ''''")
        case True
        then show ?thesis using c run by simp
      next
        case False
        show ?thesis
        proof (cases r)
          case (Inl e)
          then show ?thesis using c run 1 False by (cases e) simp_all
        next
          case (Inr v)
          then show ?thesis using c run 1 False by simp
        qed
      qed
      then have "d_status d = StatusFailed \<or> d_status d = StatusLive"
        using with_status_settles d by blast
      then show False using st by (auto simp: status_defs)
    qed
  qed
qed

end
