(* ===== verification/Control_Plane.thy ===== *)
theory Control_Plane
  imports Deploy_Workers Deploy_Requests
begin

text \<open>
  The whole control plane: the API server, the builder and the controller as three processes around one
  database. A step of the system is a request, a goroutine of the builder or the controller, a process
  coming up or going down, or the outside world.

  \<open>NOTIFY\<close> reaches only who listens at that moment: \<open>publish\<close> starts, for each payload just sent, a goroutine in
  every listening process, and a process that is down or not listening yet never learns of it. Goroutines wait in
  no particular order and each runs as one step (their statements may interleave:
  \<open>claim_exclusive\<close> is about that). A process that dies in the middle of a goroutine is a run of
  failing calls (\<open>Faults\<close>) followed by its stop.
\<close>

section \<open>The system\<close>

record platform =
  su_server :: "unit server"
  su_workdir :: string
  su_registry :: string
  su_reconciler :: reconciler

text \<open>
  \<open>sys_building\<close> are the deploys for which the builder has a goroutine that has not run yet, \<open>sys_tasks\<close> the
  notifications the controller has one for. The database part of the two processes' worlds is not used:
  \<open>attach\<close> replaces it by the shared one.
\<close>

record system =
  sys_db :: pg
  sys_builder_on :: bool
  sys_building :: "int list"
  sys_builder :: builder_world
  sys_channels :: "string set"
  sys_tasks :: "(string \<times> string) list"
  sys_controller :: controller

definition attach_builder :: "pg \<Rightarrow> builder_world \<Rightarrow> builder_world" where
  "attach_builder p w = pg.extend p (pg.more w)"

definition attach_controller :: "pg \<Rightarrow> controller \<Rightarrow> controller" where
  "attach_controller p w = pg.extend p (pg.more w)"

definition payload_ids :: "(string \<times> string) list \<Rightarrow> int list" where
  "payload_ids ms = List.map_filter parse_int (map snd (filter (\<lambda>m. fst m = DeployChannel) ms))"

definition publish :: "pg \<Rightarrow> system \<Rightarrow> system" where
  "publish p s = (let sent = drop (length (bus (sys_db s))) (bus p) in
     s\<lparr>sys_db := p,
       sys_building := sys_building s @ (if sys_builder_on s then payload_ids sent else []),
       sys_tasks := sys_tasks s @ filter (\<lambda>m. fst m \<in> sys_channels s) sent\<rparr>)"

definition controller_down :: "system \<Rightarrow> system" where
  "controller_down s = s\<lparr>sys_channels := {}, sys_tasks := []\<rparr>"

section \<open>Its steps\<close>

datatype label =
    Request request
  | Builder_Sweep | Builder_Listen | Build int | Builder_Stop
  | Controller_Listen string | Handle "string \<times> string" | Tick event | Controller_Panic | Controller_Stop
  | Outside | Faults

definition is_tick :: "event \<Rightarrow> bool" where
  "is_tick e \<longleftrightarrow> (case e of Notified _ _ \<Rightarrow> False | _ \<Rightarrow> True)"

inductive system_step :: "platform \<Rightarrow> system \<Rightarrow> label \<Rightarrow> system \<Rightarrow> bool" for su where
  request: "serve (su_server su) r (sys_db s) = (resp, p) \<Longrightarrow> system_step su s (Request r) (publish p s)"
| sweep: "QueuedDeployIDs (sys_db s) = (Inr ids, p) \<Longrightarrow>
    system_step su s Builder_Sweep (s\<lparr>sys_db := p, sys_building := sys_building s @ ids\<rparr>)"
| sweep_failed: "QueuedDeployIDs (sys_db s) = (Inl e, p) \<Longrightarrow> system_step su s Builder_Sweep (s\<lparr>sys_db := p\<rparr>)"
| builder_listen: "system_step su s Builder_Listen (s\<lparr>sys_builder_on := True\<rparr>)"
| build: "sys_building s = xs @ i # ys \<Longrightarrow>
    process (builder_backend (su_workdir su)) (su_registry su) i (attach_builder (sys_db s) (sys_builder s)) = (u, w) \<Longrightarrow>
    system_step su s (Build i) (publish (pg.truncate w) (s\<lparr>sys_building := xs @ ys, sys_builder := w\<rparr>))"
| builder_stop: "system_step su s Builder_Stop (s\<lparr>sys_builder_on := False, sys_building := []\<rparr>)"
| controller_listen: "system_step su s (Controller_Listen c) (s\<lparr>sys_channels := insert c (sys_channels s)\<rparr>)"
| handle: "sys_tasks s = xs @ m # ys \<Longrightarrow>
    on_notification (su_reconciler su) (fst m) (snd m) (attach_controller (sys_db s) (sys_controller s)) = (Inr u, w) \<Longrightarrow>
    system_step su s (Handle m) (publish (pg.truncate w) (s\<lparr>sys_tasks := xs @ ys, sys_controller := w\<rparr>))"
| handle_panic: "m \<in> set (sys_tasks s) \<Longrightarrow>
    on_notification (su_reconciler su) (fst m) (snd m) (attach_controller (sys_db s) (sys_controller s)) = (Inl x, w) \<Longrightarrow>
    system_step su s Controller_Panic (controller_down (publish (pg.truncate w) (s\<lparr>sys_controller := w\<rparr>)))"
| tick: "is_tick e \<Longrightarrow>
    on_event (su_reconciler su) e (attach_controller (sys_db s) (sys_controller s)) = (Inr u, w) \<Longrightarrow>
    system_step su s (Tick e) (publish (pg.truncate w) (s\<lparr>sys_controller := w\<rparr>))"
| tick_panic: "is_tick e \<Longrightarrow>
    on_event (su_reconciler su) e (attach_controller (sys_db s) (sys_controller s)) = (Inl x, w) \<Longrightarrow>
    system_step su s Controller_Panic (controller_down (publish (pg.truncate w) (s\<lparr>sys_controller := w\<rparr>)))"
| controller_stop: "system_step su s Controller_Stop (controller_down s)"
| outside: "system_step su s Outside (s\<lparr>sys_db := (sys_db s)\<lparr>now := n\<rparr>, sys_builder := b, sys_controller := c\<rparr>)"
| faults: "system_step su s Faults (s\<lparr>sys_db := (sys_db s)\<lparr>faults := fs\<rparr>\<rparr>)"

inductive system_run :: "platform \<Rightarrow> system \<Rightarrow> label list \<Rightarrow> system \<Rightarrow> bool" for su where
  run_Nil: "system_run su s [] s"
| run_Cons: "system_step su s l t \<Longrightarrow> system_run su t ls u \<Longrightarrow> system_run su s (l # ls) u"

inductive_cases run_NilE: "system_run su s [] t"
inductive_cases run_ConsE: "system_run su s (l # ls) t"

lemma run_append: "system_run su s ls t \<Longrightarrow> system_run su t ks u \<Longrightarrow> system_run su s (ls @ ks) u"
  by (induction rule: system_run.induct) (auto intro: run_Cons)

text \<open>Invariants of runs by invariance of steps.\<close>

lemma run_invariant:
  assumes "system_run su s ls t" "I s" "\<And>s l t. system_step su s l t \<Longrightarrow> l \<in> set ls \<Longrightarrow> I s \<Longrightarrow> I t"
  shows "I t"
  using assms by (induction rule: system_run.induct) (auto intro: run_Cons)

section \<open>What a step does to the database\<close>

lemma attach_truncate [simp]:
  "pg.truncate (attach_builder p b) = p" "pg.truncate (attach_controller p c) = p"
  by (simp_all add: attach_builder_def attach_controller_def pg.truncate_def pg.extend_def)

lemma attach_select [simp]:
  "tabs (attach_builder p b) = tabs p" "faults (attach_builder p b) = faults p" "bus (attach_builder p b) = bus p"
  "tabs (attach_controller p c) = tabs p" "faults (attach_controller p c) = faults p" "bus (attach_controller p c) = bus p"
  by (simp_all add: attach_builder_def attach_controller_def pg.extend_def)

lemma attach_cluster [simp]:
  "now (attach_controller p c) = now p" "cl_errors (attach_controller p c) = cl_errors c"
  "cl_waits (attach_controller p c) = cl_waits c" "cl_objects (attach_controller p c) = cl_objects c"
  by (cases c; simp add: attach_controller_def pg.extend_def)+

lemma truncate_pg [simp]: "pg.truncate (p :: pg) = p"
  by (simp add: pg.truncate_def)

lemma truncate_select [simp]:
  "tabs (pg.truncate w) = tabs w" "faults (pg.truncate w) = faults w" "bus (pg.truncate w) = bus w"
  by (simp_all add: pg.truncate_def)

lemma truncate_now [simp]: "now (pg.truncate w) = now w"
  by (simp add: pg.truncate_def)

lemma publish_select [simp]:
  "sys_db (publish p s) = p" "sys_builder_on (publish p s) = sys_builder_on s"
  "sys_channels (publish p s) = sys_channels s"
  by (simp_all add: publish_def Let_def)

lemma controller_down_select [simp]:
  "sys_db (controller_down s) = sys_db s" "sys_builder_on (controller_down s) = sys_builder_on s"
  "sys_building (controller_down s) = sys_building s" "sys_channels (controller_down s) = {}"
  "sys_tasks (controller_down s) = []"
  by (simp_all add: controller_down_def)

lemma step_evolves:
  assumes "system_step su s l t" "srv_others (su_server su) = []"
  shows "db_evolves (tabs (sys_db s)) (tabs (sys_db t))"
  using assms(1)
proof (cases rule: system_step.cases)
  case (request r resp p)
  then show ?thesis using keepsD [OF serve_evolves request(3)] assms(2) by simp
next
  case (sweep ids p)
  then show ?thesis using pg_read_frame(1) [OF sweep(3) [unfolded QueuedDeployIDs_def]] by simp
next
  case (sweep_failed e p)
  then show ?thesis using pg_read_frame(1) [OF sweep_failed(3) [unfolded QueuedDeployIDs_def]] by simp
next
  case (build xs i ys u w)
  then show ?thesis using keepsD [OF backend.process_evolves build(4)] by simp
next
  case (handle xs m ys u w)
  then show ?thesis using keepsD [OF on_event_evolves [of _ "Notified (fst m) (snd m)", simplified] handle(4)] by simp
next
  case (handle_panic m x w)
  then show ?thesis using keepsD [OF on_event_evolves [of _ "Notified (fst m) (snd m)", simplified] handle_panic(4)] by simp
next
  case (tick e u w)
  then show ?thesis using keepsD [OF on_event_evolves tick(4)] by simp
next
  case (tick_panic e x w)
  then show ?thesis using keepsD [OF on_event_evolves tick_panic(4)] by simp
qed (simp_all add: controller_down_def)

section \<open>No deploy is forgotten\<close>

lemma parse_itoa: "parse_int (itoa j) = Some i \<Longrightarrow> i = j"
  by (auto simp: parse_int_def itoa_def hd_dec_nat in_int64_def split: if_splits)

lemma payload_ids_iff: "i \<in> set (payload_ids ms) \<longleftrightarrow> (\<exists>p. (DeployChannel, p) \<in> set ms \<and> parse_int p = Some i)"
  by (force simp: payload_ids_def List.map_filter_def)

lemma publish_sent:
  assumes "bus p = bus (sys_db s) @ sent"
  shows "sys_building (publish p s) = sys_building s @ (if sys_builder_on s then payload_ids sent else [])"
    "sys_tasks (publish p s) = sys_tasks s @ filter (\<lambda>m. fst m \<in> sys_channels s) sent"
  using assms by (simp_all add: publish_def Let_def)

text \<open>
  A deploy is accounted for: it has come to its end, or the process whose turn it is has a goroutine for it.
  The platform is in order when this holds of every deploy and both processes listen.
\<close>

definition accounted :: "system \<Rightarrow> deploy \<Rightarrow> bool" where
  "accounted s d \<longleftrightarrow> settled d \<or> (d_status d = StatusQueued \<and> d_id d \<in> set (sys_building s)) \<or>
     (d_status d = StatusDeploying \<and> (DeploymentChannel, itoa (d_id d)) \<in> set (sys_tasks s))"

definition in_order :: "system \<Rightarrow> bool" where
  "in_order s \<longleftrightarrow> faults (sys_db s) = [] \<and> schema_ok (tabs (sys_db s)) \<and> deploys_built (tabs (sys_db s)) \<and>
     sys_builder_on s \<and> DeploymentChannel \<in> sys_channels s \<and>
     (\<forall>d \<in> set (deploys (tabs (sys_db s))). accounted s d)"

definition steady :: "label \<Rightarrow> bool" where
  "steady l \<longleftrightarrow> l \<notin> {Builder_Stop, Controller_Panic, Controller_Stop, Faults}"

lemma accounted_mono:
  "accounted s d \<Longrightarrow> set (sys_building s) \<subseteq> set (sys_building t) \<Longrightarrow> set (sys_tasks s) \<subseteq> set (sys_tasks t) \<Longrightarrow>
     accounted t d"
  unfolding accounted_def by blast

lemma request_in_order:
  assumes run: "serve (su_server su) r (sys_db s) = (resp, p)" and others: "srv_others (su_server su) = []"
    and le: "seqs (tabs p) SDeploys \<le> 2 ^ 63" and ord: "in_order s"
  shows "in_order (publish p s)"
proof -
  let ?q = "sys_db s"
  have m: "api_moves ?q p" using keepsD [OF serve_moves run] others by simp
  then obtain sent where sent: "api_sends ?q p sent" and k: "deploys_kept (tabs ?q) (tabs p)"
    unfolding api_moves_def by blast
  have b: "bus p = bus ?q @ sent" "faults p = []"
    and new: "d \<in> set (deploys (tabs p)) \<Longrightarrow> d \<in> set (deploys (tabs ?q)) \<or> (\<exists>m \<in> set sent. announces d m)" for d
    using sent ord by (auto simp: api_sends_def in_order_def)
  have built: "deploys_built (tabs p)" using k ord by (simp add: deploys_kept_def in_order_def)
  have "db_evolves (tabs ?q) (tabs p)" using keepsD [OF serve_evolves run] others by simp
  then have ok: "schema_ok (tabs p)" using ord by (simp add: db_evolves_def in_order_def)
  note sel = publish_sent [OF b(1)]
  have "accounted (publish p s) d" if d: "d \<in> set (deploys (tabs p))" for d
  proof -
    consider "d \<in> set (deploys (tabs ?q))" | m where "m \<in> set sent" "announces d m" using new [OF d] by blast
    then show ?thesis
    proof cases
      case 1
      then have "accounted s d" using ord by (simp add: in_order_def)
      then show ?thesis by (rule accounted_mono) (auto simp: sel)
    next
      case 2
      have "0 \<le> d_id d" "d_id d < seqs (tabs p) SDeploys" using built d by (auto simp: deploys_built_def)
      then have "int64 (d_id d)" using le by (simp add: int64_def)
      then have p: "parse_int (itoa (d_id d)) = Some (d_id d)" by (rule parse_int_itoa)
      then show ?thesis using 2 ord p payload_ids_iff [of "d_id d" sent]
        by (auto simp: accounted_def announces_def sel in_order_def)
    qed
  qed
  then show ?thesis using b(2) ok built ord by (simp add: in_order_def)
qed

lemma build_in_order:
  assumes bld: "sys_building s = xs @ i # ys"
    and run: "process (builder_backend wd) reg i (attach_builder (sys_db s) (sys_builder s)) = (u, w)"
    and ord: "in_order s"
  shows "in_order (publish (pg.truncate w) (s\<lparr>sys_building := xs @ ys, sys_builder := w\<rparr>))"
proof -
  let ?q = "sys_db s" and ?s = "s\<lparr>sys_building := xs @ ys, sys_builder := w\<rparr>"
  have t: "touches (about i) (hand_over i) ?q (pg.truncate w)"
    using keepsD [OF backend.process_touches run] by simp
  then obtain sent where sent: "bus w = bus ?q @ sent" and rows: "touches_rows (about i) (tabs ?q) (tabs w)"
    and calm: "faults w = []"
    using ord by (auto simp: touches_def in_order_def)
  have o: "faults ?q = []" "schema_ok (tabs ?q)" "deploys_built (tabs ?q)"
    "\<And>d. d \<in> set (deploys (tabs ?q)) \<Longrightarrow> accounted s d"
    using ord by (simp_all add: in_order_def)
  have built: "deploys_built (tabs w)" using rows o(3) by (simp add: touches_rows_def)
  have "db_evolves (tabs ?q) (tabs w)" using keepsD [OF backend.process_evolves run] by simp
  then have ok: "schema_ok (tabs w)" using o(2) by (simp add: db_evolves_def)
  have sel: "sys_building (publish (pg.truncate w) ?s) = xs @ ys @ payload_ids sent"
    "sys_tasks (publish (pg.truncate w) ?s) = sys_tasks s @ filter (\<lambda>m. fst m \<in> sys_channels s) sent"
    using publish_sent [of "pg.truncate w" ?s sent] sent ord by (simp_all add: in_order_def)
  have "accounted (publish (pg.truncate w) ?s) d" if d: "d \<in> set (deploys (tabs w))" for d
  proof (cases "d_id d = i")
    case False
    then have "accounted s d" using rows d o(4) by (auto simp: touches_rows_def about_def)
    then show ?thesis using False by (auto simp: accounted_def sel bld)
  next
    case True
    show ?thesis
    proof (cases "\<exists>e \<in> set (deploys (tabs ?q)). d_id e = i \<and> d_status e = StatusQueued")
      case False
      then have "tabs w = tabs ?q" using backend.process_unclaimed(1) [OF _ run] by auto
      then have "accounted s d" "d_status d \<noteq> StatusQueued" using d o(4) True False by auto
      then show ?thesis by (auto simp: accounted_def sel)
    next
      case ex: True
      then obtain e where e: "e \<in> set (deploys (tabs ?q))" "d_id e = i" "d_status e = StatusQueued" by blast
      have "\<exists>d'. find (\<lambda>d. d_id d = i) (deploys (tabs w)) = Some d' \<and> (d_status d' = StatusFailed \<and> bus w = bus ?q \<or>
          d_status d' = StatusDeploying \<and> bus w = bus ?q @ [(DeploymentChannel, itoa i)])"
        using backend.process_builds [OF _ _ _ _ e(2,3) run] o e(1) by simp
      then have "d_status d = StatusFailed \<or> d_status d = StatusDeploying \<and> sent = [(DeploymentChannel, itoa i)]"
        using the_deploy [OF built d True] sent by auto
      then show ?thesis using True ord by (auto simp: accounted_def sel settled_def in_order_def)
    qed
  qed
  then show ?thesis using calm ok built ord by (simp add: in_order_def)
qed

lemma controller_in_order:
  fixes w :: controller
  assumes touched: "touches P {} (sys_db s) (pg.truncate w)" "\<And>d. P d \<Longrightarrow> settled d"
    and evolves: "db_evolves (tabs (sys_db s)) (tabs w)" and ord: "in_order s"
    and tasks: "\<And>d. d \<in> set (deploys (tabs w)) \<Longrightarrow> d_status d = StatusDeploying \<Longrightarrow>
      (DeploymentChannel, itoa (d_id d)) \<in> set (sys_tasks s) \<Longrightarrow> (DeploymentChannel, itoa (d_id d)) \<in> set ts"
  shows "in_order (publish (pg.truncate w) (s\<lparr>sys_tasks := ts, sys_controller := w\<rparr>))"
proof -
  let ?s = "s\<lparr>sys_tasks := ts, sys_controller := w\<rparr>"
  have b: "bus w = bus (sys_db s) @ []" "faults w = []" and rows: "touches_rows P (tabs (sys_db s)) (tabs w)"
    using touched(1) ord by (auto simp: touches_def in_order_def)
  have sel: "sys_building (publish (pg.truncate w) ?s) = sys_building s" "sys_tasks (publish (pg.truncate w) ?s) = ts"
    using publish_sent [of "pg.truncate w" ?s "[]"] b(1) by (simp_all add: payload_ids_def List.map_filter_def)
  have "accounted (publish (pg.truncate w) ?s) d" if d: "d \<in> set (deploys (tabs w))" for d
  proof -
    have "accounted s d \<or> settled d"
      using rows d ord touched(2) by (auto simp: touches_rows_def in_order_def)
    then show ?thesis using tasks [OF d] by (auto simp: accounted_def sel)
  qed
  then show ?thesis using b rows evolves ord by (simp add: in_order_def touches_rows_def db_evolves_def)
qed

lemma handle_in_order:
  assumes tasks: "sys_tasks s = xs @ m # ys"
    and run: "on_notification rc (fst m) (snd m) (attach_controller (sys_db s) (sys_controller s)) = (Inr u, w)"
    and ord: "in_order s" and le: "seqs (tabs (sys_db s)) SDeploys \<le> 2 ^ 63"
  shows "in_order (publish (pg.truncate w) (s\<lparr>sys_tasks := xs @ ys, sys_controller := w\<rparr>))"
proof (rule controller_in_order [OF _ _ _ ord])
  let ?q = "sys_db s"
  show t: "touches (settled_by m) {} ?q (pg.truncate w)"
    using keepsD [OF on_notification_touches run] by simp
  show "db_evolves (tabs ?q) (tabs w)"
    using keepsD [OF on_event_evolves [of _ "Notified (fst m) (snd m)", simplified] run] by simp
  fix d assume d: "d \<in> set (deploys (tabs w))" "d_status d = StatusDeploying"
    and pending: "(DeploymentChannel, itoa (d_id d)) \<in> set (sys_tasks s)"
  have "deploys_built (tabs w)" using t ord by (simp add: touches_def touches_rows_def in_order_def)
  then have "0 \<le> d_id d" "d_id d < seqs (tabs ?q) SDeploys"
    using d(1) t by (auto simp: deploys_built_def touches_def touches_rows_def)
  then have p: "parse_int (itoa (d_id d)) = Some (d_id d)" using le by (intro parse_int_itoa) (simp add: int64_def)
  show "(DeploymentChannel, itoa (d_id d)) \<in> set (xs @ ys)"
  proof (rule ccontr)
    assume "(DeploymentChannel, itoa (d_id d)) \<notin> set (xs @ ys)"
    then have m: "m = (DeploymentChannel, itoa (d_id d))" using pending tasks by auto
    then have "reconcile rc (d_id d) (attach_controller ?q (sys_controller s)) = (Inr u, w)"
      using run by (simp add: on_notification_def with_id_def p)
    from reconcile_settles [OF _ _ _ this d(1) refl] show False using ord d(2) by (simp add: in_order_def)
  qed
qed (simp add: settled_by_def)

lemma tick_in_order:
  assumes "is_tick e" "on_event rc e (attach_controller (sys_db s) (sys_controller s)) = (Inr u, w)" "in_order s"
  shows "in_order (publish (pg.truncate w) (s\<lparr>sys_controller := w\<rparr>))"
proof -
  have "keeps_touch nothing {} (on_event rc e :: (controller, string + unit) act)"
    using assms(1) by (cases e) (simp_all add: is_tick_def ticks_touch del: on_event.simps add: on_event.simps(2,3))
  from keepsD [OF this assms(2)] have "touches nothing {} (sys_db s) (pg.truncate w)" by simp
  moreover have "db_evolves (tabs (sys_db s)) (tabs w)" using keepsD [OF on_event_evolves assms(2)] by simp
  ultimately have "in_order (publish (pg.truncate w) (s\<lparr>sys_tasks := sys_tasks s, sys_controller := w\<rparr>))"
    by (intro controller_in_order [of nothing, OF _ _ _ assms(3)]) (auto simp: nothing_def)
  then show ?thesis by simp
qed

lemma sweep_in_order:
  assumes "QueuedDeployIDs (sys_db s) = (r, p)" "in_order s"
  shows "in_order (s\<lparr>sys_db := p, sys_building := sys_building s @ ids\<rparr>)" "in_order (s\<lparr>sys_db := p\<rparr>)"
proof -
  have "faults (sys_db s) = []" using assms(2) by (simp add: in_order_def)
  then have "p = sys_db s" using assms(1) by (simp add: QueuedDeployIDs_def)
  then show "in_order (s\<lparr>sys_db := p, sys_building := sys_building s @ ids\<rparr>)" "in_order (s\<lparr>sys_db := p\<rparr>)"
    using assms(2) by (auto simp: in_order_def accounted_def)
qed

lemma step_in_order:
  assumes "system_step su s l t" "srv_others (su_server su) = []" "steady l" "in_order s"
    and "seqs (tabs (sys_db t)) SDeploys \<le> 2 ^ 63"
  shows "in_order t"
proof -
  have "deploys_evolve (tabs (sys_db s)) (tabs (sys_db t))"
    using step_evolves [OF assms(1,2)] assms(4) by (simp add: db_evolves_def in_order_def)
  then have le: "seqs (tabs (sys_db s)) SDeploys \<le> 2 ^ 63" using assms(5) by (simp add: deploys_evolve_def)
  show ?thesis
    using assms(1)
  proof (cases rule: system_step.cases)
    case (request r resp p)
    then show ?thesis using request_in_order [OF request(3) assms(2) _ assms(4)] assms(5) by simp
  next
    case (handle xs m ys u w)
    then show ?thesis using handle_in_order [OF handle(3,4) assms(4) le] by simp
  next
    case (build xs i ys u w)
    then show ?thesis using build_in_order [OF build(3,4) assms(4)] by simp
  next
    case (tick e u w)
    then show ?thesis using tick_in_order [OF tick(3,4) assms(4)] by simp
  next
    case (sweep ids p)
    then show ?thesis using sweep_in_order(1) [OF sweep(3) assms(4)] by simp
  next
    case (sweep_failed e p)
    then show ?thesis using sweep_in_order(2) [OF sweep_failed(3) assms(4)] by simp
  qed (use assms(3,4) in \<open>auto simp: steady_def in_order_def accounted_def\<close>)
qed

lemma run_seqs:
  assumes "system_run su s ls t" "srv_others (su_server su) = []" "schema_ok (tabs (sys_db s))"
  shows "db_evolves (tabs (sys_db s)) (tabs (sys_db t))" "seqs (tabs (sys_db s)) SDeploys \<le> seqs (tabs (sys_db t)) SDeploys"
proof -
  have "db_evolves (tabs (sys_db s)) (tabs (sys_db t))"
    using assms(1) by (induction rule: system_run.induct) (auto intro: db_evolves_trans step_evolves [OF _ assms(2)])
  then show "db_evolves (tabs (sys_db s)) (tabs (sys_db t))"
    "seqs (tabs (sys_db s)) SDeploys \<le> seqs (tabs (sys_db t)) SDeploys"
    using assms(3) by (simp_all add: db_evolves_def deploys_evolve_def)
qed

lemma run_in_order:
  assumes "system_run su s ls t" "srv_others (su_server su) = []" "list_all steady ls" "in_order s"
    and "seqs (tabs (sys_db t)) SDeploys \<le> 2 ^ 63"
  shows "in_order t"
  using assms(1,3-)
proof (induction rule: system_run.induct)
  case (run_Cons s l t ls u)
  have "schema_ok (tabs (sys_db t))"
    using step_evolves [OF run_Cons.hyps(1) assms(2)] run_Cons.prems(2) by (simp add: db_evolves_def in_order_def)
  then have "seqs (tabs (sys_db t)) SDeploys \<le> 2 ^ 63"
    using run_seqs(2) [OF run_Cons.hyps(2) assms(2)] run_Cons.prems(3) by linarith
  then have "in_order t" using step_in_order [OF run_Cons.hyps(1) assms(2)] run_Cons.prems by simp
  then show ?case using run_Cons by simp
qed

section \<open>The lifecycle across processes\<close>

lemma run_evolves:
  assumes "system_run su s ls t" "srv_others (su_server su) = []"
  shows "db_evolves (tabs (sys_db s)) (tabs (sys_db t))"
  using assms(1) by (induction rule: system_run.induct) (auto intro: db_evolves_trans step_evolves [OF _ assms(2)])


text \<open>How many goroutines can still run before the two processes wait for notifications again.\<close>

definition pending :: "system \<Rightarrow> nat" where
  "pending s = 2 * length (sys_building s) + length (sys_tasks s)"

text \<open>A platform whose controller has just been notified of a built deploy of a cron service.\<close>

definition demo_platform :: platform where
  "demo_platform = \<lparr>su_server = demo_server, su_workdir = ''/tmp'', su_registry = ''reg'',
     su_reconciler = demo_reconciler\<rparr>"

definition demo_system :: system where
  "demo_system = \<lparr>sys_db = demo_pg\<lparr>tabs := demo_tables\<lparr>services := [demo_cron], deploys := [demo_built]\<rparr>\<rparr>,
     sys_builder_on = True, sys_building = [], sys_builder = demo_bw, sys_channels = {DeploymentChannel},
     sys_tasks = [(DeploymentChannel, ''1'')], sys_controller = demo_controller\<rparr>"

definition demo_handled :: "(string + unit) \<times> controller" where
  "demo_handled = on_notification demo_reconciler DeploymentChannel ''1''
     (attach_controller (sys_db demo_system) (sys_controller demo_system))"

definition demo_live_system :: system where
  "demo_live_system = publish (pg.truncate (snd demo_handled))
     (demo_system\<lparr>sys_tasks := [], sys_controller := snd demo_handled\<rparr>)"

lemma demo_system_in_order: "in_order demo_system"
proof -
  have "itoa 1 = ''1''" by code_simp
  then show ?thesis
    by (simp add: in_order_def demo_system_def demo_pg_def start_pg_def schema_defs demo_tables_def demo_cron_def
        demo_service_def demo_built_def demo_deploy_def empty_tables_def keyed_def uniq_def refs_def
        deploys_built_def accounted_def status_defs)
qed

lemma demo_runs:
  "fst demo_handled = Inr ()" "bus (snd demo_handled) = []" "pending demo_live_system = 0"
  "map d_status (deploys (tabs (snd demo_handled))) = [''live'']" "seqs (tabs (snd demo_handled)) SDeploys = 3"
  by code_simp+

lemma demo_goroutines: "system_run demo_platform demo_system [Handle (DeploymentChannel, ''1'')] demo_live_system"
proof (rule run_Cons [OF _ run_Nil])
  have "on_notification (su_reconciler demo_platform) (fst (DeploymentChannel, ''1'')) (snd (DeploymentChannel, ''1''))
      (attach_controller (sys_db demo_system) (sys_controller demo_system)) = (Inr (), snd demo_handled)"
    using demo_runs(1) by (simp add: demo_platform_def demo_handled_def prod_eq_iff)
  from handle [where xs = "[]" and ys = "[]", OF _ this]
  show "system_step demo_platform demo_system (Handle (DeploymentChannel, ''1'')) demo_live_system"
    by (simp add: demo_live_system_def) (simp add: demo_system_def)
qed

lemma demo_platform_others: "srv_others (su_server demo_platform) = []"
  by (simp add: demo_platform_def demo_server_def)


end
