(* ===== verification/Control_Gaps.thy ===== *)
theory Control_Gaps
  imports Control_Plane
begin

text \<open>
  What the control plane misses: a deploy announced while the process it is for does not listen is in nobody's
  hands, and stays so.
\<close>

section \<open>Deploys nobody hears of\<close>

text \<open>No goroutine waits that could be about deploy \<open>i\<close>.\<close>

definition unheard :: "int \<Rightarrow> system \<Rightarrow> bool" where
  "unheard i s \<longleftrightarrow> i \<notin> set (sys_building s) \<and>
     (\<forall>m \<in> set (sys_tasks s). fst m = DeploymentChannel \<longrightarrow> parse_int (snd m) \<noteq> Some i)"

definition stuck :: "deploy \<Rightarrow> system \<Rightarrow> bool" where
  "stuck d s \<longleftrightarrow> deploys_built (tabs (sys_db s)) \<and> d_id d < seqs (tabs (sys_db s)) SDeploys \<and>
     (\<forall>e \<in> set (deploys (tabs (sys_db s))). d_id e = d_id d \<longrightarrow> e = d) \<and> unheard (d_id d) s"

definition not_about :: "int \<Rightarrow> string \<times> string \<Rightarrow> bool" where
  "not_about i m \<longleftrightarrow> (fst m \<in> {DeployChannel, DeploymentChannel} \<longrightarrow> parse_int (snd m) \<noteq> Some i)"

lemma unheard_publish:
  assumes "bus p = bus (sys_db s) @ sent" "list_all (not_about i) sent" "unheard i s"
  shows "unheard i (publish p s)"
  using assms(2,3) payload_ids_iff [of i sent]
  by (auto simp: unheard_def publish_sent [OF assms(1)] not_about_def list_all_iff)

text \<open>A step of the builder or the controller about other deploys.\<close>

lemma touches_stuck:
  assumes "touches P M (sys_db s) p" "\<And>e. P e \<Longrightarrow> d_id e \<noteq> d_id d" "\<And>m. m \<in> M \<Longrightarrow> not_about (d_id d) m"
    and "stuck d s" "unheard (d_id d) s'" "sys_db s' = sys_db s"
  shows "stuck d (publish p s')"
proof -
  obtain sent where sent: "bus p = bus (sys_db s') @ sent" "set sent \<subseteq> M"
    and rows: "touches_rows P (tabs (sys_db s)) (tabs p)"
    using assms(1,6) by (auto simp: touches_def)
  have "unheard (d_id d) (publish p s')"
    using sent assms(3) by (intro unheard_publish [OF sent(1) _ assms(5)]) (auto simp: list_all_iff)
  then show ?thesis using rows assms(2,4) by (auto simp: stuck_def touches_rows_def)
qed

lemma controller_stuck:
  assumes "on_notification rc (fst m) (snd m) (attach_controller (sys_db s) c) = (r, w)" "m \<in> set (sys_tasks s)"
    and "stuck d s" "unheard (d_id d) s'" "sys_db s' = sys_db s"
  shows "stuck d (publish (pg.truncate w) s')"
proof (rule touches_stuck [OF _ _ _ assms(3-5)])
  show "touches (settled_by m) {} (sys_db s) (pg.truncate w)"
    using keepsD [OF on_notification_touches assms(1)] by simp
  have "fst m = DeploymentChannel \<longrightarrow> parse_int (snd m) \<noteq> Some (d_id d)"
    using assms(2,3) by (auto simp: stuck_def unheard_def)
  then show "d_id e \<noteq> d_id d" if "settled_by m e" for e using that by (auto simp: settled_by_def)
qed simp

lemma tick_stuck:
  assumes "is_tick e" "on_event rc e (attach_controller (sys_db s) c) = (r, w)" "stuck d s"
  shows "stuck d (publish (pg.truncate w) (s\<lparr>sys_controller := w\<rparr>))"
proof -
  have "keeps_touch nothing {} (on_event rc e :: (controller, string + unit) act)"
    using assms(1) by (cases e) (simp_all add: is_tick_def ticks_touch del: on_event.simps add: on_event.simps(2,3))
  from keepsD [OF this assms(2)] have t: "touches nothing {} (sys_db s) (pg.truncate w)" by simp
  show ?thesis
    by (rule touches_stuck [OF t _ _ assms(3)]) (use assms(3) in \<open>auto simp: nothing_def stuck_def unheard_def\<close>)
qed

lemma controller_down_stuck: "stuck d s \<Longrightarrow> stuck d (controller_down s)"
  by (simp add: stuck_def unheard_def)

lemma request_stuck:
  assumes "serve srv r (sys_db s) = (resp, p)" "srv_others srv = []" "stuck d s"
  shows "stuck d (publish p s)"
proof -
  let ?n = "seqs (tabs (sys_db s)) SDeploys"
  have "api_moves (sys_db s) p" using keepsD [OF serve_moves assms(1)] assms(2) by simp
  then obtain sent where sent: "api_sends (sys_db s) p sent" and k: "deploys_kept (tabs (sys_db s)) (tabs p)"
    unfolding api_moves_def by blast
  have "not_about (d_id d) m" if "names_new ?n m" for m
    using that assms(3) parse_itoa by (fastforce simp: names_new_def not_about_def stuck_def)
  then have "list_all (not_about (d_id d)) sent" using sent by (simp add: api_sends_def list_all_iff)
  then have "unheard (d_id d) (publish p s)"
    using sent assms(3) by (intro unheard_publish) (auto simp: api_sends_def stuck_def)
  then show ?thesis using k assms(3) by (fastforce simp: stuck_def deploys_kept_def)
qed

lemma build_stuck:
  assumes "sys_building s = xs @ i # ys" "stuck d s"
    and run: "process (builder_backend wd) reg i (attach_builder (sys_db s) b) = (u, w)"
  shows "stuck d (publish (pg.truncate w) (s\<lparr>sys_building := xs @ ys, sys_builder := w\<rparr>))"
proof (rule touches_stuck [OF _ _ _ assms(2)])
  have i: "i \<noteq> d_id d" using assms(1,2) by (auto simp: stuck_def unheard_def)
  show "touches (about i) (hand_over i) (sys_db s) (pg.truncate w)"
    using keepsD [OF backend.process_touches run] by simp
  show "d_id e \<noteq> d_id d" if "about i e" for e using that i by (simp add: about_def)
  show "not_about (d_id d) m" if "m \<in> hand_over i" for m
    using that i parse_itoa by (auto simp: hand_over_def not_about_def)
  show "unheard (d_id d) (s\<lparr>sys_building := xs @ ys, sys_builder := w\<rparr>)"
    using assms(1,2) by (auto simp: stuck_def unheard_def)
qed simp

lemma sweep_stuck:
  assumes "QueuedDeployIDs (sys_db s) = (r, p)" "stuck d s" "d_status d \<noteq> StatusQueued"
  shows "stuck d (s\<lparr>sys_db := p\<rparr>)" "r = Inr ids \<Longrightarrow> stuck d (s\<lparr>sys_db := p, sys_building := sys_building s @ ids\<rparr>)"
proof -
  note f = pg_read_frame [OF assms(1) [unfolded QueuedDeployIDs_def]]
  show one: "stuck d (s\<lparr>sys_db := p\<rparr>)" using assms(2) f(1) by (simp add: stuck_def unheard_def)
  assume "r = Inr ids"
  then have "set ids = d_id ` {e \<in> set (deploys (tabs (sys_db s))). d_status e = StatusQueued}"
    using f(4) by (auto simp: sql_order_def)
  then have "d_id d \<notin> set ids" using assms(2,3) by (auto simp: stuck_def)
  then show "stuck d (s\<lparr>sys_db := p, sys_building := sys_building s @ ids\<rparr>)"
    using one by (simp add: stuck_def unheard_def)
qed

lemma step_stuck:
  assumes "system_step su s l t" "srv_others (su_server su) = []" "stuck d s"
    and "d_status d = StatusQueued \<Longrightarrow> l \<noteq> Builder_Sweep"
  shows "stuck d t"
  using assms(1)
proof (cases rule: system_step.cases)
  case (request r resp p)
  then show ?thesis using request_stuck [OF request(3) assms(2,3)] by simp
next
  case (sweep ids p)
  then show ?thesis using sweep_stuck(2) [OF sweep(3) assms(3) _ refl] assms(4) by blast
next
  case (sweep_failed e p)
  then show ?thesis using sweep_stuck(1) [OF sweep_failed(3) assms(3)] assms(4) by blast
next
  case (build xs i ys u w)
  then show ?thesis using build_stuck [OF build(3) assms(3) build(4)] by simp
next
  case (handle xs m ys u w)
  have "m \<in> set (sys_tasks s)" "unheard (d_id d) (s\<lparr>sys_tasks := xs @ ys, sys_controller := w\<rparr>)"
    using handle(3) assms(3) by (auto simp: stuck_def unheard_def)
  from controller_stuck [OF handle(4) this(1) assms(3) this(2)] show ?thesis using handle(2) by simp
next
  case (handle_panic m x w)
  have "unheard (d_id d) (s\<lparr>sys_controller := w\<rparr>)" using assms(3) by (simp add: stuck_def unheard_def)
  from controller_stuck [OF handle_panic(4,3) assms(3) this] show ?thesis
    using handle_panic(2) controller_down_stuck by simp
next
  case (tick e u w)
  then show ?thesis using tick_stuck [OF tick(3,4) assms(3)] by simp
next
  case (tick_panic e x w)
  then show ?thesis using tick_stuck [OF tick_panic(3,4) assms(3)] controller_down_stuck by simp
next
  case controller_stop
  then show ?thesis using controller_down_stuck [OF assms(3)] by simp
qed (use assms(3) in \<open>simp_all add: stuck_def unheard_def\<close>)

text \<open>C8.
  A deploy that was announced while nobody listened is lost: if no goroutine about it waits, then nothing the
  platform ever does changes its row, whether requests come, other deploys are built, processes are restarted or
  calls fail. Only for a queued deploy is there a way out: the sweep of a starting builder.\<close>

theorem unheard_deploys_wait:
  assumes "system_run su s ls t" "srv_others (su_server su) = []" "deploys_built (tabs (sys_db s))"
    and "d \<in> set (deploys (tabs (sys_db s)))" "unheard (d_id d) s"
    and "d_status d = StatusQueued \<Longrightarrow> Builder_Sweep \<notin> set ls"
  shows "\<forall>e \<in> set (deploys (tabs (sys_db t))). d_id e = d_id d \<longrightarrow> e = d"
proof -
  have "inj_on d_id (set (deploys (tabs (sys_db s))))" using assms(3) by (simp add: deploys_built_def distinct_map)
  then have "stuck d s" using assms(3-5) by (auto simp: stuck_def deploys_built_def dest: inj_onD)
  then have "stuck d t"
    by (rule run_invariant [OF assms(1)]) (metis step_stuck assms(2,6))
  then show ?thesis by (simp add: stuck_def)
qed

text \<open>
  The two gaps. A builder that starts sweeps first and listens afterwards, so Ann's deploy, requested in between,
  is in nobody's hands. And a controller that starts does not look for deploys that were built while it was down.
\<close>

definition gap_start :: system where
  "gap_start = \<lparr>sys_db = demo_session_pg\<lparr>tabs := (tabs demo_session_pg)\<lparr>deploys := [demo_deploy\<lparr>d_status := ''live''\<rparr>]\<rparr>\<rparr>,
     sys_builder_on = False, sys_building = [], sys_builder = demo_bw, sys_channels = {}, sys_tasks = [],
     sys_controller = demo_controller\<rparr>"

definition gap_db :: pg where
  "gap_db = snd (serve demo_server deploy_request (sys_db gap_start))"

definition gap_end :: system where
  "gap_end = (publish gap_db gap_start)\<lparr>sys_builder_on := True\<rparr>"

lemma gap_rows: "map d_id (deploys (tabs gap_db)) = [1, 3]" "map d_status (deploys (tabs gap_db)) = [''live'', ''queued'']"
  by code_simp+

lemma gap_run: "system_run demo_platform gap_start [Builder_Sweep, Request deploy_request, Builder_Listen] gap_end"
proof (rule run_Cons [OF _ run_Cons [OF _ run_Cons [OF _ run_Nil]]])
  have "QueuedDeployIDs (sys_db gap_start) = (Inr [], sys_db gap_start)"
    by (simp add: QueuedDeployIDs_def gap_start_def demo_session_pg_def demo_pg_def start_pg_def status_defs
        sql_order_def)
  from sweep [OF this] show "system_step demo_platform gap_start Builder_Sweep gap_start"
    by (simp add: gap_start_def)
  show "system_step demo_platform gap_start (Request deploy_request) (publish gap_db gap_start)"
    by (rule request [OF prod_eqI]) (simp_all add: demo_platform_def gap_db_def)
  show "system_step demo_platform (publish gap_db gap_start) Builder_Listen gap_end"
    unfolding gap_end_def by (rule builder_listen)
qed

lemma gap_built: "deploys_built (tabs gap_db)"
proof -
  have "srv_others demo_server = []" by (simp add: demo_server_def)
  then have "api_moves (sys_db gap_start) gap_db"
    using serve_moves [of demo_server deploy_request] by (simp add: gap_db_def keeps_def)
  moreover have "deploys_built (tabs (sys_db gap_start))"
    by (simp add: gap_start_def demo_session_pg_def demo_pg_def demo_tables_def demo_deploy_def deploys_built_def
        empty_tables_def)
  ultimately show ?thesis by (simp add: api_moves_def deploys_kept_def)
qed

lemma gap_quiet: "sys_db gap_end = gap_db" "sys_building gap_end = []" "sys_tasks gap_end = []" "sys_builder_on gap_end"
  by (simp_all add: gap_end_def publish_def Let_def gap_start_def)

theorem unheard_deploys_wait_witness:
  "\<exists>d. system_run demo_platform gap_start [Builder_Sweep, Request deploy_request, Builder_Listen] gap_end \<and>
     d \<in> set (deploys (tabs (sys_db gap_end))) \<and> d_status d = StatusQueued \<and> sys_builder_on gap_end \<and>
     \<not> (\<exists>ls u. system_run demo_platform gap_end ls u \<and> Builder_Sweep \<notin> set ls \<and>
        list_ex (\<lambda>e. d_id e = d_id d \<and> e \<noteq> d) (deploys (tabs (sys_db u))))"
proof -
  have "''queued'' \<in> set (map d_status (deploys (tabs gap_db)))" unfolding gap_rows by simp
  then obtain d where d: "d \<in> set (deploys (tabs gap_db))" "d_status d = StatusQueued"
    by (metis StatusQueued_def imageE list.set_map)
  have "\<forall>e \<in> set (deploys (tabs (sys_db u))). d_id e = d_id d \<longrightarrow> e = d"
    if "system_run demo_platform gap_end ls u" "Builder_Sweep \<notin> set ls" for ls u
    by (rule unheard_deploys_wait [OF that(1) demo_platform_others])
      (use gap_quiet gap_built d that(2) in \<open>simp_all add: unheard_def\<close>)
  then show ?thesis using gap_run gap_quiet d by (auto simp: list_ex_iff)
qed

end
