(* ===== verification/Control_Progress.thy ===== *)
theory Control_Progress
  imports Control_Plane
begin

text \<open>
  What the control plane achieves when nothing fails: the goroutines that wait come to an end, every deploy is
  settled then, and a deploy whose build and rollout succeed goes from the queue to the cluster.
\<close>

section \<open>Every deploy comes to its end\<close>

definition goroutine :: "label \<Rightarrow> bool" where
  "goroutine l \<longleftrightarrow> (case l of Build _ \<Rightarrow> True | Handle _ \<Rightarrow> True | _ \<Rightarrow> False)"

lemma goroutine_steady: "goroutine l \<Longrightarrow> steady l"
  by (cases l) (simp_all add: goroutine_def steady_def)

lemma process_sends:
  assumes "process (builder_backend wd) reg i (attach_builder (sys_db s) b) = (u, w)" "in_order s"
  shows "bus w = bus (sys_db s) \<or> bus w = bus (sys_db s) @ [(DeploymentChannel, itoa i)]"
proof (cases "\<exists>e \<in> set (deploys (tabs (sys_db s))). d_id e = i \<and> d_status e = StatusQueued")
  case True
  then obtain e where e: "e \<in> set (deploys (tabs (sys_db s)))" "d_id e = i" "d_status e = StatusQueued" by blast
  then show ?thesis
    using backend.process_builds [OF _ _ _ _ e(2,3) assms(1)] assms(2) by (auto simp: in_order_def)
next
  case False
  then show ?thesis using backend.process_unclaimed(2) [OF _ assms(1)] by auto
qed

lemma goroutine_pending:
  assumes "system_step su s l t" "goroutine l" "in_order s"
  shows "pending t < pending s"
  using assms(1)
proof (cases rule: system_step.cases)
  case (build xs i ys u w)
  obtain sent where sent: "bus w = bus (sys_db s) @ sent" "sent = [] \<or> sent = [(DeploymentChannel, itoa i)]"
    using process_sends [OF build(4) assms(3)] by auto
  then have "length (filter (\<lambda>m. fst m \<in> sys_channels s) sent) \<le> 1" "payload_ids sent = []"
    by (auto simp: payload_ids_def List.map_filter_def DeployChannel_def DeploymentChannel_def)
  then show ?thesis
    using publish_sent [of "pg.truncate w" "s\<lparr>sys_building := xs @ ys, sys_builder := w\<rparr>" sent] sent(1) build
    by (simp add: pending_def)
next
  case (handle xs m ys u w)
  have "touches (settled_by m) {} (sys_db s) (pg.truncate w)"
    using keepsD [OF on_notification_touches handle(4)] by simp
  then have "bus w = bus (sys_db s) @ []" by (simp add: touches_def)
  then show ?thesis
    using publish_sent [of "pg.truncate w" "s\<lparr>sys_tasks := xs @ ys, sys_controller := w\<rparr>" "[]"] handle
    by (simp add: pending_def payload_ids_def List.map_filter_def)
qed (use assms(2) in \<open>simp_all add: goroutine_def\<close>)

lemma goroutines_bounded:
  assumes "system_run su s hs t" "srv_others (su_server su) = []" "list_all goroutine hs" "in_order s"
    and "seqs (tabs (sys_db t)) SDeploys \<le> 2 ^ 63"
  shows "length hs + pending t \<le> pending s"
  using assms(1,3-)
proof (induction rule: system_run.induct)
  case (run_Cons s l t hs u)
  have one: "system_run su s [l] t" by (rule system_run.run_Cons [OF run_Cons.hyps(1) run_Nil])
  have ok: "schema_ok (tabs (sys_db s))" using run_Cons.prems(2) by (simp add: in_order_def)
  then have "schema_ok (tabs (sys_db t))" using run_seqs(1) [OF one assms(2)] by (simp add: db_evolves_def)
  then have "seqs (tabs (sys_db t)) SDeploys \<le> 2 ^ 63"
    using run_seqs(2) [OF run_Cons.hyps(2) assms(2)] run_Cons.prems(3) by linarith
  then have "in_order t"
    using run_in_order [OF one assms(2)] goroutine_steady run_Cons.prems by simp
  then show ?case
    using run_Cons.IH run_Cons.prems goroutine_pending [OF run_Cons.hyps(1)] by simp
qed simp

text \<open>A goroutine that waits can run.\<close>

lemma pending_runs:
  assumes "pending s > 0"
  shows "\<exists>l t. system_step su s l t \<and> (goroutine l \<or> l = Controller_Panic)"
proof (cases "sys_building s")
  case (Cons i rest)
  let ?R = "process (builder_backend (su_workdir su)) (su_registry su) i (attach_builder (sys_db s) (sys_builder s))"
  have "?R = (fst ?R, snd ?R)" by (rule prod.collapse [symmetric])
  from build [where xs = "[]", OF _ this] show ?thesis using Cons by (auto simp: goroutine_def)
next
  case Nil
  then obtain m ms where m: "sys_tasks s = [] @ m # ms" using assms by (cases "sys_tasks s") (auto simp: pending_def)
  obtain r w where r: "on_notification (su_reconciler su) (fst m) (snd m)
      (attach_controller (sys_db s) (sys_controller s)) = (r, w)" by fastforce
  show ?thesis
  proof (cases r)
    case (Inr u)
    from handle [OF m r [unfolded this]] show ?thesis by (auto simp: goroutine_def)
  next
    case (Inl x)
    have "m \<in> set (sys_tasks s)" using m by simp
    from handle_panic [OF this r [unfolded Inl]] show ?thesis by blast
  qed
qed

text \<open>C2.
  No deploy is forgotten: while the builder and the controller listen and no database call fails, whatever
  requests, goroutines and periodic jobs ran, the goroutines that are left end after at most \<open>pending\<close> steps, one
  can run as long as there are any (only a panic of the controller can get in the way), and once none is left, every
  deploy is live or failed.\<close>

theorem control_plane_settles:
  assumes "system_run su s ls t" "srv_others (su_server su) = []" "list_all steady ls" "in_order s"
    and "system_run su t hs u" "list_all goroutine hs" "seqs (tabs (sys_db u)) SDeploys \<le> 2 ^ 63"
  shows "length hs \<le> pending t \<and>
    (if pending u = 0 then \<forall>d \<in> set (deploys (tabs (sys_db u))). settled d
     else \<exists>l v. system_step su u l v \<and> (goroutine l \<or> l = Controller_Panic))"
proof -
  have "schema_ok (tabs (sys_db s))" using assms(4) by (simp add: in_order_def)
  then have "schema_ok (tabs (sys_db t))" using run_evolves [OF assms(1,2)] by (simp add: db_evolves_def)
  then have le: "seqs (tabs (sys_db t)) SDeploys \<le> 2 ^ 63"
    using run_seqs(2) [OF assms(5,2)] assms(7) by linarith
  have t: "in_order t" by (rule run_in_order [OF assms(1-4) le])
  have "list_all steady hs" using assms(6) goroutine_steady by (simp add: list_all_iff)
  then have "in_order u" by (rule run_in_order [OF assms(5,2) _ t assms(7)])
  then show ?thesis using goroutines_bounded [OF assms(5,2,6) t assms(7)] pending_runs [of u su]
    by (auto simp: in_order_def accounted_def pending_def)
qed

theorem control_plane_settles_witness:
  "system_run demo_platform demo_system [Handle (DeploymentChannel, ''1'')] demo_live_system \<and>
   list_all settled (deploys (tabs (sys_db demo_live_system)))"
proof -
  have "seqs (tabs (sys_db demo_live_system)) SDeploys = 3" by (simp add: demo_live_system_def demo_runs(5))
  then show ?thesis
    using control_plane_settles [OF run_Nil demo_platform_others _ demo_system_in_order demo_goroutines]
      demo_goroutines by (simp add: goroutine_def demo_runs(3) list_all_iff)
qed

section \<open>From the request to the cluster\<close>

lemma build_announces:
  assumes "in_order s" "sys_building s = xs @ i # ys"
    and d: "d \<in> set (deploys (tabs (sys_db s)))" "d_id d = i" "d_status d = StatusQueued"
    and run: "process (builder_backend wd) reg i (attach_builder (sys_db s) (sys_builder s)) = (u, w)"
    and d': "d' \<in> set (deploys (tabs w))" "d_id d' = i" "d_status d' = StatusDeploying"
  shows "bus w = bus (sys_db s) @ [(DeploymentChannel, itoa i)]" "d_image d' \<noteq> ''''"
proof -
  let ?w = "attach_builder (sys_db s) (sys_builder s)"
  have o: "faults ?w = []" "schema_ok (tabs ?w)" "deploys_built (tabs ?w)" "d \<in> set (deploys (tabs ?w))"
    using assms(1) d(1) by (simp_all add: in_order_def)
  obtain svc og where svc: "service_org (d_service d) (tabs ?w) = Some (svc, og)"
    using deploy_service_org [OF o(2,4)] by blast
  obtain b where b: "find (\<lambda>b. b_deploy b = i) (builds (tabs ?w)) = Some b"
    using deploy_build [OF o(3,4)] d(2) by blast
  obtain res l where built: "built (now ?w) reg i svc d (b\<lparr>b_started := Some (now ?w)\<rparr>) res l (bus ?w) w"
    using backend.process_calm [OF o(1,2) the_deploy [OF o(3,4) d(2)] d(3) svc b run] by blast
  have "deploys_built (tabs w)"
    using keepsD [OF backend.process_touches run] o(3) by (auto simp: touches_def touches_rows_def)
  note found = the_deploy [OF this d'(1,2)]
  show "bus w = bus (sys_db s) @ [(DeploymentChannel, itoa i)]" "d_image d' \<noteq> ''''"
    using built found d'(3) by (cases res; simp add: built_def status_defs image_ref_def)+
qed

text \<open>C4.
  The pipeline, end to end: in an orderly platform, when the builder runs its goroutine for a queued deploy and the
  build succeeds, the controller is notified and has a goroutine for it; and if the cluster refuses nothing, the
  quantities are readable and the rollout completes, running that goroutine makes the deploy live and gives the
  cluster the objects the service's rows ask for.\<close>

theorem deploy_pipeline:
  assumes "in_order s" "sys_building s = xs @ i # ys"
    and d: "d \<in> set (deploys (tabs (sys_db s)))" "d_id d = i" "d_status d = StatusQueued"
    and run: "process (builder_backend (su_workdir su)) (su_registry su) i
      (attach_builder (sys_db s) (sys_builder s)) = (u, w)"
    and built: "d' \<in> set (deploys (tabs w))" "d_id d' = i" "d_status d' = StatusDeploying"
    and svc: "service_org (d_service d') (tabs w) = Some (svc, orgID)"
    and calm: "cl_errors (sys_controller s) = []"
      "readable (su_reconciler su) (spec_quantities (spec_of (tabs w) d' svc orgID))"
      "sv_type svc = Cron \<or> rollout_polls (fst (kube_wait (sys_controller s)))"
    and "seqs (tabs w) SDeploys \<le> 2 ^ 63"
  shows "\<exists>t v. system_step su s (Build i) t \<and> system_step su t (Handle (DeploymentChannel, itoa i)) v \<and>
    find (\<lambda>d. d_id d = i) (deploys (tabs (sys_db v))) =
      Some (d'\<lparr>d_status := StatusLive, d_updated := now w\<rparr>) \<and>
    cl_objects (sys_controller v) = override (cl_objects (sys_controller s))
      (desired (su_reconciler su) (spec_of (tabs w) d' svc orgID))"
proof -
  let ?t = "publish (pg.truncate w) (s\<lparr>sys_building := xs @ ys, sys_builder := w\<rparr>)"
  let ?w = "attach_controller (pg.truncate w) (sys_controller s)"
  note a = build_announces [OF assms(1,2) d run built]
  have step: "system_step su s (Build i) ?t" by (rule build [OF assms(2) run])
  have ord: "in_order ?t" by (rule build_in_order [OF assms(2) run assms(1)])
  have ctl: "sys_controller ?t = sys_controller s" by (simp add: publish_def Let_def)
  have "sys_tasks ?t = sys_tasks s @ [(DeploymentChannel, itoa i)]"
    using publish_sent(2) [of "pg.truncate w" "s\<lparr>sys_building := xs @ ys, sys_builder := w\<rparr>"
        "[(DeploymentChannel, itoa i)]"] a(1) assms(1)
    by (simp add: in_order_def)
  then have tasks: "sys_tasks ?t = sys_tasks s @ (DeploymentChannel, itoa i) # []" by simp
  have b: "deploys_built (tabs w)" "faults w = []" using ord by (simp_all add: in_order_def)
  note found = the_deploy [OF b(1) built(1,2)]
  have "0 \<le> i" "i < seqs (tabs w) SDeploys" using b(1) built(1,2) by (auto simp: deploys_built_def)
  then have p: "parse_int (itoa i) = Some i" using assms(14) by (intro parse_int_itoa) (simp add: int64_def)
  have frame: "cl_errors ?w = []" "fst (kube_wait ?w) = fst (kube_wait (sys_controller s))"
    "cl_objects ?w = cl_objects (sys_controller s)" "now ?w = now w"
    using calm(1) by (simp_all add: kube_wait_def split: list.split)
  obtain w1 where 1: "reconcile (su_reconciler su) i ?w = (Inr (), with_status i StatusLive w1)"
      "tabs w1 = tabs ?w" "cl_objects w1 = override (cl_objects ?w) (desired (su_reconciler su) (spec_of (tabs ?w) d' svc orgID))"
      "now w1 = now ?w"
    using reconcile_goes_live [of ?w i d' svc orgID "su_reconciler su"] found built(3) a(2) svc calm(2,3) frame b(2) by auto
  let ?c = "with_status i StatusLive w1"
  have "on_notification (su_reconciler su) (fst (DeploymentChannel, itoa i)) (snd (DeploymentChannel, itoa i))
      (attach_controller (sys_db ?t) (sys_controller ?t)) = (Inr (), ?c)"
    using 1(1) by (simp add: on_notification_def with_id_def p ctl)
  from handle [OF tasks this]
  have handled: "system_step su ?t (Handle (DeploymentChannel, itoa i))
      (publish (pg.truncate ?c) (?t\<lparr>sys_tasks := sys_tasks s @ [], sys_controller := ?c\<rparr>))" .
  have "find (\<lambda>d. d_id d = i) (deploys (tabs ?c)) = Some (d'\<lparr>d_status := StatusLive, d_updated := now w\<rparr>)"
    using found 1(2,4) frame(4) by (simp add: with_status_def)
  moreover have "cl_objects ?c = override (cl_objects (sys_controller s))
      (desired (su_reconciler su) (spec_of (tabs w) d' svc orgID))"
    using 1(3) frame(3) by (simp add: with_status_def)
  ultimately show ?thesis using step handled
    by (intro exI [of _ ?t] exI [of _ "publish (pg.truncate ?c) (?t\<lparr>sys_tasks := sys_tasks s @ [], sys_controller := ?c\<rparr>)"])
      (simp add: publish_def Let_def)
qed

text \<open>The deploy of the demo, still queued, in a platform whose builder has just been notified of it.\<close>

definition demo_queued_system :: system where
  "demo_queued_system = demo_system\<lparr>sys_db := demo_pg\<lparr>tabs := demo_tables\<lparr>services := [demo_cron]\<rparr>\<rparr>,
     sys_building := [1], sys_tasks := []\<rparr>"

definition demo_after_build :: builder_world where
  "demo_after_build = snd (process (builder_backend ''/tmp'') ''reg'' 1
     (attach_builder (sys_db demo_queued_system) (sys_builder demo_queued_system)))"

definition demo_built_deploy :: deploy where
  "demo_built_deploy = hd (deploys (tabs demo_after_build))"

lemma demo_queued_in_order: "in_order demo_queued_system"
  by (simp add: in_order_def demo_queued_system_def demo_system_def demo_pg_def start_pg_def schema_defs
      demo_tables_def demo_cron_def demo_service_def demo_deploy_def empty_tables_def keyed_def uniq_def refs_def
      deploys_built_def accounted_def status_defs)

lemma demo_build_facts:
  "length (deploys (tabs demo_after_build)) = 1" "d_id demo_built_deploy = 1" "d_status demo_built_deploy = StatusDeploying"
  "service_org (d_service demo_built_deploy) (tabs demo_after_build) = Some (demo_cron, 1)"
  "readable demo_reconciler (spec_quantities (spec_of (tabs demo_after_build) demo_built_deploy demo_cron 1))"
  "seqs (tabs demo_after_build) SDeploys = 3"
  by code_simp+

theorem deploy_pipeline_witness:
  "\<exists>t v. system_step demo_platform demo_queued_system (Build 1) t \<and>
     system_step demo_platform t (Handle (DeploymentChannel, ''1'')) v \<and>
     find (\<lambda>d. d_id d = 1) (deploys (tabs (sys_db v))) =
       Some (demo_built_deploy\<lparr>d_status := StatusLive, d_updated := now demo_after_build\<rparr>)"
proof -
  have "itoa 1 = ''1''" by code_simp
  moreover have "\<exists>t v. system_step demo_platform demo_queued_system (Build 1) t \<and>
      system_step demo_platform t (Handle (DeploymentChannel, itoa 1)) v \<and>
      find (\<lambda>d. d_id d = 1) (deploys (tabs (sys_db v))) =
        Some (demo_built_deploy\<lparr>d_status := StatusLive, d_updated := now demo_after_build\<rparr>) \<and>
      cl_objects (sys_controller v) = override (cl_objects (sys_controller demo_queued_system))
        (desired (su_reconciler demo_platform) (spec_of (tabs demo_after_build) demo_built_deploy demo_cron 1))"
  proof (rule deploy_pipeline [OF demo_queued_in_order])
    show "sys_building demo_queued_system = [] @ 1 # []" by (simp add: demo_queued_system_def)
    show "demo_deploy \<in> set (deploys (tabs (sys_db demo_queued_system)))" "d_id demo_deploy = 1"
      "d_status demo_deploy = StatusQueued"
      by (simp_all add: demo_queued_system_def demo_tables_def demo_deploy_def status_defs)
    show "process (builder_backend (su_workdir demo_platform)) (su_registry demo_platform) 1
        (attach_builder (sys_db demo_queued_system) (sys_builder demo_queued_system)) = ((), demo_after_build)"
      by (simp add: demo_platform_def demo_after_build_def prod_eq_iff)
    show "demo_built_deploy \<in> set (deploys (tabs demo_after_build))"
      using demo_build_facts(1) unfolding demo_built_deploy_def by (intro hd_in_set) auto
    show "readable (su_reconciler demo_platform)
        (spec_quantities (spec_of (tabs demo_after_build) demo_built_deploy demo_cron 1))"
      using demo_build_facts(5) by (simp add: demo_platform_def)
    show "cl_errors (sys_controller demo_queued_system) = []"
      by (simp add: demo_queued_system_def demo_system_def demo_controller_def)
    show "sv_type demo_cron = Cron \<or> rollout_polls (fst (kube_wait (sys_controller demo_queued_system)))"
      by (simp add: demo_cron_def Cron_def)
  qed (simp_all add: demo_build_facts)
  ultimately show ?thesis by auto
qed

end
